(* ===== verification/Prelude.thy ===== *)
theory Prelude
  imports
    Main
    "HOL-Library.AList"
    "HOL-Library.Char_ord"
    "HOL-Library.List_Lexorder"
    "HOL-Library.Multiset"
begin

text \<open>
  Shared vocabulary of the development.

  \<^item> Times and durations are integers, in nanoseconds.  A \<open>time\<close> counts from Go's
    zero \<open>time.Time\<close>, so \<open>IsZero\<close> is the test for \<open>0\<close>; \<open>UTC()\<close> does not
    change the instant and is the identity.
  \<^item> Go's signed 64-bit arithmetic is \<open>i64\<close>, two's complement wrap-around.
  \<^item> A Go map is an association list, a \<open>gomap\<close>: \<^const>\<open>map_of\<close> reads it,
    \<^const>\<open>AList.update\<close> stores, \<^const>\<open>AList.delete\<close> deletes, and a
    \<open>range\<close> loop visits the pairs in list order.  Go leaves that order open, so
    every theorem about a loop is stated for an arbitrary list order.
  \<^item> Go strings are byte strings, which \<open>string\<close> is as well; \<open><\<close> on them is the
    bytewise lexicographic order (\<open>List_Lexorder\<close> over \<open>Char_ord\<close>).
  \<^item> An operation that can fail returns \<open>'e + 'a\<close>, with \<open>Inl\<close> for the error.
\<close>

named_theorems guard_simps \<open>unfolding rules of the guards the operations test\<close>
named_theorems frame_simps \<open>what an operation leaves unchanged\<close>

type_synonym time = int
type_synonym duration = int
type_synonym ('k, 'v) gomap = "('k \<times> 'v) list"

definition millisecond :: duration where "millisecond = 1000000"
definition second :: duration where "second = 1000 * millisecond"
definition minute :: duration where "minute = 60 * second"
definition hour :: duration where "hour = 60 * minute"

lemmas duration_defs = millisecond_def second_def minute_def hour_def

section \<open>64-bit integers\<close>

definition i64 :: "int \<Rightarrow> int" where
  "i64 x = (x + 2 ^ 63) mod 2 ^ 64 - 2 ^ 63"

definition in_i64 :: "int \<Rightarrow> bool" where
  "in_i64 x \<longleftrightarrow> - (2 ^ 63) \<le> x \<and> x < 2 ^ 63"

lemma i64_id: "in_i64 x \<Longrightarrow> i64 x = x"
  by (simp add: i64_def in_i64_def)

lemma in_i64_i64: "in_i64 (i64 x)"
proof -
  have "0 \<le> (x + 2 ^ 63) mod 2 ^ 64" "(x + 2 ^ 63) mod 2 ^ 64 < (2 ^ 64 :: int)"
    by simp_all
  then show ?thesis by (simp add: i64_def in_i64_def)
qed

lemma i64_of_nat_small: "0 \<le> x \<Longrightarrow> x < 2 ^ 63 \<Longrightarrow> i64 x = x"
  by (rule i64_id) (simp add: in_i64_def)

lemma i64_succ_le: "in_i64 x \<Longrightarrow> i64 (x + 1) \<le> x + 1"
  by (cases "x + 1 < 2 ^ 63") (simp_all add: i64_def in_i64_def)

section \<open>Go maps\<close>

definition wf_map :: "('k, 'v) gomap \<Rightarrow> bool" where
  "wf_map m \<longleftrightarrow> distinct (map fst m)"

definition keys :: "('k, 'v) gomap \<Rightarrow> 'k set" where
  "keys m = fst ` set m"

definition get_or :: "'v \<Rightarrow> ('k, 'v) gomap \<Rightarrow> 'k \<Rightarrow> 'v" where
  "get_or d m k = (case map_of m k of None \<Rightarrow> d | Some v \<Rightarrow> v)"

lemma wf_map_Nil [simp]: "wf_map []"
  by (simp add: wf_map_def)

lemma wf_map_update [simp]: "wf_map m \<Longrightarrow> wf_map (AList.update k v m)"
  by (simp add: wf_map_def distinct_update)

lemma wf_map_delete [simp]: "wf_map m \<Longrightarrow> wf_map (AList.delete k m)"
  by (simp add: wf_map_def distinct_delete)

lemma keys_Nil [simp]: "keys [] = {}"
  by (simp add: keys_def)

lemma keys_update [simp]: "keys (AList.update k v m) = insert k (keys m)"
  by (simp add: keys_def dom_update)

lemma finite_keys [simp]: "finite (keys m)"
  by (simp add: keys_def)

lemma keys_eq_dom: "keys m = dom (map_of m)"
  by (simp add: keys_def dom_map_of_conv_image_fst)

lemma map_of_None_keys: "map_of m k = None \<longleftrightarrow> k \<notin> keys m"
  by (simp add: keys_def map_of_eq_None_iff)

lemma map_of_in_keys: "map_of m k = Some v \<Longrightarrow> k \<in> keys m"
  by (force simp: keys_def dest: map_of_SomeD)

lemma mem_keys: "(k, v) \<in> set m \<Longrightarrow> k \<in> keys m"
  by (force simp: keys_def)

lemma in_keys_obtain:
  assumes "k \<in> keys m"
  obtains v where "map_of m k = Some v"
  using assms by (cases "map_of m k") (auto simp: map_of_None_keys)

lemma map_of_AList_update [simp]: "map_of (AList.update k v m) = (map_of m)(k \<mapsto> v)"
  by (simp add: update_conv')

lemma map_of_AList_delete [simp]: "map_of (AList.delete k m) = (map_of m)(k := None)"
  by (simp add: delete_conv')

lemma keys_delete [simp]: "keys (AList.delete k m) = keys m - {k}"
  by (simp add: keys_eq_dom)

lemma wf_map_mem_iff: "wf_map m \<Longrightarrow> (k, v) \<in> set m \<longleftrightarrow> map_of m k = Some v"
  by (simp add: wf_map_def)

lemma length_wf_map: "wf_map m \<Longrightarrow> length m = card (keys m)"
  by (metis wf_map_def keys_def distinct_card length_map set_map)

lemma get_or_update [simp]:
  "get_or d (AList.update k v m) k' = (if k' = k then v else get_or d m k')"
  by (simp add: get_or_def)

lemma get_or_Nil [simp]: "get_or d [] k = d"
  by (simp add: get_or_def)

section \<open>Lists\<close>

lemma sort_key_mset_eq:
  assumes "mset xs = mset ys" and "inj_on f (set xs)"
  shows "sort_key f xs = sort_key f ys"
proof (rule properties_for_sort_key)
  have sets: "set ys = set xs" using assms(1) by (metis mset_eq_setD)
  have one: "filter (\<lambda>x. f k = f x) zs = replicate (count (mset zs) k) k"
    if "set zs \<subseteq> set xs" "k \<in> set xs" for zs k
    using that
  proof (induction zs)
    case (Cons z zs)
    then show ?case
      using assms(2) by (auto simp: inj_on_def)
  qed simp
  show "mset (sort_key f ys) = mset xs" using assms(1) by simp
  show "sorted (map f (sort_key f ys))" by simp
  fix k assume "k \<in> set (sort_key f ys)"
  then show "filter (\<lambda>x. f k = f x) (sort_key f ys) = filter (\<lambda>x. f k = f x) xs"
    using one [of "sort_key f ys" k] one [of xs k] assms(1) sets by simp
qed

lemma foldl_invariant:
  assumes "P s" and "\<And>s x. x \<in> set xs \<Longrightarrow> P s \<Longrightarrow> P (f s x)"
  shows "P (foldl f s xs)"
  using assms by (induction xs arbitrary: s) auto

lemma map_of_map_key:
  "map_of (map (\<lambda>x. (f x, x)) xs) k = find (\<lambda>x. f x = k) xs"
  by (induction xs) auto

lemma filter_eq_find_Some:
  "find P xs = Some x \<Longrightarrow> x \<in> set xs \<and> P x"
  by (induction xs) (auto split: if_splits)

section \<open>Fallible steps and loops\<close>

definition bindE :: "'e + 'a \<Rightarrow> ('a \<Rightarrow> 'e + 'b) \<Rightarrow> 'e + 'b" where
  "bindE m f = (case m of Inl e \<Rightarrow> Inl e | Inr x \<Rightarrow> f x)"

definition failIf :: "bool \<Rightarrow> 'e \<Rightarrow> 'e + unit" where
  "failIf b e = (if b then Inl e else Inr ())"

text \<open>A \<open>for\<close> loop over a slice whose body may return an error from the function.\<close>

fun foldE :: "('s \<Rightarrow> 'x \<Rightarrow> 'e + 's) \<Rightarrow> 's \<Rightarrow> 'x list \<Rightarrow> 'e + 's" where
  "foldE f s [] = Inr s"
| "foldE f s (x # xs) = bindE (f s x) (\<lambda>s'. foldE f s' xs)"

lemma bindE_simps [simp]: "bindE (Inl e) f = Inl e" "bindE (Inr x) f = f x"
  by (simp_all add: bindE_def)

lemma bindE_Inr: "bindE m f = Inr y \<longleftrightarrow> (\<exists>x. m = Inr x \<and> f x = Inr y)"
  by (cases m) simp_all

lemma bindE_Inl: "bindE m f = Inl e \<longleftrightarrow> m = Inl e \<or> (\<exists>x. m = Inr x \<and> f x = Inl e)"
  by (cases m) simp_all

lemma failIf_Inr [simp]: "failIf b e = Inr u \<longleftrightarrow> \<not> b"
  by (simp add: failIf_def)

lemma failIf_Inl [simp]: "failIf b e = Inl e' \<longleftrightarrow> b \<and> e' = e"
  by (auto simp: failIf_def)

lemma bindE_failIf [simp]: "bindE (failIf b e) f = (if b then Inl e else f ())"
  by (simp add: failIf_def)

lemma foldE_append [simp]: "foldE f s (xs @ ys) = bindE (foldE f s xs) (\<lambda>s'. foldE f s' ys)"
proof (induction xs arbitrary: s)
  case (Cons x xs)
  then show ?case by (cases "f s x") simp_all
qed simp

lemma foldE_invariant:
  assumes "foldE f s xs = Inr s'" and "P s"
    and "\<And>s x s'. x \<in> set xs \<Longrightarrow> P s \<Longrightarrow> f s x = Inr s' \<Longrightarrow> P s'"
  shows "P s'"
  using assms by (induction xs arbitrary: s) (auto simp: bindE_Inr)

text \<open>
  A loop that only checks: it fails exactly when a check fails.
\<close>

lemma foldE_check:
  "foldE (\<lambda>_ x. failIf (bad x) e) () xs = (if \<exists>x \<in> set xs. bad x then Inl e else Inr ())"
  by (induction xs) auto

lemma foldE_processed:
  assumes "foldE f s xs = Inr s'" and "x \<in> set xs"
    and "\<And>s x s'. f s x = Inr s' \<Longrightarrow> Q x s'"
    and "\<And>s x y s'. Q y s \<Longrightarrow> f s x = Inr s' \<Longrightarrow> Q y s'"
  shows "Q x s'"
proof -
  from assms(2) obtain ys zs where xs: "xs = ys @ x # zs" by (meson split_list)
  with assms(1) obtain s1 s2 where "f s1 x = Inr s2" and rest: "foldE f s2 zs = Inr s'"
    by (auto simp: bindE_Inr)
  then have "Q x s2" using assms(3) by blast
  with rest show ?thesis
    by (rule foldE_invariant [where P = "Q x"]) (rule assms(4))
qed

end
