(* ===== verification/Go_Text.thy ===== *)
theory Go_Text
  imports Prelude
begin

text \<open>
  Go's byte strings as the sources read them: UTF-8 decoding (\<open>range\<close> over a string,
  \<open>utf8.ValidString\<close>), \<open>strings.TrimSpace\<close>, \<open>unicode.IsControl\<close>,
  \<open>strings.Split\<close>, and the character classes of the regular expressions and byte
  loops.  A compiled pattern such as \<open>^[0-9a-f]{40}$\<close> is the bool-valued function that
  tests the whole string.
\<close>

section \<open>Characters\<close>

definition in_range :: "char \<Rightarrow> char \<Rightarrow> char \<Rightarrow> bool" where
  "in_range lo hi c \<longleftrightarrow> of_char lo \<le> (of_char c :: nat) \<and> (of_char c :: nat) \<le> of_char hi"

definition is_digit :: "char \<Rightarrow> bool" where "is_digit = in_range CHR ''0'' CHR ''9''"
definition is_lower :: "char \<Rightarrow> bool" where "is_lower = in_range CHR ''a'' CHR ''z''"
definition is_upper :: "char \<Rightarrow> bool" where "is_upper = in_range CHR ''A'' CHR ''Z''"
definition is_alnum :: "char \<Rightarrow> bool" where "is_alnum c \<longleftrightarrow> is_digit c \<or> is_lower c \<or> is_upper c"
definition is_hex :: "char \<Rightarrow> bool" where "is_hex c \<longleftrightarrow> is_digit c \<or> in_range CHR ''a'' CHR ''f'' c"

lemmas char_class_defs = in_range_def is_digit_def is_lower_def is_upper_def is_alnum_def is_hex_def

definition ascii_lower :: "char \<Rightarrow> char" where
  "ascii_lower c = (if is_upper c then char_of (of_char c + 32 :: nat) else c)"

definition has_prefix :: "string \<Rightarrow> string \<Rightarrow> bool" where
  "has_prefix s p \<longleftrightarrow> take (length p) s = p"

definition has_suffix :: "string \<Rightarrow> string \<Rightarrow> bool" where
  "has_suffix s p \<longleftrightarrow> has_prefix (rev s) (rev p)"

fun contains :: "string \<Rightarrow> string \<Rightarrow> bool" where
  "contains [] p = (p = [])"
| "contains (c # s) p = (has_prefix (c # s) p \<or> contains s p)"

fun split_on :: "char \<Rightarrow> string \<Rightarrow> string list" where
  "split_on sep [] = [[]]"
| "split_on sep (c # s) =
     (if c = sep then [] # split_on sep s
      else (case split_on sep s of [] \<Rightarrow> [[c]] | w # ws \<Rightarrow> (c # w) # ws))"

section \<open>UTF-8\<close>

definition byte :: "char \<Rightarrow> nat" where "byte c = of_char c"

definition cont_in :: "nat \<Rightarrow> nat \<Rightarrow> char \<Rightarrow> bool" where
  "cont_in lo hi c \<longleftrightarrow> lo \<le> byte c \<and> byte c \<le> hi"

definition low_bits :: "char \<Rightarrow> nat" where "low_bits c = byte c mod 64"

abbreviation rune_error :: nat where "rune_error \<equiv> 65533"

text \<open>\<open>utf8.DecodeRuneInString\<close>: the rune and its width; a malformed byte is \<open>U+FFFD\<close> of width 1.\<close>

fun decode_rune :: "string \<Rightarrow> nat \<times> nat" where
  "decode_rune [] = (rune_error, 0)"
| "decode_rune (a # s) =
     (let b0 = byte a in
      if b0 < 128 then (b0, 1)
      else if 194 \<le> b0 \<and> b0 \<le> 223 then
        (case s of b # _ \<Rightarrow> if cont_in 128 191 b then (b0 mod 32 * 64 + low_bits b, 2) else (rune_error, 1)
         | [] \<Rightarrow> (rune_error, 1))
      else if 224 \<le> b0 \<and> b0 \<le> 239 then
        (case s of b # c # _ \<Rightarrow>
           if cont_in (if b0 = 224 then 160 else 128) (if b0 = 237 then 159 else 191) b \<and> cont_in 128 191 c
           then ((b0 mod 16 * 64 + low_bits b) * 64 + low_bits c, 3) else (rune_error, 1)
         | _ \<Rightarrow> (rune_error, 1))
      else if 240 \<le> b0 \<and> b0 \<le> 244 then
        (case s of b # c # d # _ \<Rightarrow>
           if cont_in (if b0 = 240 then 144 else 128) (if b0 = 244 then 143 else 191) b
              \<and> cont_in 128 191 c \<and> cont_in 128 191 d
           then (((b0 mod 8 * 64 + low_bits b) * 64 + low_bits c) * 64 + low_bits d, 4) else (rune_error, 1)
         | _ \<Rightarrow> (rune_error, 1))
      else (rune_error, 1))"

text \<open>\<open>range\<close> over a string: each rune with the bytes it was read from.\<close>

fun runes :: "string \<Rightarrow> (nat \<times> string) list" where
  "runes [] = []"
| "runes (c # s) =
     (case decode_rune (c # s) of
        (r, w) \<Rightarrow> (r, c # take (w - 1) s) # runes (drop (w - 1) s))"

definition utf8_valid :: "string \<Rightarrow> bool" where
  "utf8_valid s \<longleftrightarrow> list_all (\<lambda>(r, bs). \<not> (r = rune_error \<and> length bs = 1)) (runes s)"

definition is_space :: "nat \<Rightarrow> bool" where
  "is_space r \<longleftrightarrow> (9 \<le> r \<and> r \<le> 13) \<or> r = 32 \<or> r = 133 \<or> r = 160 \<or> r = 5760 \<or>
     (8192 \<le> r \<and> r \<le> 8202) \<or> r = 8232 \<or> r = 8233 \<or> r = 8239 \<or> r = 8287 \<or> r = 12288"

definition is_control :: "nat \<Rightarrow> bool" where
  "is_control r \<longleftrightarrow> r \<le> 31 \<or> (127 \<le> r \<and> r \<le> 159)"

definition trim_space :: "string \<Rightarrow> string" where
  "trim_space s =
     (let sp = (\<lambda>(r, _). is_space r)
      in concat (map snd (rev (dropWhile sp (rev (dropWhile sp (runes s)))))))"

lemma concat_runes: "concat (map snd (runes s)) = s"
  by (induction s rule: runes.induct) (auto split: prod.splits)

lemma length_trim_space: "length (trim_space s) \<le> length s"
proof -
  define sp :: "nat \<times> string \<Rightarrow> bool" where "sp = (\<lambda>(r, _). is_space r)"
  have mono: "length (concat (map snd (dropWhile sp xs))) \<le> length (concat (map snd xs))" for xs
    by (induction xs) auto
  have rv: "length (concat (map snd (rev xs))) = length (concat (map snd xs))" for xs :: "(nat \<times> string) list"
    by (simp add: length_concat rev_map [symmetric] sum_list_rev)
  have "length (trim_space s) \<le> length (concat (map snd (dropWhile sp (runes s))))"
    using mono [of "rev (dropWhile sp (runes s))"]
    by (simp add: trim_space_def sp_def [symmetric] rv del: length_concat)
  also have "\<dots> \<le> length (concat (map snd (runes s)))" by (rule mono)
  finally show ?thesis by (simp add: concat_runes)
qed

section \<open>Numbers\<close>

definition digits_value :: "string \<Rightarrow> int" where
  "digits_value ds = foldl (\<lambda>n d. 10 * n + (of_char d - 48)) 0 ds"

text \<open>
  \<open>strconv.Atoi\<close> and \<open>strconv.ParseInt(s, 10, 64)\<close>: an optional sign, decimal digits, and a
  value that fits 64 bits.
\<close>

definition atoi :: "string \<Rightarrow> int option" where
  "atoi s =
     (let neg = (s \<noteq> [] \<and> hd s = CHR ''-'');
          ds = (if s \<noteq> [] \<and> hd s \<in> set ''+-'' then tl s else s);
          v = (if neg then - digits_value ds else digits_value ds) in
      if ds = [] \<or> \<not> list_all is_digit ds \<or> \<not> in_i64 v then None else Some v)"

text \<open>\<open>fmt.Sprintf("%d", n)\<close> for a slice index.\<close>

fun itoa :: "nat \<Rightarrow> string" where
  "itoa n = (if n < 10 then [char_of (48 + n)] else itoa (n div 10) @ [char_of (48 + n mod 10)])"

declare itoa.simps [simp del]

text \<open>\<open>hex.EncodeToString\<close>\<close>

definition hex_digit :: "nat \<Rightarrow> char" where
  "hex_digit n = ''0123456789abcdef'' ! n"

definition hex_encode :: "string \<Rightarrow> string" where
  "hex_encode s = concat (map (\<lambda>c. [hex_digit (byte c div 16), hex_digit (byte c mod 16)]) s)"

section \<open>Slash-separated paths\<close>

fun join :: "char \<Rightarrow> string list \<Rightarrow> string" where
  "join sep [] = []"
| "join sep [w] = w"
| "join sep (w # ws) = w @ sep # join sep ws"

text \<open>\<open>path.Clean\<close>: the components are read left to right onto a stack, newest first.\<close>

definition clean_component :: "bool \<Rightarrow> string list \<Rightarrow> string \<Rightarrow> string list" where
  "clean_component rooted stack w =
     (if w = [] \<or> w = ''.'' then stack
      else if w = ''..'' then
        (case stack of
           t # rest \<Rightarrow> if t \<noteq> ''..'' then rest else w # stack
         | [] \<Rightarrow> if rooted then [] else [w])
      else w # stack)"

definition path_is_abs :: "string \<Rightarrow> bool" where
  "path_is_abs s \<longleftrightarrow> s \<noteq> [] \<and> hd s = CHR ''/''"

definition path_clean :: "string \<Rightarrow> string" where
  "path_clean s =
     (let rooted = path_is_abs s;
          ws = rev (foldl (clean_component rooted) [] (split_on CHR ''/'' s)) in
      if rooted then CHR ''/'' # join CHR ''/'' ws
      else if ws = [] then ''.'' else join CHR ''/'' ws)"

section \<open>Patterns\<close>

text \<open>\<open>^[0-9a-f]{8}-[0-9a-f]{4}-[1-5][0-9a-f]{3}-[89ab][0-9a-f]{3}-[0-9a-f]{12}$\<close>\<close>

definition uuid_pattern :: "string \<Rightarrow> bool" where
  "uuid_pattern s \<longleftrightarrow>
     (case split_on CHR ''-'' s of
        [a, b, c, d, e] \<Rightarrow>
          length a = 8 \<and> length b = 4 \<and> length c = 4 \<and> length d = 4 \<and> length e = 12 \<and>
          list_all is_hex (a @ b @ c @ d @ e) \<and>
          in_range CHR ''1'' CHR ''5'' (c ! 0) \<and>
          (d ! 0 = CHR ''8'' \<or> d ! 0 = CHR ''9'' \<or> d ! 0 = CHR ''a'' \<or> d ! 0 = CHR ''b'')
      | _ \<Rightarrow> False)"

text \<open>\<open>^(?:[0-9a-f]{40}|[0-9a-f]{64})$\<close>\<close>

definition commit_pattern :: "string \<Rightarrow> bool" where
  "commit_pattern s \<longleftrightarrow> (length s = 40 \<or> length s = 64) \<and> list_all is_hex s"

lemma commit_pattern_nonempty [simp]: "\<not> commit_pattern []"
  by (simp add: commit_pattern_def)

end
