(* ===== verification/Registry_Graph.thy ===== *)
theory Registry_Graph
  imports Prelude
begin

text \<open>
  The graph routines of \<open>internal/registry/lifecycle.go\<close>: the depth-first cycle test
  \<open>cyclic\<close>, the work-list that closes the protected manifests under reachability, and
  the memoised \<open>manifestDepths\<close>.  A graph is the Go map \<open>map[string][]string\<close> from a
  node to its children.  The routines are proved against the relation \<open>edges\<close>: the
  cycle test decides the existence of a cycle, the work-list computes exactly the
  reachable nodes, and along every edge of an acyclic graph the depth grows.
\<close>

type_synonym 'n graph = "('n, 'n list) gomap"

definition succs :: "'n graph \<Rightarrow> 'n \<Rightarrow> 'n list" where
  "succs g n = get_or [] g n"

definition edges :: "'n graph \<Rightarrow> ('n \<times> 'n) set" where
  "edges g = {(a, b). b \<in> set (succs g a)}"

definition nodes_of :: "'n graph \<Rightarrow> 'n set" where
  "nodes_of g = keys g"

lemma succs_outside [simp]: "n \<notin> nodes_of g \<Longrightarrow> succs g n = []"
  by (simp add: succs_def nodes_of_def get_or_def map_of_None_keys [symmetric])

lemma succs_Nil [simp]: "succs [] n = []"
  by (simp add: succs_def)

lemma edges_iff: "(a, b) \<in> edges g \<longleftrightarrow> b \<in> set (succs g a)"
  by (simp add: edges_def)

lemma finite_nodes_of [simp]: "finite (nodes_of g)"
  by (simp add: nodes_of_def)

section \<open>The cycle test\<close>

datatype mark = Unseen | Visiting | Done

text \<open>
  \<open>visits g xs st\<close> is the loop \<open>for _, child := range xs { if visit(child) { return true } }\<close>
  with the body of the closure \<open>visit\<close> inlined: the Go map \<open>state\<close> is the function
  \<open>st\<close>, whose default is \<open>unseen\<close>.
\<close>

function (sequential) visits :: "'n graph \<Rightarrow> 'n list \<Rightarrow> ('n \<Rightarrow> mark) \<Rightarrow> bool \<times> ('n \<Rightarrow> mark)" where
  "visits g [] st = (False, st)"
| "visits g (x # xs) st =
     (case st x of
        Visiting \<Rightarrow> (True, st)
      | Done \<Rightarrow> visits g xs st
      | Unseen \<Rightarrow>
          (let r = visits g (succs g x) (st(x := Visiting))
           in if fst r then (True, snd r) else visits g xs ((snd r)(x := Done))))"
  by pat_completeness auto

lemma visits_dom_grows:
  "visits_dom (g, xs, st) \<Longrightarrow> snd (visits g xs st) n = Unseen \<Longrightarrow> st n = Unseen"
proof (induction g xs st arbitrary: n rule: visits.pinduct)
  case (1 g st)
  then show ?case by (simp add: visits.psimps)
next
  case (2 g x xs st)
  let ?r = "visits g (succs g x) (st(x := Visiting))"
  show ?case
  proof (cases "st x")
    case Unseen
    have inner: "st n = Unseen" if "snd ?r n = Unseen" for n
      using "2.IH"(1) [OF Unseen that] by (simp split: if_splits)
    show ?thesis
    proof (cases "fst ?r")
      case True
      with "2.hyps" "2.prems" Unseen have "snd ?r n = Unseen" by (simp add: visits.psimps Let_def)
      then show ?thesis by (rule inner)
    next
      case False
      with "2.hyps" "2.prems" Unseen have "snd (visits g xs ((snd ?r)(x := Done))) n = Unseen"
        by (simp add: visits.psimps Let_def)
      then have "((snd ?r)(x := Done)) n = Unseen"
        by (rule "2.IH"(2) [OF Unseen refl False])
      then show ?thesis by (intro inner) (simp split: if_splits)
    qed
  qed (use 2 in \<open>simp_all add: visits.psimps\<close>)
qed

definition unseen_nodes :: "'n graph \<Rightarrow> ('n \<Rightarrow> mark) \<Rightarrow> 'n set" where
  "unseen_nodes g st = {n \<in> nodes_of g. st n = Unseen}"

lemma finite_unseen [simp]: "finite (unseen_nodes g st)"
  by (simp add: unseen_nodes_def)

termination visits
proof (relation "inv_image (finite_psubset <*lex*> less_than)
                   (\<lambda>(g, xs, st). (unseen_nodes g st, length xs))", goal_cases)
  case 1
  show ?case by auto
next
  case (2 g x xs st)
  show ?case
  proof (cases "x \<in> nodes_of g")
    case True
    then have "unseen_nodes g (st(x := Visiting)) \<subset> unseen_nodes g st"
      using \<open>st x = Unseen\<close> by (auto simp: unseen_nodes_def)
    then show ?thesis by (simp add: finite_psubset_def)
  next
    case False
    then have "unseen_nodes g (st(x := Visiting)) = unseen_nodes g st"
      by (auto simp: unseen_nodes_def)
    then show ?thesis using False by (simp add: finite_psubset_def)
  qed
next
  case (3 g x xs st r)
  have "st n = Unseen" if "snd r n = Unseen" for n
    using visits_dom_grows [OF 3(4), of n] that 3 by (simp split: if_splits)
  then have "unseen_nodes g ((snd r)(x := Done)) \<subseteq> unseen_nodes g st"
    by (auto simp: unseen_nodes_def split: if_splits)
  then show ?case
    by (auto simp: finite_psubset_def psubset_eq)
next
  case (4 g x xs st)
  then show ?case by simp
qed

definition cyclic :: "'n graph \<Rightarrow> bool" where
  "cyclic g = fst (visits g (map fst g) (\<lambda>_. Unseen))"

lemma visits_Visiting_stays:
  "\<not> fst (visits g xs st) \<Longrightarrow> snd (visits g xs st) n = Visiting \<longleftrightarrow> st n = Visiting"
proof (induction g xs st arbitrary: n rule: visits.induct)
  case (2 g x xs st)
  let ?r = "visits g (succs g x) (st(x := Visiting))"
  show ?case
  proof (cases "st x")
    case Unseen
    then have miss: "\<not> fst ?r" and rest: "\<not> fst (visits g xs ((snd ?r)(x := Done)))"
      using "2.prems" by (simp_all add: Let_def split: if_splits)
    have "snd ?r n = Visiting \<longleftrightarrow> (st(x := Visiting)) n = Visiting"
      by (rule "2.IH"(1) [OF Unseen miss])
    moreover have "snd (visits g xs ((snd ?r)(x := Done))) n = Visiting \<longleftrightarrow>
        ((snd ?r)(x := Done)) n = Visiting"
      by (rule "2.IH"(2) [OF Unseen refl miss rest])
    ultimately show ?thesis
      using Unseen miss by (cases "n = x") (simp_all add: Let_def)
  qed (use 2 in \<open>simp_all\<close>)
qed simp

text \<open>A hit means a cycle: every node being visited reaches every node of the work-list.\<close>

lemma visits_hit_cycle:
  assumes "fst (visits g xs st)"
    and "\<And>v x. st v = Visiting \<Longrightarrow> x \<in> set xs \<Longrightarrow> (v, x) \<in> (edges g)\<^sup>+"
  shows "\<exists>n. (n, n) \<in> (edges g)\<^sup>+"
  using assms
proof (induction g xs st rule: visits.induct)
  case (2 g x xs st)
  let ?r = "visits g (succs g x) (st(x := Visiting))"
  show ?case
  proof (cases "st x")
    case Unseen
    have step: "(v, c) \<in> (edges g)\<^sup>+"
      if "(st(x := Visiting)) v = Visiting" "c \<in> set (succs g x)" for v c
    proof (cases "v = x")
      case True
      with that show ?thesis by (auto simp: edges_iff)
    next
      case False
      with that "2.prems"(2) [of v x] show ?thesis
        by (auto simp: edges_iff intro: trancl_into_trancl)
    qed
    show ?thesis
    proof (cases "fst ?r")
      case True
      then show ?thesis using "2.IH"(1) [OF Unseen] step by blast
    next
      case False
      have rest: "fst (visits g xs ((snd ?r)(x := Done)))"
        using "2.prems"(1) Unseen False by (simp add: Let_def)
      have still: "st v = Visiting" if "((snd ?r)(x := Done)) v = Visiting" for v
        using visits_Visiting_stays [OF False, of v] that by (simp split: if_splits)
      show ?thesis
        by (rule "2.IH"(2) [OF Unseen refl False rest]) (rule "2.prems"(2), erule still, simp)
    qed
  next
    case Visiting
    then show ?thesis using "2.prems"(2) [of x x] by auto
  next
    case Done
    then show ?thesis using 2 by simp
  qed
qed simp

text \<open>The finished nodes are closed under successors and lie on no cycle.\<close>

definition done_ok :: "'n graph \<Rightarrow> ('n \<Rightarrow> mark) \<Rightarrow> bool" where
  "done_ok g st \<longleftrightarrow> (\<forall>d. st d = Done \<longrightarrow> (\<forall>c \<in> set (succs g d). st c = Done) \<and> (d, d) \<notin> (edges g)\<^sup>+)"

lemma done_closed_trancl:
  assumes "done_ok g st" and "(a, b) \<in> (edges g)\<^sup>+" and "st a = Done"
  shows "st b = Done"
  using assms(2,3) assms(1) by (induction rule: trancl_induct) (auto simp: done_ok_def edges_iff)

lemma done_ok_finish:
  assumes "done_ok g st" and "\<forall>c \<in> set (succs g x). st c = Done" and "st x \<noteq> Done"
  shows "done_ok g (st(x := Done))"
proof -
  have "(x, x) \<notin> (edges g)\<^sup>+"
  proof
    assume "(x, x) \<in> (edges g)\<^sup>+"
    then obtain c where "(x, c) \<in> edges g" "(c, x) \<in> (edges g)\<^sup>*"
      by (meson tranclD)
    with assms(2) have "st c = Done" by (simp add: edges_iff)
    with \<open>(c, x) \<in> (edges g)\<^sup>*\<close> assms(1) have "st x = Done"
      by (metis done_closed_trancl rtranclD)
    with assms(3) show False by simp
  qed
  with assms show ?thesis by (auto simp: done_ok_def)
qed

lemma visits_miss_done:
  assumes "\<not> fst (visits g xs st)" and "done_ok g st"
  shows "done_ok g (snd (visits g xs st)) \<and>
    (\<forall>n. st n = Done \<longrightarrow> snd (visits g xs st) n = Done) \<and>
    (\<forall>x \<in> set xs. snd (visits g xs st) x = Done)"
  using assms
proof (induction g xs st rule: visits.induct)
  case (2 g x xs st)
  let ?st1 = "st(x := Visiting)"
  let ?r = "visits g (succs g x) ?st1"
  show ?case
  proof (cases "st x")
    case Unseen
    then have miss: "\<not> fst ?r" using "2.prems"(1) by (auto simp: Let_def)
    have "done_ok g ?st1"
      using "2.prems"(2) Unseen by (auto simp: done_ok_def)
    with "2.IH"(1) [OF Unseen miss]
    have r: "done_ok g (snd ?r)" "\<And>n. ?st1 n = Done \<Longrightarrow> snd ?r n = Done"
        "\<forall>c \<in> set (succs g x). snd ?r c = Done"
      by blast+
    have "snd ?r x = Visiting" using visits_Visiting_stays [OF miss, of x] by simp
    then have "done_ok g ((snd ?r)(x := Done))"
      by (intro done_ok_finish r) simp
    moreover have "\<not> fst (visits g xs ((snd ?r)(x := Done)))"
      using "2.prems"(1) Unseen miss by (simp add: Let_def)
    ultimately have IH: "done_ok g (snd (visits g xs ((snd ?r)(x := Done))))"
        "\<And>n. ((snd ?r)(x := Done)) n = Done \<Longrightarrow> snd (visits g xs ((snd ?r)(x := Done))) n = Done"
        "\<forall>y \<in> set xs. snd (visits g xs ((snd ?r)(x := Done))) y = Done"
      using "2.IH"(2) [OF Unseen refl miss] by blast+
    have "((snd ?r)(x := Done)) n = Done" if "st n = Done" for n
      using r(2) [of n] that Unseen by (cases "n = x") auto
    then show ?thesis using IH IH(2) [of x] Unseen miss by (simp add: Let_def)
  next
    case Done
    then have "\<not> fst (visits g xs st)" using "2.prems"(1) by simp
    with "2.IH"(3) [OF Done] "2.prems"(2) Done show ?thesis by simp
  qed (use 2 in simp)
qed simp

lemma trancl_edge_from_node: "(a, b) \<in> (edges g)\<^sup>+ \<Longrightarrow> a \<in> nodes_of g"
  by (induction rule: trancl_induct) (auto simp: edges_iff intro: ccontr)

lemma cyclic_correct: "cyclic g \<longleftrightarrow> (\<exists>n. (n, n) \<in> (edges g)\<^sup>+)"
proof
  assume "cyclic g"
  then show "\<exists>n. (n, n) \<in> (edges g)\<^sup>+"
    unfolding cyclic_def by (rule visits_hit_cycle) simp
next
  assume "\<exists>n. (n, n) \<in> (edges g)\<^sup>+"
  then obtain n where n: "(n, n) \<in> (edges g)\<^sup>+" by blast
  then have "n \<in> set (map fst g)" using trancl_edge_from_node [OF n]
    by (simp add: nodes_of_def keys_def)
  show "cyclic g"
  proof (rule ccontr)
    let ?st = "\<lambda>_. Unseen"
    assume "\<not> cyclic g"
    then have "\<not> fst (visits g (map fst g) ?st)" by (simp add: cyclic_def)
    from visits_miss_done [OF this] have "done_ok g (snd (visits g (map fst g) ?st))"
      "\<forall>x \<in> set (map fst g). snd (visits g (map fst g) ?st) x = Done"
      by (auto simp: done_ok_def)
    with n \<open>n \<in> set (map fst g)\<close> show False unfolding done_ok_def by blast
  qed
qed

lemma not_cyclic_acyclic: "\<not> cyclic g \<longleftrightarrow> acyclic (edges g)"
  by (simp add: cyclic_correct acyclic_def)

section \<open>Closing the protected nodes under reachability\<close>

definition addReason :: "('n, string list) gomap \<Rightarrow> 'n \<Rightarrow> string \<Rightarrow> ('n, string list) gomap" where
  "addReason target key reason =
     AList.update key (List.insert reason (get_or [] target key)) target"

definition protect_new :: "string \<Rightarrow> ('n, string list) gomap \<Rightarrow> 'n \<Rightarrow> ('n, string list) gomap" where
  "protect_new reason prot child =
     (if child \<in> fst ` set prot then prot else addReason prot child reason)"

text \<open>
  The work-list of \<open>BuildCleanupPlan\<close>: pop a key, skip it when seen, protect and append
  its children, sort the queue again.
\<close>

function close_loop ::
  "('n::linorder) graph \<Rightarrow> string \<Rightarrow> 'n list \<Rightarrow> 'n list \<Rightarrow> ('n, string list) gomap \<Rightarrow> ('n, string list) gomap" where
  "close_loop g reason [] seen prot = prot"
| "close_loop g reason (key # queue) seen prot =
     (if key \<in> set seen then close_loop g reason queue seen prot
      else close_loop g reason (sort (queue @ succs g key)) (key # seen)
             (foldl (protect_new reason) prot (succs g key)))"
  by pat_completeness auto

termination
proof (relation "inv_image (finite_psubset <*lex*> less_than)
         (\<lambda>(g, reason, queue, seen, prot). (nodes_of g - set seen, length queue))", goal_cases)
  case (3 g reason key queue seen prot)
  then show ?case
    by (cases "key \<in> nodes_of g") (auto simp: finite_psubset_def)
qed auto

lemma wf_map_addReason [simp]: "wf_map m \<Longrightarrow> wf_map (addReason m k r)"
  by (simp add: addReason_def)

lemma keys_addReason [simp]: "keys (addReason m k r) = insert k (keys m)"
  by (simp add: addReason_def)

lemma keys_protect_new [simp]: "keys (protect_new r m k) = insert k (keys m)"
  by (auto simp: protect_new_def keys_def [symmetric])

lemma keys_foldl_protect_new [simp]:
  "keys (foldl (protect_new r) m xs) = set xs \<union> keys m"
  by (induction xs arbitrary: m) auto

lemma wf_map_foldl_protect_new: "wf_map m \<Longrightarrow> wf_map (foldl (protect_new r) m xs)"
  by (induction xs arbitrary: m) (auto simp: protect_new_def)

lemma protect_new_keeps: "map_of m k = Some rs \<Longrightarrow> map_of (protect_new r m c) k = Some rs"
  by (auto simp: protect_new_def addReason_def keys_def [symmetric] dest: map_of_in_keys)

lemma foldl_protect_new_keeps:
  "map_of m k = Some rs \<Longrightarrow> map_of (foldl (protect_new r) m xs) k = Some rs"
  by (induction xs arbitrary: m) (auto intro: protect_new_keeps)

lemma close_loop_keeps:
  "map_of prot k = Some rs \<Longrightarrow> map_of (close_loop g r queue seen prot) k = Some rs"
  by (induction g r queue seen prot rule: close_loop.induct) (auto intro: foldl_protect_new_keeps)

lemma wf_map_close_loop: "wf_map prot \<Longrightarrow> wf_map (close_loop g r queue seen prot)"
  by (induction g r queue seen prot rule: close_loop.induct) (auto intro: wf_map_foldl_protect_new)

lemma close_loop_grows: "keys prot \<subseteq> keys (close_loop g r queue seen prot)"
  by (auto intro: map_of_in_keys elim!: in_keys_obtain dest: close_loop_keeps [of prot _ _ g r queue seen])

lemma close_loop_sound:
  "set queue \<subseteq> keys prot \<Longrightarrow> keys (close_loop g r queue seen prot) \<subseteq> (edges g)\<^sup>* `` keys prot"
proof (induction g r queue seen prot rule: close_loop.induct)
  case (2 g r key queue seen prot)
  show ?case
  proof (cases "key \<in> set seen")
    case False
    let ?p = "foldl (protect_new r) prot (succs g key)"
    have "keys ?p \<subseteq> (edges g)\<^sup>* `` keys prot"
      using "2.prems" by (auto simp: Image_iff) (meson edges_iff r_into_rtrancl)
    then have "(edges g)\<^sup>* `` keys ?p \<subseteq> (edges g)\<^sup>* `` keys prot"
      by (metis Image_mono order_refl relcomp_Image rtrancl_idemp_self_comp)
    moreover have "keys (close_loop g r (sort (queue @ succs g key)) (key # seen) ?p)
        \<subseteq> (edges g)\<^sup>* `` keys ?p"
      using "2.prems" by (intro "2.IH"(2) False) auto
    ultimately show ?thesis using False by simp
  qed (use 2 in simp)
qed auto

lemma close_loop_closed:
  assumes "keys prot \<subseteq> set queue \<union> set seen" and "\<forall>s \<in> set seen. set (succs g s) \<subseteq> keys prot"
  shows "\<forall>k \<in> keys (close_loop g r queue seen prot).
    set (succs g k) \<subseteq> keys (close_loop g r queue seen prot)"
  using assms
proof (induction g r queue seen prot rule: close_loop.induct)
  case (2 g r key queue seen prot)
  show ?case
  proof (cases "key \<in> set seen")
    case True
    then show ?thesis using 2 by auto
  next
    case False
    let ?p = "foldl (protect_new r) prot (succs g key)"
    have "\<forall>k \<in> keys (close_loop g r (sort (queue @ succs g key)) (key # seen) ?p).
        set (succs g k) \<subseteq> keys (close_loop g r (sort (queue @ succs g key)) (key # seen) ?p)"
      using "2.prems" by (intro "2.IH"(2) False) auto
    then show ?thesis using False by simp
  qed
qed auto

lemma close_loop_reaches:
  assumes "set queue = keys prot"
  shows "keys (close_loop g r queue [] prot) = (edges g)\<^sup>* `` keys prot"
proof
  show "keys (close_loop g r queue [] prot) \<subseteq> (edges g)\<^sup>* `` keys prot"
    by (rule close_loop_sound) (simp add: assms)
  let ?K = "keys (close_loop g r queue [] prot)"
  have "\<forall>k \<in> ?K. set (succs g k) \<subseteq> ?K"
    by (rule close_loop_closed) (simp_all add: assms)
  then have "edges g `` ?K \<subseteq> ?K" unfolding edges_def by blast
  then have "(edges g)\<^sup>* `` ?K = ?K" by (rule Image_closed_trancl)
  then show "(edges g)\<^sup>* `` keys prot \<subseteq> ?K"
    using Image_mono [OF order_refl close_loop_grows, of "(edges g)\<^sup>*" prot g r queue "[]"] by simp
qed

section \<open>Depths\<close>

definition add_parent :: "'n \<Rightarrow> 'n graph \<Rightarrow> 'n \<Rightarrow> 'n graph" where
  "add_parent parent ps child = AList.update child (succs ps child @ [parent]) ps"

definition parents_of :: "'n graph \<Rightarrow> 'n graph" where
  "parents_of g = foldl (\<lambda>ps (parent, cs). foldl (add_parent parent) ps cs) [] g"

text \<open>
  \<open>depth\<close> is the memoised closure of \<open>manifestDepths\<close>; its \<open>for\<close> loop over the
  parents is \<open>depth_max\<close>.  The recursion is bounded by fuel: an acyclic graph needs at
  most one unit more than it has parents.
\<close>

function (sequential) depth ::
    "nat \<Rightarrow> 'n graph \<Rightarrow> 'n \<Rightarrow> ('n, nat) gomap \<Rightarrow> (nat \<times> ('n, nat) gomap) option"
  and depth_max ::
    "nat \<Rightarrow> 'n graph \<Rightarrow> 'n list \<Rightarrow> nat \<Rightarrow> ('n, nat) gomap \<Rightarrow> (nat \<times> ('n, nat) gomap) option"
where
  "depth 0 ps key depths = None"
| "depth (Suc fuel) ps key depths =
     (case map_of depths key of
        Some value \<Rightarrow> Some (value, depths)
      | None \<Rightarrow>
          (case depth_max fuel ps (succs ps key) 0 depths of
             None \<Rightarrow> None
           | Some (value, depths') \<Rightarrow> Some (value, AList.update key value depths')))"
| "depth_max fuel ps [] value depths = Some (value, depths)"
| "depth_max fuel ps (parent # rest) value depths =
     (case depth fuel ps parent depths of
        None \<Rightarrow> None
      | Some (d, depths') \<Rightarrow> depth_max fuel ps rest (max value (d + 1)) depths')"
  by pat_completeness auto
termination
  by (relation "measures [case_sum fst fst, case_sum (\<lambda>_. 0) (\<lambda>(_, _, xs, _). Suc (length xs))]") auto

fun depth_all :: "nat \<Rightarrow> 'n graph \<Rightarrow> 'n list \<Rightarrow> ('n, nat) gomap \<Rightarrow> ('n, nat) gomap option" where
  "depth_all fuel ps [] depths = Some depths"
| "depth_all fuel ps (key # rest) depths =
     (case depth fuel ps key depths of
        None \<Rightarrow> None
      | Some (_, depths') \<Rightarrow> depth_all fuel ps rest depths')"

definition manifestDepths :: "'n graph \<Rightarrow> 'n list \<Rightarrow> ('n, nat) gomap option" where
  "manifestDepths g manifests = depth_all (Suc (length g)) (parents_of g) manifests []"

lemma set_succs_add_parent:
  "set (succs (foldl (add_parent p) ps cs) c) =
     set (succs ps c) \<union> (if c \<in> set cs then {p} else {})"
  by (induction cs arbitrary: ps) (auto simp: add_parent_def succs_def)

lemma set_succs_parents_fold:
  "set (succs (foldl (\<lambda>ps (parent, cs). foldl (add_parent parent) ps cs) ps g) c) =
     set (succs ps c) \<union> {p. \<exists>cs. (p, cs) \<in> set g \<and> c \<in> set cs}"
  by (induction g arbitrary: ps) (auto simp: set_succs_add_parent split: if_splits)

lemma parents_of_iff:
  assumes "wf_map g"
  shows "p \<in> set (succs (parents_of g) c) \<longleftrightarrow> (p, c) \<in> edges g"
proof -
  have "c \<in> set (succs g p) \<longleftrightarrow> (\<exists>cs. (p, cs) \<in> set g \<and> c \<in> set cs)"
    using wf_map_mem_iff [OF assms] by (cases "map_of g p") (simp_all add: succs_def get_or_def)
  then show ?thesis
    by (simp add: parents_of_def set_succs_parents_fold edges_iff)
qed

lemma edges_parents_of: "wf_map g \<Longrightarrow> edges (parents_of g) = (edges g)\<inverse>"
  using parents_of_iff by (fastforce simp: edges_def)

text \<open>The memo table holds, for every key it has, one more than the largest parent depth.\<close>

definition best_depth :: "('n, nat) gomap \<Rightarrow> 'n list \<Rightarrow> nat \<Rightarrow> nat" where
  "best_depth depths ps value = foldl (\<lambda>v p. max v (get_or 0 depths p + 1)) value ps"

definition memo_ok :: "'n graph \<Rightarrow> ('n, nat) gomap \<Rightarrow> bool" where
  "memo_ok ps depths \<longleftrightarrow>
     (\<forall>k v. map_of depths k = Some v \<longrightarrow>
        set (succs ps k) \<subseteq> keys depths \<and> v = best_depth depths (succs ps k) 0)"

definition extends :: "('n, nat) gomap \<Rightarrow> ('n, nat) gomap \<Rightarrow> bool" where
  "extends d d' \<longleftrightarrow> (\<forall>k v. map_of d k = Some v \<longrightarrow> map_of d' k = Some v)"

lemma extends_refl [simp]: "extends d d"
  by (simp add: extends_def)

lemma extends_trans: "extends a b \<Longrightarrow> extends b c \<Longrightarrow> extends a c"
  by (simp add: extends_def)

lemma extends_keys: "extends d d' \<Longrightarrow> keys d \<subseteq> keys d'"
  by (auto simp: extends_def intro: map_of_in_keys elim!: in_keys_obtain)

lemma best_depth_extends:
  assumes "extends d d'" and "set ps \<subseteq> keys d"
  shows "best_depth d' ps v = best_depth d ps v"
  using assms(2)
proof (induction ps arbitrary: v)
  case (Cons p ps)
  then obtain x where "map_of d p = Some x" by (auto elim: in_keys_obtain)
  with assms(1) have "get_or 0 d' p = get_or 0 d p"
    by (simp add: extends_def get_or_def)
  with Cons show ?case by (simp add: best_depth_def)
qed (simp add: best_depth_def)

lemma best_depth_ge: "v \<le> best_depth d ps v"
proof (induction ps arbitrary: v)
  case (Cons p ps)
  from Cons [of "max v (get_or 0 d p + 1)"] show ?case by (simp add: best_depth_def)
qed (simp add: best_depth_def)

lemma best_depth_gt: "p \<in> set ps \<Longrightarrow> get_or 0 d p < best_depth d ps v"
proof (induction ps arbitrary: v)
  case (Cons q ps)
  show ?case
  proof (cases "p = q")
    case True
    have "max v (get_or 0 d p + 1) \<le> best_depth d ps (max v (get_or 0 d p + 1))"
      by (rule best_depth_ge)
    with True show ?thesis by (simp add: best_depth_def)
  next
    case False
    with Cons show ?thesis by (simp add: best_depth_def)
  qed
qed simp

lemma memo_ok_update:
  assumes "memo_ok ps d" and "set (succs ps k) \<subseteq> keys d" and "map_of d k = None \<or> map_of d k = Some v"
    and "v = best_depth d (succs ps k) 0"
  shows "memo_ok ps (AList.update k v d)" and "extends d (AList.update k v d)"
proof -
  show ext: "extends d (AList.update k v d)" using assms(3) by (auto simp: extends_def)
  show "memo_ok ps (AList.update k v d)"
    unfolding memo_ok_def
  proof (intro allI impI)
    fix k' v' assume upd: "map_of (AList.update k v d) k' = Some v'"
    have "set (succs ps k') \<subseteq> keys d \<and> v' = best_depth d (succs ps k') 0"
      using upd assms(1,2,4) by (cases "k' = k") (auto simp: memo_ok_def)
    then show "set (succs ps k') \<subseteq> keys (AList.update k v d) \<and>
        v' = best_depth (AList.update k v d) (succs ps k') 0"
      using best_depth_extends [OF ext] by auto
  qed
qed

lemma depth_correct:
  "depth fuel ps key d = Some (v, d') \<Longrightarrow> memo_ok ps d \<Longrightarrow>
     memo_ok ps d' \<and> extends d d' \<and> map_of d' key = Some v"
  "depth_max fuel ps xs w d = Some (v, d') \<Longrightarrow> memo_ok ps d \<Longrightarrow>
     memo_ok ps d' \<and> extends d d' \<and> set xs \<subseteq> keys d' \<and> v = best_depth d' xs w"
proof (induction fuel ps key d and fuel ps xs w d arbitrary: v d' and v d' rule: depth_depth_max.induct)
  case (1 ps key d)
  then show ?case by simp
next
  case (2 fuel ps key d)
  show ?case
  proof (cases "map_of d key")
    case None
    with "2.prems"(1) obtain d'' where dm: "depth_max fuel ps (succs ps key) 0 d = Some (v, d'')"
        and d': "d' = AList.update key v d''"
      by (auto split: option.splits)
    from "2.IH" [OF None dm "2.prems"(2)]
    have dm': "memo_ok ps d''" "extends d d''" "set (succs ps key) \<subseteq> keys d''"
        "v = best_depth d'' (succs ps key) 0"
      by auto
    have same: "map_of d'' key = None \<or> map_of d'' key = Some v"
      using dm'(1,4) by (cases "map_of d'' key") (auto simp: memo_ok_def)
    show ?thesis
      using memo_ok_update [OF dm'(1,3) same dm'(4)] dm'(2) d' by (auto intro: extends_trans)
  qed (use 2 in auto)
next
  case (3 fuel ps w d)
  then show ?case by (simp add: best_depth_def)
next
  case (4 fuel ps p xs w d)
  then obtain a d1 where dp: "depth fuel ps p d = Some (a, d1)"
      and dm: "depth_max fuel ps xs (max w (a + 1)) d1 = Some (v, d')"
    by (auto split: option.splits)
  from "4.IH"(1) [OF dp "4.prems"(2)]
  have d1: "memo_ok ps d1" "extends d d1" "map_of d1 p = Some a" by auto
  from "4.IH"(2) [OF dp refl dm d1(1)]
  have d': "memo_ok ps d'" "extends d1 d'" "set xs \<subseteq> keys d'" "v = best_depth d' xs (max w (a + 1))"
    by auto
  then have "map_of d' p = Some a" using d1(3) by (simp add: extends_def)
  then have "p \<in> keys d'" "get_or 0 d' p = a" by (auto simp: get_or_def dest: map_of_in_keys)
  then show ?case using d1 d' by (auto simp: best_depth_def intro: extends_trans)
qed

text \<open>Fuel: a key with fewer proper ancestors than fuel gets a depth.\<close>

definition ancestors :: "'n graph \<Rightarrow> 'n \<Rightarrow> 'n set" where
  "ancestors ps k = {a. (k, a) \<in> (edges ps)\<^sup>+}"

lemma finite_ancestors [simp]: "finite (ancestors ps k)"
proof -
  have "ancestors ps k \<subseteq> (\<Union>n \<in> nodes_of ps. set (succs ps n))"
  proof
    fix a assume "a \<in> ancestors ps k"
    then obtain n where "(n, a) \<in> edges ps" by (auto simp: ancestors_def elim: tranclE)
    then have "a \<in> set (succs ps n)" by (simp add: edges_iff)
    then show "a \<in> (\<Union>n \<in> nodes_of ps. set (succs ps n))"
      by (cases "n \<in> nodes_of ps") auto
  qed
  then show ?thesis by (rule finite_subset) simp
qed

lemma ancestors_parent:
  assumes "acyclic (edges ps)" and "p \<in> set (succs ps k)"
  shows "ancestors ps p \<subset> ancestors ps k"
proof -
  have kp: "(k, p) \<in> edges ps" using assms(2) by (simp add: edges_iff)
  then have "ancestors ps p \<subseteq> ancestors ps k"
    by (auto simp: ancestors_def intro: trancl_into_trancl2)
  moreover have "p \<in> ancestors ps k" "p \<notin> ancestors ps p"
    using kp assms(1) by (auto simp: ancestors_def acyclic_def)
  ultimately show ?thesis by blast
qed

lemma depth_enough_fuel:
  assumes "acyclic (edges ps)"
  shows "card (ancestors ps key) < fuel \<Longrightarrow> depth fuel ps key d \<noteq> None"
    and "(\<forall>x \<in> set xs. card (ancestors ps x) < fuel) \<Longrightarrow> depth_max fuel ps xs w d \<noteq> None"
  using assms
proof (induction fuel ps key d and fuel ps xs w d rule: depth_depth_max.induct)
  case (2 fuel ps key d)
  have "card (ancestors ps p) < fuel" if "p \<in> set (succs ps key)" for p
    using psubset_card_mono [OF finite_ancestors ancestors_parent [OF "2.prems"(2) that]] "2.prems"(1)
    by simp
  with 2 show ?case by (cases "map_of d key") (auto split: option.splits)
qed (auto split: option.splits)

lemma depth_all_correct:
  "depth_all fuel ps ms d = Some d' \<Longrightarrow> memo_ok ps d \<Longrightarrow>
     memo_ok ps d' \<and> extends d d' \<and> set ms \<subseteq> keys d'"
proof (induction fuel ps ms d rule: depth_all.induct)
  case (2 fuel ps key rest d)
  then obtain v d1 where d1: "depth fuel ps key d = Some (v, d1)"
      and rest: "depth_all fuel ps rest d1 = Some d'"
    by (auto split: option.splits)
  have "memo_ok ps d1" "extends d d1" "map_of d1 key = Some v"
    using depth_correct(1) [OF d1 "2.prems"(2)] by auto
  with "2.IH" [OF d1 _ rest] show ?case
    by (auto simp: extends_def intro: map_of_in_keys)
qed simp

lemma depth_all_enough_fuel:
  assumes "acyclic (edges ps)" and "\<And>k. card (ancestors ps k) < fuel"
  shows "depth_all fuel ps ms d \<noteq> None"
proof (induction ms arbitrary: d)
  case (Cons m ms)
  with depth_enough_fuel(1) [OF assms(1), of m fuel d] assms(2) [of m] show ?case
    by (auto split: option.splits)
qed simp

lemma manifestDepths_total:
  assumes "wf_map g" and "\<not> cyclic g"
  shows "\<exists>depths. manifestDepths g ms = Some depths"
proof -
  have "acyclic (edges (parents_of g))"
    using assms by (simp add: edges_parents_of not_cyclic_acyclic acyclic_converse)
  moreover have "card (ancestors (parents_of g) k) < Suc (length g)" for k
  proof -
    have "ancestors (parents_of g) k \<subseteq> nodes_of g"
      by (auto simp: ancestors_def edges_parents_of [OF assms(1)] trancl_converse
          intro: trancl_edge_from_node)
    then have "card (ancestors (parents_of g) k) \<le> card (nodes_of g)"
      by (rule card_mono [OF finite_nodes_of])
    then show ?thesis by (simp add: nodes_of_def length_wf_map [OF assms(1)])
  qed
  ultimately show ?thesis
    using depth_all_enough_fuel [of "parents_of g" "Suc (length g)" ms "[]"]
    by (simp add: manifestDepths_def)
qed

lemma manifestDepths_edge:
  assumes "manifestDepths g ms = Some depths" and "wf_map g"
    and "(a, b) \<in> edges g" and "b \<in> set ms"
  shows "get_or 0 depths a < get_or 0 depths b"
proof -
  have ok: "memo_ok (parents_of g) depths" "set ms \<subseteq> keys depths"
    using depth_all_correct [OF assms(1) [unfolded manifestDepths_def]] by (auto simp: memo_ok_def)
  then obtain v where v: "map_of depths b = Some v" using assms(4) by (blast elim: in_keys_obtain)
  then have "v = best_depth depths (succs (parents_of g) b) 0"
    using ok(1) by (simp add: memo_ok_def)
  moreover have "a \<in> set (succs (parents_of g) b)"
    using assms(2,3) by (simp add: parents_of_iff)
  ultimately have "get_or 0 depths a < v" by (simp add: best_depth_gt)
  then show ?thesis using v by (simp add: get_or_def)
qed

end
