(* ===== verification/Registry_Model.thy ===== *)
theory Registry_Model
  imports Go_Text Registry_Graph "HOL-Library.Product_Lexorder"
begin

text \<open>
  The registry entities of \<open>internal/domain/models.go\<close> and the validation functions of
  \<open>internal/registry\<close> the planner uses.  Structs are records, closed string types are
  datatypes with one more constructor for every other string.
\<close>

section \<open>Entities\<close>

datatype registry_target_mode = RegistryTargetManaged | RegistryTargetExternal | RegistryTargetOther string

record registry_target =
  tgt_ID :: string
  tgt_Name :: string
  tgt_Mode :: registry_target_mode
  tgt_Endpoint :: string
  tgt_RepositoryPrefix :: string
  tgt_PullCredentialRef :: string
  tgt_PushCredentialRef :: string
  tgt_CacheCredentialRef :: string
  tgt_CreatedAt :: time
  tgt_UpdatedAt :: time

record service_registry_policy =
  pol_RegistryTargetID :: string
  pol_ServiceID :: string
  pol_Repository :: string
  pol_KeepLastSuccessful :: int
  pol_MinimumSafetyAge :: duration
  pol_CacheUnusedExpiry :: duration
  pol_CacheByteQuota :: int
  pol_CreatedAt :: time
  pol_UpdatedAt :: time

datatype registry_manifest_kind = RegistryManifestIndex | RegistryManifestImage | RegistryManifestOther string

record registry_manifest =
  man_RegistryTargetID :: string
  man_Repository :: string
  man_Digest :: string
  man_Kind :: registry_manifest_kind
  man_MediaType :: string
  man_SizeBytes :: int
  man_PlatformOS :: string
  man_PlatformArchitecture :: string
  man_PlatformVariant :: string
  man_Present :: bool
  man_FirstObservedAt :: time
  man_LastObservedAt :: time
  man_LastObservationRevision :: int
  man_DeletedAt :: "time option"

record registry_blob =
  blob_RegistryTargetID :: string
  blob_Repository :: string
  blob_Digest :: string
  blob_MediaType :: string
  blob_SizeBytes :: int
  blob_Present :: bool
  blob_FirstObservedAt :: time
  blob_LastObservedAt :: time
  blob_LastObservationRevision :: int
  blob_DeletedAt :: "time option"

record registry_manifest_link =
  link_Repository :: string
  link_ParentDigest :: string
  link_ChildDigest :: string

record registry_manifest_blob_link =
  blink_Repository :: string
  blink_ManifestDigest :: string
  blink_BlobDigest :: string

record registry_catalog_observation =
  cat_ID :: string
  cat_RegistryTargetID :: string
  cat_Repository :: string
  cat_Revision :: int
  cat_Complete :: bool
  cat_SnapshotDigest :: string
  cat_ObservedAt :: time
  cat_ManifestCount :: int
  cat_BlobCount :: int

record registry_catalog_snapshot =
  cs_Observation :: registry_catalog_observation
  cs_Manifests :: "registry_manifest list"
  cs_Blobs :: "registry_blob list"
  cs_Children :: "registry_manifest_link list"
  cs_BlobLinks :: "registry_manifest_blob_link list"

record registry_inventory_observation =
  inv_RegistryTargetID :: string
  inv_Revision :: string
  inv_Complete :: bool
  inv_Repositories :: "string list"
  inv_ObservedAt :: time

datatype registry_authority =
  RegistryAuthorityGitIntent | RegistryAuthorityRuntime | RegistryAuthorityOperations | RegistryAuthorityOther string

record registry_authority_observation =
  auth_RegistryTargetID :: string
  auth_ServiceID :: string
  auth_Authority :: registry_authority
  auth_Revision :: string
  auth_Complete :: bool
  auth_SnapshotDigest :: string
  auth_ObservedAt :: time

datatype registry_reference_kind =
  RegistryReferenceCurrentGitIntent | RegistryReferenceObservedRunning | RegistryReferencePin
  | RegistryReferenceActiveOperation | RegistryReferenceOther string

record registry_artifact_reference =
  ref_RegistryTargetID :: string
  ref_ServiceID :: string
  ref_Repository :: string
  ref_Digest :: string
  ref_Kind :: registry_reference_kind
  ref_ReferenceKey :: string
  ref_SourceRevision :: string
  ref_CreatedAt :: time
  ref_ObservedAt :: time

datatype registry_artifact_availability =
  RegistryArtifactPresent | RegistryArtifactExpired | RegistryArtifactMissing | RegistryArtifactOther string

record registry_release =
  rel_ID :: string
  rel_RegistryTargetID :: string
  rel_ServiceID :: string
  rel_Repository :: string
  rel_RootDigest :: string
  rel_CreatedAt :: time
  rel_SucceededAt :: "time option"
  rel_Availability :: registry_artifact_availability
  rel_AvailabilityObservedAt :: "time option"

record registry_cache_generation =
  cache_ID :: string
  cache_RegistryTargetID :: string
  cache_ServiceID :: string
  cache_Repository :: string
  cache_PlatformSet :: string
  cache_TrustLane :: string
  cache_CacheSchema :: string
  cache_BuildDefinitionHash :: string
  cache_Generation :: int
  cache_RootDigest :: string
  cache_SizeBytes :: int
  cache_State :: string
  cache_ActiveImports :: int
  cache_ActiveExports :: int
  cache_CreatedAt :: time
  cache_CompletedAt :: "time option"
  cache_LastUsedAt :: time

record registry_lifecycle_snapshot =
  snap_Target :: registry_target
  snap_Policy :: service_registry_policy
  snap_Inventory :: registry_inventory_observation
  snap_CatalogObservations :: "registry_catalog_observation list"
  snap_AuthorityObservations :: "registry_authority_observation list"
  snap_References :: "registry_artifact_reference list"
  snap_Releases :: "registry_release list"
  snap_CacheGenerations :: "registry_cache_generation list"
  snap_Manifests :: "registry_manifest list"
  snap_Blobs :: "registry_blob list"
  snap_Children :: "registry_manifest_link list"
  snap_BlobLinks :: "registry_manifest_blob_link list"
  snap_AsOf :: time

datatype registry_cleanup_disposition = RegistryCleanupProtect | RegistryCleanupDelete

record registry_cleanup_item =
  item_Ordinal :: nat
  item_Repository :: string
  item_ResourceKind :: string
  item_Digest :: string
  item_Disposition :: registry_cleanup_disposition
  item_Action :: string
  item_EstimatedBytes :: int
  item_Reasons :: "string list"
  item_State :: string
  item_ProviderMessage :: string
  item_UpdatedAt :: time

record registry_cleanup_summary =
  sum_ProtectedManifests :: int
  sum_DeletedManifests :: int
  sum_GarbageCollectBlobs :: int
  sum_EstimatedBytes :: int
  sum_CacheBytesBefore :: int
  sum_CacheBytesAfter :: int
  sum_CacheQuotaSatisfied :: bool

record registry_cleanup_plan =
  plan_ID :: string
  plan_RegistryTargetID :: string
  plan_ServiceID :: string
  plan_Automatic :: bool
  plan_SnapshotToken :: string
  plan_AuthorityToken :: string
  plan_PlanDigest :: string
  plan_State :: string
  plan_Policy :: service_registry_policy
  plan_Inventory :: registry_inventory_observation
  plan_Catalogs :: "registry_catalog_observation list"
  plan_Authorities :: "registry_authority_observation list"
  plan_Summary :: registry_cleanup_summary
  plan_Items :: "registry_cleanup_item list"
  plan_CreatedAt :: time
  plan_ClaimedAt :: "time option"
  plan_CompletedAt :: "time option"
  plan_Failure :: string

datatype registry_error =
  ErrRegistryExternalLifecycle | ErrRegistryPolicyInvalid | ErrRegistryObservationIncomplete
  | ErrRegistryGraphInvalid | ErrRegistrySnapshotStale | ErrRegistryLeaseLost | ErrNotFound | ErrConflict | OutOfFuel

section \<open>Identifiers\<close>

definition validSafeIdentity :: "string \<Rightarrow> bool" where
  "validSafeIdentity value \<longleftrightarrow>
     \<not> (value = [] \<or> 256 < length value \<or> trim_space value \<noteq> value) \<and>
     list_all (\<lambda>(r, _). (97 \<le> r \<and> r \<le> 122) \<or> (65 \<le> r \<and> r \<le> 90) \<or> (48 \<le> r \<and> r \<le> 57) \<or>
       r \<in> byte ` set ''._:@/+'' \<or> r = byte CHR ''-'') (runes value)"

definition component_alnum :: "char \<Rightarrow> bool" where
  "component_alnum b \<longleftrightarrow> is_digit b \<or> is_lower b"

text \<open>What is left of a repository component after one separator.\<close>

definition after_separator :: "string \<Rightarrow> string option" where
  "after_separator s =
     (case s of
        [] \<Rightarrow> None
      | d # ds \<Rightarrow>
          if d = CHR ''.'' then Some ds
          else if d = CHR ''_'' then
            Some (case ds of [] \<Rightarrow> [] | e # es \<Rightarrow> if e = CHR ''_'' then es else ds)
          else if d = CHR ''-'' then Some (dropWhile (\<lambda>e. e = CHR ''-'') ds)
          else None)"

lemma after_separator_shorter: "after_separator s = Some r \<Longrightarrow> length r < length s"
proof (cases s)
  case (Cons d ds)
  have "length (dropWhile (\<lambda>e. e = CHR ''-'') ds) \<le> length ds" by (rule length_dropWhile_le)
  then show "after_separator s = Some r \<Longrightarrow> length r < length s"
    using Cons by (auto simp: after_separator_def split: if_splits list.splits)
qed (simp add: after_separator_def)

function component_loop :: "string \<Rightarrow> bool" where
  "component_loop [] = True"
| "component_loop (c # cs) =
     (if \<not> component_alnum c then False
      else (case dropWhile component_alnum cs of
              [] \<Rightarrow> True
            | d # ds \<Rightarrow>
                (case after_separator (d # ds) of
                   None \<Rightarrow> False
                 | Some r \<Rightarrow>
                     if r = [] \<or> \<not> component_alnum (hd r) then False else component_loop r)))"
  by pat_completeness auto
termination
proof (relation "measure length", goal_cases)
  case (2 c cs d ds r)
  have "length (d # ds) \<le> length cs" by (metis 2(2) length_dropWhile_le)
  then show ?case using after_separator_shorter [of "d # ds" r] 2 by simp
qed simp

definition validRepositoryComponent :: "string \<Rightarrow> bool" where
  "validRepositoryComponent component \<longleftrightarrow> component \<noteq> [] \<and> component_loop component"

definition validRepository :: "string \<Rightarrow> bool" where
  "validRepository repository \<longleftrightarrow>
     \<not> (length repository < 1 \<or> 255 < length repository \<or> has_prefix repository ''/'' \<or> has_suffix repository ''/'') \<and>
     list_all validRepositoryComponent (split_on CHR ''/'' repository)"

definition repositoryInTarget :: "registry_target \<Rightarrow> string \<Rightarrow> bool" where
  "repositoryInTarget target repository \<longleftrightarrow>
     validRepository repository \<and>
     (let prefix = (if has_suffix (tgt_RepositoryPrefix target) ''/''
                    then butlast (tgt_RepositoryPrefix target) else tgt_RepositoryPrefix target)
      in repository = prefix \<or> has_prefix repository (prefix @ ''/''))"

definition validDigest :: "string \<Rightarrow> bool" where
  "validDigest value \<longleftrightarrow>
     length value = length ''sha256:'' + 64 \<and> has_prefix value ''sha256:'' \<and>
     list_all is_hex (drop (length ''sha256:'') value)"

definition nodeKey :: "string \<Rightarrow> string \<Rightarrow> string" where
  "nodeKey repository digest = repository @ [CHR 0x00] @ digest"

text \<open>A node key is unambiguous: a digest the planner accepts has a fixed length.\<close>

lemma nodeKey_inject:
  assumes "validDigest d" and "validDigest d'"
  shows "nodeKey r d = nodeKey r' d' \<longleftrightarrow> r = r' \<and> d = d'"
  using assms by (auto simp: nodeKey_def validDigest_def append_eq_append_conv)

section \<open>Policies\<close>

definition DefaultPolicy :: "string \<Rightarrow> string \<Rightarrow> string \<Rightarrow> time \<Rightarrow> service_registry_policy" where
  "DefaultPolicy targetID serviceID repository now =
     \<lparr>pol_RegistryTargetID = targetID, pol_ServiceID = serviceID, pol_Repository = repository,
      pol_KeepLastSuccessful = 10, pol_MinimumSafetyAge = 24 * hour,
      pol_CacheUnusedExpiry = 7 * 24 * hour, pol_CacheByteQuota = 10 * 2 ^ 30,
      pol_CreatedAt = now, pol_UpdatedAt = now\<rparr>"

definition NormalizePolicy :: "service_registry_policy \<Rightarrow> time \<Rightarrow> service_registry_policy" where
  "NormalizePolicy policy now =
     policy\<lparr>pol_KeepLastSuccessful :=
              (if pol_KeepLastSuccessful policy = 0 then 10 else pol_KeepLastSuccessful policy),
            pol_MinimumSafetyAge :=
              (if pol_MinimumSafetyAge policy = 0 then 24 * hour else pol_MinimumSafetyAge policy),
            pol_CacheUnusedExpiry :=
              (if pol_CacheUnusedExpiry policy = 0 then 7 * 24 * hour else pol_CacheUnusedExpiry policy),
            pol_CacheByteQuota :=
              (if pol_CacheByteQuota policy = 0 then 10 * 2 ^ 30 else pol_CacheByteQuota policy),
            pol_CreatedAt := (if pol_CreatedAt policy = 0 then now else pol_CreatedAt policy),
            pol_UpdatedAt := now\<rparr>"

definition ValidatePolicy :: "service_registry_policy \<Rightarrow> registry_error + unit" where
  "ValidatePolicy policy =
     (if \<not> validSafeIdentity (pol_RegistryTargetID policy) \<or> \<not> validSafeIdentity (pol_ServiceID policy) \<or>
         \<not> validRepository (pol_Repository policy) then Inl ErrRegistryPolicyInvalid
      else if pol_KeepLastSuccessful policy < 1 \<or> 100 < pol_KeepLastSuccessful policy then
        Inl ErrRegistryPolicyInvalid
      else if pol_MinimumSafetyAge policy < minute \<or> pol_CacheUnusedExpiry policy < minute then
        Inl ErrRegistryPolicyInvalid
      else if pol_CacheByteQuota policy \<le> 0 then Inl ErrRegistryPolicyInvalid
      else Inr ())"

definition ValidateCatalog :: "registry_catalog_snapshot \<Rightarrow> registry_error + unit" where
  "ValidateCatalog snapshot =
     (let observation = cs_Observation snapshot;
          target = cat_RegistryTargetID observation;
          repository = cat_Repository observation in
      if target = [] \<or> repository = [] \<or> cat_Revision observation \<le> 0 \<or> cat_ObservedAt observation = 0 then
        Inl ErrRegistryGraphInvalid
      else if \<not> cat_Complete observation then
        (if cs_Manifests snapshot \<noteq> [] \<or> cs_Blobs snapshot \<noteq> [] \<or> cs_Children snapshot \<noteq> [] \<or> cs_BlobLinks snapshot \<noteq> []
         then Inl ErrRegistryGraphInvalid else Inr ())
      else if cat_ManifestCount observation \<noteq> int (length (cs_Manifests snapshot)) \<or>
              cat_BlobCount observation \<noteq> int (length (cs_Blobs snapshot)) then Inl ErrRegistryGraphInvalid
      else
        bindE (foldE (\<lambda>manifests manifest.
            if man_RegistryTargetID manifest \<noteq> target \<or> man_Repository manifest \<noteq> repository \<or>
               \<not> validDigest (man_Digest manifest) \<or> man_SizeBytes manifest < 0 then Inl ErrRegistryGraphInvalid
            else if man_Kind manifest \<noteq> RegistryManifestIndex \<and> man_Kind manifest \<noteq> RegistryManifestImage then
              Inl ErrRegistryGraphInvalid
            else if man_Digest manifest \<in> fst ` set manifests then Inl ErrRegistryGraphInvalid
            else Inr (AList.update (man_Digest manifest) manifest manifests)) [] (cs_Manifests snapshot))
          (\<lambda>manifests.
        bindE (foldE (\<lambda>blobs blob.
            if blob_RegistryTargetID blob \<noteq> target \<or> blob_Repository blob \<noteq> repository \<or>
               \<not> validDigest (blob_Digest blob) \<or> blob_SizeBytes blob < 0 then Inl ErrRegistryGraphInvalid
            else if blob_Digest blob \<in> set blobs then Inl ErrRegistryGraphInvalid
            else Inr (blob_Digest blob # blobs)) [] (cs_Blobs snapshot))
          (\<lambda>blobs.
        bindE (foldE (\<lambda>(children, seen) link.
            let parent = map_of manifests (link_ParentDigest link);
                key = nodeKey (link_ParentDigest link) (link_ChildDigest link) in
            if link_Repository link \<noteq> repository \<or> parent = None \<or>
               map_of manifests (link_ChildDigest link) = None \<or>
               map_option man_Kind parent \<noteq> Some RegistryManifestIndex \<or>
               link_ParentDigest link = link_ChildDigest link then Inl ErrRegistryGraphInvalid
            else if key \<in> set seen then Inl ErrRegistryGraphInvalid
            else Inr (AList.update (link_ParentDigest link)
                        (succs children (link_ParentDigest link) @ [link_ChildDigest link]) children,
                      key # seen)) ([], []) (cs_Children snapshot))
          (\<lambda>(children, _).
        if cyclic children then Inl ErrRegistryGraphInvalid
        else bindE (foldE (\<lambda>seen link.
            let key = nodeKey (blink_ManifestDigest link) (blink_BlobDigest link) in
            if blink_Repository link \<noteq> repository \<or> map_of manifests (blink_ManifestDigest link) = None \<or>
               blink_BlobDigest link \<notin> set blobs then Inl ErrRegistryGraphInvalid
            else if key \<in> set seen then Inl ErrRegistryGraphInvalid
            else Inr (key # seen)) [] (cs_BlobLinks snapshot))
          (\<lambda>_. Inr ())))))"

end
