(* ===== verification/Registry_Tokens.thy ===== *)
theory Registry_Tokens
  imports Registry_Model
begin

text \<open>
  The fingerprints of \<open>internal/store/registry.go\<close>: which fields of a snapshot, a plan or
  an observation a token binds, and in which canonical order.  \<open>digestJSON\<close>, SHA-256 over
  the JSON encoding, is applied to six types there; \<open>digests\<close> holds one function for each
  and every definition takes it as an argument.  \<open>sort.Slice\<close> is the stable
  \<^const>\<open>sort_key\<close>; where Go leaves the order of equal elements open, the keys are unique in
  the store.
\<close>

record registry_protection_snapshot =
  ps_Observation :: registry_authority_observation
  ps_References :: "registry_artifact_reference list"

record registry_snapshot_token_view =
  tv_Target :: registry_target
  tv_Policy :: service_registry_policy
  tv_Inventory :: registry_inventory_observation
  tv_Catalogs :: "registry_catalog_observation list"
  tv_Authorities :: "registry_authority_observation list"
  tv_References :: "registry_artifact_reference list"
  tv_Releases :: "registry_release list"
  tv_Caches :: "registry_cache_generation list"
  tv_Manifests :: "registry_manifest list"
  tv_Blobs :: "registry_blob list"
  tv_Children :: "registry_manifest_link list"
  tv_BlobLinks :: "registry_manifest_blob_link list"

record authority_token_view =
  av_Target :: registry_target
  av_Policy :: service_registry_policy
  av_Authorities :: "(registry_authority \<times> bool) list"
  av_References :: "registry_artifact_reference list"
  av_Releases :: "registry_release list"
  av_Caches :: "registry_cache_generation list"

record plan_view =
  pv_RegistryTargetID :: string
  pv_ServiceID :: string
  pv_Automatic :: bool
  pv_SnapshotToken :: string
  pv_AuthorityToken :: string
  pv_Policy :: service_registry_policy
  pv_Inventory :: registry_inventory_observation
  pv_Catalogs :: "registry_catalog_observation list"
  pv_Authorities :: "registry_authority_observation list"
  pv_Summary :: registry_cleanup_summary
  pv_Items :: "registry_cleanup_item list"

record digests =
  dj_snapshot :: "registry_snapshot_token_view \<Rightarrow> string"
  dj_authority :: "authority_token_view \<Rightarrow> string"
  dj_versioned :: "string \<times> authority_token_view \<Rightarrow> string"
  dj_plan :: "plan_view \<Rightarrow> string"
  dj_catalog :: "registry_catalog_snapshot \<Rightarrow> string"
  dj_protection :: "registry_protection_snapshot \<Rightarrow> string"

section \<open>Canonical order\<close>

definition reference_kind_string :: "registry_reference_kind \<Rightarrow> string" where
  "reference_kind_string kind =
     (case kind of
        RegistryReferenceCurrentGitIntent \<Rightarrow> ''current-git-intent''
      | RegistryReferenceObservedRunning \<Rightarrow> ''observed-running''
      | RegistryReferencePin \<Rightarrow> ''pin''
      | RegistryReferenceActiveOperation \<Rightarrow> ''active-operation''
      | RegistryReferenceOther other \<Rightarrow> other)"

definition authority_string :: "registry_authority \<Rightarrow> string" where
  "authority_string authority =
     (case authority of
        RegistryAuthorityGitIntent \<Rightarrow> ''git-intent''
      | RegistryAuthorityRuntime \<Rightarrow> ''runtime''
      | RegistryAuthorityOperations \<Rightarrow> ''operations''
      | RegistryAuthorityOther other \<Rightarrow> other)"

definition sortedCatalogs :: "registry_catalog_observation list \<Rightarrow> registry_catalog_observation list" where
  "sortedCatalogs catalogs = sort_key (\<lambda>c. (cat_Repository c, cat_Revision c)) catalogs"

definition sortedAuthorities :: "registry_authority_observation list \<Rightarrow> registry_authority_observation list" where
  "sortedAuthorities authorities = sort_key (\<lambda>a. authority_string (auth_Authority a)) authorities"

definition canonicalRegistrySnapshot :: "registry_lifecycle_snapshot \<Rightarrow> registry_snapshot_token_view" where
  "canonicalRegistrySnapshot snapshot =
     \<lparr>tv_Target = snap_Target snapshot,
      tv_Policy = snap_Policy snapshot,
      tv_Inventory = (snap_Inventory snapshot)\<lparr>inv_Repositories := sort (inv_Repositories (snap_Inventory snapshot))\<rparr>,
      tv_Catalogs = sortedCatalogs (snap_CatalogObservations snapshot),
      tv_Authorities = sortedAuthorities (snap_AuthorityObservations snapshot),
      tv_References = sort_key (\<lambda>r. (reference_kind_string (ref_Kind r), ref_ReferenceKey r, ref_Repository r, ref_Digest r))
                        (snap_References snapshot),
      tv_Releases = sort_key rel_ID (snap_Releases snapshot),
      tv_Caches = sort_key cache_ID (snap_CacheGenerations snapshot),
      tv_Manifests = sort_key (\<lambda>m. (man_Repository m, man_Digest m)) (snap_Manifests snapshot),
      tv_Blobs = sort_key (\<lambda>b. (blob_Repository b, blob_Digest b)) (snap_Blobs snapshot),
      tv_Children = sort_key (\<lambda>l. (link_Repository l, link_ParentDigest l, link_ChildDigest l)) (snap_Children snapshot),
      tv_BlobLinks = sort_key (\<lambda>l. (blink_Repository l, blink_ManifestDigest l, blink_BlobDigest l))
                       (snap_BlobLinks snapshot)\<rparr>"

section \<open>Tokens\<close>

definition registrySemanticSnapshotPrefix :: string where
  "registrySemanticSnapshotPrefix = ''registry-semantic-v2:''"

definition semantic_catalog :: "registry_catalog_observation \<Rightarrow> registry_catalog_observation" where
  "semantic_catalog c = c\<lparr>cat_ID := [], cat_Revision := 0, cat_SnapshotDigest := [], cat_ObservedAt := 0\<rparr>"

definition semantic_authority :: "registry_authority_observation \<Rightarrow> registry_authority_observation" where
  "semantic_authority a = a\<lparr>auth_Revision := [], auth_SnapshotDigest := [], auth_ObservedAt := 0\<rparr>"

definition semantic_reference :: "registry_artifact_reference \<Rightarrow> registry_artifact_reference" where
  "semantic_reference r = r\<lparr>ref_ObservedAt := 0\<rparr>"

definition semantic_manifest :: "registry_manifest \<Rightarrow> registry_manifest" where
  "semantic_manifest m = m\<lparr>man_LastObservedAt := 0, man_LastObservationRevision := 0\<rparr>"

definition semantic_blob :: "registry_blob \<Rightarrow> registry_blob" where
  "semantic_blob b = b\<lparr>blob_LastObservedAt := 0, blob_LastObservationRevision := 0\<rparr>"

definition semantic_release :: "registry_release \<Rightarrow> registry_release" where
  "semantic_release r = r\<lparr>rel_AvailabilityObservedAt := None\<rparr>"

definition semantic_view :: "registry_lifecycle_snapshot \<Rightarrow> registry_snapshot_token_view" where
  "semantic_view snapshot =
     (let view = canonicalRegistrySnapshot snapshot in
      view\<lparr>tv_Inventory := (tv_Inventory view)\<lparr>inv_Revision := [], inv_ObservedAt := 0\<rparr>,
           tv_Catalogs := map semantic_catalog (tv_Catalogs view),
           tv_Authorities := map semantic_authority (tv_Authorities view),
           tv_References := map semantic_reference (tv_References view),
           tv_Manifests := map semantic_manifest (tv_Manifests view),
           tv_Blobs := map semantic_blob (tv_Blobs view),
           tv_Releases := map semantic_release (tv_Releases view)\<rparr>)"

definition RegistrySnapshotToken :: "digests \<Rightarrow> registry_lifecycle_snapshot \<Rightarrow> string" where
  "RegistrySnapshotToken dj snapshot = registrySemanticSnapshotPrefix @ dj_snapshot dj (semantic_view snapshot)"

definition RegistryCleanupUsesSemanticSnapshot :: "registry_cleanup_plan \<Rightarrow> bool" where
  "RegistryCleanupUsesSemanticSnapshot plan \<longleftrightarrow> has_prefix (plan_SnapshotToken plan) registrySemanticSnapshotPrefix"

definition authority_view :: "registry_lifecycle_snapshot \<Rightarrow> bool \<Rightarrow> authority_token_view" where
  "authority_view snapshot semantic =
     (let view = canonicalRegistrySnapshot snapshot in
      \<lparr>av_Target = tv_Target view, av_Policy = tv_Policy view,
       av_Authorities = map (\<lambda>a. (auth_Authority a, auth_Complete a)) (tv_Authorities view),
       av_References = map semantic_reference (tv_References view),
       av_Releases = (if semantic then map semantic_release (tv_Releases view) else tv_Releases view),
       av_Caches = tv_Caches view\<rparr>)"

definition registryAuthorityToken :: "digests \<Rightarrow> registry_lifecycle_snapshot \<Rightarrow> bool \<Rightarrow> string" where
  "registryAuthorityToken dj snapshot semantic =
     (if semantic then dj_versioned dj (registrySemanticSnapshotPrefix, authority_view snapshot semantic)
      else dj_authority dj (authority_view snapshot semantic))"

definition RegistryAuthorityToken :: "digests \<Rightarrow> registry_lifecycle_snapshot \<Rightarrow> string" where
  "RegistryAuthorityToken dj snapshot = registryAuthorityToken dj snapshot True"

definition RegistryAuthorityTokenForPlan ::
  "digests \<Rightarrow> registry_lifecycle_snapshot \<Rightarrow> registry_cleanup_plan \<Rightarrow> string" where
  "RegistryAuthorityTokenForPlan dj snapshot plan =
     registryAuthorityToken dj snapshot (RegistryCleanupUsesSemanticSnapshot plan)"

definition plan_digest_view :: "registry_cleanup_plan \<Rightarrow> plan_view" where
  "plan_digest_view plan =
     \<lparr>pv_RegistryTargetID = plan_RegistryTargetID plan, pv_ServiceID = plan_ServiceID plan,
      pv_Automatic = plan_Automatic plan, pv_SnapshotToken = plan_SnapshotToken plan,
      pv_AuthorityToken = plan_AuthorityToken plan, pv_Policy = plan_Policy plan,
      pv_Inventory = (plan_Inventory plan)\<lparr>inv_Repositories := sort (inv_Repositories (plan_Inventory plan))\<rparr>,
      pv_Catalogs = sortedCatalogs (plan_Catalogs plan),
      pv_Authorities = sortedAuthorities (plan_Authorities plan),
      pv_Summary = plan_Summary plan,
      pv_Items = sort_key (\<lambda>i. (item_Repository i, item_ResourceKind i, item_Digest i))
                   (map (\<lambda>i. i\<lparr>item_State := [], item_ProviderMessage := [], item_UpdatedAt := 0\<rparr>) (plan_Items plan))\<rparr>"

definition RegistryCleanupPlanDigest :: "digests \<Rightarrow> registry_cleanup_plan \<Rightarrow> string" where
  "RegistryCleanupPlanDigest dj plan = dj_plan dj (plan_digest_view plan)"

definition RegistryCatalogSnapshotDigest :: "digests \<Rightarrow> registry_catalog_snapshot \<Rightarrow> string" where
  "RegistryCatalogSnapshotDigest dj snapshot =
     (let observation = (cs_Observation snapshot)\<lparr>cat_ID := [], cat_SnapshotDigest := []\<rparr> in
      dj_catalog dj
        \<lparr>cs_Observation = observation,
         cs_Manifests = sort_key man_Digest
           (map (\<lambda>m. m\<lparr>man_Present := True, man_LastObservationRevision := cat_Revision observation,
                        man_LastObservedAt := cat_ObservedAt observation, man_DeletedAt := None\<rparr>) (cs_Manifests snapshot)),
         cs_Blobs = sort_key blob_Digest
           (map (\<lambda>b. b\<lparr>blob_Present := True, blob_LastObservationRevision := cat_Revision observation,
                        blob_LastObservedAt := cat_ObservedAt observation, blob_DeletedAt := None\<rparr>) (cs_Blobs snapshot)),
         cs_Children = sort_key (\<lambda>l. (link_ParentDigest l, link_ChildDigest l)) (cs_Children snapshot),
         cs_BlobLinks = sort_key (\<lambda>l. (blink_ManifestDigest l, blink_BlobDigest l)) (cs_BlobLinks snapshot)\<rparr>)"

definition RegistryProtectionSnapshotDigest :: "digests \<Rightarrow> registry_protection_snapshot \<Rightarrow> string" where
  "RegistryProtectionSnapshotDigest dj snapshot =
     dj_protection dj
       \<lparr>ps_Observation = (ps_Observation snapshot)\<lparr>auth_SnapshotDigest := []\<rparr>,
        ps_References = sort_key (\<lambda>r. (ref_ReferenceKey r, ref_Repository r, ref_Digest r)) (ps_References snapshot)\<rparr>"

section \<open>Resumable plans\<close>

text \<open>The loop of \<open>RegistryCleanupPlanCanResumeOfflineSweep\<close>: the pending blobs, or None on \<open>return false\<close>.\<close>

fun pending_blobs :: "registry_cleanup_item list \<Rightarrow> nat option" where
  "pending_blobs [] = Some 0"
| "pending_blobs (item # items) =
     (if item_Disposition item \<noteq> RegistryCleanupDelete then pending_blobs items
      else if item_State item = ''deleted'' then pending_blobs items
      else if item_State item = ''deleting'' \<or> item_State item = ''failed'' then
        (if item_ResourceKind item \<noteq> ''blob'' \<or> item_Action item \<noteq> ''garbage-collect-blob'' then None
         else map_option Suc (pending_blobs items))
      else None)"

definition RegistryCleanupPlanCanResumeOfflineSweep :: "registry_cleanup_plan \<Rightarrow> bool" where
  "RegistryCleanupPlanCanResumeOfflineSweep plan \<longleftrightarrow>
     plan_State plan = ''failed'' \<and> plan_Failure plan \<noteq> [] \<and>
     (case pending_blobs (plan_Items plan) of None \<Rightarrow> False | Some n \<Rightarrow> 0 < n)"

end
