(* ===== verification/Registry_Plan.thy ===== *)
theory Registry_Plan
  imports Registry_Tokens
begin

text \<open>
  The retention planner \<open>BuildCleanupPlan\<close> of \<open>internal/registry/lifecycle.go\<close> and the
  functions it calls, in the order of the source.  Reason sets and string sets are lists
  without repetition; the plan carries the tokens of \<open>Registry_Tokens\<close>.
\<close>

section \<open>The lifecycle graph\<close>

record lifecycle_graph =
  lg_manifests :: "(string, registry_manifest) gomap"
  lg_blobByDigest :: "(string, registry_blob list) gomap"
  lg_children :: "string graph"
  lg_manifestBlobs :: "(string, string list) gomap"

definition stringSet :: "string list \<Rightarrow> string list" where
  "stringSet values = remdups (filter (\<lambda>value. value \<noteq> []) values)"

definition digest_at :: "(string, registry_manifest) gomap \<Rightarrow> string \<Rightarrow> string" where
  "digest_at manifests key = (case map_of manifests key of None \<Rightarrow> [] | Some m \<Rightarrow> man_Digest m)"

definition bump :: "(string, int) gomap \<Rightarrow> string \<Rightarrow> (string, int) gomap" where
  "bump counts key = AList.update key (get_or 0 counts key + 1) counts"

fun latestCatalog :: "registry_catalog_observation list \<Rightarrow> string \<Rightarrow> registry_catalog_observation option" where
  "latestCatalog observations repository =
     foldl (\<lambda>latest observation.
       if cat_Repository observation = repository \<and>
          (case latest of None \<Rightarrow> True | Some l \<Rightarrow> cat_Revision observation > cat_Revision l)
       then Some observation else latest) None observations"

definition add_manifest_node ::
  "registry_lifecycle_snapshot \<Rightarrow> string list \<Rightarrow> (string, registry_manifest) gomap \<times> (string, int) gomap \<Rightarrow>
   registry_manifest \<Rightarrow> registry_error + (string, registry_manifest) gomap \<times> (string, int) gomap" where
  "add_manifest_node snapshot repositories acc manifest =
     (case acc of (manifests, countsM) \<Rightarrow>
      if \<not> man_Present manifest then Inr acc
      else
        let key = nodeKey (man_Repository manifest) (man_Digest manifest) in
        if man_RegistryTargetID manifest \<noteq> tgt_ID (snap_Target snapshot) \<or> \<not> validDigest (man_Digest manifest) \<or>
           man_Repository manifest \<notin> set repositories \<or> digest_at manifests key \<noteq> [] \<or>
           man_SizeBytes manifest < 0 \<or> man_FirstObservedAt manifest = 0 \<or>
           man_LastObservedAt manifest = 0 \<or> man_LastObservationRevision manifest \<le> 0 \<or>
           (man_Kind manifest \<noteq> RegistryManifestIndex \<and> man_Kind manifest \<noteq> RegistryManifestImage)
        then Inl ErrRegistryGraphInvalid
        else Inr (AList.update key manifest manifests, bump countsM (man_Repository manifest)))"

definition add_blob_node ::
  "registry_lifecycle_snapshot \<Rightarrow> string list \<Rightarrow> string list \<times> (string, registry_blob list) gomap \<times> (string, int) gomap \<Rightarrow>
   registry_blob \<Rightarrow> registry_error + string list \<times> (string, registry_blob list) gomap \<times> (string, int) gomap" where
  "add_blob_node snapshot repositories acc blob =
     (case acc of (blobNodes, blobByDigest, countsB) \<Rightarrow>
      if \<not> blob_Present blob then Inr acc
      else
        let key = nodeKey (blob_Repository blob) (blob_Digest blob) in
        if blob_RegistryTargetID blob \<noteq> tgt_ID (snap_Target snapshot) \<or> \<not> validDigest (blob_Digest blob) \<or>
           blob_Repository blob \<notin> set repositories \<or> blob_SizeBytes blob < 0 \<or>
           blob_FirstObservedAt blob = 0 \<or> blob_LastObservedAt blob = 0 \<or> blob_LastObservationRevision blob \<le> 0
        then Inl ErrRegistryGraphInvalid
        else if key \<in> set blobNodes then Inl ErrRegistryGraphInvalid
        else Inr (key # blobNodes,
                  AList.update (blob_Digest blob) (get_or [] blobByDigest (blob_Digest blob) @ [blob]) blobByDigest,
                  bump countsB (blob_Repository blob)))"

definition add_child_edge ::
  "(string, registry_manifest) gomap \<Rightarrow> string graph \<Rightarrow> registry_manifest_link \<Rightarrow> registry_error + string graph" where
  "add_child_edge manifests children link =
     (let parent = nodeKey (link_Repository link) (link_ParentDigest link);
          child = nodeKey (link_Repository link) (link_ChildDigest link) in
      if digest_at manifests parent = [] \<or> digest_at manifests child = [] \<or>
         map_option man_Kind (map_of manifests parent) \<noteq> Some RegistryManifestIndex
      then Inl ErrRegistryGraphInvalid
      else Inr (AList.update parent (succs children parent @ [child]) children))"

definition add_blob_edge ::
  "(string, registry_manifest) gomap \<Rightarrow> string list \<Rightarrow> (string, string list) gomap \<Rightarrow>
   registry_manifest_blob_link \<Rightarrow> registry_error + (string, string list) gomap" where
  "add_blob_edge manifests blobNodes manifestBlobs link =
     (let manifest = nodeKey (blink_Repository link) (blink_ManifestDigest link);
          blob = nodeKey (blink_Repository link) (blink_BlobDigest link) in
      if digest_at manifests manifest = [] then Inl ErrRegistryGraphInvalid
      else if blob \<notin> set blobNodes then Inl ErrRegistryGraphInvalid
      else Inr (AList.update manifest (get_or [] manifestBlobs manifest @ [blink_BlobDigest link]) manifestBlobs))"

definition check_release ::
  "registry_lifecycle_snapshot \<Rightarrow> (string, registry_manifest) gomap \<Rightarrow> unit \<Rightarrow> registry_release \<Rightarrow> registry_error + unit" where
  "check_release snapshot manifests u release =
     (if rel_RegistryTargetID release \<noteq> tgt_ID (snap_Target snapshot) \<or>
         rel_ServiceID release \<noteq> pol_ServiceID (snap_Policy snapshot) \<or>
         rel_Repository release \<noteq> pol_Repository (snap_Policy snapshot) then Inl ErrRegistryGraphInvalid
      else failIf (rel_Availability release = RegistryArtifactPresent \<and>
                   digest_at manifests (nodeKey (rel_Repository release) (rel_RootDigest release)) = [])
             ErrRegistryObservationIncomplete)"

definition cache_live :: "registry_cache_generation \<Rightarrow> bool" where
  "cache_live cache \<longleftrightarrow> cache_State cache \<noteq> ''deleted'' \<and> cache_State cache \<noteq> ''missing''"

definition counts_closed ::
  "registry_lifecycle_snapshot \<Rightarrow> (string, int) gomap \<Rightarrow> (string, int) gomap \<Rightarrow> string \<Rightarrow> bool" where
  "counts_closed snapshot countsM countsB repository =
     (case latestCatalog (snap_CatalogObservations snapshot) repository of
        None \<Rightarrow> False
      | Some observation \<Rightarrow>
          cat_Complete observation \<and> cat_ManifestCount observation = get_or 0 countsM repository \<and>
          cat_BlobCount observation = get_or 0 countsB repository)"

definition newLifecycleGraph :: "registry_lifecycle_snapshot \<Rightarrow> registry_error + lifecycle_graph" where
  "newLifecycleGraph snapshot =
     (let repositories = stringSet (inv_Repositories (snap_Inventory snapshot)) in
      bindE (foldE (add_manifest_node snapshot repositories) ([], []) (snap_Manifests snapshot)) (\<lambda>(manifests, countsM).
      bindE (foldE (add_blob_node snapshot repositories) ([], [], []) (snap_Blobs snapshot)) (\<lambda>(blobNodes, blobByDigest, countsB).
      bindE (foldE (add_child_edge manifests) [] (snap_Children snapshot)) (\<lambda>children.
      if cyclic children then Inl ErrRegistryGraphInvalid
      else
        bindE (foldE (add_blob_edge manifests blobNodes) [] (snap_BlobLinks snapshot)) (\<lambda>manifestBlobs.
        bindE (foldE (check_release snapshot manifests) () (snap_Releases snapshot)) (\<lambda>_.
        bindE (foldE (\<lambda>_ cache.
            failIf (cache_live cache \<and>
                    digest_at manifests (nodeKey (cache_Repository cache) (cache_RootDigest cache)) = [])
              ErrRegistryObservationIncomplete) () (snap_CacheGenerations snapshot)) (\<lambda>_.
        bindE (foldE (\<lambda>_ repository.
            failIf (\<not> counts_closed snapshot countsM countsB repository) ErrRegistryObservationIncomplete)
            () repositories) (\<lambda>_.
        Inr \<lparr>lg_manifests = manifests, lg_blobByDigest = blobByDigest, lg_children = children,
             lg_manifestBlobs = manifestBlobs\<rparr>))))))))"

section \<open>Completeness of the observations\<close>

definition check_authority ::
  "registry_lifecycle_snapshot \<Rightarrow> time \<Rightarrow> duration \<Rightarrow> registry_authority list \<Rightarrow>
   registry_authority_observation \<Rightarrow> registry_error + registry_authority list" where
  "check_authority snapshot now maxAge found observation =
     (if auth_RegistryTargetID observation \<noteq> tgt_ID (snap_Target snapshot) \<or>
         auth_ServiceID observation \<noteq> pol_ServiceID (snap_Policy snapshot) then Inl ErrRegistryObservationIncomplete
      else if auth_Authority observation \<notin>
                {RegistryAuthorityGitIntent, RegistryAuthorityRuntime, RegistryAuthorityOperations} \<or>
              auth_Authority observation \<in> set found \<or> \<not> auth_Complete observation \<or> auth_Revision observation = []
      then Inl ErrRegistryObservationIncomplete
      else if 0 < maxAge \<and> auth_ObservedAt observation < now - maxAge then Inl ErrRegistryObservationIncomplete
      else Inr (auth_Authority observation # found))"

definition catalog_current :: "registry_lifecycle_snapshot \<Rightarrow> time \<Rightarrow> duration \<Rightarrow> string \<Rightarrow> bool" where
  "catalog_current snapshot now maxAge repository =
     (case latestCatalog (snap_CatalogObservations snapshot) repository of
        None \<Rightarrow> False
      | Some observation \<Rightarrow>
          cat_Complete observation \<and> cat_RegistryTargetID observation = tgt_ID (snap_Target snapshot) \<and>
          \<not> (0 < maxAge \<and> cat_ObservedAt observation < now - maxAge))"

definition validateCompleteness ::
  "registry_lifecycle_snapshot \<Rightarrow> time \<Rightarrow> duration \<Rightarrow> registry_error + unit" where
  "validateCompleteness snapshot now maxAge =
     (let inventory = snap_Inventory snapshot; repositories = stringSet (inv_Repositories inventory) in
      if \<not> inv_Complete inventory \<or> inv_RegistryTargetID inventory \<noteq> tgt_ID (snap_Target snapshot) \<or>
         inv_Revision inventory = [] then Inl ErrRegistryObservationIncomplete
      else if 0 < maxAge \<and> inv_ObservedAt inventory < now - maxAge then Inl ErrRegistryObservationIncomplete
      else if length repositories \<noteq> length (inv_Repositories inventory) \<or>
              pol_Repository (snap_Policy snapshot) \<notin> set repositories then Inl ErrRegistryObservationIncomplete
      else
        bindE (foldE (\<lambda>_ cache.
            failIf (cache_RegistryTargetID cache \<noteq> tgt_ID (snap_Target snapshot) \<or>
                    cache_ServiceID cache \<noteq> pol_ServiceID (snap_Policy snapshot) \<or>
                    cache_Repository cache \<notin> set repositories) ErrRegistryObservationIncomplete)
            () (snap_CacheGenerations snapshot)) (\<lambda>_.
        bindE (foldE (\<lambda>_ repository.
            failIf (\<not> catalog_current snapshot now maxAge repository) ErrRegistryObservationIncomplete)
            () repositories) (\<lambda>_.
        bindE (foldE (check_authority snapshot now maxAge) [] (snap_AuthorityObservations snapshot)) (\<lambda>found.
        failIf (\<exists>authority \<in> {RegistryAuthorityGitIntent, RegistryAuthorityRuntime, RegistryAuthorityOperations}.
                  authority \<notin> set found) ErrRegistryObservationIncomplete))))"

section \<open>Releases\<close>

type_synonym reasons = "(string, string list) gomap"

definition protect_release_step ::
  "registry_lifecycle_snapshot \<Rightarrow> lifecycle_graph \<Rightarrow> string list \<times> int \<times> reasons \<Rightarrow> registry_release \<Rightarrow>
   string list \<times> int \<times> reasons" where
  "protect_release_step snapshot graph acc release =
     (case acc of (seen, retained, prot) \<Rightarrow>
      let key = nodeKey (rel_Repository release) (rel_RootDigest release) in
      if rel_RegistryTargetID release \<noteq> tgt_ID (snap_Target snapshot) \<or>
         rel_ServiceID release \<noteq> pol_ServiceID (snap_Policy snapshot) \<or>
         rel_SucceededAt release = None \<or> rel_Availability release \<noteq> RegistryArtifactPresent then acc
      else if digest_at (lg_manifests graph) key = [] then acc
      else if key \<in> set seen then acc
      else if retained < pol_KeepLastSuccessful (snap_Policy snapshot) then
        (key # seen, retained + 1, addReason prot key ''retained-success-window'')
      else (key # seen, retained, prot))"

text \<open>Newest first: by creation time, then by identifier, both descending.\<close>

definition releases_newest_first :: "registry_release list \<Rightarrow> registry_release list" where
  "releases_newest_first releases = rev (sort_key (\<lambda>r. (rel_CreatedAt r, rel_ID r)) releases)"

definition protectSuccessfulReleases ::
  "registry_lifecycle_snapshot \<Rightarrow> lifecycle_graph \<Rightarrow> reasons \<Rightarrow> reasons" where
  "protectSuccessfulReleases snapshot graph prot =
     snd (snd (foldl (protect_release_step snapshot graph) ([], 0, prot)
                 (releases_newest_first (snap_Releases snapshot))))"

section \<open>Build caches\<close>

definition maxBlobSize :: "registry_blob list \<Rightarrow> int" where
  "maxBlobSize blobs = foldl (\<lambda>size blob. if blob_SizeBytes blob > size then blob_SizeBytes blob else size) 0 blobs"

definition add_blob_sizes ::
  "lifecycle_graph \<Rightarrow> string list \<times> int \<Rightarrow> string list \<Rightarrow> string list \<times> int" where
  "add_blob_sizes graph acc digests =
     foldl (\<lambda>(seenBlobs, size) digest.
       if digest \<in> set seenBlobs then (seenBlobs, size)
       else (digest # seenBlobs, i64 (size + maxBlobSize (get_or [] (lg_blobByDigest graph) digest))))
       acc digests"

function observed_size_loop ::
  "lifecycle_graph \<Rightarrow> string list \<Rightarrow> string list \<Rightarrow> string list \<Rightarrow> int \<Rightarrow> int" where
  "observed_size_loop graph [] seenManifests seenBlobs sz = sz"
| "observed_size_loop graph (key # queue) seenManifests seenBlobs sz =
     (if key \<in> set seenManifests then observed_size_loop graph queue seenManifests seenBlobs sz
      else (case map_of (lg_manifests graph) key of
              None \<Rightarrow> observed_size_loop graph queue seenManifests seenBlobs sz
            | Some manifest \<Rightarrow>
                (case add_blob_sizes graph (seenBlobs, i64 (sz + man_SizeBytes manifest))
                        (get_or [] (lg_manifestBlobs graph) key) of
                   (seenBlobs', sz') \<Rightarrow>
                     observed_size_loop graph (queue @ succs (lg_children graph) key)
                       (key # seenManifests) seenBlobs' sz')))"
  by pat_completeness auto
termination
proof (relation "inv_image (finite_psubset <*lex*> less_than)
    (\<lambda>(graph, queue, seenManifests, seenBlobs, sz). (keys (lg_manifests graph) - set seenManifests, length queue))",
    goal_cases)
  case 4
  then show ?case by (auto simp: finite_psubset_def dest: map_of_in_keys)
qed auto

definition cacheRootObservedSize :: "lifecycle_graph \<Rightarrow> string \<Rightarrow> int" where
  "cacheRootObservedSize graph root = observed_size_loop graph [root] [] [] 0"

record root_info =
  root_key :: string
  root_size :: int
  root_lastUsed :: time
  root_generation :: int
  root_id :: string

definition empty_root :: root_info where
  "empty_root = \<lparr>root_key = [], root_size = 0, root_lastUsed = 0, root_generation = 0, root_id = []\<rparr>"

definition cache_key :: "registry_cache_generation \<Rightarrow> string" where
  "cache_key generation = nodeKey (cache_Repository generation) (cache_RootDigest generation)"

definition merge_root :: "lifecycle_graph \<Rightarrow> root_info \<Rightarrow> registry_cache_generation \<Rightarrow> root_info" where
  "merge_root graph root generation =
     (let key = cache_key generation;
          size = (if cache_SizeBytes generation = 0 then cacheRootObservedSize graph key
                  else cache_SizeBytes generation);
          newer = (root_id root = [] \<or> cache_Generation generation < root_generation root \<or>
                   (cache_Generation generation = root_generation root \<and> cache_ID generation < root_id root)) in
      root\<lparr>root_key := key,
           root_size := (if size > root_size root then size else root_size root),
           root_lastUsed := (if root_lastUsed root = 0 \<or> root_lastUsed root < cache_LastUsedAt generation
                             then cache_LastUsedAt generation else root_lastUsed root),
           root_generation := (if newer then cache_Generation generation else root_generation root),
           root_id := (if newer then cache_ID generation else root_id root)\<rparr>)"

definition cache_roots ::
  "lifecycle_graph \<Rightarrow> registry_cache_generation list \<Rightarrow> (string, root_info) gomap" where
  "cache_roots graph generations =
     foldl (\<lambda>roots generation.
       AList.update (cache_key generation)
         (merge_root graph (get_or empty_root roots (cache_key generation)) generation) roots)
       [] (filter cache_live generations)"

text \<open>The retention lane of a generation, \<open>strings.Join(..., "\x00")\<close>.\<close>

definition cache_lane :: "registry_cache_generation \<Rightarrow> string" where
  "cache_lane generation =
     cache_PlatformSet generation @ [CHR 0x00] @ cache_TrustLane generation @ [CHR 0x00] @ cache_CacheSchema generation"

definition cache_groups ::
  "registry_cache_generation list \<Rightarrow> (string, registry_cache_generation list) gomap" where
  "cache_groups generations =
     foldl (\<lambda>groups generation.
       AList.update (cache_lane generation) (get_or [] groups (cache_lane generation) @ [generation]) groups)
       [] (filter cache_live generations)"

definition cache_active :: "registry_cache_generation \<Rightarrow> bool" where
  "cache_active generation \<longleftrightarrow> cache_State generation = ''exporting'' \<or> 0 < cache_ActiveImports generation \<or>
     0 < cache_ActiveExports generation"

text \<open>The loop over one lane, newest generation first; \<open>kept\<close> counts retained generations.\<close>

definition fix_generation ::
  "registry_lifecycle_snapshot \<Rightarrow> time \<Rightarrow> int \<times> reasons \<Rightarrow> registry_cache_generation \<Rightarrow> int \<times> reasons" where
  "fix_generation snapshot now acc generation =
     (case acc of (kept, fixed) \<Rightarrow>
      if cache_active generation then (kept, addReason fixed (cache_key generation) ''cache-active'')
      else if cache_State generation = ''succeeded'' \<and> kept < 1 then
        (kept + 1, addReason fixed (cache_key generation) ''cache-retained-generation'')
      else if \<not> cache_CreatedAt generation < now - pol_MinimumSafetyAge (snap_Policy snapshot) then
        (kept, addReason fixed (cache_key generation) ''minimum-safety-age'')
      else acc)"

definition lane_newest_first :: "registry_cache_generation list \<Rightarrow> registry_cache_generation list" where
  "lane_newest_first generations = rev (sort_key (\<lambda>g. (cache_Generation g, cache_ID g)) generations)"

definition fix_lane ::
  "registry_lifecycle_snapshot \<Rightarrow> time \<Rightarrow> reasons \<Rightarrow> registry_cache_generation list \<Rightarrow> reasons" where
  "fix_lane snapshot now fixed generations =
     snd (foldl (fix_generation snapshot now) (0, fixed) (lane_newest_first generations))"

definition fixed_caches :: "registry_lifecycle_snapshot \<Rightarrow> time \<Rightarrow> reasons" where
  "fixed_caches snapshot now =
     foldl (fix_lane snapshot now) [] (map snd (cache_groups (snap_CacheGenerations snapshot)))"

definition cache_expired :: "registry_lifecycle_snapshot \<Rightarrow> time \<Rightarrow> root_info \<Rightarrow> bool" where
  "cache_expired snapshot now root \<longleftrightarrow>
     \<not> root_lastUsed root > now - pol_CacheUnusedExpiry (snap_Policy snapshot)"

definition cache_candidates ::
  "registry_lifecycle_snapshot \<Rightarrow> time \<Rightarrow> (string, root_info) gomap \<Rightarrow> reasons \<Rightarrow> root_info list" where
  "cache_candidates snapshot now roots fixed =
     sort_key (\<lambda>root. (if cache_expired snapshot now root then 0 else 1 :: nat,
                       root_lastUsed root, root_generation root, root_id root))
       (map snd (filter (\<lambda>(key, root). get_or [] fixed key = []) roots))"

definition evict_step ::
  "registry_lifecycle_snapshot \<Rightarrow> time \<Rightarrow> int \<times> reasons \<times> reasons \<Rightarrow> root_info \<Rightarrow> int \<times> reasons \<times> reasons" where
  "evict_step snapshot now acc root =
     (case acc of (remaining, fixed, deletedRoots) \<Rightarrow>
      if cache_expired snapshot now root then
        (i64 (remaining - root_size root), fixed, addReason deletedRoots (root_key root) ''cache-unused-expired'')
      else if remaining > pol_CacheByteQuota (snap_Policy snapshot) then
        (i64 (remaining - root_size root), fixed, addReason deletedRoots (root_key root) ''cache-byte-quota'')
      else (remaining, addReason fixed (root_key root) ''cache-recently-used'', deletedRoots))"

definition decideCaches ::
  "registry_lifecycle_snapshot \<Rightarrow> lifecycle_graph \<Rightarrow> time \<Rightarrow> (string, bool \<times> string list) gomap \<times> int \<times> int" where
  "decideCaches snapshot graph now =
     (let roots = cache_roots graph (snap_CacheGenerations snapshot);
          before = foldl (\<lambda>before (_, root). i64 (before + root_size root)) 0 roots;
          fixed = fixed_caches snapshot now;
          candidates = cache_candidates snapshot now roots fixed in
      case foldl (evict_step snapshot now) (before, fixed, []) candidates of
        (remaining, fixed', deletedRoots) \<Rightarrow>
          (foldl (\<lambda>decisions (key, reasons).
             if key \<in> fst ` set fixed' then decisions
             else AList.update key (False, sort reasons) decisions)
             (map (\<lambda>(key, reasons). (key, (True, sort reasons))) fixed') deletedRoots,
           before, if remaining < 0 then 0 else remaining))"

section \<open>Items, order and summary\<close>

definition cleanupItem ::
  "string \<Rightarrow> string \<Rightarrow> string \<Rightarrow> registry_cleanup_disposition \<Rightarrow> string \<Rightarrow> int \<Rightarrow> string list \<Rightarrow> registry_cleanup_item" where
  "cleanupItem repository resourceKind digest disposition action sz reasons =
     \<lparr>item_Ordinal = 0, item_Repository = repository, item_ResourceKind = resourceKind, item_Digest = digest,
      item_Disposition = disposition, item_Action = action, item_EstimatedBytes = sz,
      item_Reasons = sort reasons,
      item_State = (if disposition = RegistryCleanupProtect then ''protected'' else ''planned''),
      item_ProviderMessage = [], item_UpdatedAt = 0\<rparr>"

definition summarize_step :: "registry_cleanup_summary \<Rightarrow> registry_cleanup_item \<Rightarrow> registry_cleanup_summary" where
  "summarize_step summary item =
     (if item_ResourceKind item = ''blob'' \<and> item_Disposition item = RegistryCleanupDelete then
        summary\<lparr>sum_GarbageCollectBlobs := sum_GarbageCollectBlobs summary + 1,
                sum_EstimatedBytes := i64 (sum_EstimatedBytes summary + item_EstimatedBytes item)\<rparr>
      else if item_ResourceKind item \<noteq> ''blob'' \<and> item_Disposition item = RegistryCleanupDelete then
        summary\<lparr>sum_DeletedManifests := sum_DeletedManifests summary + 1\<rparr>
      else if item_ResourceKind item \<noteq> ''blob'' then
        summary\<lparr>sum_ProtectedManifests := sum_ProtectedManifests summary + 1\<rparr>
      else summary)"

definition summarize :: "registry_cleanup_item list \<Rightarrow> int \<Rightarrow> int \<Rightarrow> int \<Rightarrow> registry_cleanup_summary" where
  "summarize items cacheBefore cacheAfter quota =
     foldl summarize_step
       \<lparr>sum_ProtectedManifests = 0, sum_DeletedManifests = 0, sum_GarbageCollectBlobs = 0, sum_EstimatedBytes = 0,
        sum_CacheBytesBefore = cacheBefore, sum_CacheBytesAfter = cacheAfter,
        sum_CacheQuotaSatisfied = (cacheAfter \<le> quota)\<rparr> items"

text \<open>The comparison of \<open>sortCleanupItems\<close> as a lexicographic key.\<close>

definition item_key :: "(string, nat) gomap \<Rightarrow> registry_cleanup_item \<Rightarrow> nat \<times> nat \<times> string \<times> string \<times> string" where
  "item_key depths item =
     (if item_ResourceKind item = ''blob'' then 1 else 0,
      if item_ResourceKind item = ''blob'' then 0
      else get_or 0 depths (nodeKey (item_Repository item) (item_Digest item)),
      item_Repository item, item_ResourceKind item, item_Digest item)"

definition number_items :: "registry_cleanup_item list \<Rightarrow> registry_cleanup_item list" where
  "number_items items = map (\<lambda>(ordinal, item). item\<lparr>item_Ordinal := ordinal\<rparr>) (enumerate 0 items)"

definition sortCleanupItems ::
  "registry_cleanup_item list \<Rightarrow> lifecycle_graph \<Rightarrow> registry_error + registry_cleanup_item list" where
  "sortCleanupItems items graph =
     (case manifestDepths (lg_children graph) (map fst (lg_manifests graph)) of
        None \<Rightarrow> Inl OutOfFuel
      | Some depths \<Rightarrow> Inr (number_items (sort_key (item_key depths) items)))"

section \<open>The plan\<close>

definition reference_reason :: "registry_reference_kind \<Rightarrow> string" where
  "reference_reason kind =
     (case kind of
        RegistryReferenceCurrentGitIntent \<Rightarrow> ''current-git-intent''
      | RegistryReferenceObservedRunning \<Rightarrow> ''observed-running''
      | RegistryReferencePin \<Rightarrow> ''pin''
      | RegistryReferenceActiveOperation \<Rightarrow> ''active-operation''
      | RegistryReferenceOther _ \<Rightarrow> [])"

definition protect_reference ::
  "registry_lifecycle_snapshot \<Rightarrow> lifecycle_graph \<Rightarrow> reasons \<Rightarrow> registry_artifact_reference \<Rightarrow> registry_error + reasons" where
  "protect_reference snapshot graph prot reference =
     (if ref_RegistryTargetID reference \<noteq> tgt_ID (snap_Target snapshot) \<or>
         ref_ServiceID reference \<noteq> pol_ServiceID (snap_Policy snapshot) then Inl ErrRegistryGraphInvalid
      else
        let reason = reference_reason (ref_Kind reference);
            key = nodeKey (ref_Repository reference) (ref_Digest reference) in
        if reason = [] \<or> digest_at (lg_manifests graph) key = [] then Inl ErrRegistryObservationIncomplete
        else Inr (addReason prot key reason))"

definition apply_decision ::
  "reasons \<times> reasons \<Rightarrow> string \<times> bool \<times> string list \<Rightarrow> reasons \<times> reasons" where
  "apply_decision acc decision =
     (case acc of (prot, deleteReasons) \<Rightarrow> case decision of (key, protect, rs) \<Rightarrow>
      if protect then (foldl (\<lambda>p reason. addReason p key reason) prot rs, deleteReasons)
      else (prot, foldl (\<lambda>d reason. addReason d key reason) deleteReasons rs))"

definition serviceRepositories :: "registry_lifecycle_snapshot \<Rightarrow> (string, string) gomap" where
  "serviceRepositories snapshot =
     foldl (\<lambda>repos cache.
       if cache_ServiceID cache = pol_ServiceID (snap_Policy snapshot)
       then AList.update (cache_Repository cache) ''cache-manifest'' repos else repos)
       [(pol_Repository (snap_Policy snapshot), ''release-manifest'')] (snap_CacheGenerations snapshot)"

definition protect_manifest ::
  "(string, string) gomap \<Rightarrow> time \<Rightarrow> reasons \<Rightarrow> string \<times> registry_manifest \<Rightarrow> reasons" where
  "protect_manifest repos cutoff prot entry =
     (case entry of (key, manifest) \<Rightarrow>
      if map_of repos (man_Repository manifest) = None then addReason prot key ''outside-service-scope''
      else if \<not> man_FirstObservedAt manifest < cutoff then addReason prot key ''minimum-safety-age''
      else prot)"

definition mark_eligible ::
  "(string, string) gomap \<Rightarrow> reasons \<Rightarrow> reasons \<Rightarrow> string \<times> registry_manifest \<Rightarrow> registry_error + reasons" where
  "mark_eligible repos prot deleteReasons entry =
     (case entry of (key, manifest) \<Rightarrow>
      if key \<in> fst ` set prot then Inr deleteReasons
      else if map_of repos (man_Repository manifest) = None then Inl ErrRegistryGraphInvalid
      else if get_or [] deleteReasons key = [] then Inr (addReason deleteReasons key ''retention-eligible'')
      else Inr deleteReasons)"

definition manifest_item ::
  "(string, string) gomap \<Rightarrow> reasons \<Rightarrow> reasons \<Rightarrow> string \<times> registry_manifest \<Rightarrow> registry_cleanup_item" where
  "manifest_item repos prot deleteReasons entry =
     (case entry of (key, manifest) \<Rightarrow>
      let kind = get_or [] repos (man_Repository manifest);
          resourceKind = (if kind = [] then ''release-manifest'' else kind) in
      case map_of prot key of
        Some reasons \<Rightarrow>
          cleanupItem (man_Repository manifest) resourceKind (man_Digest manifest) RegistryCleanupProtect ''none''
            (man_SizeBytes manifest) reasons
      | None \<Rightarrow>
          cleanupItem (man_Repository manifest) resourceKind (man_Digest manifest) RegistryCleanupDelete
            ''delete-manifest'' (man_SizeBytes manifest) (get_or [] deleteReasons key))"

definition reachableBlobs :: "lifecycle_graph \<Rightarrow> reasons \<Rightarrow> string list" where
  "reachableBlobs graph prot = concat (map (\<lambda>(key, _). get_or [] (lg_manifestBlobs graph) key) prot)"

definition blob_item :: "string list \<Rightarrow> time \<Rightarrow> string \<times> registry_blob list \<Rightarrow> registry_cleanup_item" where
  "blob_item reachable cutoff entry =
     (case entry of (digest, blobs) \<Rightarrow>
      let reasons = (if digest \<in> set reachable then [''reachable-from-protected-manifest-blob''] else []) @
                    (if \<exists>blob \<in> set blobs. \<not> blob_FirstObservedAt blob < cutoff then [''minimum-safety-age''] else []) in
      if reasons \<noteq> [] then
        cleanupItem ''*'' ''blob'' digest RegistryCleanupProtect ''none'' (maxBlobSize blobs) reasons
      else cleanupItem ''*'' ''blob'' digest RegistryCleanupDelete ''garbage-collect-blob'' (maxBlobSize blobs)
             [''globally-unreachable''])"

text \<open>
  The protected manifests before reachability: references, the retained releases, the
  cache decisions, then scope and safety age.  The second component holds the delete
  reasons of evicted cache roots.
\<close>

definition protected_roots ::
  "registry_lifecycle_snapshot \<Rightarrow> lifecycle_graph \<Rightarrow> time \<Rightarrow> registry_error + reasons \<times> reasons" where
  "protected_roots snapshot graph now =
     bindE (foldE (protect_reference snapshot graph) [] (snap_References snapshot)) (\<lambda>prot.
       case foldl apply_decision (protectSuccessfulReleases snapshot graph prot, [])
              (fst (decideCaches snapshot graph now)) of
         (prot', deleteReasons) \<Rightarrow>
           Inr (foldl (protect_manifest (serviceRepositories snapshot)
                         (now - pol_MinimumSafetyAge (snap_Policy snapshot))) prot' (lg_manifests graph),
                deleteReasons))"

definition close_protected :: "lifecycle_graph \<Rightarrow> reasons \<Rightarrow> reasons" where
  "close_protected graph prot =
     close_loop (lg_children graph) ''reachable-from-protected-manifest'' (sort (map fst prot)) [] prot"

definition plan_items ::
  "registry_lifecycle_snapshot \<Rightarrow> lifecycle_graph \<Rightarrow> time \<Rightarrow> registry_error + registry_cleanup_item list" where
  "plan_items snapshot graph now =
     bindE (protected_roots snapshot graph now) (\<lambda>(roots, deleteReasons).
       let prot = close_protected graph roots; repos = serviceRepositories snapshot in
       bindE (foldE (mark_eligible repos prot) deleteReasons (lg_manifests graph)) (\<lambda>deleteReasons'.
         sortCleanupItems
           (map (manifest_item repos prot deleteReasons') (lg_manifests graph) @
            map (blob_item (reachableBlobs graph prot) (now - pol_MinimumSafetyAge (snap_Policy snapshot)))
              (lg_blobByDigest graph)) graph))"

definition BuildCleanupPlan ::
  "digests \<Rightarrow> registry_lifecycle_snapshot \<Rightarrow> time \<Rightarrow> duration \<Rightarrow> registry_error + registry_cleanup_plan" where
  "BuildCleanupPlan dj snapshot now maxObservationAge =
     (if tgt_Mode (snap_Target snapshot) = RegistryTargetExternal then Inl ErrRegistryExternalLifecycle
      else if tgt_Mode (snap_Target snapshot) \<noteq> RegistryTargetManaged then Inl ErrRegistryPolicyInvalid
      else
        bindE (ValidatePolicy (snap_Policy snapshot)) (\<lambda>_.
        if tgt_ID (snap_Target snapshot) \<noteq> pol_RegistryTargetID (snap_Policy snapshot) then
          Inl ErrRegistryPolicyInvalid
        else
          bindE (validateCompleteness snapshot now maxObservationAge) (\<lambda>_.
          bindE (newLifecycleGraph snapshot) (\<lambda>graph.
          bindE (plan_items snapshot graph now) (\<lambda>items.
          let caches = decideCaches snapshot graph now; cacheBefore = fst (snd caches); cacheAfter = snd (snd caches);
              plan = \<lparr>plan_ID = [],
                plan_RegistryTargetID = tgt_ID (snap_Target snapshot),
                plan_ServiceID = pol_ServiceID (snap_Policy snapshot),
                plan_Automatic = False,
                plan_SnapshotToken = RegistrySnapshotToken dj snapshot,
                plan_AuthorityToken = RegistryAuthorityToken dj snapshot,
                plan_PlanDigest = [],
                plan_State = ''preview'',
                plan_Policy = snap_Policy snapshot,
                plan_Inventory = snap_Inventory snapshot,
                plan_Catalogs = snap_CatalogObservations snapshot,
                plan_Authorities = snap_AuthorityObservations snapshot,
                plan_Summary = summarize items cacheBefore cacheAfter (pol_CacheByteQuota (snap_Policy snapshot)),
                plan_Items = items,
                plan_CreatedAt = now, plan_ClaimedAt = None, plan_CompletedAt = None, plan_Failure = []\<rparr> in
          Inr (plan\<lparr>plan_PlanDigest := RegistryCleanupPlanDigest dj plan\<rparr>))))))"

end
