(* ===== verification/Registry_Safety.thy ===== *)
theory Registry_Safety
  imports Registry_Plan
begin

text \<open>
  Correctness of the retention planner.  The first part relates the maps
  \<open>newLifecycleGraph\<close> builds to the catalog of the snapshot; the second follows the set
  of protected manifests through \<open>BuildCleanupPlan\<close>; the properties of plans come last.
\<close>

section \<open>The graph is the catalog\<close>

definition man_key :: "registry_manifest \<Rightarrow> string" where
  "man_key manifest = nodeKey (man_Repository manifest) (man_Digest manifest)"

definition catalog_edges :: "registry_lifecycle_snapshot \<Rightarrow> (string \<times> string) set" where
  "catalog_edges snapshot =
     (\<lambda>link. (nodeKey (link_Repository link) (link_ParentDigest link),
              nodeKey (link_Repository link) (link_ChildDigest link))) ` set (snap_Children snapshot)"

definition manifests_ok :: "registry_lifecycle_snapshot \<Rightarrow> (string, registry_manifest) gomap \<Rightarrow> bool" where
  "manifests_ok snapshot manifests \<longleftrightarrow>
     wf_map manifests \<and>
     (\<forall>(key, manifest) \<in> set manifests.
        key = man_key manifest \<and> validDigest (man_Digest manifest) \<and> man_Present manifest \<and>
        manifest \<in> set (snap_Manifests snapshot))"

lemma validDigest_nonempty: "validDigest d \<Longrightarrow> d \<noteq> []"
  by (auto simp: validDigest_def)

lemma digest_at_nonempty:
  "manifests_ok snapshot manifests \<Longrightarrow> digest_at manifests key \<noteq> [] \<longleftrightarrow> key \<in> keys manifests"
proof (cases "map_of manifests key")
  case (Some m)
  assume "manifests_ok snapshot manifests"
  then have "validDigest (man_Digest m)" using map_of_SomeD [OF Some]
    by (auto simp: manifests_ok_def)
  then show ?thesis using Some validDigest_nonempty
    by (auto simp: digest_at_def dest: map_of_in_keys)
next
  case None
  then have "key \<notin> keys manifests" by (simp add: map_of_None_keys)
  with None show ?thesis by (simp add: digest_at_def)
qed

lemma set_AList_update_fresh:
  "k \<notin> fst ` set m \<Longrightarrow> set (AList.update k v m) = insert (k, v) (set m)"
  by (induction m) auto

lemma add_manifest_node_ok:
  assumes "add_manifest_node snapshot repos (ms, cs) m = Inr (ms', cs')"
    and "manifests_ok snapshot ms" and "m \<in> set (snap_Manifests snapshot)"
  shows "manifests_ok snapshot ms'"
    and "\<And>k v. map_of ms k = Some v \<Longrightarrow> map_of ms' k = Some v"
    and "man_Present m \<Longrightarrow> map_of ms' (man_key m) = Some m"
proof -
  have fresh: "man_key m \<notin> keys ms \<and> ms' = AList.update (man_key m) m ms \<and> validDigest (man_Digest m)"
    if "man_Present m"
    using assms(1,2) that digest_at_nonempty [OF assms(2)]
    by (auto simp: add_manifest_node_def man_key_def Let_def split: if_splits)
  have same: "ms' = ms" if "\<not> man_Present m"
    using assms(1) that by (simp add: add_manifest_node_def)
  show "manifests_ok snapshot ms'"
    using fresh same assms(2,3)
    by (cases "man_Present m")
      (auto simp: manifests_ok_def set_AList_update_fresh keys_def)
  show "map_of ms' k = Some v" if "map_of ms k = Some v" for k v
    using that fresh same by (cases "man_Present m") (auto dest: map_of_in_keys)
  show "map_of ms' (man_key m) = Some m" if "man_Present m"
    using fresh [OF that] by simp
qed

lemma add_manifests_ok:
  assumes "foldE (add_manifest_node snapshot repos) ([], []) (snap_Manifests snapshot) = Inr (ms, cs)"
  shows "manifests_ok snapshot ms"
    and "m \<in> set (snap_Manifests snapshot) \<Longrightarrow> man_Present m \<Longrightarrow> map_of ms (man_key m) = Some m"
proof -
  have gen: "manifests_ok snapshot (fst acc') \<and> (\<forall>k v. map_of (fst acc) k = Some v \<longrightarrow> map_of (fst acc') k = Some v) \<and>
      (\<forall>m \<in> set xs. man_Present m \<longrightarrow> map_of (fst acc') (man_key m) = Some m)"
    if "foldE (add_manifest_node snapshot repos) acc xs = Inr acc'" "manifests_ok snapshot (fst acc)"
      "set xs \<subseteq> set (snap_Manifests snapshot)" for acc acc' xs
    using that
  proof (induction xs arbitrary: acc)
    case (Cons x xs)
    then obtain acc1 where step: "add_manifest_node snapshot repos (fst acc, snd acc) x = Inr (fst acc1, snd acc1)"
      and rest: "foldE (add_manifest_node snapshot repos) acc1 xs = Inr acc'"
      by (auto simp: bindE_Inr)
    have x: "x \<in> set (snap_Manifests snapshot)" using Cons.prems(3) by simp
    note ok = add_manifest_node_ok [OF step Cons.prems(2) x]
    from Cons.IH [OF rest ok(1)] Cons.prems(3) ok(2,3) show ?case by auto
  qed simp
  from gen [OF assms] show "manifests_ok snapshot ms"
    by (simp add: manifests_ok_def)
  from gen [OF assms] show "m \<in> set (snap_Manifests snapshot) \<Longrightarrow> man_Present m \<Longrightarrow> map_of ms (man_key m) = Some m"
    by (simp add: manifests_ok_def)
qed

lemma add_child_edge_Inr:
  "add_child_edge ms children link = Inr children' \<Longrightarrow>
   children' = AList.update (nodeKey (link_Repository link) (link_ParentDigest link))
     (succs children (nodeKey (link_Repository link) (link_ParentDigest link)) @
        [nodeKey (link_Repository link) (link_ChildDigest link)]) children"
  by (simp add: add_child_edge_def Let_def split: if_splits)

lemma add_blob_edge_Inr:
  "add_blob_edge ms nodes mb link = Inr mb' \<Longrightarrow>
   mb' = AList.update (nodeKey (blink_Repository link) (blink_ManifestDigest link))
     (get_or [] mb (nodeKey (blink_Repository link) (blink_ManifestDigest link)) @ [blink_BlobDigest link]) mb"
  by (simp add: add_blob_edge_def Let_def split: if_splits)

lemma add_blob_node_Inr:
  "add_blob_node snapshot repos (nodes, bd, cs) b = Inr acc \<Longrightarrow> blob_Present b \<Longrightarrow>
   fst (snd acc) = AList.update (blob_Digest b) (get_or [] bd (blob_Digest b) @ [b]) bd"
  by (auto simp: add_blob_node_def Let_def split: if_splits)

lemma add_blob_node_absent: "\<not> blob_Present b \<Longrightarrow> add_blob_node snapshot repos acc b = Inr acc"
  by (cases acc) (simp add: add_blob_node_def)

lemma add_child_edges_ok:
  assumes "foldE (add_child_edge ms) children links = Inr children'" and "wf_map children"
  shows "wf_map children' \<and> edges children' = edges children \<union>
    (\<lambda>link. (nodeKey (link_Repository link) (link_ParentDigest link),
             nodeKey (link_Repository link) (link_ChildDigest link))) ` set links"
  using assms
proof (induction links arbitrary: children)
  case (Cons link links)
  let ?p = "nodeKey (link_Repository link) (link_ParentDigest link)"
  let ?c = "nodeKey (link_Repository link) (link_ChildDigest link)"
  let ?ch = "AList.update ?p (succs children ?p @ [?c]) children"
  from Cons.prems(1) have rest: "foldE (add_child_edge ms) ?ch links = Inr children'"
    by (auto simp: bindE_Inr dest: add_child_edge_Inr)
  have "edges ?ch = insert (?p, ?c) (edges children)"
    by (auto simp: edges_def succs_def split: if_splits)
  with Cons.IH [OF rest] Cons.prems(2) show ?case by auto
qed simp

lemma add_blob_edges_ok:
  assumes "foldE (add_blob_edge ms nodes) mb links = Inr mb'"
  shows "set (get_or [] mb' key) = set (get_or [] mb key) \<union>
    {blink_BlobDigest link | link. link \<in> set links \<and> nodeKey (blink_Repository link) (blink_ManifestDigest link) = key}"
  using assms
proof (induction links arbitrary: mb)
  case (Cons link links)
  let ?m = "nodeKey (blink_Repository link) (blink_ManifestDigest link)"
  from Cons.prems have "foldE (add_blob_edge ms nodes)
      (AList.update ?m (get_or [] mb ?m @ [blink_BlobDigest link]) mb) links = Inr mb'"
    by (auto simp: bindE_Inr dest: add_blob_edge_Inr)
  from Cons.IH [OF this] show ?case by (auto split: if_splits)
qed simp

lemma add_blobs_ok:
  assumes "foldE (add_blob_node snapshot repos) (nodes, bd, cs) blobs = Inr (nodes', bd', cs')"
    and "wf_map bd"
  shows "wf_map bd' \<and> set (get_or [] bd' d) = set (get_or [] bd d) \<union>
    {b \<in> set blobs. blob_Present b \<and> blob_Digest b = d} \<and>
    keys bd' = keys bd \<union> blob_Digest ` {b \<in> set blobs. blob_Present b}"
  using assms
proof (induction blobs arbitrary: nodes bd cs)
  case (Cons b blobs)
  show ?case
  proof (cases "blob_Present b")
    case True
    let ?bd = "AList.update (blob_Digest b) (get_or [] bd (blob_Digest b) @ [b]) bd"
    from Cons.prems(1) True obtain n1 c1 where
      "foldE (add_blob_node snapshot repos) (n1, ?bd, c1) blobs = Inr (nodes', bd', cs')"
      by (auto simp: bindE_Inr dest: add_blob_node_Inr)
    from Cons.IH [OF this] Cons.prems(2) True show ?thesis by (auto split: if_splits)
  next
    case False
    then have "foldE (add_blob_node snapshot repos) (nodes, bd, cs) blobs = Inr (nodes', bd', cs')"
      using Cons.prems(1) by (simp add: add_blob_node_absent)
    from Cons.IH [OF this] Cons.prems(2) False show ?thesis by auto
  qed
qed auto

text \<open>What every accepted graph satisfies.\<close>

lemma newLifecycleGraph_ok:
  assumes "newLifecycleGraph snapshot = Inr graph"
  shows "manifests_ok snapshot (lg_manifests graph)"
    and "m \<in> set (snap_Manifests snapshot) \<Longrightarrow> man_Present m \<Longrightarrow> map_of (lg_manifests graph) (man_key m) = Some m"
    and "wf_map (lg_children graph)" and "edges (lg_children graph) = catalog_edges snapshot"
    and "\<not> cyclic (lg_children graph)"
    and "set (get_or [] (lg_manifestBlobs graph) key) = {blink_BlobDigest link | link.
           link \<in> set (snap_BlobLinks snapshot) \<and> nodeKey (blink_Repository link) (blink_ManifestDigest link) = key}"
    and "wf_map (lg_blobByDigest graph)"
    and "set (get_or [] (lg_blobByDigest graph) d) = {b \<in> set (snap_Blobs snapshot). blob_Present b \<and> blob_Digest b = d}"
    and "keys (lg_blobByDigest graph) = blob_Digest ` {b \<in> set (snap_Blobs snapshot). blob_Present b}"
proof -
  from assms obtain ms cs nodes bd bs ch mb where
      ms: "foldE (add_manifest_node snapshot (stringSet (inv_Repositories (snap_Inventory snapshot)))) ([], [])
             (snap_Manifests snapshot) = Inr (ms, cs)"
      and bd: "foldE (add_blob_node snapshot (stringSet (inv_Repositories (snap_Inventory snapshot)))) ([], [], [])
             (snap_Blobs snapshot) = Inr (nodes, bd, bs)"
      and ch: "foldE (add_child_edge ms) [] (snap_Children snapshot) = Inr ch" and nc: "\<not> cyclic ch"
      and mb: "foldE (add_blob_edge ms nodes) [] (snap_BlobLinks snapshot) = Inr mb"
      and graph: "graph = \<lparr>lg_manifests = ms, lg_blobByDigest = bd, lg_children = ch, lg_manifestBlobs = mb\<rparr>"
    by (auto simp: newLifecycleGraph_def Let_def bindE_Inr split: prod.splits if_splits)
  show "manifests_ok snapshot (lg_manifests graph)"
    using add_manifests_ok(1) [OF ms] by (simp add: graph)
  show "map_of (lg_manifests graph) (man_key m) = Some m"
    if "m \<in> set (snap_Manifests snapshot)" "man_Present m"
    using add_manifests_ok(2) [OF ms that] by (simp add: graph)
  show "wf_map (lg_children graph)" "edges (lg_children graph) = catalog_edges snapshot"
    using add_child_edges_ok [OF ch] by (auto simp: graph catalog_edges_def edges_def)
  show "\<not> cyclic (lg_children graph)" using nc by (simp add: graph)
  show "set (get_or [] (lg_manifestBlobs graph) key) = {blink_BlobDigest link | link.
      link \<in> set (snap_BlobLinks snapshot) \<and> nodeKey (blink_Repository link) (blink_ManifestDigest link) = key}"
    using add_blob_edges_ok [OF mb, of key] by (simp add: graph)
  show "wf_map (lg_blobByDigest graph)"
    "set (get_or [] (lg_blobByDigest graph) d) = {b \<in> set (snap_Blobs snapshot). blob_Present b \<and> blob_Digest b = d}"
    "keys (lg_blobByDigest graph) = blob_Digest ` {b \<in> set (snap_Blobs snapshot). blob_Present b}"
    using add_blobs_ok [OF bd, of d] by (simp_all add: graph)
qed

lemma blob_link_manifest:
  assumes "newLifecycleGraph snapshot = Inr graph" and "link \<in> set (snap_BlobLinks snapshot)"
  shows "nodeKey (blink_Repository link) (blink_ManifestDigest link) \<in> keys (lg_manifests graph)"
proof -
  from assms(1) obtain ms nodes mb where
      mb: "foldE (add_blob_edge ms nodes) [] (snap_BlobLinks snapshot) = Inr mb" and ms: "ms = lg_manifests graph"
    by (auto simp: newLifecycleGraph_def Let_def bindE_Inr split: prod.splits if_splits)
  have "digest_at ms (nodeKey (blink_Repository link) (blink_ManifestDigest link)) \<noteq> []"
    using mb assms(2)
    by (rule foldE_processed) (auto simp: add_blob_edge_def Let_def split: if_splits)
  then show ?thesis
    using digest_at_nonempty [OF newLifecycleGraph_ok(1) [OF assms(1)]] by (simp add: ms)
qed

section \<open>The protected manifests\<close>

lemma keys_foldl_addReason:
  "keys (foldl (\<lambda>p reason. addReason p k reason) m rs) = keys m \<union> (if rs = [] then {} else {k})"
  by (induction rs arbitrary: m) auto

lemma wf_map_foldl_addReason: "wf_map m \<Longrightarrow> wf_map (foldl (\<lambda>p reason. addReason p k reason) m rs)"
  by (induction rs arbitrary: m) auto

lemma protect_references_ok:
  assumes "foldE (protect_reference snapshot graph) prot refs = Inr prot'"
  shows "keys prot' = keys prot \<union> (\<lambda>r. nodeKey (ref_Repository r) (ref_Digest r)) ` set refs"
    and "wf_map prot \<Longrightarrow> wf_map prot'"
proof -
  have step: "prot'' = addReason prot (nodeKey (ref_Repository r) (ref_Digest r)) (reference_reason (ref_Kind r))"
    if "protect_reference snapshot graph prot r = Inr prot''" for prot r prot''
    using that by (simp add: protect_reference_def Let_def split: if_splits)
  show "keys prot' = keys prot \<union> (\<lambda>r. nodeKey (ref_Repository r) (ref_Digest r)) ` set refs"
    using assms by (induction refs arbitrary: prot) (auto simp: bindE_Inr dest!: step)
  show "wf_map prot'" if "wf_map prot"
    using that by (rule foldE_invariant [OF assms]) (auto dest: step)
qed

text \<open>The roots the retention window keeps: the newest distinct successful ones.\<close>

definition release_key :: "registry_release \<Rightarrow> string" where
  "release_key release = nodeKey (rel_Repository release) (rel_RootDigest release)"

definition release_eligible :: "registry_lifecycle_snapshot \<Rightarrow> lifecycle_graph \<Rightarrow> registry_release \<Rightarrow> bool" where
  "release_eligible snapshot graph release \<longleftrightarrow>
     rel_RegistryTargetID release = tgt_ID (snap_Target snapshot) \<and>
     rel_ServiceID release = pol_ServiceID (snap_Policy snapshot) \<and>
     rel_SucceededAt release \<noteq> None \<and> rel_Availability release = RegistryArtifactPresent \<and>
     digest_at (lg_manifests graph) (release_key release) \<noteq> []"

fun distinct_first :: "'a list \<Rightarrow> 'a list \<Rightarrow> 'a list" where
  "distinct_first seen [] = []"
| "distinct_first seen (x # xs) =
     (if x \<in> set seen then distinct_first seen xs else x # distinct_first (x # seen) xs)"

definition retained_roots :: "registry_lifecycle_snapshot \<Rightarrow> lifecycle_graph \<Rightarrow> string list" where
  "retained_roots snapshot graph =
     take (nat (pol_KeepLastSuccessful (snap_Policy snapshot)))
       (distinct_first [] (map release_key
          (filter (release_eligible snapshot graph) (releases_newest_first (snap_Releases snapshot)))))"

lemma set_distinct_first: "set (distinct_first seen xs) = set xs - set seen"
  by (induction xs arbitrary: seen) auto

lemma distinct_distinct_first: "distinct (distinct_first seen xs)"
  by (induction xs arbitrary: seen) (auto simp: set_distinct_first)

lemma protect_release_step_eq:
  "protect_release_step snapshot graph (seen, retained, prot) release =
     (if \<not> release_eligible snapshot graph release \<or> release_key release \<in> set seen then (seen, retained, prot)
      else if retained < pol_KeepLastSuccessful (snap_Policy snapshot) then
        (release_key release # seen, retained + 1, addReason prot (release_key release) ''retained-success-window'')
      else (release_key release # seen, retained, prot))"
  by (auto simp: protect_release_step_def release_eligible_def release_key_def Let_def)

lemma protect_releases_fold:
  "keys (snd (snd (foldl (protect_release_step snapshot graph) (seen, retained, prot) releases))) =
     keys prot \<union> set (take (nat (pol_KeepLastSuccessful (snap_Policy snapshot) - retained))
       (distinct_first seen (map release_key (filter (release_eligible snapshot graph) releases))))"
proof (induction releases arbitrary: seen retained prot)
  case (Cons r releases)
  let ?K = "pol_KeepLastSuccessful (snap_Policy snapshot)"
  show ?case
  proof (cases "release_eligible snapshot graph r \<and> release_key r \<notin> set seen \<and> retained < ?K")
    case True
    then have "nat (?K - retained) = Suc (nat (?K - (retained + 1)))" by linarith
    with True Cons show ?thesis by (simp add: protect_release_step_eq)
  next
    case False
    then show ?thesis using Cons by (auto simp: protect_release_step_eq)
  qed
qed simp

lemma wf_map_protect_releases:
  "wf_map prot \<Longrightarrow> wf_map (snd (snd (foldl (protect_release_step snapshot graph) (seen, retained, prot) releases)))"
  by (induction releases arbitrary: seen retained prot) (auto simp: protect_release_step_eq)

lemma keys_protectSuccessfulReleases:
  "keys (protectSuccessfulReleases snapshot graph prot) = keys prot \<union> set (retained_roots snapshot graph)"
  using protect_releases_fold [of snapshot graph "[]" 0 prot]
  by (simp add: protectSuccessfulReleases_def retained_roots_def)

lemma apply_decisions_keys:
  "keys (fst (foldl apply_decision (prot, dels) decisions)) =
     keys prot \<union> {key. \<exists>rs. (key, True, rs) \<in> set decisions \<and> rs \<noteq> []}"
  by (induction decisions arbitrary: prot dels)
    (auto simp: apply_decision_def keys_foldl_addReason split: if_splits)

lemma apply_decisions_wf:
  "wf_map prot \<Longrightarrow> wf_map (fst (foldl apply_decision (prot, dels) decisions))"
  by (induction decisions arbitrary: prot dels)
    (auto simp: apply_decision_def wf_map_foldl_addReason)

lemma protect_manifest_keys:
  "keys (protect_manifest repos cutoff prot (k, m)) =
     (if map_of repos (man_Repository m) = None \<or> \<not> man_FirstObservedAt m < cutoff
      then insert k (keys prot) else keys prot)"
  by (simp add: protect_manifest_def)

lemma protect_manifests_keys:
  "keys (foldl (protect_manifest repos cutoff) prot ms) =
     keys prot \<union> {k. \<exists>m. (k, m) \<in> set ms \<and>
       (map_of repos (man_Repository m) = None \<or> \<not> man_FirstObservedAt m < cutoff)}"
  by (induction ms arbitrary: prot) (auto simp: protect_manifest_keys split: if_splits)

lemma protect_manifests_wf:
  "wf_map prot \<Longrightarrow> wf_map (foldl (protect_manifest repos cutoff) prot ms)"
  by (induction ms arbitrary: prot) (auto simp: protect_manifest_def)

text \<open>The root set of a plan, as the planner is meant to compute it.\<close>

definition root_keys :: "registry_lifecycle_snapshot \<Rightarrow> lifecycle_graph \<Rightarrow> time \<Rightarrow> string set" where
  "root_keys snapshot graph now =
     (\<lambda>r. nodeKey (ref_Repository r) (ref_Digest r)) ` set (snap_References snapshot) \<union>
     set (retained_roots snapshot graph) \<union>
     {key. \<exists>rs. (key, True, rs) \<in> set (fst (decideCaches snapshot graph now)) \<and> rs \<noteq> []} \<union>
     {key. \<exists>m. (key, m) \<in> set (lg_manifests graph) \<and>
        (map_of (serviceRepositories snapshot) (man_Repository m) = None \<or>
         \<not> man_FirstObservedAt m < now - pol_MinimumSafetyAge (snap_Policy snapshot))}"

lemma protected_roots_ok:
  assumes "protected_roots snapshot graph now = Inr (roots, dels)"
  shows "keys roots = root_keys snapshot graph now" and "wf_map roots"
proof -
  obtain prot where prot: "foldE (protect_reference snapshot graph) [] (snap_References snapshot) = Inr prot"
    using assms by (auto simp: protected_roots_def bindE_Inr)
  let ?acc = "foldl apply_decision (protectSuccessfulReleases snapshot graph prot, [])
    (fst (decideCaches snapshot graph now))"
  have roots: "roots = foldl (protect_manifest (serviceRepositories snapshot)
      (now - pol_MinimumSafetyAge (snap_Policy snapshot))) (fst ?acc) (lg_manifests graph)"
    using assms prot by (auto simp: protected_roots_def split: prod.splits)
  show "keys roots = root_keys snapshot graph now"
    using protect_references_ok(1) [OF prot]
    by (simp add: roots protect_manifests_keys apply_decisions_keys keys_protectSuccessfulReleases root_keys_def Un_ac)
  have "wf_map (protectSuccessfulReleases snapshot graph prot)"
    using protect_references_ok(2) [OF prot] by (simp add: protectSuccessfulReleases_def wf_map_protect_releases)
  then show "wf_map roots"
    by (simp add: roots protect_manifests_wf apply_decisions_wf)
qed

definition live_keys :: "registry_lifecycle_snapshot \<Rightarrow> lifecycle_graph \<Rightarrow> time \<Rightarrow> string set" where
  "live_keys snapshot graph now = (catalog_edges snapshot)\<^sup>* `` root_keys snapshot graph now"

lemma close_protected_keys:
  assumes "newLifecycleGraph snapshot = Inr graph" and "protected_roots snapshot graph now = Inr (roots, dels)"
  shows "keys (close_protected graph roots) = live_keys snapshot graph now"
proof -
  have "set (sort (map fst roots)) = keys roots" by (simp add: keys_def)
  then show ?thesis
    using protected_roots_ok(1) [OF assms(2)] newLifecycleGraph_ok(4) [OF assms(1)]
    by (simp add: close_protected_def close_loop_reaches live_keys_def)
qed

section \<open>Items of a plan\<close>

lemma number_items_nth:
  "i < length items \<Longrightarrow> number_items items ! i = (items ! i)\<lparr>item_Ordinal := i\<rparr>"
  by (simp add: number_items_def nth_enumerate_eq)

lemma length_number_items [simp]: "length (number_items items) = length items"
  by (simp add: number_items_def)

lemma set_number_items:
  "item \<in> set (number_items items) \<Longrightarrow> \<exists>i < length items. item = (items ! i)\<lparr>item_Ordinal := i\<rparr>"
  by (metis in_set_conv_nth length_number_items number_items_nth)

lemma sortCleanupItems_Inr:
  assumes "sortCleanupItems items graph = Inr items'"
  obtains depths where
    "manifestDepths (lg_children graph) (map fst (lg_manifests graph)) = Some depths"
    and "items' = number_items (sort_key (item_key depths) items)"
  using assms by (auto simp: sortCleanupItems_def split: option.splits)

lemma BuildCleanupPlan_Inr:
  assumes "BuildCleanupPlan dj snapshot now age = Inr plan"
  obtains graph items where
    "newLifecycleGraph snapshot = Inr graph" and "validateCompleteness snapshot now age = Inr ()"
    and "ValidatePolicy (snap_Policy snapshot) = Inr ()"
    and "tgt_Mode (snap_Target snapshot) = RegistryTargetManaged"
    and "plan_items snapshot graph now = Inr items" and "plan_Items plan = items"
    and "plan_Summary plan = summarize items (fst (snd (decideCaches snapshot graph now)))
           (snd (snd (decideCaches snapshot graph now))) (pol_CacheByteQuota (snap_Policy snapshot))"
  using assms
  by (auto simp: BuildCleanupPlan_def bindE_Inr Let_def split: if_splits)

text \<open>
  \<open>planned\<close> packages what the later proofs need of a successful run: the graph, the
  protected map and the delete reasons.
\<close>

definition planned ::
  "registry_lifecycle_snapshot \<Rightarrow> time \<Rightarrow> lifecycle_graph \<Rightarrow> reasons \<Rightarrow> reasons \<Rightarrow> registry_cleanup_item list \<Rightarrow> bool" where
  "planned snapshot now graph prot dels items \<longleftrightarrow>
     newLifecycleGraph snapshot = Inr graph \<and> wf_map prot \<and>
     keys prot = live_keys snapshot graph now \<and>
     sortCleanupItems
       (map (manifest_item (serviceRepositories snapshot) prot dels) (lg_manifests graph) @
        map (blob_item (reachableBlobs graph prot) (now - pol_MinimumSafetyAge (snap_Policy snapshot)))
          (lg_blobByDigest graph)) graph = Inr items"

lemma BuildCleanupPlan_planned:
  assumes "BuildCleanupPlan dj snapshot now age = Inr plan"
  obtains graph prot dels where "planned snapshot now graph prot dels (plan_Items plan)"
proof -
  obtain graph where graph: "newLifecycleGraph snapshot = Inr graph"
    and items: "plan_items snapshot graph now = Inr (plan_Items plan)"
    using assms by (elim BuildCleanupPlan_Inr) auto
  from items obtain roots dels dels' where roots: "protected_roots snapshot graph now = Inr (roots, dels)"
    and sorted: "sortCleanupItems
       (map (manifest_item (serviceRepositories snapshot) (close_protected graph roots) dels') (lg_manifests graph) @
        map (blob_item (reachableBlobs graph (close_protected graph roots))
               (now - pol_MinimumSafetyAge (snap_Policy snapshot))) (lg_blobByDigest graph)) graph = Inr (plan_Items plan)"
    by (auto simp: plan_items_def bindE_Inr Let_def)
  have "wf_map (close_protected graph roots)"
    using protected_roots_ok(2) [OF roots] by (simp add: close_protected_def wf_map_close_loop)
  with graph sorted close_protected_keys [OF graph roots] show thesis
    by (intro that [of graph "close_protected graph roots" dels']) (simp add: planned_def)
qed

lemma manifest_item_fields:
  "item_Repository (manifest_item repos prot dels (key, m)) = man_Repository m"
  "item_Digest (manifest_item repos prot dels (key, m)) = man_Digest m"
  "item_Disposition (manifest_item repos prot dels (key, m)) =
     (if key \<in> keys prot then RegistryCleanupProtect else RegistryCleanupDelete)"
  by (auto simp: manifest_item_def cleanupItem_def Let_def map_of_None_keys [symmetric] split: option.splits)

lemma serviceRepositories_kinds:
  assumes "map_of (serviceRepositories snapshot) r = Some kind"
  shows "kind = ''release-manifest'' \<or> kind = ''cache-manifest''"
proof -
  define ok :: "(string, string) gomap \<Rightarrow> bool" where
    "ok repos \<longleftrightarrow> (\<forall>r k. map_of repos r = Some k \<longrightarrow> k = ''release-manifest'' \<or> k = ''cache-manifest'')" for repos
  have step: "ok (AList.update r' ''cache-manifest'' repos)" if "ok repos" for repos r'
    using that by (simp add: ok_def)
  have "ok (serviceRepositories snapshot)"
    unfolding serviceRepositories_def by (rule foldl_invariant) (auto simp: step, simp add: ok_def)
  with assms show ?thesis by (simp add: ok_def)
qed

lemma manifest_item_kind:
  "item_ResourceKind (manifest_item (serviceRepositories snapshot) prot dels (key, m)) \<noteq> ''blob''"
  using serviceRepositories_kinds [of snapshot "man_Repository m"]
  by (auto simp: manifest_item_def cleanupItem_def Let_def get_or_def split: option.splits)

lemma blob_item_fields:
  "item_ResourceKind (blob_item reachable cutoff (digest, blobs)) = ''blob''"
  "item_Digest (blob_item reachable cutoff (digest, blobs)) = digest"
  "item_Repository (blob_item reachable cutoff (digest, blobs)) = ''*''"
  "item_Disposition (blob_item reachable cutoff (digest, blobs)) = RegistryCleanupDelete \<longleftrightarrow>
     digest \<notin> set reachable \<and> (\<forall>blob \<in> set blobs. blob_FirstObservedAt blob < cutoff)"
  by (auto simp: blob_item_def cleanupItem_def Let_def)

lemma planned_item_cases:
  assumes "planned snapshot now graph prot dels items" and "item \<in> set items"
  shows "(item_ResourceKind item \<noteq> ''blob'' \<and> (\<exists>key m. (key, m) \<in> set (lg_manifests graph) \<and> key = man_key m \<and>
             item_Repository item = man_Repository m \<and> item_Digest item = man_Digest m \<and>
             item_Disposition item = (if key \<in> keys prot then RegistryCleanupProtect else RegistryCleanupDelete))) \<or>
         (item_ResourceKind item = ''blob'' \<and> (\<exists>digest blobs. (digest, blobs) \<in> set (lg_blobByDigest graph) \<and>
             item_Digest item = digest \<and>
             (item_Disposition item = RegistryCleanupDelete \<longleftrightarrow> digest \<notin> set (reachableBlobs graph prot) \<and>
               (\<forall>blob \<in> set blobs. blob_FirstObservedAt blob < now - pol_MinimumSafetyAge (snap_Policy snapshot)))))"
proof -
  let ?ms = "map (manifest_item (serviceRepositories snapshot) prot dels) (lg_manifests graph)"
  let ?bs = "map (blob_item (reachableBlobs graph prot) (now - pol_MinimumSafetyAge (snap_Policy snapshot)))
      (lg_blobByDigest graph)"
  obtain depths where "items = number_items (sort_key (item_key depths) (?ms @ ?bs))"
    using assms(1) by (auto simp: planned_def elim: sortCleanupItems_Inr)
  then obtain i where "i < length (sort_key (item_key depths) (?ms @ ?bs))"
      and item: "item = (sort_key (item_key depths) (?ms @ ?bs) ! i)\<lparr>item_Ordinal := i\<rparr>"
    using set_number_items assms(2) by blast
  then have "sort_key (item_key depths) (?ms @ ?bs) ! i \<in> set (?ms @ ?bs)"
    by (metis nth_mem set_sort)
  then consider
      (manifest) key m where "(key, m) \<in> set (lg_manifests graph)"
        "sort_key (item_key depths) (?ms @ ?bs) ! i = manifest_item (serviceRepositories snapshot) prot dels (key, m)"
    | (blob) digest blobs where "(digest, blobs) \<in> set (lg_blobByDigest graph)"
        "sort_key (item_key depths) (?ms @ ?bs) ! i = blob_item (reachableBlobs graph prot)
           (now - pol_MinimumSafetyAge (snap_Policy snapshot)) (digest, blobs)"
    by fastforce
  then show ?thesis
  proof cases
    case manifest
    have "key = man_key m"
      using assms(1) newLifecycleGraph_ok(1) manifest(1) by (fastforce simp: planned_def manifests_ok_def)
    then show ?thesis
      using manifest(1)
      by (intro disjI1 conjI exI [of _ key] exI [of _ m])
        (simp_all add: item manifest(2) manifest_item_fields manifest_item_kind)
  next
    case blob
    show ?thesis
      using blob(1) by (intro disjI2 conjI exI [of _ digest] exI [of _ blobs]) (simp_all add: item blob(2) blob_item_fields)
  qed
qed

definition item_node :: "registry_cleanup_item \<Rightarrow> string" where
  "item_node item = nodeKey (item_Repository item) (item_Digest item)"

lemma planned_manifest_item:
  assumes "planned snapshot now graph prot dels items" and "item \<in> set items"
    and "item_ResourceKind item \<noteq> ''blob''"
  obtains m where "(item_node item, m) \<in> set (lg_manifests graph)" and "item_node item = man_key m"
    and "item_Repository item = man_Repository m"
    and "item_Disposition item =
          (if item_node item \<in> live_keys snapshot graph now then RegistryCleanupProtect else RegistryCleanupDelete)"
proof -
  have "keys prot = live_keys snapshot graph now" using assms(1) by (simp add: planned_def)
  then show thesis
    using planned_item_cases [OF assms(1,2)] assms(3) that by (auto simp: item_node_def man_key_def)
qed

lemma planned_blob_item:
  assumes "planned snapshot now graph prot dels items" and "item \<in> set items"
    and "item_ResourceKind item = ''blob''" and "item_Disposition item = RegistryCleanupDelete"
  shows "item_Digest item \<notin> set (reachableBlobs graph prot)"
    and "b \<in> set (snap_Blobs snapshot) \<Longrightarrow> blob_Present b \<Longrightarrow> blob_Digest b = item_Digest item \<Longrightarrow>
      blob_FirstObservedAt b < now - pol_MinimumSafetyAge (snap_Policy snapshot)"
proof -
  obtain blobs where blobs: "(item_Digest item, blobs) \<in> set (lg_blobByDigest graph)"
      "item_Digest item \<notin> set (reachableBlobs graph prot)"
      "\<forall>blob \<in> set blobs. blob_FirstObservedAt blob < now - pol_MinimumSafetyAge (snap_Policy snapshot)"
    using planned_item_cases [OF assms(1,2)] assms(3,4) by auto
  then show "item_Digest item \<notin> set (reachableBlobs graph prot)" by simp
  have graph: "newLifecycleGraph snapshot = Inr graph" using assms(1) by (simp add: planned_def)
  have "get_or [] (lg_blobByDigest graph) (item_Digest item) = blobs"
    using blobs(1) newLifecycleGraph_ok(7) [OF graph] by (simp add: wf_map_mem_iff get_or_def)
  then have "set blobs = {b \<in> set (snap_Blobs snapshot). blob_Present b \<and> blob_Digest b = item_Digest item}"
    using newLifecycleGraph_ok(8) [OF graph, of "item_Digest item"] by simp
  then show "blob_FirstObservedAt b < now - pol_MinimumSafetyAge (snap_Policy snapshot)"
    if "b \<in> set (snap_Blobs snapshot)" "blob_Present b" "blob_Digest b = item_Digest item"
    using blobs(3) that by blast
qed

text \<open>Conversely every node of the graph has its item.\<close>

lemma planned_sorted:
  assumes "planned snapshot now graph prot dels items"
  obtains depths where
    "manifestDepths (lg_children graph) (map fst (lg_manifests graph)) = Some depths"
    and "items = number_items (sort_key (item_key depths)
      (map (manifest_item (serviceRepositories snapshot) prot dels) (lg_manifests graph) @
       map (blob_item (reachableBlobs graph prot) (now - pol_MinimumSafetyAge (snap_Policy snapshot)))
         (lg_blobByDigest graph)))"
  using assms by (auto simp: planned_def elim: sortCleanupItems_Inr)

lemma number_items_erased:
  "(\<And>item n. f (item\<lparr>item_Ordinal := n\<rparr>) = f item) \<Longrightarrow> map f (number_items items) = map f items"
  by (rule nth_equalityI) (simp_all add: number_items_nth)

lemma planned_manifest_present:
  assumes "planned snapshot now graph prot dels items" and "(key, m) \<in> set (lg_manifests graph)"
  obtains item where "item \<in> set items" and "item_ResourceKind item \<noteq> ''blob''" and "item_node item = key"
proof -
  let ?f = "\<lambda>item. (item_ResourceKind item, item_node item)"
  let ?item = "manifest_item (serviceRepositories snapshot) prot dels (key, m)"
  obtain depths where items: "items = number_items (sort_key (item_key depths)
      (map (manifest_item (serviceRepositories snapshot) prot dels) (lg_manifests graph) @
       map (blob_item (reachableBlobs graph prot) (now - pol_MinimumSafetyAge (snap_Policy snapshot)))
         (lg_blobByDigest graph)))"
    using assms(1) by (elim planned_sorted)
  have "?f ` set items = set (map ?f items)" by simp
  also have "\<dots> = ?f ` set (map (manifest_item (serviceRepositories snapshot) prot dels) (lg_manifests graph) @
       map (blob_item (reachableBlobs graph prot) (now - pol_MinimumSafetyAge (snap_Policy snapshot)))
         (lg_blobByDigest graph))"
    unfolding items by (subst number_items_erased) (simp_all add: item_node_def)
  finally have "?f ?item \<in> ?f ` set items" using assms(2) by force
  moreover have "key = man_key m"
    using assms newLifecycleGraph_ok(1) by (fastforce simp: planned_def manifests_ok_def)
  then have "item_node ?item = key"
    by (simp add: item_node_def man_key_def manifest_item_fields)
  ultimately show thesis
    using that manifest_item_kind [of snapshot prot dels key m] by fastforce
qed

section \<open>Properties of plans\<close>

text \<open>
  C1.  No plan deletes a manifest that a protected reference (current Git intent, observed
  running, pinned or used by an active operation) reaches through the index-to-child edges
  of the catalog: its item is always a protect item.
\<close>

theorem plan_protects_references:
  assumes "BuildCleanupPlan dj snapshot now age = Inr plan"
    and "reference \<in> set (snap_References snapshot)"
    and "item \<in> set (plan_Items plan)" and "item_ResourceKind item \<noteq> ''blob''"
    and "(nodeKey (ref_Repository reference) (ref_Digest reference), item_node item) \<in> (catalog_edges snapshot)\<^sup>*"
  shows "item_Disposition item = RegistryCleanupProtect"
proof -
  obtain graph prot dels where planned: "planned snapshot now graph prot dels (plan_Items plan)"
    using assms(1) by (rule BuildCleanupPlan_planned)
  have "item_node item \<in> live_keys snapshot graph now"
    using assms(2,5) by (auto simp: live_keys_def root_keys_def)
  then show ?thesis
    using planned_manifest_item [OF planned assms(3,4)] by metis
qed

text \<open>
  C2.  The planner is exact: a manifest item is a delete item if and only if the manifest
  is not reachable, along the catalog's edges, from the root set (references, retained
  releases, protected cache roots, manifests outside the service's repositories and
  manifests younger than the safety age).
\<close>

theorem plan_deletes_exactly_unreachable:
  assumes "BuildCleanupPlan dj snapshot now age = Inr plan"
    and "newLifecycleGraph snapshot = Inr graph"
    and "item \<in> set (plan_Items plan)" and "item_ResourceKind item \<noteq> ''blob''"
  shows "item_Disposition item = RegistryCleanupDelete \<longleftrightarrow> item_node item \<notin> live_keys snapshot graph now"
proof -
  obtain graph' prot dels where planned: "planned snapshot now graph' prot dels (plan_Items plan)"
    using assms(1) by (rule BuildCleanupPlan_planned)
  then have "graph' = graph" using assms(2) by (simp add: planned_def)
  then show ?thesis
    using planned_manifest_item [OF planned assms(3,4)] by (metis registry_cleanup_disposition.distinct(1))
qed


text \<open>
  C5.  Blob collection is safe across repositories: when a plan collects a blob, every
  manifest of the registry that links to its digest has a delete item in the same plan.
\<close>

theorem plan_blob_collection_safe:
  assumes "BuildCleanupPlan dj snapshot now age = Inr plan"
    and "blob_it \<in> set (plan_Items plan)" and "item_ResourceKind blob_it = ''blob''"
    and "item_Disposition blob_it = RegistryCleanupDelete"
    and "link \<in> set (snap_BlobLinks snapshot)" and "blink_BlobDigest link = item_Digest blob_it"
  shows "\<exists>item \<in> set (plan_Items plan). item_ResourceKind item \<noteq> ''blob'' \<and>
    item_node item = nodeKey (blink_Repository link) (blink_ManifestDigest link) \<and>
    item_Disposition item = RegistryCleanupDelete"
proof -
  obtain graph prot dels where planned: "planned snapshot now graph prot dels (plan_Items plan)"
    using assms(1) by (rule BuildCleanupPlan_planned)
  let ?key = "nodeKey (blink_Repository link) (blink_ManifestDigest link)"
  have graph: "newLifecycleGraph snapshot = Inr graph" and prot: "keys prot = live_keys snapshot graph now"
    using planned by (simp_all add: planned_def)
  obtain m where "(?key, m) \<in> set (lg_manifests graph)"
    using blob_link_manifest [OF graph assms(5)] by (rule in_keys_obtain) (auto dest: map_of_SomeD)
  then obtain item where item: "item \<in> set (plan_Items plan)" "item_ResourceKind item \<noteq> ''blob''" "item_node item = ?key"
    by (rule planned_manifest_present [OF planned])
  have "item_Digest blob_it \<in> set (get_or [] (lg_manifestBlobs graph) ?key)"
    unfolding newLifecycleGraph_ok(6) [OF graph]
    using assms(5,6) by (intro CollectI exI [of _ link]) simp
  moreover have "item_Digest blob_it \<notin> set (reachableBlobs graph prot)"
    by (rule planned_blob_item(1) [OF planned assms(2-4)])
  ultimately have "?key \<notin> keys prot"
    by (auto simp: reachableBlobs_def keys_def)
  then have "item_Disposition item = RegistryCleanupDelete"
    using planned_manifest_item [OF planned item(1,2)] prot item(3) by metis
  with item show ?thesis by blast
qed

text \<open>
  C10.  Nothing young is deleted: a manifest with a delete item, and every present copy of
  a blob with a collect item, was first observed strictly before \<open>now - MinimumSafetyAge\<close>.
\<close>

theorem plan_respects_safety_age:
  assumes "BuildCleanupPlan dj snapshot now age = Inr plan"
    and "item \<in> set (plan_Items plan)" and "item_Disposition item = RegistryCleanupDelete"
  shows "(item_ResourceKind item \<noteq> ''blob'' \<longrightarrow>
            (\<forall>m \<in> set (snap_Manifests snapshot). man_Present m \<and> man_key m = item_node item \<longrightarrow>
               man_FirstObservedAt m < now - pol_MinimumSafetyAge (snap_Policy snapshot))) \<and>
         (item_ResourceKind item = ''blob'' \<longrightarrow>
            (\<forall>b \<in> set (snap_Blobs snapshot). blob_Present b \<and> blob_Digest b = item_Digest item \<longrightarrow>
               blob_FirstObservedAt b < now - pol_MinimumSafetyAge (snap_Policy snapshot)))"
proof -
  obtain graph prot dels where planned: "planned snapshot now graph prot dels (plan_Items plan)"
    using assms(1) by (rule BuildCleanupPlan_planned)
  then have graph: "newLifecycleGraph snapshot = Inr graph" by (simp add: planned_def)
  have "man_FirstObservedAt m < now - pol_MinimumSafetyAge (snap_Policy snapshot)"
    if "item_ResourceKind item \<noteq> ''blob''" "m \<in> set (snap_Manifests snapshot)" "man_Present m"
      "man_key m = item_node item" for m
  proof (rule ccontr)
    assume "\<not> ?thesis"
    moreover have "(man_key m, m) \<in> set (lg_manifests graph)"
      using newLifecycleGraph_ok(2) [OF graph that(2,3)] by (rule map_of_SomeD)
    ultimately have "item_node item \<in> live_keys snapshot graph now"
      using that(4) by (auto simp: live_keys_def root_keys_def)
    then show False
      using planned_manifest_item [OF planned assms(2) that(1)] assms(3) by (metis registry_cleanup_disposition.distinct(1))
  qed
  with planned_blob_item(2) [OF planned assms(2) _ assms(3)] show ?thesis by blast
qed

text \<open>
  C11.  A plan stays in its scope: it deletes manifests only in the repositories of its
  service, the policy's own repository and the repositories of the service's caches.
\<close>

theorem plan_respects_scope:
  assumes "BuildCleanupPlan dj snapshot now age = Inr plan"
    and "item \<in> set (plan_Items plan)" and "item_ResourceKind item \<noteq> ''blob''"
    and "item_Disposition item = RegistryCleanupDelete"
  shows "item_Repository item = pol_Repository (snap_Policy snapshot) \<or>
    (\<exists>cache \<in> set (snap_CacheGenerations snapshot).
       cache_ServiceID cache = pol_ServiceID (snap_Policy snapshot) \<and> cache_Repository cache = item_Repository item)"
proof -
  obtain graph prot dels where planned: "planned snapshot now graph prot dels (plan_Items plan)"
    using assms(1) by (rule BuildCleanupPlan_planned)
  obtain m where m: "(item_node item, m) \<in> set (lg_manifests graph)" "item_Repository item = man_Repository m"
      and live: "item_node item \<notin> live_keys snapshot graph now"
    using planned_manifest_item [OF planned assms(2,3)] assms(4) by (metis registry_cleanup_disposition.distinct(1))
  have "map_of (serviceRepositories snapshot) (item_Repository item) \<noteq> None"
    using m live by (auto simp: live_keys_def root_keys_def)
  then have mem: "item_Repository item \<in> keys (serviceRepositories snapshot)"
    by (simp add: map_of_None_keys)
  have "keys (serviceRepositories snapshot) \<subseteq> {pol_Repository (snap_Policy snapshot)} \<union>
      cache_Repository ` {cache \<in> set (snap_CacheGenerations snapshot).
        cache_ServiceID cache = pol_ServiceID (snap_Policy snapshot)}"
    unfolding serviceRepositories_def by (rule foldl_invariant) (auto simp: keys_def [of "[_]"])
  from subsetD [OF this mem] show ?thesis by auto
qed

end
