(* ===== verification/Registry_Order.thy ===== *)
theory Registry_Order
  imports Registry_Safety
begin

text \<open>
  The list of items a plan holds: one item per node of the catalog, numbered in execution
  order, parents before children and manifests before blobs; and that the planner's depth
  computation always ends.
\<close>

section \<open>One item per node\<close>

definition is_blob_item :: "registry_cleanup_item \<Rightarrow> bool" where
  "is_blob_item item \<longleftrightarrow> item_ResourceKind item = ''blob''"

lemma mset_number_items:
  assumes "\<And>item n. f (item\<lparr>item_Ordinal := n\<rparr>) = f item"
  shows "mset (map f (number_items (sort_key k items))) = mset (map f items)"
proof -
  have "mset (map f (number_items (sort_key k items))) = mset (map f (sort_key k items))"
    using assms by (simp only: number_items_erased)
  also have "\<dots> = mset (map f items)" by (metis mset_map mset_sort)
  finally show ?thesis .
qed

lemma distinct_mset: "mset xs = mset ys \<Longrightarrow> distinct xs \<longleftrightarrow> distinct ys"
  by (rule mset_eq_imp_distinct_iff)

definition node_list :: "registry_cleanup_item list \<Rightarrow> (bool \<times> string \<times> string) list" where
  "node_list items = map (\<lambda>item. (is_blob_item item, item_Repository item, item_Digest item)) items"

lemma planned_nodes:
  assumes "planned snapshot now graph prot dels items"
  shows "mset (node_list items) =
    mset (map (\<lambda>(key, m). (False, man_Repository m, man_Digest m)) (lg_manifests graph) @
          map (\<lambda>(digest, bs). (True, ''*'', digest)) (lg_blobByDigest graph))"
proof -
  obtain depths where items: "items = number_items (sort_key (item_key depths)
      (map (manifest_item (serviceRepositories snapshot) prot dels) (lg_manifests graph) @
       map (blob_item (reachableBlobs graph prot) (now - pol_MinimumSafetyAge (snap_Policy snapshot)))
         (lg_blobByDigest graph)))"
    using assms by (elim planned_sorted)
  have man: "map (\<lambda>item. (is_blob_item item, item_Repository item, item_Digest item))
      (map (manifest_item (serviceRepositories snapshot) prot dels) ms) =
      map (\<lambda>(key, m). (False, man_Repository m, man_Digest m)) ms" for ms
    by (induction ms) (auto simp: is_blob_item_def manifest_item_kind manifest_item_fields)
  have blob: "map (\<lambda>item. (is_blob_item item, item_Repository item, item_Digest item))
      (map (blob_item r c) bs) = map (\<lambda>(digest, bs). (True, ''*'', digest)) bs" for r c bs
    by (induction bs) (auto simp: is_blob_item_def blob_item_fields)
  have "mset (node_list items) = mset (map (\<lambda>item. (is_blob_item item, item_Repository item, item_Digest item))
      (map (manifest_item (serviceRepositories snapshot) prot dels) (lg_manifests graph) @
       map (blob_item (reachableBlobs graph prot) (now - pol_MinimumSafetyAge (snap_Policy snapshot)))
         (lg_blobByDigest graph)))"
    unfolding items node_list_def by (rule mset_number_items) (simp add: is_blob_item_def)
  then show ?thesis by (simp only: map_append man blob)
qed

lemma graph_manifest_entry:
  assumes "newLifecycleGraph snapshot = Inr graph" and "entry \<in> set (lg_manifests graph)"
  shows "fst entry = man_key (snd entry)" and "man_Present (snd entry)"
    and "snd entry \<in> set (snap_Manifests snapshot)"
  using bspec [OF conjunct2 [OF newLifecycleGraph_ok(1) [OF assms(1), unfolded manifests_ok_def]] assms(2)]
  by (simp_all only: split_beta)

lemma graph_manifest_nodes:
  assumes "newLifecycleGraph snapshot = Inr graph"
  shows "distinct (map (\<lambda>(key, m). (False, man_Repository m, man_Digest m)) (lg_manifests graph))"
    and "snd ` set (lg_manifests graph) = {m \<in> set (snap_Manifests snapshot). man_Present m}"
proof -
  have "distinct (map fst (lg_manifests graph))"
    using newLifecycleGraph_ok(1) [OF assms] by (simp add: manifests_ok_def wf_map_def)
  moreover have "map fst (lg_manifests graph) =
      map (\<lambda>(b, r, d). nodeKey r d) (map (\<lambda>(key, m). (False, man_Repository m, man_Digest m)) (lg_manifests graph))"
    unfolding map_map
    by (rule map_cong [OF refl]) (simp add: graph_manifest_entry(1) [OF assms] man_key_def split_beta)
  ultimately show "distinct (map (\<lambda>(key, m). (False, man_Repository m, man_Digest m)) (lg_manifests graph))"
    by (simp only: distinct_map)
  show "snd ` set (lg_manifests graph) = {m \<in> set (snap_Manifests snapshot). man_Present m}"
  proof (intro equalityI subsetI)
    fix m assume "m \<in> {m \<in> set (snap_Manifests snapshot). man_Present m}"
    then have "(man_key m, m) \<in> set (lg_manifests graph)"
      using newLifecycleGraph_ok(2) [OF assms] by (blast dest: map_of_SomeD)
    then show "m \<in> snd ` set (lg_manifests graph)" by (rule image_eqI [rotated]) simp
  next
    fix m assume "m \<in> snd ` set (lg_manifests graph)"
    then show "m \<in> {m \<in> set (snap_Manifests snapshot). man_Present m}"
      using graph_manifest_entry(2,3) [OF assms] by blast
  qed
qed

text \<open>
  C22.  A plan accounts for the catalog exactly once: its items are one manifest item for
  every present manifest and one blob item for every present blob digest, with no item
  twice, and they are numbered 0, 1, 2, ... in order.
\<close>

theorem plan_covers_catalog:
  assumes "BuildCleanupPlan dj snapshot now age = Inr plan"
  shows "distinct (node_list (plan_Items plan)) \<and>
    set (node_list (plan_Items plan)) =
      (\<lambda>m. (False, man_Repository m, man_Digest m)) ` {m \<in> set (snap_Manifests snapshot). man_Present m} \<union>
      (\<lambda>b. (True, ''*'', blob_Digest b)) ` {b \<in> set (snap_Blobs snapshot). blob_Present b} \<and>
    map item_Ordinal (plan_Items plan) = [0..<length (plan_Items plan)]"
proof -
  obtain graph prot dels where planned: "planned snapshot now graph prot dels (plan_Items plan)"
    using assms by (rule BuildCleanupPlan_planned)
  then have graph: "newLifecycleGraph snapshot = Inr graph" by (simp add: planned_def)
  let ?nodes = "map (\<lambda>(key, m). (False, man_Repository m, man_Digest m)) (lg_manifests graph) @
          map (\<lambda>(digest, bs). (True, ''*'', digest)) (lg_blobByDigest graph)"
  have "distinct (map fst (lg_blobByDigest graph))"
    using newLifecycleGraph_ok(7) [OF graph] by (simp add: wf_map_def)
  then have "distinct (map (\<lambda>(digest, bs). (True, ''*'', digest)) (lg_blobByDigest graph))"
    by (simp add: distinct_map inj_on_def split_beta)
  then have "distinct ?nodes" using graph_manifest_nodes(1) [OF graph] by auto
  then have "distinct (node_list (plan_Items plan))"
    using distinct_mset [OF planned_nodes [OF planned]] by simp
  moreover have "set (map (\<lambda>(key, m). (False, man_Repository m, man_Digest m)) (lg_manifests graph)) =
      (\<lambda>m. (False, man_Repository m, man_Digest m)) ` snd ` set (lg_manifests graph)"
    by (simp add: image_image split_beta)
  moreover have "set (map (\<lambda>(digest, bs). (True, ''*'', digest)) (lg_blobByDigest graph)) =
      (\<lambda>d. (True, ''*'', d)) ` keys (lg_blobByDigest graph)"
    by (simp add: keys_def image_image split_beta)
  moreover have "set (node_list (plan_Items plan)) = set ?nodes"
    using planned_nodes [OF planned] by (rule mset_eq_setD)
  moreover have "map item_Ordinal (plan_Items plan) = [0..<length (plan_Items plan)]"
    using planned by (elim planned_sorted) (auto intro!: nth_equalityI simp: number_items_nth)
  ultimately show ?thesis
    unfolding set_append graph_manifest_nodes(2) [OF graph] newLifecycleGraph_ok(9) [OF graph]
    by (simp only: image_image simp_thms)
qed

section \<open>Order of execution\<close>

lemma sort_key_nth_less:
  assumes "i < length xs" "j < length xs" and "f (sort_key f xs ! i) < f (sort_key f xs ! j)"
  shows "i < j"
proof (rule ccontr)
  assume "\<not> i < j"
  then have "map f (sort_key f xs) ! j \<le> map f (sort_key f xs) ! i"
    using assms(1) by (intro sorted_nth_mono) simp_all
  with assms show False by simp
qed

lemma item_key_ordinal: "item_key depths (item\<lparr>item_Ordinal := n\<rparr>) = item_key depths item"
  by (simp add: item_key_def)

lemma planned_order:
  assumes "planned snapshot now graph prot dels items"
  obtains depths where
    "manifestDepths (lg_children graph) (map fst (lg_manifests graph)) = Some depths"
    and "\<forall>i < length items. \<forall>j < length items.
           item_key depths (items ! i) < item_key depths (items ! j) \<longrightarrow> i < j"
proof -
  obtain depths xs where depths: "manifestDepths (lg_children graph) (map fst (lg_manifests graph)) = Some depths"
      and items: "items = number_items (sort_key (item_key depths) xs)"
    using assms by (elim planned_sorted)
  show thesis
  proof (rule that [OF depths], intro allI impI)
    fix i j assume ij: "i < length items" "j < length items"
      and less: "item_key depths (items ! i) < item_key depths (items ! j)"
    have "i < length xs" "j < length xs" using ij by (simp_all add: items)
    then show "i < j"
      using less by (intro sort_key_nth_less [of i xs j "item_key depths"])
        (simp_all add: items number_items_nth item_key_ordinal)
  qed
qed

lemma depths_trancl:
  assumes "manifestDepths g ms = Some depths" and "wf_map g" and "snd ` edges g \<subseteq> set ms"
    and "(a, b) \<in> (edges g)\<^sup>+"
  shows "get_or 0 depths a < get_or 0 depths b"
  using assms(4)
proof (induction rule: trancl_induct)
  case (base y)
  then show ?case using manifestDepths_edge [OF assms(1,2)] assms(3) by force
next
  case (step y z)
  then have "get_or 0 depths y < get_or 0 depths z"
    using manifestDepths_edge [OF assms(1,2) step.hyps(2)] assms(3) by force
  with step.IH show ?case by simp
qed

lemma child_edge_manifests:
  assumes "newLifecycleGraph snapshot = Inr graph"
  shows "snd ` edges (lg_children graph) \<subseteq> set (map fst (lg_manifests graph))"
proof -
  from assms obtain ms ch where ch: "foldE (add_child_edge ms) [] (snap_Children snapshot) = Inr ch"
      and ms: "ms = lg_manifests graph"
    by (auto simp: newLifecycleGraph_def Let_def bindE_Inr split: prod.splits if_splits)
  have "nodeKey (link_Repository link) (link_ChildDigest link) \<in> keys (lg_manifests graph)"
    if "link \<in> set (snap_Children snapshot)" for link
  proof -
    have "digest_at ms (nodeKey (link_Repository link) (link_ChildDigest link)) \<noteq> []"
      using ch that by (rule foldE_processed) (auto simp: add_child_edge_def Let_def split: if_splits)
    then show ?thesis
      using digest_at_nonempty [OF newLifecycleGraph_ok(1) [OF assms]] by (simp add: ms)
  qed
  then show ?thesis
    by (auto simp: newLifecycleGraph_ok(4) [OF assms] catalog_edges_def keys_def)
qed

text \<open>
  C23.  Items are listed in a safe order of execution: an index comes before every manifest
  it reaches, so no child is removed while its index is still there, and every manifest
  item comes before every blob item.
\<close>

theorem plan_parents_first:
  assumes "BuildCleanupPlan dj snapshot now age = Inr plan"
    and "i < length (plan_Items plan)" and "j < length (plan_Items plan)"
    and "item_ResourceKind (plan_Items plan ! i) \<noteq> ''blob''"
    and "item_ResourceKind (plan_Items plan ! j) = ''blob'' \<or>
         (item_node (plan_Items plan ! i), item_node (plan_Items plan ! j)) \<in> (catalog_edges snapshot)\<^sup>+"
  shows "i < j"
proof -
  obtain graph prot dels where planned: "planned snapshot now graph prot dels (plan_Items plan)"
    using assms(1) by (rule BuildCleanupPlan_planned)
  then have graph: "newLifecycleGraph snapshot = Inr graph" by (simp add: planned_def)
  obtain depths where depths: "manifestDepths (lg_children graph) (map fst (lg_manifests graph)) = Some depths"
      and order: "\<forall>i < length (plan_Items plan). \<forall>j < length (plan_Items plan).
        item_key depths (plan_Items plan ! i) < item_key depths (plan_Items plan ! j) \<longrightarrow> i < j"
    using planned by (rule planned_order)
  have deeper: "get_or 0 depths a < get_or 0 depths b" if "(a, b) \<in> (catalog_edges snapshot)\<^sup>+" for a b
    using that depths_trancl [OF depths _ child_edge_manifests [OF graph]]
      newLifecycleGraph_ok(3,4) [OF graph] by simp
  have "item_key depths (plan_Items plan ! i) < item_key depths (plan_Items plan ! j)"
    using assms(4,5) deeper by (auto simp: item_key_def item_node_def less_prod_def')
  with order assms(2,3) show ?thesis by blast
qed

text \<open>No other function of the planner returns the fuel error.\<close>

lemma foldE_Inl:
  assumes "foldE f s xs = Inl e" obtains s' x where "x \<in> set xs" and "f s' x = Inl e"
  using assms by (induction xs arbitrary: s thesis) (auto simp: bindE_Inl)

lemma foldE_no_error: "(\<And>s x. f s x \<noteq> Inl e) \<Longrightarrow> foldE f s xs \<noteq> Inl e"
  by (metis foldE_Inl)

lemma ValidatePolicy_no_fuel: "ValidatePolicy policy \<noteq> Inl OutOfFuel"
  by (simp add: ValidatePolicy_def)

lemma check_authority_no_fuel: "foldE (check_authority snapshot now age) s xs \<noteq> Inl OutOfFuel"
  by (rule foldE_no_error) (simp add: check_authority_def)

lemma failIf_loop_no_fuel: "foldE (\<lambda>_ x. failIf (bad x) ErrRegistryObservationIncomplete) s xs \<noteq> Inl OutOfFuel"
  by (rule foldE_no_error) simp

lemma validateCompleteness_no_fuel: "validateCompleteness snapshot now age \<noteq> Inl OutOfFuel"
  by (simp add: validateCompleteness_def Let_def bindE_Inl check_authority_no_fuel failIf_loop_no_fuel)

lemma graph_loops_no_fuel:
  "foldE (add_manifest_node snapshot repos) s1 xs1 \<noteq> Inl OutOfFuel"
  "foldE (add_blob_node snapshot repos) s2 xs2 \<noteq> Inl OutOfFuel"
  "foldE (add_child_edge ms) s3 xs3 \<noteq> Inl OutOfFuel"
  "foldE (add_blob_edge ms nodes) s4 xs4 \<noteq> Inl OutOfFuel"
  "foldE (check_release snapshot ms) s5 xs5 \<noteq> Inl OutOfFuel"
  by (rule foldE_no_error, simp add: add_manifest_node_def add_blob_node_def add_child_edge_def add_blob_edge_def
      check_release_def Let_def split: prod.splits)+

lemma newLifecycleGraph_no_fuel: "newLifecycleGraph snapshot \<noteq> Inl OutOfFuel"
  by (auto simp: newLifecycleGraph_def Let_def bindE_Inl graph_loops_no_fuel failIf_loop_no_fuel split: prod.splits)

lemma protected_roots_no_fuel: "protected_roots snapshot graph now \<noteq> Inl OutOfFuel"
proof -
  have "foldE (protect_reference snapshot graph) s xs \<noteq> Inl OutOfFuel" for s xs
    by (rule foldE_no_error) (simp add: protect_reference_def Let_def)
  then show ?thesis by (simp add: protected_roots_def bindE_Inl split: prod.splits)
qed

lemma mark_eligible_no_fuel: "foldE (mark_eligible repos prot) s xs \<noteq> Inl OutOfFuel"
  by (rule foldE_no_error) (simp add: mark_eligible_def split: prod.splits)

text \<open>
  C24.  The memoised depth recursion of \<open>manifestDepths\<close> is total on every graph the planner
  accepts: no snapshot makes the planner run out of the recursion bound, which is one more
  than the number of nodes that have children.
\<close>

theorem plan_terminates: "BuildCleanupPlan dj snapshot now age \<noteq> Inl OutOfFuel"
proof
  assume "BuildCleanupPlan dj snapshot now age = Inl OutOfFuel"
  then obtain graph where graph: "newLifecycleGraph snapshot = Inr graph"
    and "plan_items snapshot graph now = Inl OutOfFuel"
    by (auto simp: BuildCleanupPlan_def bindE_Inl Let_def ValidatePolicy_no_fuel validateCompleteness_no_fuel
        newLifecycleGraph_no_fuel split: if_splits)
  then obtain items where "sortCleanupItems items graph = Inl OutOfFuel"
    by (auto simp: plan_items_def bindE_Inl Let_def protected_roots_no_fuel mark_eligible_no_fuel)
  moreover obtain depths where "manifestDepths (lg_children graph) (map fst (lg_manifests graph)) = Some depths"
    using manifestDepths_total newLifecycleGraph_ok(3,5) [OF graph] by blast
  ultimately show False by (simp add: sortCleanupItems_def)
qed

end
