(* ===== verification/Registry_Caches.thy ===== *)
theory Registry_Caches
  imports Registry_Safety
begin

text \<open>
  Which build caches a plan keeps: \<open>decideCaches\<close> of \<open>internal/registry/lifecycle.go\<close>.
  The first section follows the \<open>fixed\<close> map through the lanes, the second through the
  eviction loop.
\<close>

section \<open>Caches that are never candidates\<close>

definition nonempty_reasons :: "reasons \<Rightarrow> bool" where
  "nonempty_reasons m \<longleftrightarrow> (\<forall>k rs. map_of m k = Some rs \<longrightarrow> rs \<noteq> [])"

lemma nonempty_reasons_addReason [simp]: "nonempty_reasons m \<Longrightarrow> nonempty_reasons (addReason m k r)"
  by (auto simp: nonempty_reasons_def addReason_def List.insert_def split: if_splits)

lemma nonempty_reasons_Nil [simp]: "nonempty_reasons []"
  by (simp add: nonempty_reasons_def)

definition fixed_ok :: "reasons \<Rightarrow> bool" where
  "fixed_ok m \<longleftrightarrow> wf_map m \<and> nonempty_reasons m"

lemma fixed_ok_addReason [simp]: "fixed_ok m \<Longrightarrow> fixed_ok (addReason m k r)"
  by (simp add: fixed_ok_def)

lemma fix_generation_keys: "keys fixed \<subseteq> keys (snd (fix_generation snapshot now (kept, fixed) g))"
  by (auto simp: fix_generation_def)

lemma fix_generations_mono:
  "keys (snd acc) \<subseteq> keys (snd (foldl (fix_generation snapshot now) acc gs))"
proof (induction gs arbitrary: acc)
  case (Cons g gs)
  have "keys (snd acc) \<subseteq> keys (snd (fix_generation snapshot now acc g))"
    using fix_generation_keys [of "snd acc" snapshot now "fst acc" g] by simp
  then show ?case using Cons.IH [of "fix_generation snapshot now acc g"] by simp
qed simp

lemma fix_generations_ok:
  "fixed_ok (snd acc) \<Longrightarrow> fixed_ok (snd (foldl (fix_generation snapshot now) acc gs))"
  by (rule foldl_invariant [where P = "\<lambda>acc. fixed_ok (snd acc)"])
    (auto simp: fix_generation_def split: prod.splits)

lemma fix_generation_now:
  assumes "cache_active g \<or> \<not> cache_CreatedAt g < now - pol_MinimumSafetyAge (snap_Policy snapshot)"
  shows "cache_key g \<in> keys (snd (fix_generation snapshot now acc g))"
  using assms by (auto simp: fix_generation_def split: prod.splits)

lemma fix_generations_mem:
  assumes "g \<in> set gs"
    and "cache_active g \<or> \<not> cache_CreatedAt g < now - pol_MinimumSafetyAge (snap_Policy snapshot)"
  shows "cache_key g \<in> keys (snd (foldl (fix_generation snapshot now) acc gs))"
proof -
  from assms(1) obtain xs ys where gs: "gs = xs @ g # ys" by (meson split_list)
  show ?thesis
    unfolding gs foldl_append foldl.simps
    by (rule subsetD [OF fix_generations_mono fix_generation_now [OF assms(2)]])
qed

text \<open>Before the first inactive success of a lane nothing counts as retained.\<close>

lemma fix_generations_none_kept:
  assumes "\<forall>g \<in> set gs. \<not> (cache_State g = ''succeeded'' \<and> \<not> cache_active g)"
  shows "fst (foldl (fix_generation snapshot now) (0, fixed) gs) = 0"
  using assms by (induction gs rule: rev_induct) (auto simp: fix_generation_def split: prod.splits)

definition newest_success :: "registry_cache_generation \<Rightarrow> registry_cache_generation list \<Rightarrow> bool" where
  "newest_success g gs \<longleftrightarrow> cache_State g = ''succeeded'' \<and> \<not> cache_active g \<and>
     (\<forall>g' \<in> set gs. cache_State g' = ''succeeded'' \<and> \<not> cache_active g' \<and> g' \<noteq> g \<longrightarrow>
        (cache_Generation g', cache_ID g') < (cache_Generation g, cache_ID g))"

lemma lane_newest_first_before:
  assumes "lane_newest_first gs = xs @ g # ys" and "g' \<in> set xs"
  shows "(cache_Generation g, cache_ID g) \<le> (cache_Generation g', cache_ID g')"
proof -
  have "rev (xs @ g # ys) = sort_key (\<lambda>g. (cache_Generation g, cache_ID g)) gs"
    unfolding assms(1) [symmetric] lane_newest_first_def by simp
  then have "sorted (map (\<lambda>g. (cache_Generation g, cache_ID g)) (rev ys @ g # rev xs))"
    by (metis (no_types, lifting) append.assoc append_Cons append_Nil rev.simps(2) rev_append sorted_sort_key)
  with assms(2) show ?thesis by (auto simp: sorted_append)
qed

lemma fix_lane_newest:
  assumes "g \<in> set gs" and "newest_success g gs"
  shows "cache_key g \<in> keys (fix_lane snapshot now fixed gs)"
proof -
  have "g \<in> set (lane_newest_first gs)" using assms(1) by (simp add: lane_newest_first_def)
  then obtain xs ys where lane: "lane_newest_first gs = xs @ g # ys" and fresh: "g \<notin> set xs"
    by (meson split_list_first)
  have sub: "set xs \<subseteq> set gs"
    using lane by (metis Un_upper1 lane_newest_first_def set_append set_rev set_sort)
  have none: "\<forall>g' \<in> set xs. \<not> (cache_State g' = ''succeeded'' \<and> \<not> cache_active g')"
  proof
    fix g' assume g': "g' \<in> set xs"
    then have "g' \<noteq> g" "g' \<in> set gs" using fresh sub by auto
    then show "\<not> (cache_State g' = ''succeeded'' \<and> \<not> cache_active g')"
      using assms(2) lane_newest_first_before [OF lane g'] by (auto simp: newest_success_def)
  qed
  let ?acc = "foldl (fix_generation snapshot now) (0, fixed) xs"
  have "fst ?acc = 0" by (rule fix_generations_none_kept [OF none])
  then have "cache_key g \<in> keys (snd (fix_generation snapshot now ?acc g))"
    using assms(2) by (cases ?acc) (simp add: fix_generation_def newest_success_def)
  then show ?thesis
    unfolding fix_lane_def lane foldl_append foldl.simps by (rule subsetD [OF fix_generations_mono])
qed

section \<open>From lanes to the fixed map\<close>

lemma cache_groups_lane:
  "set (get_or [] (cache_groups gs) lane) = {g \<in> set gs. cache_live g \<and> cache_lane g = lane}"
  and wf_map_cache_groups: "wf_map (cache_groups gs)"
proof -
  define step where "step = (\<lambda>groups generation.
    AList.update (cache_lane generation) (get_or [] groups (cache_lane generation) @ [generation]) groups)"
  have "set (get_or [] (foldl step acc xs) lane) = set (get_or [] acc lane) \<union> {g \<in> set xs. cache_lane g = lane}"
    for acc xs lane
    by (induction xs arbitrary: acc) (auto simp: step_def)
  then show "set (get_or [] (cache_groups gs) lane) = {g \<in> set gs. cache_live g \<and> cache_lane g = lane}"
    by (auto simp: cache_groups_def step_def)
  show "wf_map (cache_groups gs)"
    unfolding cache_groups_def by (rule foldl_invariant) simp_all
qed

lemma lane_in_groups:
  assumes "g \<in> set gs" and "cache_live g"
  obtains lane where "lane \<in> set (map snd (cache_groups gs))"
    and "set lane = {g' \<in> set gs. cache_live g' \<and> cache_lane g' = cache_lane g}"
proof -
  have lane: "set (get_or [] (cache_groups gs) (cache_lane g)) = {g' \<in> set gs. cache_live g' \<and> cache_lane g' = cache_lane g}"
    by (rule cache_groups_lane)
  then obtain l where "map_of (cache_groups gs) (cache_lane g) = Some l"
    using assms by (cases "map_of (cache_groups gs) (cache_lane g)") (auto simp: get_or_def)
  with lane show thesis
    by (intro that [of l]) (force simp: get_or_def dest: map_of_SomeD)+
qed

lemma fix_lanes_mono: "keys fixed \<subseteq> keys (foldl (fix_lane snapshot now) fixed lanes)"
proof (induction lanes arbitrary: fixed)
  case (Cons lane lanes)
  have "keys fixed \<subseteq> keys (fix_lane snapshot now fixed lane)"
    using fix_generations_mono [of "(0, fixed)"] by (simp add: fix_lane_def)
  then show ?case using Cons.IH [of "fix_lane snapshot now fixed lane"] by simp
qed simp

lemma fixed_caches_ok: "fixed_ok (fixed_caches snapshot now)"
  unfolding fixed_caches_def
  by (rule foldl_invariant) (auto simp: fix_lane_def fix_generations_ok, simp add: fixed_ok_def)

definition cache_must_stay :: "registry_lifecycle_snapshot \<Rightarrow> time \<Rightarrow> registry_cache_generation \<Rightarrow> bool" where
  "cache_must_stay snapshot now g \<longleftrightarrow>
     cache_active g \<or> \<not> cache_CreatedAt g < now - pol_MinimumSafetyAge (snap_Policy snapshot) \<or>
     newest_success g (filter (\<lambda>g'. cache_live g' \<and> cache_lane g' = cache_lane g) (snap_CacheGenerations snapshot))"

lemma fixed_caches_mem:
  assumes "g \<in> set (snap_CacheGenerations snapshot)" and "cache_live g" and "cache_must_stay snapshot now g"
  shows "cache_key g \<in> keys (fixed_caches snapshot now)"
proof -
  obtain lane where lane: "lane \<in> set (map snd (cache_groups (snap_CacheGenerations snapshot)))"
      "set lane = {g' \<in> set (snap_CacheGenerations snapshot). cache_live g' \<and> cache_lane g' = cache_lane g}"
    using assms(1,2) by (rule lane_in_groups)
  then have g: "g \<in> set lane" "g \<in> set (lane_newest_first lane)"
    using assms(1,2) by (simp_all add: lane_newest_first_def)
  have "cache_key g \<in> keys (fix_lane snapshot now fixed lane)" for fixed
  proof (cases "cache_active g \<or> \<not> cache_CreatedAt g < now - pol_MinimumSafetyAge (snap_Policy snapshot)")
    case True
    then show ?thesis unfolding fix_lane_def by (rule fix_generations_mem [OF g(2)])
  next
    case False
    then have "newest_success g lane"
      using assms(3) lane(2) by (auto simp: cache_must_stay_def newest_success_def)
    then show ?thesis by (rule fix_lane_newest [OF g(1)])
  qed
  moreover from lane(1) obtain xs ys where "map snd (cache_groups (snap_CacheGenerations snapshot)) = xs @ lane # ys"
    by (meson split_list)
  ultimately show ?thesis
    unfolding fixed_caches_def by (auto intro: subsetD [OF fix_lanes_mono])
qed

text \<open>
  Conversely, a root is fixed only for one of these reasons; ties between equal ranks are
  resolved in favour of either.
\<close>

definition latest_success :: "registry_cache_generation \<Rightarrow> registry_cache_generation list \<Rightarrow> bool" where
  "latest_success g gs \<longleftrightarrow> cache_State g = ''succeeded'' \<and> \<not> cache_active g \<and>
     (\<forall>g' \<in> set gs. cache_State g' = ''succeeded'' \<and> \<not> cache_active g' \<longrightarrow>
        (cache_Generation g', cache_ID g') \<le> (cache_Generation g, cache_ID g))"

definition cache_may_stay :: "registry_lifecycle_snapshot \<Rightarrow> time \<Rightarrow> registry_cache_generation \<Rightarrow> bool" where
  "cache_may_stay snapshot now g \<longleftrightarrow>
     cache_active g \<or> \<not> cache_CreatedAt g < now - pol_MinimumSafetyAge (snap_Policy snapshot) \<or>
     latest_success g (filter (\<lambda>g'. cache_live g' \<and> cache_lane g' = cache_lane g) (snap_CacheGenerations snapshot))"

definition first_success :: "registry_cache_generation \<Rightarrow> registry_cache_generation list \<Rightarrow> bool" where
  "first_success g gs \<longleftrightarrow> cache_State g = ''succeeded'' \<and> \<not> cache_active g \<and>
     (\<exists>xs ys. gs = xs @ g # ys \<and> (\<forall>g' \<in> set xs. \<not> (cache_State g' = ''succeeded'' \<and> \<not> cache_active g')))"

lemma first_success_append: "first_success g xs \<Longrightarrow> first_success g (xs @ ys)"
  by (force simp: first_success_def)

lemma fix_generations_only:
  "0 \<le> fst (foldl (fix_generation snapshot now) (0, fixed) gs) \<and>
   (fst (foldl (fix_generation snapshot now) (0, fixed) gs) < 1 \<longrightarrow>
      (\<forall>g \<in> set gs. \<not> (cache_State g = ''succeeded'' \<and> \<not> cache_active g))) \<and>
   keys (snd (foldl (fix_generation snapshot now) (0, fixed) gs)) \<subseteq> keys fixed \<union> cache_key ` {g \<in> set gs.
      cache_active g \<or> \<not> cache_CreatedAt g < now - pol_MinimumSafetyAge (snap_Policy snapshot) \<or> first_success g gs}"
  (is "?pos gs \<and> ?kept gs \<and> ?keys gs")
proof (induction gs rule: rev_induct)
  case (snoc g gs)
  obtain kept f where acc: "foldl (fix_generation snapshot now) (0, fixed) gs = (kept, f)" by fastforce
  have step: "foldl (fix_generation snapshot now) (0, fixed) (gs @ [g]) = fix_generation snapshot now (kept, f) g"
    by (simp add: acc)
  have IH: "0 \<le> kept" "kept < 1 \<Longrightarrow> \<forall>g \<in> set gs. \<not> (cache_State g = ''succeeded'' \<and> \<not> cache_active g)"
    "keys f \<subseteq> keys fixed \<union> cache_key ` {g \<in> set gs. cache_active g \<or>
       \<not> cache_CreatedAt g < now - pol_MinimumSafetyAge (snap_Policy snapshot) \<or> first_success g gs}"
    using snoc.IH by (simp_all add: acc)
  have mono: "first_success g' gs \<Longrightarrow> first_success g' (gs @ [g])" for g' by (rule first_success_append)
  have fresh: "first_success g (gs @ [g])" if "cache_State g = ''succeeded''" "\<not> cache_active g" "kept < 1"
    using IH(2) that by (auto simp: first_success_def)
  have "?pos (gs @ [g]) \<and> ?kept (gs @ [g])"
    unfolding step using IH(1,2) by (auto simp: fix_generation_def)
  moreover have "?keys (gs @ [g])"
  proof
    fix k assume k: "k \<in> keys (snd (foldl (fix_generation snapshot now) (0, fixed) (gs @ [g])))"
    show "k \<in> keys fixed \<union> cache_key ` {g' \<in> set (gs @ [g]). cache_active g' \<or>
        \<not> cache_CreatedAt g' < now - pol_MinimumSafetyAge (snap_Policy snapshot) \<or> first_success g' (gs @ [g])}"
    proof (cases "k \<in> keys f")
      case True
      then have "k \<in> keys fixed \<union> cache_key ` {g \<in> set gs. cache_active g \<or>
          \<not> cache_CreatedAt g < now - pol_MinimumSafetyAge (snap_Policy snapshot) \<or> first_success g gs}"
        using IH(3) by blast
      then show ?thesis using mono by auto
    next
      case False
      then have "k = cache_key g \<and> (cache_active g \<or>
          \<not> cache_CreatedAt g < now - pol_MinimumSafetyAge (snap_Policy snapshot) \<or> first_success g (gs @ [g]))"
        using k fresh unfolding step by (auto simp: fix_generation_def split: if_splits)
      then show ?thesis by auto
    qed
  qed
  ultimately show ?case by blast
qed simp

lemma first_success_latest:
  assumes "first_success g (lane_newest_first gs)"
  shows "latest_success g gs"
proof -
  from assms obtain xs ys where lane: "lane_newest_first gs = xs @ g # ys"
      and none: "\<forall>g' \<in> set xs. \<not> (cache_State g' = ''succeeded'' \<and> \<not> cache_active g')"
    by (auto simp: first_success_def)
  have sets: "set gs = set (xs @ g # ys)"
    using lane by (metis lane_newest_first_def set_rev set_sort)
  have "(cache_Generation g', cache_ID g') \<le> (cache_Generation g, cache_ID g)" if "g' \<in> set ys" for g'
  proof -
    from that obtain us vs where "ys = us @ g' # vs" by (meson split_list)
    then have "lane_newest_first gs = (xs @ g # us) @ g' # vs" by (simp add: lane)
    then show ?thesis by (rule lane_newest_first_before) simp
  qed
  then show ?thesis
    using assms none sets by (auto simp: latest_success_def first_success_def)
qed

lemma groups_lane_set:
  assumes "lane \<in> set (map snd (cache_groups gs))" and "g \<in> set lane"
  shows "set lane = {g' \<in> set gs. cache_live g' \<and> cache_lane g' = cache_lane g}"
proof -
  from assms(1) obtain l where "(l, lane) \<in> set (cache_groups gs)" by auto
  then have "get_or [] (cache_groups gs) l = lane"
    using wf_map_cache_groups by (simp add: wf_map_mem_iff get_or_def)
  then have "set lane = {g' \<in> set gs. cache_live g' \<and> cache_lane g' = l}"
    using cache_groups_lane [of gs l] by simp
  with assms(2) show ?thesis by auto
qed

lemma fixed_caches_only:
  assumes "key \<in> keys (fixed_caches snapshot now)"
  shows "\<exists>g \<in> set (snap_CacheGenerations snapshot). cache_live g \<and> cache_key g = key \<and> cache_may_stay snapshot now g"
proof -
  define ok where "ok k \<longleftrightarrow> (\<exists>g \<in> set (snap_CacheGenerations snapshot).
    cache_live g \<and> cache_key g = k \<and> cache_may_stay snapshot now g)" for k
  have "\<forall>k \<in> keys (fixed_caches snapshot now). ok k"
    unfolding fixed_caches_def
  proof (rule foldl_invariant)
    fix fixed :: reasons and lane assume lane: "lane \<in> set (map snd (cache_groups (snap_CacheGenerations snapshot)))"
      and IH: "\<forall>k \<in> keys fixed. ok k"
    show "\<forall>k \<in> keys (fix_lane snapshot now fixed lane). ok k"
    proof
      fix k assume k: "k \<in> keys (fix_lane snapshot now fixed lane)"
      then consider "k \<in> keys fixed" | g where "g \<in> set (lane_newest_first lane)" "k = cache_key g"
          "cache_active g \<or> \<not> cache_CreatedAt g < now - pol_MinimumSafetyAge (snap_Policy snapshot) \<or>
           first_success g (lane_newest_first lane)"
        using conjunct2 [OF conjunct2 [OF fix_generations_only [of snapshot now fixed "lane_newest_first lane"]]]
        unfolding fix_lane_def by blast
      then show "ok k"
      proof cases
        case (2 g)
        then have g: "g \<in> set lane" by (simp add: lane_newest_first_def)
        note set = groups_lane_set [OF lane g]
        have "cache_may_stay snapshot now g"
          using 2(3) first_success_latest [of g lane] set by (auto simp: cache_may_stay_def latest_success_def)
        then show ?thesis using g set 2(2) by (auto simp: ok_def)
      qed (use IH in blast)
    qed
  qed simp
  with assms show ?thesis by (simp add: ok_def)
qed

section \<open>The eviction loop\<close>

lemma evict_step_cases:
  "evict_step snapshot now (remaining, fixed, deleted) root =
     (if cache_expired snapshot now root then
        (i64 (remaining - root_size root), fixed, addReason deleted (root_key root) ''cache-unused-expired'')
      else if remaining > pol_CacheByteQuota (snap_Policy snapshot) then
        (i64 (remaining - root_size root), fixed, addReason deleted (root_key root) ''cache-byte-quota'')
      else (remaining, addReason fixed (root_key root) ''cache-recently-used'', deleted))"
  by (simp add: evict_step_def)

lemma evict_keeps_fixed:
  "fixed_ok fixed \<Longrightarrow> foldl (evict_step snapshot now) (remaining, fixed, deleted) roots = (remaining', fixed', deleted') \<Longrightarrow>
   fixed_ok fixed' \<and> keys fixed \<subseteq> keys fixed'"
proof (induction roots arbitrary: remaining fixed deleted)
  case (Cons root roots)
  then show ?case
    by (auto simp: evict_step_cases split: if_splits dest!: Cons.IH [rotated])
qed simp

text \<open>
  Expired roots come first, so once a root is kept the loop evicts nothing more and the
  bytes that remain are within the quota.
\<close>

lemma evict_all_within_quota:
  assumes "remaining \<le> pol_CacheByteQuota (snap_Policy snapshot)" and "\<forall>root \<in> set roots. \<not> cache_expired snapshot now root"
  shows "fst (foldl (evict_step snapshot now) (remaining, fixed, deleted) roots) = remaining"
  using assms by (induction roots arbitrary: fixed) (simp_all add: evict_step_cases)

lemma evict_over_quota:
  assumes "sorted (map (\<lambda>root. if cache_expired snapshot now root then 0 else 1 :: nat) roots)"
    and "foldl (evict_step snapshot now) (remaining, fixed, deleted) roots = (remaining', fixed', deleted')"
    and "pol_CacheByteQuota (snap_Policy snapshot) < remaining'"
  shows "fixed' = fixed"
  using assms
proof (induction roots arbitrary: remaining deleted)
  case (Cons root roots)
  have sorted: "sorted (map (\<lambda>root. if cache_expired snapshot now root then 0 else 1 :: nat) roots)"
    using Cons.prems(1) by simp
  show ?case
  proof (cases "cache_expired snapshot now root \<or> pol_CacheByteQuota (snap_Policy snapshot) < remaining")
    case True
    then show ?thesis
      using Cons.IH [OF sorted _ Cons.prems(3)] Cons.prems(2) by (auto simp: evict_step_cases split: if_splits)
  next
    case False
    then have "\<forall>root \<in> set roots. \<not> cache_expired snapshot now root"
      using Cons.prems(1) by (auto split: if_splits)
    with False have "remaining' = remaining"
      using evict_all_within_quota [of remaining snapshot roots now] Cons.prems(2)
      by (simp add: evict_step_cases) (metis fst_conv)
    with False Cons.prems(3) show ?thesis by simp
  qed
qed simp

lemma cache_candidates_sorted:
  "sorted (map (\<lambda>root. if cache_expired snapshot now root then 0 else 1 :: nat) (cache_candidates snapshot now roots fixed))"
proof -
  let ?k = "\<lambda>root. (if cache_expired snapshot now root then 0 else 1 :: nat,
                       root_lastUsed root, root_generation root, root_id root)"
  have "sorted_wrt (\<lambda>a b. ?k a \<le> ?k b) (cache_candidates snapshot now roots fixed)"
    using sorted_sort_key [of ?k "map snd (filter (\<lambda>(key, root). get_or [] fixed key = []) roots)"]
    unfolding sorted_map cache_candidates_def .
  then show ?thesis
    unfolding sorted_map by (rule sorted_wrt_mono_rel [rotated]) (auto simp: less_eq_prod_def)
qed

definition evicted :: "registry_lifecycle_snapshot \<Rightarrow> lifecycle_graph \<Rightarrow> time \<Rightarrow> int \<times> reasons \<times> reasons" where
  "evicted snapshot graph now =
     (let roots = cache_roots graph (snap_CacheGenerations snapshot) in
      foldl (evict_step snapshot now)
        (foldl (\<lambda>before (_, root). i64 (before + root_size root)) 0 roots, fixed_caches snapshot now, [])
        (cache_candidates snapshot now roots (fixed_caches snapshot now)))"

definition decisions_of :: "reasons \<Rightarrow> reasons \<Rightarrow> (string, bool \<times> string list) gomap" where
  "decisions_of fixed deleted =
     foldl (\<lambda>decisions (key, reasons).
             if key \<in> fst ` set fixed then decisions else AList.update key (False, sort reasons) decisions)
       (map (\<lambda>(key, reasons). (key, (True, sort reasons))) fixed) deleted"

lemma decideCaches_evicted:
  "evicted snapshot graph now = (remaining, fixed, deleted) \<Longrightarrow>
   fst (decideCaches snapshot graph now) = decisions_of fixed deleted \<and>
   snd (snd (decideCaches snapshot graph now)) = (if remaining < 0 then 0 else remaining)"
  by (simp add: decideCaches_def evicted_def decisions_of_def Let_def)

lemma decisions_of_protect:
  assumes "fixed_ok fixed"
  shows "(\<exists>rs. (key, True, rs) \<in> set (decisions_of fixed deleted) \<and> rs \<noteq> []) \<longleftrightarrow> key \<in> keys fixed"
proof -
  define ok where "ok d \<longleftrightarrow> wf_map d \<and>
      (\<forall>k \<in> keys fixed. map_of d k = map_option (\<lambda>rs. (True, sort rs)) (map_of fixed k)) \<and>
      (\<forall>k rs. map_of d k = Some (True, rs) \<longrightarrow> k \<in> keys fixed)" for d :: "(string, bool \<times> string list) gomap"
  have start: "ok (map (\<lambda>(key, reasons). (key, (True, sort reasons))) fixed)"
    using assms by (auto simp: ok_def fixed_ok_def wf_map_def map_of_map split_beta comp_def intro: mem_keys)
  have ok: "ok (decisions_of fixed deleted)"
    unfolding decisions_of_def
    by (rule foldl_invariant [where P = ok, OF start]) (auto simp: ok_def keys_def [symmetric] split: if_splits)
  have mem: "(key, True, rs) \<in> set (decisions_of fixed deleted) \<longleftrightarrow> map_of (decisions_of fixed deleted) key = Some (True, rs)" for rs
    using ok by (simp add: ok_def wf_map_mem_iff)
  show ?thesis
  proof (cases "key \<in> keys fixed")
    case True
    then obtain rs where rs: "map_of fixed key = Some rs" by (rule in_keys_obtain)
    then have "rs \<noteq> []" using assms by (auto simp: fixed_ok_def nonempty_reasons_def)
    moreover have "map_of (decisions_of fixed deleted) key = Some (True, sort rs)"
      using ok True rs by (simp add: ok_def)
    moreover have "sort rs \<noteq> []" using \<open>rs \<noteq> []\<close> by (metis set_empty set_sort)
    ultimately show ?thesis using True mem by auto
  next
    case False
    then show ?thesis using ok mem by (auto simp: ok_def)
  qed
qed

lemma protected_cache_roots:
  assumes "evicted snapshot graph now = (remaining, fixed, deleted)"
  shows "{key. \<exists>rs. (key, True, rs) \<in> set (fst (decideCaches snapshot graph now)) \<and> rs \<noteq> []} = keys fixed"
    and "keys (fixed_caches snapshot now) \<subseteq> keys fixed"
proof -
  have "fixed_ok fixed \<and> keys (fixed_caches snapshot now) \<subseteq> keys fixed"
    using assms unfolding evicted_def Let_def by (rule evict_keeps_fixed [OF fixed_caches_ok])
  then show "{key. \<exists>rs. (key, True, rs) \<in> set (fst (decideCaches snapshot graph now)) \<and> rs \<noteq> []} = keys fixed"
    "keys (fixed_caches snapshot now) \<subseteq> keys fixed"
    using decideCaches_evicted [OF assms] by (simp_all add: decisions_of_protect)
qed

lemma summarize_quota [simp]:
  "sum_CacheQuotaSatisfied (summarize items before after quota) \<longleftrightarrow> after \<le> quota"
proof -
  have "sum_CacheQuotaSatisfied (foldl summarize_step s items) = sum_CacheQuotaSatisfied s" for s
    by (induction items arbitrary: s) (simp_all add: summarize_step_def)
  then show ?thesis by (simp add: summarize_def)
qed

section \<open>Properties of cache retention\<close>

text \<open>
  C25.  A cache that is being imported or exported, is younger than the safety age, or is
  the newest successful generation of its retention lane is protected, together with every
  manifest it reaches.
\<close>

theorem plan_protects_needed_caches:
  assumes "BuildCleanupPlan dj snapshot now age = Inr plan"
    and "g \<in> set (snap_CacheGenerations snapshot)" and "cache_live g" and "cache_must_stay snapshot now g"
    and "item \<in> set (plan_Items plan)" and "item_ResourceKind item \<noteq> ''blob''"
    and "(cache_key g, item_node item) \<in> (catalog_edges snapshot)\<^sup>*"
  shows "item_Disposition item = RegistryCleanupProtect"
proof -
  obtain graph prot dels where planned: "planned snapshot now graph prot dels (plan_Items plan)"
    using assms(1) by (rule BuildCleanupPlan_planned)
  obtain remaining fixed deleted where ev: "evicted snapshot graph now = (remaining, fixed, deleted)"
    by (metis prod_cases3)
  have "cache_key g \<in> keys fixed"
    using fixed_caches_mem [OF assms(2-4)] protected_cache_roots(2) [OF ev] by blast
  then have "cache_key g \<in> root_keys snapshot graph now"
    unfolding root_keys_def protected_cache_roots(1) [OF ev] by blast
  then have "item_node item \<in> live_keys snapshot graph now"
    using assms(7) by (auto simp: live_keys_def)
  then show ?thesis
    using planned_manifest_item [OF planned assms(5,6)] by metis
qed

text \<open>
  C26.  The byte quota is enforced as far as safety allows: when a plan leaves more cache
  bytes than the quota, every cache root it protects is in use, younger than the safety
  age, or the latest success of its lane; none is kept only for being recently used.
\<close>

theorem plan_cache_quota:
  assumes "BuildCleanupPlan dj snapshot now age = Inr plan" and "newLifecycleGraph snapshot = Inr graph"
    and "\<not> sum_CacheQuotaSatisfied (plan_Summary plan)"
    and "(key, True, rs) \<in> set (fst (decideCaches snapshot graph now))" and "rs \<noteq> []"
  shows "\<exists>g \<in> set (snap_CacheGenerations snapshot). cache_live g \<and> cache_key g = key \<and> cache_may_stay snapshot now g"
proof -
  obtain remaining fixed deleted where ev: "evicted snapshot graph now = (remaining, fixed, deleted)"
    by (metis prod_cases3)
  have "pol_CacheByteQuota (snap_Policy snapshot) < snd (snd (decideCaches snapshot graph now))"
    and "0 < pol_CacheByteQuota (snap_Policy snapshot)"
    using assms(1-3) by (auto elim!: BuildCleanupPlan_Inr simp: summarize_quota ValidatePolicy_def split: if_splits)
  then have "pol_CacheByteQuota (snap_Policy snapshot) < remaining"
    using decideCaches_evicted [OF ev] by (simp split: if_splits)
  then have "fixed = fixed_caches snapshot now"
    using evict_over_quota [OF cache_candidates_sorted] ev unfolding evicted_def Let_def by blast
  moreover have "key \<in> keys fixed"
    using assms(4,5) protected_cache_roots(1) [OF ev] by blast
  ultimately show ?thesis using fixed_caches_only by blast
qed

end
