(* ===== verification/Registry_Demo.thy ===== *)
theory Registry_Demo
  imports Registry_Order Registry_Caches "HOL-Library.Code_Target_Nat"
begin

text \<open>
  A small catalog the planner is run on, and the properties of plans applied to it.  The
  repository \<open>app\<close> holds an index \<open>a\<close> with child \<open>b\<close>, referenced by Git, and an old
  manifest \<open>c\<close> nothing refers to; \<open>app/cache\<close> holds a build cache \<open>f\<close> that is being
  imported and an idle one, \<open>0\<close>.  The quota is smaller than the cache in use.
\<close>

definition demo_digest :: "char \<Rightarrow> string" where
  "demo_digest c = ''sha256:'' @ replicate 64 c"

definition demo_manifest :: "string \<Rightarrow> char \<Rightarrow> registry_manifest_kind \<Rightarrow> registry_manifest" where
  "demo_manifest repository c kind =
     \<lparr>man_RegistryTargetID = ''t1'', man_Repository = repository, man_Digest = demo_digest c, man_Kind = kind, man_MediaType = [],
      man_SizeBytes = 10, man_PlatformOS = [], man_PlatformArchitecture = [], man_PlatformVariant = [], man_Present = True, man_FirstObservedAt = 1, man_LastObservedAt = 2,
      man_LastObservationRevision = 1, man_DeletedAt = None\<rparr>"

definition demo_blob :: "char \<Rightarrow> registry_blob" where
  "demo_blob c =
     \<lparr>blob_RegistryTargetID = ''t1'', blob_Repository = ''app'', blob_Digest = demo_digest c, blob_MediaType = [],
      blob_SizeBytes = 100, blob_Present = True, blob_FirstObservedAt = 1, blob_LastObservedAt = 2,
      blob_LastObservationRevision = 1, blob_DeletedAt = None\<rparr>"

definition demo_authority :: "registry_authority \<Rightarrow> registry_authority_observation" where
  "demo_authority a =
     \<lparr>auth_RegistryTargetID = ''t1'', auth_ServiceID = ''svc'', auth_Authority = a, auth_Revision = ''r'',
      auth_Complete = True, auth_SnapshotDigest = [], auth_ObservedAt = 4 * hour\<rparr>"

definition demo_cache :: "int \<Rightarrow> char \<Rightarrow> int \<Rightarrow> int \<Rightarrow> registry_cache_generation" where
  "demo_cache generation c sz imports_running =
     \<lparr>cache_ID = ''g'', cache_RegistryTargetID = ''t1'', cache_ServiceID = ''svc'',
      cache_Repository = ''app/cache'', cache_PlatformSet = ''linux/amd64'', cache_TrustLane = ''trusted'',
      cache_CacheSchema = ''v1'', cache_BuildDefinitionHash = ''h'', cache_Generation = generation, cache_RootDigest = demo_digest c,
      cache_SizeBytes = sz, cache_State = (if imports_running = 0 then ''failed'' else ''succeeded''),
      cache_ActiveImports = imports_running, cache_ActiveExports = 0, cache_CreatedAt = 1, cache_CompletedAt = None,
      cache_LastUsedAt = 3 * hour\<rparr>"

definition demo_catalog :: "string \<Rightarrow> int \<Rightarrow> int \<Rightarrow> registry_catalog_observation" where
  "demo_catalog repository manifests blobs =
     \<lparr>cat_ID = [], cat_RegistryTargetID = ''t1'', cat_Repository = repository, cat_Revision = 1, cat_Complete = True, cat_SnapshotDigest = [],
      cat_ObservedAt = 4 * hour, cat_ManifestCount = manifests, cat_BlobCount = blobs\<rparr>"

definition demo_release :: registry_release where
  "demo_release =
     \<lparr>rel_ID = ''rel-1'', rel_RegistryTargetID = ''t1'', rel_ServiceID = ''svc'', rel_Repository = ''app'',
      rel_RootDigest = demo_digest CHR ''a'', rel_CreatedAt = 1, rel_SucceededAt = Some 2,
      rel_Availability = RegistryArtifactPresent, rel_AvailabilityObservedAt = None\<rparr>"

definition demo_reference :: registry_artifact_reference where
  "demo_reference =
     \<lparr>ref_RegistryTargetID = ''t1'', ref_ServiceID = ''svc'', ref_Repository = ''app'',
      ref_Digest = demo_digest CHR ''a'', ref_Kind = RegistryReferenceCurrentGitIntent, ref_ReferenceKey = ''main'',
      ref_SourceRevision = [], ref_CreatedAt = 1, ref_ObservedAt = 2\<rparr>"

definition demo_snapshot :: registry_lifecycle_snapshot where
  "demo_snapshot =
     \<lparr>snap_Target = \<lparr>tgt_ID = ''t1'', tgt_Name = ''managed'', tgt_Mode = RegistryTargetManaged,
        tgt_Endpoint = ''registry'', tgt_RepositoryPrefix = ''app'', tgt_PullCredentialRef = [],
        tgt_PushCredentialRef = [], tgt_CacheCredentialRef = [],
        tgt_CreatedAt = 1, tgt_UpdatedAt = 1\<rparr>,
      snap_Policy = (DefaultPolicy ''t1'' ''svc'' ''app'' 1)\<lparr>pol_MinimumSafetyAge := hour, pol_CacheByteQuota := 4\<rparr>,
      snap_Inventory = \<lparr>inv_RegistryTargetID = ''t1'', inv_Revision = ''r'', inv_Complete = True,
        inv_Repositories = [''app'', ''app/cache''], inv_ObservedAt = 4 * hour\<rparr>,
      snap_CatalogObservations = [demo_catalog ''app'' 3 2, demo_catalog ''app/cache'' 2 0],
      snap_AuthorityObservations = [demo_authority RegistryAuthorityGitIntent,
        demo_authority RegistryAuthorityRuntime, demo_authority RegistryAuthorityOperations],
      snap_References = [demo_reference],
      snap_Releases = [demo_release],
      snap_CacheGenerations = [demo_cache 2 CHR ''f'' 5 1, demo_cache 1 CHR ''0'' 2 0],
      snap_Manifests = [demo_manifest ''app'' CHR ''a'' RegistryManifestIndex,
        demo_manifest ''app'' CHR ''b'' RegistryManifestImage, demo_manifest ''app'' CHR ''c'' RegistryManifestImage,
        demo_manifest ''app/cache'' CHR ''f'' RegistryManifestImage,
        demo_manifest ''app/cache'' CHR ''0'' RegistryManifestImage],
      snap_Blobs = [demo_blob CHR ''d'', demo_blob CHR ''e''],
      snap_Children = [\<lparr>link_Repository = ''app'', link_ParentDigest = demo_digest CHR ''a'',
        link_ChildDigest = demo_digest CHR ''b''\<rparr>],
      snap_BlobLinks = [\<lparr>blink_Repository = ''app'', blink_ManifestDigest = demo_digest CHR ''b'',
          blink_BlobDigest = demo_digest CHR ''d''\<rparr>,
        \<lparr>blink_Repository = ''app'', blink_ManifestDigest = demo_digest CHR ''c'',
          blink_BlobDigest = demo_digest CHR ''e''\<rparr>],
      snap_AsOf = 4 * hour\<rparr>"

definition demo_item :: "nat \<Rightarrow> string \<Rightarrow> string \<Rightarrow> char \<Rightarrow> registry_cleanup_disposition \<Rightarrow> string list \<Rightarrow> registry_cleanup_item" where
  "demo_item ordinal repository kind c disposition reasons =
     \<lparr>item_Ordinal = ordinal, item_Repository = repository, item_ResourceKind = kind,
      item_Digest = demo_digest c, item_Disposition = disposition,
      item_Action = (if disposition = RegistryCleanupProtect then ''none'' else ''delete-manifest''),
      item_EstimatedBytes = 10, item_Reasons = reasons,
      item_State = (if disposition = RegistryCleanupProtect then ''protected'' else ''planned''),
      item_ProviderMessage = [], item_UpdatedAt = 0\<rparr>"

definition demo_blob_item :: "nat \<Rightarrow> char \<Rightarrow> registry_cleanup_disposition \<Rightarrow> string list \<Rightarrow> registry_cleanup_item" where
  "demo_blob_item ordinal c disposition reasons =
     \<lparr>item_Ordinal = ordinal, item_Repository = ''*'', item_ResourceKind = ''blob'',
      item_Digest = demo_digest c, item_Disposition = disposition,
      item_Action = (if disposition = RegistryCleanupProtect then ''none'' else ''garbage-collect-blob''),
      item_EstimatedBytes = 100, item_Reasons = reasons,
      item_State = (if disposition = RegistryCleanupProtect then ''protected'' else ''planned''),
      item_ProviderMessage = [], item_UpdatedAt = 0\<rparr>"

definition demo_items :: "registry_cleanup_item list" where
  "demo_items =
     [demo_item 0 ''app'' ''release-manifest'' CHR ''a'' RegistryCleanupProtect
        [''current-git-intent'', ''retained-success-window''],
      demo_item 1 ''app'' ''release-manifest'' CHR ''c'' RegistryCleanupDelete [''retention-eligible''],
      demo_item 2 ''app/cache'' ''cache-manifest'' CHR ''0'' RegistryCleanupDelete [''cache-byte-quota''],
      demo_item 3 ''app/cache'' ''cache-manifest'' CHR ''f'' RegistryCleanupProtect [''cache-active''],
      demo_item 4 ''app'' ''release-manifest'' CHR ''b'' RegistryCleanupProtect [''reachable-from-protected-manifest''],
      demo_blob_item 5 CHR ''d'' RegistryCleanupProtect [''reachable-from-protected-manifest-blob''],
      demo_blob_item 6 CHR ''e'' RegistryCleanupDelete [''globally-unreachable'']]"

text \<open>A stand-in for the digest: every view gets the same string.\<close>

definition demo_dj :: digests where
  "demo_dj = \<lparr>dj_snapshot = \<lambda>_. ''s'', dj_authority = \<lambda>_. ''a'', dj_versioned = \<lambda>_. ''v'', dj_plan = \<lambda>_. ''p'',
     dj_catalog = \<lambda>_. ''c'', dj_protection = \<lambda>_. ''r''\<rparr>"

definition demo_plan :: registry_cleanup_plan where
  "demo_plan =
     \<lparr>plan_ID = [], plan_RegistryTargetID = ''t1'', plan_ServiceID = ''svc'', plan_Automatic = False,
      plan_SnapshotToken = ''registry-semantic-v2:s'', plan_AuthorityToken = ''v'', plan_PlanDigest = ''p'',
      plan_State = ''preview'', plan_Policy = snap_Policy demo_snapshot, plan_Inventory = snap_Inventory demo_snapshot,
      plan_Catalogs = snap_CatalogObservations demo_snapshot, plan_Authorities = snap_AuthorityObservations demo_snapshot,
      plan_Summary = \<lparr>sum_ProtectedManifests = 3, sum_DeletedManifests = 2, sum_GarbageCollectBlobs = 1,
        sum_EstimatedBytes = 100, sum_CacheBytesBefore = 7, sum_CacheBytesAfter = 5, sum_CacheQuotaSatisfied = False\<rparr>,
      plan_Items = demo_items, plan_CreatedAt = 4 * hour, plan_ClaimedAt = None, plan_CompletedAt = None,
      plan_Failure = []\<rparr>"

lemma demo_plan_built:
  "BuildCleanupPlan demo_dj demo_snapshot (4 * hour) (15 * minute) = Inr demo_plan"
  by code_simp

section \<open>The properties at work\<close>

definition demo_graph :: lifecycle_graph where
  "demo_graph = projr (newLifecycleGraph demo_snapshot)"

lemma demo_graph_built: "newLifecycleGraph demo_snapshot = Inr demo_graph"
  using demo_plan_built by (auto elim!: BuildCleanupPlan_Inr simp: demo_graph_def)

abbreviation demo_item_a :: registry_cleanup_item where
  "demo_item_a \<equiv> demo_item 0 ''app'' ''release-manifest'' CHR ''a'' RegistryCleanupProtect
     [''current-git-intent'', ''retained-success-window'']"

abbreviation demo_item_b :: registry_cleanup_item where
  "demo_item_b \<equiv> demo_item 4 ''app'' ''release-manifest'' CHR ''b'' RegistryCleanupProtect
     [''reachable-from-protected-manifest'']"

abbreviation demo_item_c :: registry_cleanup_item where
  "demo_item_c \<equiv> demo_item 1 ''app'' ''release-manifest'' CHR ''c'' RegistryCleanupDelete [''retention-eligible'']"

abbreviation demo_item_f :: registry_cleanup_item where
  "demo_item_f \<equiv> demo_item 3 ''app/cache'' ''cache-manifest'' CHR ''f'' RegistryCleanupProtect [''cache-active'']"

abbreviation demo_item_e :: registry_cleanup_item where
  "demo_item_e \<equiv> demo_blob_item 6 CHR ''e'' RegistryCleanupDelete [''globally-unreachable'']"

abbreviation demo_link_e :: registry_manifest_blob_link where
  "demo_link_e \<equiv> \<lparr>blink_Repository = ''app'', blink_ManifestDigest = demo_digest CHR ''c'',
     blink_BlobDigest = demo_digest CHR ''e''\<rparr>"

lemma demo_items_mem:
  "demo_item_a \<in> set (plan_Items demo_plan)" "demo_item_b \<in> set (plan_Items demo_plan)"
  "demo_item_c \<in> set (plan_Items demo_plan)" "demo_item_f \<in> set (plan_Items demo_plan)"
  "demo_item_e \<in> set (plan_Items demo_plan)" "length (plan_Items demo_plan) = 7"
  by (simp_all add: demo_plan_def demo_items_def)

lemma demo_item_node:
  "item_node (demo_item n repository kind c disposition rs) = nodeKey repository (demo_digest c)"
  "item_ResourceKind (demo_item n repository kind c disposition rs) = kind"
  "item_Disposition (demo_item n repository kind c disposition rs) = disposition"
  "item_Repository (demo_item n repository kind c disposition rs) = repository"
  by (simp_all add: item_node_def demo_item_def)

lemma demo_blob_item_fields:
  "item_ResourceKind (demo_blob_item n c disposition rs) = ''blob''"
  "item_Disposition (demo_blob_item n c disposition rs) = disposition"
  "item_Digest (demo_blob_item n c disposition rs) = demo_digest c"
  by (simp_all add: demo_blob_item_def)

lemma demo_edge: "(nodeKey ''app'' (demo_digest CHR ''a''), nodeKey ''app'' (demo_digest CHR ''b'')) \<in> catalog_edges demo_snapshot"
  by (simp add: catalog_edges_def demo_snapshot_def)

lemma demo_retained: "nodeKey ''app'' (demo_digest CHR ''a'') \<in> set (retained_roots demo_snapshot demo_graph)"
  by code_simp

lemma demo_cache_decided:
  "(cache_key (demo_cache 2 CHR ''f'' 5 1), True, [''cache-active'']) \<in>
     set (fst (decideCaches demo_snapshot demo_graph (4 * hour)))"
  by code_simp

theorem plan_protects_references_witness: "item_Disposition demo_item_b = RegistryCleanupProtect"
proof -
  have "(nodeKey (ref_Repository demo_reference) (ref_Digest demo_reference), item_node demo_item_b)
      \<in> (catalog_edges demo_snapshot)\<^sup>*"
    using demo_edge by (simp add: demo_item_node demo_reference_def r_into_rtrancl)
  then show ?thesis
    by (intro plan_protects_references [OF demo_plan_built _ demo_items_mem(2), of demo_reference])
      (simp_all add: demo_snapshot_def demo_item_node)
qed

theorem plan_deletes_exactly_unreachable_witness: "item_node demo_item_c \<notin> live_keys demo_snapshot demo_graph (4 * hour)"
  using plan_deletes_exactly_unreachable [OF demo_plan_built demo_graph_built demo_items_mem(3)]
  by (simp add: demo_item_node)


theorem plan_blob_collection_safe_witness:
  "\<exists>item \<in> set (plan_Items demo_plan). item_ResourceKind item \<noteq> ''blob'' \<and>
     item_node item = nodeKey ''app'' (demo_digest CHR ''c'') \<and> item_Disposition item = RegistryCleanupDelete"
  using plan_blob_collection_safe [OF demo_plan_built demo_items_mem(5), of demo_link_e]
  by (simp add: demo_blob_item_fields demo_snapshot_def)

theorem plan_respects_safety_age_witness:
  "man_FirstObservedAt (demo_manifest ''app'' CHR ''c'' RegistryManifestImage) <
     4 * hour - pol_MinimumSafetyAge (snap_Policy demo_snapshot)"
proof -
  have "demo_manifest ''app'' CHR ''c'' RegistryManifestImage \<in> set (snap_Manifests demo_snapshot)"
    by (simp add: demo_snapshot_def)
  moreover have "man_Present (demo_manifest ''app'' CHR ''c'' RegistryManifestImage)"
    and "man_key (demo_manifest ''app'' CHR ''c'' RegistryManifestImage) = item_node demo_item_c"
    by (simp_all add: demo_manifest_def man_key_def demo_item_node)
  ultimately show ?thesis
    using plan_respects_safety_age [OF demo_plan_built demo_items_mem(3)] by (simp add: demo_item_node)
qed

theorem plan_respects_scope_witness:
  "''app'' = pol_Repository (snap_Policy demo_snapshot) \<or>
   (\<exists>cache \<in> set (snap_CacheGenerations demo_snapshot).
      cache_ServiceID cache = pol_ServiceID (snap_Policy demo_snapshot) \<and> cache_Repository cache = ''app'')"
  using plan_respects_scope [OF demo_plan_built demo_items_mem(3)] by (simp add: demo_item_node)

theorem plan_covers_catalog_witness:
  "distinct (node_list demo_items) \<and> map item_Ordinal demo_items = [0..<7]"
  using plan_covers_catalog [OF demo_plan_built] demo_items_mem(6) by (simp add: demo_plan_def)

theorem plan_parents_first_witness:
  "(item_node (plan_Items demo_plan ! 0), item_node (plan_Items demo_plan ! 4)) \<in> (catalog_edges demo_snapshot)\<^sup>+ \<and>
   (0 :: nat) < 4"
proof (rule context_conjI)
  show edge: "(item_node (plan_Items demo_plan ! 0), item_node (plan_Items demo_plan ! 4)) \<in> (catalog_edges demo_snapshot)\<^sup>+"
    using demo_edge by (simp add: demo_plan_def demo_items_def demo_item_node r_into_trancl)
  show "(0 :: nat) < 4"
    by (rule plan_parents_first [OF demo_plan_built _ _ _ disjI2 [OF edge]])
      (simp_all add: demo_plan_def demo_items_def demo_item_node)
qed

theorem plan_protects_needed_caches_witness: "item_Disposition demo_item_f = RegistryCleanupProtect"
  by (rule plan_protects_needed_caches [OF demo_plan_built, of "demo_cache 2 CHR ''f'' 5 1"])
    (simp_all add: demo_snapshot_def demo_cache_def cache_live_def cache_must_stay_def cache_active_def
      demo_items_mem demo_item_node cache_key_def)

theorem plan_cache_quota_witness:
  "\<exists>g \<in> set (snap_CacheGenerations demo_snapshot). cache_live g \<and>
     cache_key g = cache_key (demo_cache 2 CHR ''f'' 5 1) \<and> cache_may_stay demo_snapshot (4 * hour) g"
  by (rule plan_cache_quota [OF demo_plan_built demo_graph_built _ demo_cache_decided]) (simp_all add: demo_plan_def)

end
