(* ===== verification/Registry_Target.thy ===== *)
theory Registry_Target
  imports Registry_Tokens
begin

text \<open>
  Validation of registry targets: \<open>ValidateTarget\<close> and \<open>ValidatePolicyForTarget\<close> of
  \<open>internal/registry/lifecycle.go\<close>, \<open>distributionBaseURL\<close> of \<open>distribution.go\<close> and the
  credential reference pattern of \<open>runtime_config.go\<close>.  \<open>url.Parse\<close> of Go's \<open>net/url\<close> is
  the argument \<open>parse\<close>; a \<open>url\<close> has the fields and accessors the source reads.
\<close>

record url =
  url_Scheme :: string
  url_Opaque :: string
  url_User :: bool
  url_Host :: string
  url_Path :: string
  url_RawQuery :: string
  url_Fragment :: string
  url_Hostname :: string
  url_Port :: string

definition registryCredentialRefRE :: "string \<Rightarrow> bool" where
  "registryCredentialRefRE value =
     (case value of
        [] \<Rightarrow> False
      | c # cs \<Rightarrow> is_alnum c \<and> length cs \<le> 255 \<and> list_all (\<lambda>d. is_alnum d \<or> d \<in> set ''._:/+-'') cs)"

definition distributionBaseURL :: "(string \<Rightarrow> url option) \<Rightarrow> string \<Rightarrow> bool \<Rightarrow> url option" where
  "distributionBaseURL parse raw allowHTTP =
     (if raw = [] \<or> trim_space raw \<noteq> raw \<or> (\<exists>c \<in> set raw. c \<in> {CHR 0x00, CHR 0x0D, CHR 0x0A}) then None
      else
        let raw' = (if contains raw ''://'' then raw else ''https://'' @ raw) in
        case parse raw' of
          None \<Rightarrow> None
        | Some u \<Rightarrow>
            if url_Host u = [] \<or> url_User u \<or> url_Opaque u \<noteq> [] \<or> url_RawQuery u \<noteq> [] \<or> url_Fragment u \<noteq> [] \<or>
               (url_Path u \<noteq> [] \<and> url_Path u \<noteq> ''/'') then None
            else if url_Scheme u \<noteq> ''https'' \<and> \<not> (url_Scheme u = ''http'' \<and> allowHTTP) then None
            else if url_Hostname u = [] \<or> contains (url_Hostname u) ''%'' then None
            else if url_Port u \<noteq> [] \<and>
                    (case atoi (url_Port u) of None \<Rightarrow> True | Some value \<Rightarrow> value < 1 \<or> 65535 < value) then None
            else Some (u\<lparr>url_Path := [], url_RawQuery := [], url_Fragment := []\<rparr>))"

definition ValidateTarget :: "(string \<Rightarrow> url option) \<Rightarrow> registry_target \<Rightarrow> registry_error + unit" where
  "ValidateTarget parse target =
     (if trim_space (tgt_ID target) = [] \<or> trim_space (tgt_Name target) = [] \<or>
         trim_space (tgt_Endpoint target) = [] \<or> trim_space (tgt_RepositoryPrefix target) = [] then
        Inl ErrRegistryPolicyInvalid
      else if tgt_Mode target \<noteq> RegistryTargetManaged \<and> tgt_Mode target \<noteq> RegistryTargetExternal then
        Inl ErrRegistryPolicyInvalid
      else if \<not> validSafeIdentity (tgt_ID target) \<or> 100 < length (tgt_Name target) \<or> \<not> utf8_valid (tgt_Name target) \<or>
              trim_space (tgt_Name target) \<noteq> tgt_Name target \<or>
              (\<exists>(r, _) \<in> set (runes (tgt_Name target)). is_control r) \<or>
              2048 < length (tgt_Endpoint target) \<or> \<not> validRepository (tgt_RepositoryPrefix target) then
        Inl ErrRegistryPolicyInvalid
      else if distributionBaseURL parse (tgt_Endpoint target) True = None then Inl ErrRegistryPolicyInvalid
      else if \<exists>reference \<in> set [tgt_PullCredentialRef target, tgt_PushCredentialRef target, tgt_CacheCredentialRef target].
                reference \<noteq> [] \<and> \<not> registryCredentialRefRE reference then Inl ErrRegistryPolicyInvalid
      else if tgt_PullCredentialRef target \<noteq> [] \<and>
              (tgt_PullCredentialRef target = tgt_PushCredentialRef target \<or>
               tgt_PullCredentialRef target = tgt_CacheCredentialRef target) then Inl ErrRegistryPolicyInvalid
      else if tgt_PushCredentialRef target \<noteq> [] \<and> tgt_PushCredentialRef target = tgt_CacheCredentialRef target then
        Inl ErrRegistryPolicyInvalid
      else Inr ())"

definition ValidatePolicyForTarget ::
  "(string \<Rightarrow> url option) \<Rightarrow> registry_target \<Rightarrow> service_registry_policy \<Rightarrow> registry_error + unit" where
  "ValidatePolicyForTarget parse target policy =
     failIf (ValidateTarget parse target \<noteq> Inr () \<or> ValidatePolicy policy \<noteq> Inr () \<or>
             pol_RegistryTargetID policy \<noteq> tgt_ID target \<or> \<not> repositoryInTarget target (pol_Repository policy))
       ErrRegistryPolicyInvalid"

end
