(* ===== verification/Registry_Store.thy ===== *)
theory Registry_Store
  imports Registry_Plan Registry_Target
begin

text \<open>
  The registry part of the in-memory store, \<open>internal/store/memory/registry.go\<close>, operation
  by operation.  An operation maps a store to its result and the store after it; the mutex
  makes every operation atomic.  \<open>time.Now()\<close> and \<open>id.New()\<close> are arguments.  A slice that is
  nil and one that is empty are the same list, and the clone functions are the identity.
\<close>

record registryCleanupLease =
  lease_planID :: string
  lease_owner :: string
  lease_until :: time

record registry_store =
  rs_targets :: "(string, registry_target) gomap"
  rs_policies :: "(string, service_registry_policy) gomap"
  rs_inventories :: "(string, registry_inventory_observation) gomap"
  rs_catalogs :: "(string, registry_catalog_snapshot) gomap"
  rs_authorities :: "(string, registry_protection_snapshot) gomap"
  rs_pins :: "(string, registry_artifact_reference) gomap"
  rs_releases :: "(string, registry_release) gomap"
  rs_caches :: "(string, registry_cache_generation) gomap"
  rs_plans :: "(string, registry_cleanup_plan) gomap"
  rs_planDigests :: "(string, string) gomap"
  rs_leases :: "(string, registryCleanupLease) gomap"

type_synonym 'a rs_result = "(registry_error + 'a) \<times> registry_store"

definition empty_store :: registry_store where
  "empty_store = \<lparr>rs_targets = [], rs_policies = [], rs_inventories = [], rs_catalogs = [], rs_authorities = [],
     rs_pins = [], rs_releases = [], rs_caches = [], rs_plans = [], rs_planDigests = [], rs_leases = []\<rparr>"

fun registryScopeKey :: "string list \<Rightarrow> string" where
  "registryScopeKey [] = []"
| "registryScopeKey [part] = part"
| "registryScopeKey (part # parts) = part @ CHR 0x00 # registryScopeKey parts"

section \<open>Zero values\<close>

definition zero_lease :: registryCleanupLease where
  "zero_lease = \<lparr>lease_planID = [], lease_owner = [], lease_until = 0\<rparr>"

definition zero_inventory :: registry_inventory_observation where
  "zero_inventory = \<lparr>inv_RegistryTargetID = [], inv_Revision = [], inv_Complete = False, inv_Repositories = [],
     inv_ObservedAt = 0\<rparr>"

definition zero_catalog :: registry_catalog_snapshot where
  "zero_catalog = \<lparr>cs_Observation = \<lparr>cat_ID = [], cat_RegistryTargetID = [], cat_Repository = [], cat_Revision = 0,
       cat_Complete = False, cat_SnapshotDigest = [], cat_ObservedAt = 0, cat_ManifestCount = 0, cat_BlobCount = 0\<rparr>,
     cs_Manifests = [], cs_Blobs = [], cs_Children = [], cs_BlobLinks = []\<rparr>"

definition zero_target :: registry_target where
  "zero_target = \<lparr>tgt_ID = [], tgt_Name = [], tgt_Mode = RegistryTargetOther [], tgt_Endpoint = [],
     tgt_RepositoryPrefix = [], tgt_PullCredentialRef = [], tgt_PushCredentialRef = [], tgt_CacheCredentialRef = [],
     tgt_CreatedAt = 0, tgt_UpdatedAt = 0\<rparr>"

definition zero_plan :: registry_cleanup_plan where
  "zero_plan = \<lparr>plan_ID = [], plan_RegistryTargetID = [], plan_ServiceID = [], plan_Automatic = False,
     plan_SnapshotToken = [], plan_AuthorityToken = [], plan_PlanDigest = [], plan_State = [],
     plan_Policy = \<lparr>pol_RegistryTargetID = [], pol_ServiceID = [], pol_Repository = [], pol_KeepLastSuccessful = 0,
       pol_MinimumSafetyAge = 0, pol_CacheUnusedExpiry = 0, pol_CacheByteQuota = 0, pol_CreatedAt = 0, pol_UpdatedAt = 0\<rparr>,
     plan_Inventory = zero_inventory, plan_Catalogs = [], plan_Authorities = [],
     plan_Summary = \<lparr>sum_ProtectedManifests = 0, sum_DeletedManifests = 0, sum_GarbageCollectBlobs = 0,
       sum_EstimatedBytes = 0, sum_CacheBytesBefore = 0, sum_CacheBytesAfter = 0, sum_CacheQuotaSatisfied = False\<rparr>,
     plan_Items = [], plan_CreatedAt = 0, plan_ClaimedAt = None, plan_CompletedAt = None, plan_Failure = []\<rparr>"

section \<open>Targets and policies\<close>

definition prefix_conflict :: "registry_store \<Rightarrow> registry_target \<Rightarrow> bool" where
  "prefix_conflict s target \<longleftrightarrow>
     (\<exists>(_, policy) \<in> set (rs_policies s). pol_RegistryTargetID policy = tgt_ID target \<and>
        pol_Repository policy \<noteq> tgt_RepositoryPrefix target \<and>
        \<not> has_prefix (pol_Repository policy) (tgt_RepositoryPrefix target @ ''/''))"

definition PutRegistryTarget ::
  "(string \<Rightarrow> url option) \<Rightarrow> time \<Rightarrow> registry_target \<Rightarrow> registry_store \<Rightarrow> registry_target rs_result" where
  "PutRegistryTarget parse wall target s =
     (case ValidateTarget parse target of
        Inl e \<Rightarrow> (Inl e, s)
      | Inr _ \<Rightarrow>
          let stamped = (case map_of (rs_targets s) (tgt_ID target) of
                Some current \<Rightarrow>
                  if tgt_Mode current \<noteq> tgt_Mode target then None
                  else if tgt_RepositoryPrefix current \<noteq> tgt_RepositoryPrefix target \<and> prefix_conflict s target then None
                  else Some (target\<lparr>tgt_CreatedAt := tgt_CreatedAt current,
                                    tgt_UpdatedAt := (if tgt_UpdatedAt target = 0 then wall else tgt_UpdatedAt target)\<rparr>)
              | None \<Rightarrow>
                  let created = (if tgt_CreatedAt target = 0 then wall else tgt_CreatedAt target) in
                  Some (target\<lparr>tgt_CreatedAt := created,
                               tgt_UpdatedAt := (if tgt_UpdatedAt target = 0 then created else tgt_UpdatedAt target)\<rparr>)) in
          case stamped of
            None \<Rightarrow> (Inl ErrConflict, s)
          | Some target' \<Rightarrow>
              if \<exists>(targetID, current) \<in> set (rs_targets s). targetID \<noteq> tgt_ID target' \<and> tgt_Name current = tgt_Name target'
              then (Inl ErrConflict, s)
              else (Inr target', s\<lparr>rs_targets := AList.update (tgt_ID target') target' (rs_targets s)\<rparr>))"

definition RegistryTarget :: "string \<Rightarrow> registry_store \<Rightarrow> registry_error + registry_target" where
  "RegistryTarget targetID s =
     (case map_of (rs_targets s) targetID of None \<Rightarrow> Inl ErrNotFound | Some target \<Rightarrow> Inr target)"

definition PutServiceRegistryPolicy ::
  "(string \<Rightarrow> url option) \<Rightarrow> time \<Rightarrow> service_registry_policy \<Rightarrow> registry_store \<Rightarrow> service_registry_policy rs_result" where
  "PutServiceRegistryPolicy parse wall policy0 s =
     (let policy = NormalizePolicy policy0 wall in
      case ValidatePolicy policy of
        Inl e \<Rightarrow> (Inl e, s)
      | Inr _ \<Rightarrow>
          case map_of (rs_targets s) (pol_RegistryTargetID policy) of
            None \<Rightarrow> (Inl ErrNotFound, s)
          | Some target \<Rightarrow>
              case ValidatePolicyForTarget parse target policy of
                Inl e \<Rightarrow> (Inl e, s)
              | Inr _ \<Rightarrow>
                  let key = registryScopeKey [pol_RegistryTargetID policy, pol_ServiceID policy];
                      policy' = (case map_of (rs_policies s) key of
                                   None \<Rightarrow> policy
                                 | Some current \<Rightarrow> policy\<lparr>pol_CreatedAt := pol_CreatedAt current\<rparr>) in
                  if \<exists>(otherKey, current) \<in> set (rs_policies s). otherKey \<noteq> key \<and>
                       pol_RegistryTargetID current = pol_RegistryTargetID policy' \<and>
                       pol_Repository current = pol_Repository policy'
                  then (Inl ErrConflict, s)
                  else (Inr policy', s\<lparr>rs_policies := AList.update key policy' (rs_policies s)\<rparr>))"

definition ServiceRegistryPolicy :: "string \<Rightarrow> string \<Rightarrow> registry_store \<Rightarrow> registry_error + service_registry_policy" where
  "ServiceRegistryPolicy targetID serviceID s =
     (case map_of (rs_policies s) (registryScopeKey [targetID, serviceID]) of
        None \<Rightarrow> Inl ErrNotFound | Some policy \<Rightarrow> Inr policy)"

section \<open>Observations\<close>

fun adjacent_equal :: "'a list \<Rightarrow> bool" where
  "adjacent_equal (x # y # xs) \<longleftrightarrow> x = y \<or> adjacent_equal (y # xs)"
| "adjacent_equal _ \<longleftrightarrow> False"

definition RecordRegistryInventory ::
  "registry_inventory_observation \<Rightarrow> registry_store \<Rightarrow> unit rs_result" where
  "RecordRegistryInventory observation0 s =
     (let repositories = sort (inv_Repositories observation0);
          observation = observation0\<lparr>inv_Repositories := repositories\<rparr>;
          target = inv_RegistryTargetID observation in
      if target = [] \<or> inv_Revision observation = [] \<or> inv_ObservedAt observation = 0 then
        (Inl ErrRegistryObservationIncomplete, s)
      else if [] \<in> set repositories \<or> ''*'' \<in> set repositories \<or> adjacent_equal repositories then
        (Inl ErrRegistryObservationIncomplete, s)
      else if map_of (rs_targets s) target = None then (Inl ErrNotFound, s)
      else
        case map_of (rs_inventories s) target of
          Some current \<Rightarrow>
            if inv_Revision current = inv_Revision observation then
              (if current = observation then (Inr (), s) else (Inl ErrConflict, s))
            else (Inr (), s\<lparr>rs_inventories := AList.update target observation (rs_inventories s)\<rparr>)
        | None \<Rightarrow> (Inr (), s\<lparr>rs_inventories := AList.update target observation (rs_inventories s)\<rparr>))"

definition observe_manifest ::
  "registry_catalog_observation \<Rightarrow> registry_manifest list \<Rightarrow> registry_manifest \<Rightarrow> registry_manifest" where
  "observe_manifest observation old manifest =
     manifest\<lparr>man_Present := True, man_LastObservedAt := cat_ObservedAt observation,
       man_LastObservationRevision := cat_Revision observation, man_DeletedAt := None,
       man_FirstObservedAt :=
         (case map_of (rev (map (\<lambda>m. (man_Digest m, m)) old)) (man_Digest manifest) of
            Some m \<Rightarrow> man_FirstObservedAt m
          | None \<Rightarrow> if man_FirstObservedAt manifest = 0 then cat_ObservedAt observation else man_FirstObservedAt manifest)\<rparr>"

definition observe_blob ::
  "registry_catalog_observation \<Rightarrow> registry_blob list \<Rightarrow> registry_blob \<Rightarrow> registry_blob" where
  "observe_blob observation old blob =
     blob\<lparr>blob_Present := True, blob_LastObservedAt := cat_ObservedAt observation,
       blob_LastObservationRevision := cat_Revision observation, blob_DeletedAt := None,
       blob_FirstObservedAt :=
         (case map_of (rev (map (\<lambda>b. (blob_Digest b, b)) old)) (blob_Digest blob) of
            Some b \<Rightarrow> blob_FirstObservedAt b
          | None \<Rightarrow> if blob_FirstObservedAt blob = 0 then cat_ObservedAt observation else blob_FirstObservedAt blob)\<rparr>"

definition normalizeCatalog ::
  "registry_catalog_snapshot \<Rightarrow> registry_catalog_snapshot \<Rightarrow> registry_catalog_snapshot" where
  "normalizeCatalog snapshot current =
     snapshot\<lparr>cs_Manifests := map (observe_manifest (cs_Observation snapshot) (cs_Manifests current)) (cs_Manifests snapshot),
              cs_Blobs := map (observe_blob (cs_Observation snapshot) (cs_Blobs current)) (cs_Blobs snapshot)\<rparr>"

definition reconcile_release ::
  "registry_target \<Rightarrow> registry_catalog_snapshot \<Rightarrow> registry_release \<Rightarrow> registry_release" where
  "reconcile_release target snapshot release =
     (if rel_RegistryTargetID release \<noteq> tgt_ID target \<or> rel_Repository release \<noteq> cat_Repository (cs_Observation snapshot)
      then release
      else if rel_RootDigest release \<in> man_Digest ` set (cs_Manifests snapshot) then
        release\<lparr>rel_Availability := RegistryArtifactPresent, rel_AvailabilityObservedAt := None\<rparr>
      else
        release\<lparr>rel_Availability := (if tgt_Mode target = RegistryTargetManaged then RegistryArtifactExpired
                                     else RegistryArtifactMissing),
                rel_AvailabilityObservedAt := Some (cat_ObservedAt (cs_Observation snapshot))\<rparr>)"

definition reconcile_cache ::
  "registry_target \<Rightarrow> registry_catalog_snapshot \<Rightarrow> registry_cache_generation \<Rightarrow> registry_cache_generation" where
  "reconcile_cache target snapshot cache =
     (if cache_RegistryTargetID cache = tgt_ID target \<and> cache_Repository cache = cat_Repository (cs_Observation snapshot) \<and>
         cache_RootDigest cache \<notin> man_Digest ` set (cs_Manifests snapshot) \<and> cache_State cache \<noteq> ''deleted''
      then cache\<lparr>cache_State := ''missing''\<rparr> else cache)"

definition reconcileAvailabilityLocked :: "registry_catalog_snapshot \<Rightarrow> registry_store \<Rightarrow> registry_store" where
  "reconcileAvailabilityLocked snapshot s =
     (let target = get_or zero_target (rs_targets s) (cat_RegistryTargetID (cs_Observation snapshot)) in
      s\<lparr>rs_releases := map (\<lambda>(releaseID, release). (releaseID, reconcile_release target snapshot release)) (rs_releases s),
        rs_caches := map (\<lambda>(cacheID, cache). (cacheID, reconcile_cache target snapshot cache)) (rs_caches s)\<rparr>)"

definition ReplaceRegistryCatalog ::
  "digests \<Rightarrow> string \<Rightarrow> registry_catalog_snapshot \<Rightarrow> registry_store \<Rightarrow> unit rs_result" where
  "ReplaceRegistryCatalog dj newID snapshot0 s =
     (let observation0 = (cs_Observation snapshot0)\<lparr>cat_SnapshotDigest := RegistryCatalogSnapshotDigest dj snapshot0\<rparr>;
          snapshot1 = snapshot0\<lparr>cs_Observation := observation0\<rparr> in
      case ValidateCatalog snapshot1 of
        Inl e \<Rightarrow> (Inl e, s)
      | Inr _ \<Rightarrow>
          let key = registryScopeKey [cat_RegistryTargetID observation0, cat_Repository observation0];
              stored = map_of (rs_catalogs s) key;
              current = get_or zero_catalog (rs_catalogs s) key;
              observation = observation0\<lparr>cat_ID := (if cat_ID observation0 = [] then newID else cat_ID observation0)\<rparr>;
              snapshot = snapshot1\<lparr>cs_Observation := observation\<rparr> in
          if map_of (rs_targets s) (cat_RegistryTargetID observation0) = None then (Inl ErrNotFound, s)
          else if stored \<noteq> None \<and> cat_Revision observation0 < cat_Revision (cs_Observation current) then (Inl ErrConflict, s)
          else if stored \<noteq> None \<and> cat_Revision observation0 = cat_Revision (cs_Observation current) then
            (if cat_SnapshotDigest observation0 = cat_SnapshotDigest (cs_Observation current) then (Inr (), s)
             else (Inl ErrConflict, s))
          else if \<not> cat_Complete observation then
            (Inr (), s\<lparr>rs_catalogs := AList.update key
               (snapshot\<lparr>cs_Manifests := cs_Manifests current, cs_Blobs := cs_Blobs current,
                         cs_Children := cs_Children current, cs_BlobLinks := cs_BlobLinks current\<rparr>) (rs_catalogs s)\<rparr>)
          else
            let normalized = normalizeCatalog snapshot current in
            (Inr (), reconcileAvailabilityLocked normalized
                       (s\<lparr>rs_catalogs := AList.update key normalized (rs_catalogs s)\<rparr>)))"

section \<open>Protection\<close>

definition expected_kind :: "registry_authority \<Rightarrow> registry_reference_kind option" where
  "expected_kind authority =
     (case authority of
        RegistryAuthorityGitIntent \<Rightarrow> Some RegistryReferenceCurrentGitIntent
      | RegistryAuthorityRuntime \<Rightarrow> Some RegistryReferenceObservedRunning
      | RegistryAuthorityOperations \<Rightarrow> Some RegistryReferenceActiveOperation
      | RegistryAuthorityOther _ \<Rightarrow> None)"

definition check_reference ::
  "registry_authority_observation \<Rightarrow> registry_reference_kind option \<Rightarrow> string list \<times> registry_artifact_reference list \<Rightarrow>
   registry_artifact_reference \<Rightarrow> registry_error + string list \<times> registry_artifact_reference list" where
  "check_reference observation expectedKind acc reference =
     (case acc of (seen, out) \<Rightarrow>
      if ref_RegistryTargetID reference \<noteq> auth_RegistryTargetID observation \<or>
         ref_ServiceID reference \<noteq> auth_ServiceID observation \<or> Some (ref_Kind reference) \<noteq> expectedKind \<or>
         ref_ReferenceKey reference = [] \<or> ref_Repository reference = [] then Inl ErrRegistryObservationIncomplete
      else if ref_ReferenceKey reference \<in> set seen then Inl ErrConflict
      else Inr (ref_ReferenceKey reference # seen,
        out @ [reference\<lparr>ref_ObservedAt := (if ref_ObservedAt reference = 0 then auth_ObservedAt observation
                                            else ref_ObservedAt reference),
                         ref_CreatedAt := (if ref_CreatedAt reference = 0 then auth_ObservedAt observation
                                           else ref_CreatedAt reference)\<rparr>]))"

definition zero_references :: "registry_protection_snapshot option \<Rightarrow> registry_artifact_reference list" where
  "zero_references current = (case current of None \<Rightarrow> [] | Some c \<Rightarrow> ps_References c)"

definition ReplaceRegistryProtectionSnapshot ::
  "digests \<Rightarrow> registry_protection_snapshot \<Rightarrow> registry_store \<Rightarrow> unit rs_result" where
  "ReplaceRegistryProtectionSnapshot dj snapshot0 s =
     (let observation = (ps_Observation snapshot0)\<lparr>auth_SnapshotDigest := RegistryProtectionSnapshotDigest dj snapshot0\<rparr>;
          expectedKind = expected_kind (auth_Authority observation) in
      if auth_RegistryTargetID observation = [] \<or> auth_ServiceID observation = [] \<or> auth_Revision observation = [] \<or>
         auth_ObservedAt observation = 0 \<or> expectedKind = None then (Inl ErrRegistryObservationIncomplete, s)
      else if \<not> auth_Complete observation \<and> ps_References snapshot0 \<noteq> [] then (Inl ErrRegistryObservationIncomplete, s)
      else
        case foldE (check_reference observation expectedKind) ([], []) (ps_References snapshot0) of
          Inl e \<Rightarrow> (Inl e, s)
        | Inr (_, references) \<Rightarrow>
            let key = registryScopeKey [auth_RegistryTargetID observation, auth_ServiceID observation,
                                        authority_string (auth_Authority observation)];
                stored = map_of (rs_authorities s) key;
                snapshot = \<lparr>ps_Observation = observation,
                            ps_References = (if auth_Complete observation then references else zero_references stored)\<rparr> in
            if map_of (rs_targets s) (auth_RegistryTargetID observation) = None then (Inl ErrNotFound, s)
            else
              case stored of
                Some current \<Rightarrow>
                  if auth_Revision (ps_Observation current) = auth_Revision observation then
                    (if ps_Observation current = observation \<and>
                        (\<not> auth_Complete observation \<or> ps_References current = references)
                     then (Inr (), s) else (Inl ErrConflict, s))
                  else (Inr (), s\<lparr>rs_authorities := AList.update key snapshot (rs_authorities s)\<rparr>)
              | None \<Rightarrow> (Inr (), s\<lparr>rs_authorities := AList.update key snapshot (rs_authorities s)\<rparr>))"

definition PutRegistryPin :: "time \<Rightarrow> registry_artifact_reference \<Rightarrow> registry_store \<Rightarrow> unit rs_result" where
  "PutRegistryPin wall reference0 s =
     (let created = (if ref_CreatedAt reference0 = 0 then wall else ref_CreatedAt reference0);
          reference = reference0\<lparr>ref_CreatedAt := created,
            ref_ObservedAt := (if ref_ObservedAt reference0 = 0 then created else ref_ObservedAt reference0)\<rparr> in
      if ref_Kind reference0 \<noteq> RegistryReferencePin \<or> ref_RegistryTargetID reference0 = [] \<or> ref_ServiceID reference0 = [] \<or>
         ref_Repository reference0 = [] \<or> ref_ReferenceKey reference0 = [] then (Inl ErrRegistryPolicyInvalid, s)
      else if map_of (rs_policies s) (registryScopeKey [ref_RegistryTargetID reference, ref_ServiceID reference]) = None then
        (Inl ErrNotFound, s)
      else (Inr (), s\<lparr>rs_pins := AList.update
              (registryScopeKey [ref_RegistryTargetID reference, ref_ServiceID reference, ref_ReferenceKey reference])
              reference (rs_pins s)\<rparr>))"

definition DeleteRegistryPin :: "string \<Rightarrow> string \<Rightarrow> string \<Rightarrow> registry_store \<Rightarrow> unit rs_result" where
  "DeleteRegistryPin targetID serviceID referenceKey s =
     (Inr (), s\<lparr>rs_pins := AList.delete (registryScopeKey [targetID, serviceID, referenceKey]) (rs_pins s)\<rparr>)"

section \<open>Releases and caches\<close>

definition PutRegistryRelease :: "time \<Rightarrow> registry_release \<Rightarrow> registry_store \<Rightarrow> (registry_release \<times> bool) rs_result" where
  "PutRegistryRelease wall release0 s =
     (let release = release0\<lparr>
            rel_Availability := (if rel_Availability release0 = RegistryArtifactOther [] then RegistryArtifactPresent
                                 else rel_Availability release0),
            rel_CreatedAt := (if rel_CreatedAt release0 = 0 then wall else rel_CreatedAt release0)\<rparr> in
      if rel_ID release = [] \<or> rel_RegistryTargetID release = [] \<or> rel_ServiceID release = [] \<or>
         rel_Repository release = [] \<or> rel_RootDigest release = [] then (Inl ErrRegistryPolicyInvalid, s)
      else if rel_Availability release \<noteq> RegistryArtifactPresent \<or> rel_AvailabilityObservedAt release \<noteq> None then
        (Inl ErrRegistryPolicyInvalid, s)
      else if map_of (rs_policies s) (registryScopeKey [rel_RegistryTargetID release, rel_ServiceID release]) = None then
        (Inl ErrNotFound, s)
      else
        case map_of (rs_releases s) (rel_ID release) of
          Some current \<Rightarrow> if current = release then (Inr (current, True), s) else (Inl ErrConflict, s)
        | None \<Rightarrow> (Inr (release, False), s\<lparr>rs_releases := AList.update (rel_ID release) release (rs_releases s)\<rparr>))"

definition RegistryRelease :: "string \<Rightarrow> registry_store \<Rightarrow> registry_error + registry_release" where
  "RegistryRelease releaseID s =
     (case map_of (rs_releases s) releaseID of None \<Rightarrow> Inl ErrNotFound | Some release \<Rightarrow> Inr release)"

definition same_generation :: "registry_cache_generation \<Rightarrow> registry_cache_generation \<Rightarrow> bool" where
  "same_generation current generation \<longleftrightarrow>
     cache_RegistryTargetID current = cache_RegistryTargetID generation \<and>
     cache_ServiceID current = cache_ServiceID generation \<and>
     cache_PlatformSet current = cache_PlatformSet generation \<and> cache_TrustLane current = cache_TrustLane generation \<and>
     cache_CacheSchema current = cache_CacheSchema generation \<and>
     cache_BuildDefinitionHash current = cache_BuildDefinitionHash generation \<and>
     cache_Generation current = cache_Generation generation"

definition PutRegistryCacheGeneration ::
  "time \<Rightarrow> registry_cache_generation \<Rightarrow> registry_store \<Rightarrow> (registry_cache_generation \<times> bool) rs_result" where
  "PutRegistryCacheGeneration wall generation0 s =
     (let created = (if cache_CreatedAt generation0 = 0 then wall else cache_CreatedAt generation0);
          generation = generation0\<lparr>cache_CreatedAt := created,
            cache_LastUsedAt := (if cache_LastUsedAt generation0 = 0 then created else cache_LastUsedAt generation0),
            cache_State := (if cache_State generation0 = [] then ''succeeded'' else cache_State generation0)\<rparr> in
      if cache_ID generation = [] \<or> cache_RegistryTargetID generation = [] \<or> cache_ServiceID generation = [] \<or>
         cache_Repository generation = [] \<or> cache_PlatformSet generation = [] \<or> cache_TrustLane generation = [] \<or>
         cache_CacheSchema generation = [] \<or> cache_BuildDefinitionHash generation = [] \<or>
         cache_Generation generation \<le> 0 \<or> cache_SizeBytes generation < 0 then (Inl ErrRegistryPolicyInvalid, s)
      else if map_of (rs_policies s) (registryScopeKey [cache_RegistryTargetID generation, cache_ServiceID generation]) = None
      then (Inl ErrNotFound, s)
      else
        case map_of (rs_caches s) (cache_ID generation) of
          Some current \<Rightarrow> if current = generation then (Inr (current, True), s) else (Inl ErrConflict, s)
        | None \<Rightarrow>
            if \<exists>(_, current) \<in> set (rs_caches s). same_generation current generation then (Inl ErrConflict, s)
            else (Inr (generation, False),
                  s\<lparr>rs_caches := AList.update (cache_ID generation) generation (rs_caches s)\<rparr>))"

end
