(* ===== verification/Registry_Cleanup.thy ===== *)
theory Registry_Cleanup
  imports Registry_Store
begin

text \<open>
  Cleanup plans in the in-memory store (\<open>internal/store/memory/registry.go\<close>): the consistent
  snapshot, saving a plan, and the lease protocol of an execution: claim, renew, authorize
  an item, record its result, finish.
\<close>

section \<open>The snapshot\<close>

definition manifestPresent :: "registry_manifest list \<Rightarrow> string \<Rightarrow> bool" where
  "manifestPresent manifests digest \<longleftrightarrow> (\<exists>manifest \<in> set manifests. man_Digest manifest = digest \<and> man_Present manifest)"

definition blobPresent :: "registry_blob list \<Rightarrow> string \<Rightarrow> bool" where
  "blobPresent blobs digest \<longleftrightarrow> (\<exists>blob \<in> set blobs. blob_Digest blob = digest \<and> blob_Present blob)"

definition registryLifecycleSnapshotLocked ::
  "string \<Rightarrow> string \<Rightarrow> time \<Rightarrow> registry_store \<Rightarrow> registry_error + registry_lifecycle_snapshot" where
  "registryLifecycleSnapshotLocked targetID serviceID now s =
     (case map_of (rs_targets s) targetID of
        None \<Rightarrow> Inl ErrNotFound
      | Some target \<Rightarrow>
          case map_of (rs_policies s) (registryScopeKey [targetID, serviceID]) of
            None \<Rightarrow> Inl ErrNotFound
          | Some policy \<Rightarrow>
              let catalogs = filter (\<lambda>c. cat_RegistryTargetID (cs_Observation c) = targetID) (map snd (rs_catalogs s));
                  authorities = filter (\<lambda>a. auth_RegistryTargetID (ps_Observation a) = targetID \<and>
                                            auth_ServiceID (ps_Observation a) = serviceID) (map snd (rs_authorities s)) in
              Inr \<lparr>snap_Target = target, snap_Policy = policy,
                   snap_Inventory = get_or zero_inventory (rs_inventories s) targetID,
                   snap_CatalogObservations = map cs_Observation catalogs,
                   snap_AuthorityObservations = map ps_Observation authorities,
                   snap_References = concat (map ps_References authorities) @
                     filter (\<lambda>pin. ref_RegistryTargetID pin = targetID \<and> ref_ServiceID pin = serviceID) (map snd (rs_pins s)),
                   snap_Releases = filter (\<lambda>r. rel_RegistryTargetID r = targetID \<and> rel_ServiceID r = serviceID)
                     (map snd (rs_releases s)),
                   snap_CacheGenerations = filter (\<lambda>c. cache_RegistryTargetID c = targetID \<and> cache_ServiceID c = serviceID)
                     (map snd (rs_caches s)),
                   snap_Manifests = concat (map (\<lambda>c. filter man_Present (cs_Manifests c)) catalogs),
                   snap_Blobs = concat (map (\<lambda>c. filter blob_Present (cs_Blobs c)) catalogs),
                   snap_Children = concat (map (\<lambda>c. filter (\<lambda>l. manifestPresent (cs_Manifests c) (link_ParentDigest l) \<and>
                     manifestPresent (cs_Manifests c) (link_ChildDigest l)) (cs_Children c)) catalogs),
                   snap_BlobLinks = concat (map (\<lambda>c. filter (\<lambda>l. manifestPresent (cs_Manifests c) (blink_ManifestDigest l) \<and>
                     blobPresent (cs_Blobs c) (blink_BlobDigest l)) (cs_BlobLinks c)) catalogs),
                   snap_AsOf = now\<rparr>)"

definition RegistryLifecycleSnapshot ::
  "string \<Rightarrow> string \<Rightarrow> time \<Rightarrow> registry_store \<Rightarrow> registry_error + registry_lifecycle_snapshot" where
  "RegistryLifecycleSnapshot = registryLifecycleSnapshotLocked"

section \<open>Saving a plan\<close>

definition saveRegistryCleanupPlanLocked ::
  "digests \<Rightarrow> registry_cleanup_plan \<Rightarrow> registry_store \<Rightarrow> (registry_cleanup_plan \<times> bool) rs_result" where
  "saveRegistryCleanupPlanLocked dj plan s =
     (case map_of (rs_targets s) (plan_RegistryTargetID plan) of
        None \<Rightarrow> (Inl ErrNotFound, s)
      | Some target \<Rightarrow>
          if tgt_Mode target \<noteq> RegistryTargetManaged then (Inl ErrRegistryExternalLifecycle, s)
          else if plan_ID plan = [] \<or> plan_ServiceID plan = [] \<or> plan_PlanDigest plan = [] \<or>
                  plan_PlanDigest plan \<noteq> RegistryCleanupPlanDigest dj plan then (Inl ErrRegistryPolicyInvalid, s)
          else
            case registryLifecycleSnapshotLocked (plan_RegistryTargetID plan) (plan_ServiceID plan) (plan_CreatedAt plan) s of
              Inl e \<Rightarrow> (Inl e, s)
            | Inr current \<Rightarrow>
                if RegistrySnapshotToken dj current \<noteq> plan_SnapshotToken plan \<or>
                   RegistryAuthorityToken dj current \<noteq> plan_AuthorityToken plan then (Inl ErrRegistrySnapshotStale, s)
                else
                  let digestKey = registryScopeKey [plan_RegistryTargetID plan, plan_ServiceID plan, plan_PlanDigest plan] in
                  case map_of (rs_planDigests s) digestKey of
                    Some existingID \<Rightarrow> (Inr (get_or zero_plan (rs_plans s) existingID, True), s)
                  | None \<Rightarrow>
                      if map_of (rs_plans s) (plan_ID plan) \<noteq> None then (Inl ErrConflict, s)
                      else (Inr (plan, False),
                            s\<lparr>rs_plans := AList.update (plan_ID plan) plan (rs_plans s),
                              rs_planDigests := AList.update digestKey (plan_ID plan) (rs_planDigests s)\<rparr>))"

definition SaveRegistryCleanupPlan ::
  "digests \<Rightarrow> registry_cleanup_plan \<Rightarrow> registry_store \<Rightarrow> (registry_cleanup_plan \<times> bool) rs_result" where
  "SaveRegistryCleanupPlan = saveRegistryCleanupPlanLocked"

definition RegistryCleanupPlan :: "string \<Rightarrow> registry_store \<Rightarrow> registry_error + registry_cleanup_plan" where
  "RegistryCleanupPlan planID s = (case map_of (rs_plans s) planID of None \<Rightarrow> Inl ErrNotFound | Some plan \<Rightarrow> Inr plan)"

section \<open>Leases\<close>

definition cleanupLeaseRepositories :: "registry_cleanup_plan \<Rightarrow> string list" where
  "cleanupLeaseRepositories plan =
     sort (remdups (''*'' # map item_Repository
       (filter (\<lambda>item. item_Disposition item = RegistryCleanupDelete) (plan_Items plan))))"

definition lease_key :: "registry_cleanup_plan \<Rightarrow> string \<Rightarrow> string" where
  "lease_key plan repository = registryScopeKey [plan_RegistryTargetID plan, repository]"

definition lease_held :: "registry_cleanup_plan \<Rightarrow> string \<Rightarrow> time \<Rightarrow> registry_store \<Rightarrow> string \<Rightarrow> bool" where
  "lease_held plan owner now s repository =
     (let lease = get_or zero_lease (rs_leases s) (lease_key plan repository) in
      lease_planID lease = plan_ID plan \<and> lease_owner lease = owner \<and> lease_until lease > now)"

definition planLeasesHeldLocked :: "registry_cleanup_plan \<Rightarrow> string \<Rightarrow> time \<Rightarrow> registry_store \<Rightarrow> bool" where
  "planLeasesHeldLocked plan owner now s \<longleftrightarrow> list_all (lease_held plan owner now s) (cleanupLeaseRepositories plan)"

definition cleanupItemIndex :: "registry_cleanup_plan \<Rightarrow> nat \<Rightarrow> nat option" where
  "cleanupItemIndex plan ordinal = find (\<lambda>i. item_Ordinal (plan_Items plan ! i) = ordinal) [0..<length (plan_Items plan)]"

definition itemLeaseHeldLocked :: "registry_cleanup_plan \<Rightarrow> nat \<Rightarrow> string \<Rightarrow> time \<Rightarrow> registry_store \<Rightarrow> bool" where
  "itemLeaseHeldLocked plan ordinal owner now s =
     (case cleanupItemIndex plan ordinal of
        None \<Rightarrow> False
      | Some index \<Rightarrow>
          let repository = item_Repository (plan_Items plan ! index) in
          list_all (lease_held plan owner now s) (if repository \<noteq> ''*'' then [''*'', repository] else [''*'']))"

text \<open>Some repository of the plan is leased, at this time, to another plan or owner.\<close>

definition lease_conflict :: "registry_cleanup_plan \<Rightarrow> string \<Rightarrow> time \<Rightarrow> registry_store \<Rightarrow> bool" where
  "lease_conflict plan owner now s \<longleftrightarrow>
     (\<exists>repository \<in> set (cleanupLeaseRepositories plan).
        case map_of (rs_leases s) (lease_key plan repository) of
          None \<Rightarrow> False
        | Some lease \<Rightarrow> lease_until lease > now \<and> (lease_planID lease \<noteq> plan_ID plan \<or> lease_owner lease \<noteq> owner))"

definition take_leases :: "registry_cleanup_plan \<Rightarrow> string \<Rightarrow> time \<Rightarrow> registry_store \<Rightarrow> registry_store" where
  "take_leases plan owner until s =
     s\<lparr>rs_leases := foldl (\<lambda>leases repository.
         AList.update (lease_key plan repository)
           \<lparr>lease_planID = plan_ID plan, lease_owner = owner, lease_until = until\<rparr> leases)
         (rs_leases s) (cleanupLeaseRepositories plan)\<rparr>"

definition put_plan :: "string \<Rightarrow> registry_cleanup_plan \<Rightarrow> registry_store \<Rightarrow> registry_store" where
  "put_plan planID plan s = s\<lparr>rs_plans := AList.update planID plan (rs_plans s)\<rparr>"

definition resume_item :: "time \<Rightarrow> registry_cleanup_item \<Rightarrow> registry_cleanup_item" where
  "resume_item claimed item =
     (if item_Disposition item = RegistryCleanupDelete \<and> item_ResourceKind item = ''blob'' \<and>
         item_Action item = ''garbage-collect-blob'' \<and> item_State item = ''failed''
      then item\<lparr>item_State := ''deleting'', item_ProviderMessage := [], item_UpdatedAt := claimed\<rparr> else item)"

definition ClaimRegistryCleanupPlan ::
  "digests \<Rightarrow> string \<Rightarrow> string \<Rightarrow> time \<Rightarrow> duration \<Rightarrow> duration \<Rightarrow> registry_store \<Rightarrow>
   (registry_cleanup_plan \<times> bool) rs_result" where
  "ClaimRegistryCleanupPlan dj planID owner now leaseDuration maxObservationAge s =
     (if owner = [] \<or> leaseDuration \<le> 0 then (Inl ErrRegistryPolicyInvalid, s)
      else
        case map_of (rs_plans s) planID of
          None \<Rightarrow> (Inl ErrNotFound, s)
        | Some plan \<Rightarrow>
            if plan_State plan = ''executing'' then
              (if planLeasesHeldLocked plan owner now s then (Inr (plan, False), s)
               else if lease_conflict plan owner now s then (Inl ErrConflict, s)
               else (Inr (plan, True), take_leases plan owner (now + leaseDuration) s))
            else if RegistryCleanupPlanCanResumeOfflineSweep plan then
              (if lease_conflict plan owner now s then (Inl ErrConflict, s)
               else
                 let plan' = plan\<lparr>plan_Items := map (resume_item now) (plan_Items plan), plan_State := ''executing'',
                                  plan_ClaimedAt := Some now, plan_CompletedAt := None, plan_Failure := []\<rparr> in
                 (Inr (plan', True), put_plan planID plan' (take_leases plan owner (now + leaseDuration) s)))
            else if plan_State plan \<noteq> ''preview'' then (Inl ErrConflict, s)
            else
              case registryLifecycleSnapshotLocked (plan_RegistryTargetID plan) (plan_ServiceID plan) now s of
                Inl e \<Rightarrow> (Inl e, s)
              | Inr snapshot \<Rightarrow>
                  if RegistrySnapshotToken dj snapshot \<noteq> plan_SnapshotToken plan then
                    (Inl ErrRegistrySnapshotStale, put_plan planID (plan\<lparr>plan_State := ''superseded''\<rparr>) s)
                  else
                    case BuildCleanupPlan dj snapshot now maxObservationAge of
                      Inl e \<Rightarrow> (Inl e, s)
                    | Inr _ \<Rightarrow>
                        if lease_conflict plan owner now s then (Inl ErrConflict, s)
                        else
                          let plan' = plan\<lparr>plan_State := ''executing'', plan_ClaimedAt := Some now\<rparr> in
                          (Inr (plan', True), put_plan planID plan' (take_leases plan owner (now + leaseDuration) s)))"

definition RenewRegistryCleanupPlanLeases ::
  "string \<Rightarrow> string \<Rightarrow> time \<Rightarrow> duration \<Rightarrow> registry_store \<Rightarrow> unit rs_result" where
  "RenewRegistryCleanupPlanLeases planID owner now leaseDuration s =
     (if owner = [] \<or> leaseDuration \<le> 0 then (Inl ErrRegistryPolicyInvalid, s)
      else
        case map_of (rs_plans s) planID of
          None \<Rightarrow> (Inl ErrNotFound, s)
        | Some plan \<Rightarrow>
            if plan_State plan \<noteq> ''executing'' \<or> \<not> planLeasesHeldLocked plan owner now s then (Inl ErrRegistryLeaseLost, s)
            else (Inr (), s\<lparr>rs_leases := foldl (\<lambda>leases repository.
                AList.update (lease_key plan repository)
                  ((get_or zero_lease leases (lease_key plan repository))\<lparr>lease_until := now + leaseDuration\<rparr>) leases)
                (rs_leases s) (cleanupLeaseRepositories plan)\<rparr>))"

section \<open>Executing items\<close>

definition AuthorizeRegistryCleanupItem ::
  "digests \<Rightarrow> string \<Rightarrow> nat \<Rightarrow> string \<Rightarrow> time \<Rightarrow> registry_store \<Rightarrow> registry_cleanup_item rs_result" where
  "AuthorizeRegistryCleanupItem dj planID ordinal owner now s =
     (case map_of (rs_plans s) planID of
        None \<Rightarrow> (Inl ErrNotFound, s)
      | Some plan \<Rightarrow>
          if plan_State plan \<noteq> ''executing'' \<or> \<not> itemLeaseHeldLocked plan ordinal owner now s then
            (Inl ErrRegistryLeaseLost, s)
          else
            case cleanupItemIndex plan ordinal of
              None \<Rightarrow> (Inl ErrNotFound, s)
            | Some index \<Rightarrow>
                let item = plan_Items plan ! index in
                if item_Disposition item \<noteq> RegistryCleanupDelete \<or> item_State item \<noteq> ''planned'' then (Inl ErrConflict, s)
                else if item_ResourceKind item = ''blob'' \<and>
                        (\<exists>other \<in> set (plan_Items plan). item_ResourceKind other \<noteq> ''blob'' \<and>
                           item_Disposition other = RegistryCleanupDelete \<and> item_State other \<noteq> ''deleted'') then
                  (Inl ErrRegistrySnapshotStale, s)
                else
                  case registryLifecycleSnapshotLocked (plan_RegistryTargetID plan) (plan_ServiceID plan) now s of
                    Inl e \<Rightarrow> (Inl e, s)
                  | Inr snapshot \<Rightarrow>
                      if RegistryAuthorityTokenForPlan dj snapshot plan \<noteq> plan_AuthorityToken plan then
                        (Inl ErrRegistrySnapshotStale, s)
                      else
                        let item' = item\<lparr>item_State := ''deleting''\<rparr> in
                        (Inr item', put_plan planID (plan\<lparr>plan_Items := (plan_Items plan)[index := item']\<rparr>) s))"

definition delete_blob :: "string \<Rightarrow> time \<Rightarrow> registry_blob \<Rightarrow> registry_blob" where
  "delete_blob digest observedAt blob =
     (if blob_Digest blob = digest \<and> blob_Present blob
      then blob\<lparr>blob_Present := False, blob_DeletedAt := Some observedAt\<rparr> else blob)"

definition delete_manifest :: "string \<Rightarrow> time \<Rightarrow> registry_manifest \<Rightarrow> registry_manifest" where
  "delete_manifest digest observedAt manifest =
     (if man_Digest manifest = digest \<and> man_Present manifest
      then manifest\<lparr>man_Present := False, man_DeletedAt := Some observedAt\<rparr> else manifest)"

definition applyCleanupDeletionLocked ::
  "registry_cleanup_plan \<Rightarrow> registry_cleanup_item \<Rightarrow> time \<Rightarrow> registry_store \<Rightarrow> registry_store" where
  "applyCleanupDeletionLocked plan item observedAt s =
     (if item_ResourceKind item = ''blob'' then
        s\<lparr>rs_catalogs := map (\<lambda>(key, catalog).
            (key, if cat_RegistryTargetID (cs_Observation catalog) \<noteq> plan_RegistryTargetID plan then catalog
                  else catalog\<lparr>cs_Blobs := map (delete_blob (item_Digest item) observedAt) (cs_Blobs catalog)\<rparr>))
            (rs_catalogs s)\<rparr>
      else
        let catalogKey = registryScopeKey [plan_RegistryTargetID plan, item_Repository item];
            catalog = get_or zero_catalog (rs_catalogs s) catalogKey in
        s\<lparr>rs_catalogs := AList.update catalogKey
            (catalog\<lparr>cs_Manifests := map (delete_manifest (item_Digest item) observedAt) (cs_Manifests catalog)\<rparr>) (rs_catalogs s),
          rs_releases := map (\<lambda>(releaseID, release).
            (releaseID,
             if rel_RegistryTargetID release = plan_RegistryTargetID plan \<and> rel_Repository release = item_Repository item \<and>
                rel_RootDigest release = item_Digest item
             then release\<lparr>rel_Availability := RegistryArtifactExpired, rel_AvailabilityObservedAt := Some observedAt\<rparr>
             else release)) (rs_releases s),
          rs_caches := map (\<lambda>(cacheID, cache).
            (cacheID,
             if cache_RegistryTargetID cache = plan_RegistryTargetID plan \<and> cache_Repository cache = item_Repository item \<and>
                cache_RootDigest cache = item_Digest item
             then cache\<lparr>cache_State := ''deleted''\<rparr> else cache)) (rs_caches s)\<rparr>)"

record registry_cleanup_item_result =
  res_State :: string
  res_ProviderMessage :: string
  res_ObservedAt :: time

text \<open>
  The part of \<open>RecordRegistryCleanupItemResult\<close> after its guards.  \<open>plan.Items\<close> is shared with
  the stored plan, so the item is updated in the store before the snapshot is taken, even
  if the snapshot then fails.
\<close>

definition record_item ::
  "digests \<Rightarrow> string \<Rightarrow> registry_cleanup_plan \<Rightarrow> nat \<Rightarrow> registry_cleanup_item_result \<Rightarrow> registry_store \<Rightarrow> unit rs_result" where
  "record_item dj planID plan index res s =
     (let item' = (plan_Items plan ! index)\<lparr>item_State := res_State res, item_ProviderMessage := res_ProviderMessage res,
                     item_UpdatedAt := res_ObservedAt res\<rparr>;
          plan' = plan\<lparr>plan_Items := (plan_Items plan)[index := item']\<rparr>;
          s1 = put_plan planID plan' s;
          s2 = (if res_State res = ''deleted'' then applyCleanupDeletionLocked plan' item' (res_ObservedAt res) s1
                else s1) in
      case registryLifecycleSnapshotLocked (plan_RegistryTargetID plan) (plan_ServiceID plan) (res_ObservedAt res) s2 of
        Inl e \<Rightarrow> (Inl e, s2)
      | Inr snapshot \<Rightarrow>
          (Inr (), put_plan planID (plan'\<lparr>plan_AuthorityToken := RegistryAuthorityTokenForPlan dj snapshot plan'\<rparr>) s2))"

definition RecordRegistryCleanupItemResult ::
  "digests \<Rightarrow> string \<Rightarrow> nat \<Rightarrow> string \<Rightarrow> registry_cleanup_item_result \<Rightarrow> registry_store \<Rightarrow> unit rs_result" where
  "RecordRegistryCleanupItemResult dj planID ordinal owner res s =
     (if res_State res \<notin> {''deleted'', ''skipped'', ''failed''} then (Inl ErrRegistryPolicyInvalid, s)
      else
        case map_of (rs_plans s) planID of
          None \<Rightarrow> (Inl ErrNotFound, s)
        | Some plan \<Rightarrow>
            if plan_State plan \<noteq> ''executing'' \<or> \<not> itemLeaseHeldLocked plan ordinal owner (res_ObservedAt res) s then
              (Inl ErrRegistryLeaseLost, s)
            else
              case cleanupItemIndex plan ordinal of
                None \<Rightarrow> (Inl ErrNotFound, s)
              | Some index \<Rightarrow>
                  let item = plan_Items plan ! index in
                  if item_State item \<noteq> ''deleting'' then
                    (if item_State item = res_State res \<and> item_ProviderMessage item = res_ProviderMessage res
                     then (Inr (), s) else (Inl ErrConflict, s))
                  else record_item dj planID plan index res s)"

definition release_leases :: "registry_cleanup_plan \<Rightarrow> string \<Rightarrow> registry_store \<Rightarrow> registry_store" where
  "release_leases plan owner s =
     s\<lparr>rs_leases := foldl (\<lambda>leases repository.
         let lease = get_or zero_lease leases (lease_key plan repository) in
         if lease_planID lease = plan_ID plan \<and> lease_owner lease = owner
         then AList.delete (lease_key plan repository) leases else leases)
         (rs_leases s) (cleanupLeaseRepositories plan)\<rparr>"

definition FinishRegistryCleanupPlan ::
  "string \<Rightarrow> string \<Rightarrow> bool \<Rightarrow> string \<Rightarrow> time \<Rightarrow> registry_store \<Rightarrow> unit rs_result" where
  "FinishRegistryCleanupPlan planID owner succeeded failure now s =
     (case map_of (rs_plans s) planID of
        None \<Rightarrow> (Inl ErrNotFound, s)
      | Some plan \<Rightarrow>
          let desired = (if succeeded then ''succeeded'' else ''failed'') in
          if plan_State plan = desired then (Inr (), s)
          else if plan_State plan \<noteq> ''executing'' \<or> \<not> planLeasesHeldLocked plan owner now s then (Inl ErrRegistryLeaseLost, s)
          else if succeeded \<and> (\<exists>item \<in> set (plan_Items plan). item_Disposition item = RegistryCleanupDelete \<and>
                                 item_State item \<noteq> ''deleted'') then (Inl ErrConflict, s)
          else if \<not> succeeded \<and> failure = [] then (Inl ErrRegistryPolicyInvalid, s)
          else
            let plan' = plan\<lparr>plan_State := desired, plan_Failure := (if succeeded then [] else failure),
                             plan_CompletedAt := Some now\<rparr> in
            (Inr (), release_leases plan' owner (put_plan planID plan' s)))"

end
