(* ===== verification/Transition.thy ===== *)
theory Transition
  imports Prelude
begin

text \<open>
  Transition systems: the states a component can reach from its initial state by its
  operations, and the two ways the components use them.  \<open>invariant_system\<close> is the contract
  of an inductive invariant, \<open>history_system\<close> that of a relation every step respects, such
  as "a terminal record stays as it is".  Each stateful component interprets them on its
  own step relation.
\<close>

inductive reachable :: "('s \<Rightarrow> 's \<Rightarrow> bool) \<Rightarrow> 's \<Rightarrow> 's \<Rightarrow> bool" for step s0 where
  start: "reachable step s0 s0"
| move: "reachable step s0 s \<Longrightarrow> step s s' \<Longrightarrow> reachable step s0 s'"

lemma reachable_trans: "reachable step s1 s2 \<Longrightarrow> reachable step s0 s1 \<Longrightarrow> reachable step s0 s2"
  by (induction rule: reachable.induct) (auto intro: reachable.intros)

locale invariant_system =
  fixes step :: "'s \<Rightarrow> 's \<Rightarrow> bool" and init :: 's and inv :: "'s \<Rightarrow> bool"
  assumes init_inv: "inv init"
    and step_inv: "inv s \<Longrightarrow> step s s' \<Longrightarrow> inv s'"
begin

lemma reachable_inv: "reachable step init s \<Longrightarrow> inv s"
  by (induction rule: reachable.induct) (auto intro: init_inv step_inv)

lemma reachable_from_inv: "reachable step s s' \<Longrightarrow> inv s \<Longrightarrow> inv s'"
  by (induction rule: reachable.induct) (auto intro: step_inv)

end

locale history_system = invariant_system +
  fixes rel :: "'s \<Rightarrow> 's \<Rightarrow> bool"
  assumes rel_refl: "inv s \<Longrightarrow> rel s s"
    and rel_trans: "rel s t \<Longrightarrow> rel t u \<Longrightarrow> rel s u"
    and step_rel: "inv s \<Longrightarrow> step s s' \<Longrightarrow> rel s s'"
begin

lemma run_rel: "reachable step s s' \<Longrightarrow> inv s \<Longrightarrow> rel s s'"
proof (induction rule: reachable.induct)
  case (move t t')
  then have "inv t" by (blast intro: reachable_from_inv)
  with move show ?case by (blast intro: rel_trans step_rel)
qed (rule rel_refl)

lemma reachable_rel: "reachable step init s \<Longrightarrow> reachable step s s' \<Longrightarrow> rel s s'"
  by (rule run_rel) (auto intro: reachable_inv)

end

end
