(* ===== verification/Registry_Protocol.thy ===== *)
theory Registry_Protocol
  imports Registry_Safety Registry_Cleanup Transition
begin

text \<open>
  The cleanup protocol as a transition system over the registry store: every operation of
  the store is a step, and a plan that is saved was built by \<open>BuildCleanupPlan\<close> from some
  snapshot, as \<open>Service.preview\<close> does.  The invariant ties every stored plan to the plan
  that was built.
\<close>

section \<open>Steps\<close>

text \<open>\<open>Service.preview\<close> stamps a built plan before saving it.\<close>

definition stamp_plan :: "digests \<Rightarrow> bool \<Rightarrow> string \<Rightarrow> registry_cleanup_plan \<Rightarrow> registry_cleanup_plan" where
  "stamp_plan dj automatic newID plan =
     (let plan' = plan\<lparr>plan_Automatic := automatic\<rparr> in
      plan'\<lparr>plan_PlanDigest := RegistryCleanupPlanDigest dj plan', plan_ID := newID\<rparr>)"

text \<open>Go maps have no order: any list with the same entries is the same store.\<close>

definition same_store :: "registry_store \<Rightarrow> registry_store \<Rightarrow> bool" where
  "same_store s s' \<longleftrightarrow>
     mset (rs_targets s') = mset (rs_targets s) \<and> mset (rs_policies s') = mset (rs_policies s) \<and>
     mset (rs_inventories s') = mset (rs_inventories s) \<and> mset (rs_catalogs s') = mset (rs_catalogs s) \<and>
     mset (rs_authorities s') = mset (rs_authorities s) \<and> mset (rs_pins s') = mset (rs_pins s) \<and>
     mset (rs_releases s') = mset (rs_releases s) \<and> mset (rs_caches s') = mset (rs_caches s) \<and>
     mset (rs_plans s') = mset (rs_plans s) \<and> mset (rs_planDigests s') = mset (rs_planDigests s) \<and>
     mset (rs_leases s') = mset (rs_leases s)"

inductive registry_step :: "digests \<Rightarrow> registry_store \<Rightarrow> registry_store \<Rightarrow> bool" for dj where
  put_target: "registry_step dj s (snd (PutRegistryTarget parse wall target s))"
| put_policy: "registry_step dj s (snd (PutServiceRegistryPolicy parse wall policy s))"
| inventory: "registry_step dj s (snd (RecordRegistryInventory observation s))"
| catalog: "registry_step dj s (snd (ReplaceRegistryCatalog dj newID catalog_snapshot s))"
| protection: "registry_step dj s (snd (ReplaceRegistryProtectionSnapshot dj protection_snapshot s))"
| put_pin: "registry_step dj s (snd (PutRegistryPin wall reference s))"
| delete_pin: "registry_step dj s (snd (DeleteRegistryPin targetID serviceID referenceKey s))"
| put_release: "registry_step dj s (snd (PutRegistryRelease wall release s))"
| put_cache: "registry_step dj s (snd (PutRegistryCacheGeneration wall generation s))"
| save: "BuildCleanupPlan dj snapshot now maxAge = Inr built \<Longrightarrow>
    registry_step dj s (snd (SaveRegistryCleanupPlan dj (stamp_plan dj automatic newID built) s))"
| claim: "registry_step dj s (snd (ClaimRegistryCleanupPlan dj planID owner now leaseDuration maxAge s))"
| renew: "registry_step dj s (snd (RenewRegistryCleanupPlanLeases planID owner now leaseDuration s))"
| authorize: "registry_step dj s (snd (AuthorizeRegistryCleanupItem dj planID ordinal owner now s))"
| record_result: "registry_step dj s (snd (RecordRegistryCleanupItemResult dj planID ordinal owner res s))"
| finish: "registry_step dj s (snd (FinishRegistryCleanupPlan planID owner succeeded failure now s))"
| reorder: "same_store s s' \<Longrightarrow> registry_step dj s s'"

section \<open>The invariant\<close>

definition item_static :: "registry_cleanup_item \<Rightarrow> registry_cleanup_item" where
  "item_static item = item\<lparr>item_State := [], item_ProviderMessage := [], item_UpdatedAt := 0\<rparr>"

definition items_static :: "registry_cleanup_plan \<Rightarrow> registry_cleanup_item list" where
  "items_static plan = map item_static (plan_Items plan)"

definition is_delete :: "registry_cleanup_item \<Rightarrow> bool" where
  "is_delete item \<longleftrightarrow> item_Disposition item = RegistryCleanupDelete"

definition item_state_ok :: "registry_cleanup_item \<Rightarrow> bool" where
  "item_state_ok item \<longleftrightarrow>
     (if is_delete item then item_State item \<in> {''planned'', ''deleting'', ''deleted'', ''failed'', ''skipped''}
      else item_State item = ''protected'')"

definition manifests_done :: "registry_cleanup_item list \<Rightarrow> bool" where
  "manifests_done items \<longleftrightarrow>
     (\<forall>item \<in> set items. item_ResourceKind item \<noteq> ''blob'' \<and> is_delete item \<longrightarrow> item_State item = ''deleted'')"

definition blob_started :: "registry_cleanup_item \<Rightarrow> bool" where
  "blob_started item \<longleftrightarrow> item_ResourceKind item = ''blob'' \<and> is_delete item \<and> item_State item \<noteq> ''planned''"

definition item_states_ok :: "registry_cleanup_item list \<Rightarrow> bool" where
  "item_states_ok items \<longleftrightarrow>
     (\<forall>item \<in> set items. item_state_ok item) \<and> ((\<exists>item \<in> set items. blob_started item) \<longrightarrow> manifests_done items)"

definition plan_states_ok :: "registry_cleanup_plan \<Rightarrow> bool" where
  "plan_states_ok plan \<longleftrightarrow>
     item_states_ok (plan_Items plan) \<and>
     plan_State plan \<in> {''preview'', ''executing'', ''superseded'', ''succeeded'', ''failed''} \<and>
     (plan_State plan \<in> {''preview'', ''superseded''} \<longrightarrow>
        (\<forall>item \<in> set (plan_Items plan). is_delete item \<longrightarrow> item_State item = ''planned'')) \<and>
     (plan_State plan = ''succeeded'' \<longrightarrow>
        (\<forall>item \<in> set (plan_Items plan). is_delete item \<longrightarrow> item_State item = ''deleted''))"

definition built_from ::
  "digests \<Rightarrow> registry_lifecycle_snapshot \<Rightarrow> time \<Rightarrow> duration \<Rightarrow> registry_cleanup_plan \<Rightarrow> registry_cleanup_plan \<Rightarrow> bool" where
  "built_from dj snapshot now maxAge built plan \<longleftrightarrow>
     BuildCleanupPlan dj snapshot now maxAge = Inr built \<and> items_static plan = items_static built \<and>
     plan_RegistryTargetID plan = plan_RegistryTargetID built \<and> plan_ServiceID plan = plan_ServiceID built \<and>
     plan_SnapshotToken plan = plan_SnapshotToken built \<and> plan_Policy plan = plan_Policy built"

definition plan_ok :: "digests \<Rightarrow> string \<Rightarrow> registry_cleanup_plan \<Rightarrow> bool" where
  "plan_ok dj planID plan \<longleftrightarrow>
     plan_ID plan = planID \<and> planID \<noteq> [] \<and> plan_states_ok plan \<and>
     (\<exists>snapshot now maxAge built. built_from dj snapshot now maxAge built plan)"

definition registry_inv :: "digests \<Rightarrow> registry_store \<Rightarrow> bool" where
  "registry_inv dj s \<longleftrightarrow> wf_map (rs_plans s) \<and> (\<forall>planID plan. map_of (rs_plans s) planID = Some plan \<longrightarrow> plan_ok dj planID plan)"

section \<open>Which operations touch plans\<close>

lemma put_plan_fields [frame_simps]:
  "rs_plans (put_plan planID plan s) = AList.update planID plan (rs_plans s)"
  "rs_leases (put_plan planID plan s) = rs_leases s"
  by (simp_all add: put_plan_def)

lemma take_leases_plans [frame_simps]: "rs_plans (take_leases plan owner until s) = rs_plans s"
  by (simp add: take_leases_def)

lemma release_leases_plans [frame_simps]: "rs_plans (release_leases plan owner s) = rs_plans s"
  by (simp add: release_leases_def)

lemma applyCleanupDeletion_plans [frame_simps]:
  "rs_plans (applyCleanupDeletionLocked plan item observedAt s) = rs_plans s"
  "rs_leases (applyCleanupDeletionLocked plan item observedAt s) = rs_leases s"
  "rs_targets (applyCleanupDeletionLocked plan item observedAt s) = rs_targets s"
  "rs_policies (applyCleanupDeletionLocked plan item observedAt s) = rs_policies s"
  by (simp_all add: applyCleanupDeletionLocked_def Let_def)

lemma reconcile_plans [frame_simps]: "rs_plans (reconcileAvailabilityLocked snapshot s) = rs_plans s"
  by (simp add: reconcileAvailabilityLocked_def Let_def)

text \<open>Pushing a projection of the resulting store through the branches of an operation.\<close>

lemma branch_proj:
  "f (snd (if c then a else b)) = (if c then f (snd a) else f (snd b))"
  "f (snd (Let x g)) = (let v = x in f (snd (g v)))"
  "f (snd (case_option n j ov)) = (case ov of None \<Rightarrow> f (snd n) | Some v \<Rightarrow> f (snd (j v)))"
  "f (snd (case_sum l r sv)) = (case sv of Inl e \<Rightarrow> f (snd (l e)) | Inr v \<Rightarrow> f (snd (r v)))"
  "f (snd (case_prod h pv)) = (case pv of (x, y) \<Rightarrow> f (snd (h x y)))"
  by (simp_all add: Let_def split: option.splits sum.splits prod.splits)

lemma branch_const:
  "(let v = x in c) = c" "(case ov of None \<Rightarrow> c | Some v \<Rightarrow> c) = c" "(case sv of Inl e \<Rightarrow> c | Inr v \<Rightarrow> c) = c"
  "(case pv of (x, y) \<Rightarrow> c) = c"
  by (simp_all split: option.splits sum.splits prod.splits)

lemma plans_update:
  "rs_plans (s\<lparr>rs_targets := v1\<rparr>) = rs_plans s"
  "rs_plans (s\<lparr>rs_policies := v2\<rparr>) = rs_plans s"
  "rs_plans (s\<lparr>rs_inventories := v3\<rparr>) = rs_plans s"
  "rs_plans (s\<lparr>rs_catalogs := v4\<rparr>) = rs_plans s"
  "rs_plans (s\<lparr>rs_authorities := v5\<rparr>) = rs_plans s"
  "rs_plans (s\<lparr>rs_pins := v6\<rparr>) = rs_plans s"
  "rs_plans (s\<lparr>rs_releases := v7\<rparr>) = rs_plans s"
  "rs_plans (s\<lparr>rs_caches := v8\<rparr>) = rs_plans s"
  "rs_plans (s\<lparr>rs_planDigests := v9\<rparr>) = rs_plans s"
  "rs_plans (s\<lparr>rs_leases := v10\<rparr>) = rs_plans s"
  by simp_all

lemmas plans_frame = branch_proj [of rs_plans] branch_const if_cancel snd_conv plans_update

lemma PutRegistryTarget_plans [frame_simps]: "rs_plans (snd (PutRegistryTarget parse wall target s)) = rs_plans s"
  unfolding PutRegistryTarget_def by (simp only: plans_frame reconcile_plans)

lemma PutServiceRegistryPolicy_plans [frame_simps]: "rs_plans (snd (PutServiceRegistryPolicy parse wall policy s)) = rs_plans s"
  unfolding PutServiceRegistryPolicy_def by (simp only: plans_frame reconcile_plans)

lemma RecordRegistryInventory_plans [frame_simps]: "rs_plans (snd (RecordRegistryInventory observation s)) = rs_plans s"
  unfolding RecordRegistryInventory_def by (simp only: plans_frame reconcile_plans)

lemma ReplaceRegistryCatalog_plans [frame_simps]: "rs_plans (snd (ReplaceRegistryCatalog dj newID catalog_snapshot s)) = rs_plans s"
  unfolding ReplaceRegistryCatalog_def by (simp only: plans_frame reconcile_plans)

lemma ReplaceRegistryProtectionSnapshot_plans [frame_simps]: "rs_plans (snd (ReplaceRegistryProtectionSnapshot dj protection_snapshot s)) = rs_plans s"
  unfolding ReplaceRegistryProtectionSnapshot_def by (simp only: plans_frame reconcile_plans)

lemma PutRegistryPin_plans [frame_simps]: "rs_plans (snd (PutRegistryPin wall reference s)) = rs_plans s"
  unfolding PutRegistryPin_def by (simp only: plans_frame reconcile_plans)

lemma DeleteRegistryPin_plans [frame_simps]: "rs_plans (snd (DeleteRegistryPin targetID serviceID referenceKey s)) = rs_plans s"
  unfolding DeleteRegistryPin_def by (simp only: plans_frame reconcile_plans)

lemma PutRegistryRelease_plans [frame_simps]: "rs_plans (snd (PutRegistryRelease wall release s)) = rs_plans s"
  unfolding PutRegistryRelease_def by (simp only: plans_frame reconcile_plans)

lemma PutRegistryCacheGeneration_plans [frame_simps]: "rs_plans (snd (PutRegistryCacheGeneration wall generation s)) = rs_plans s"
  unfolding PutRegistryCacheGeneration_def by (simp only: plans_frame reconcile_plans)

lemma RenewRegistryCleanupPlanLeases_plans [frame_simps]: "rs_plans (snd (RenewRegistryCleanupPlanLeases planID owner now leaseDuration s)) = rs_plans s"
  unfolding RenewRegistryCleanupPlanLeases_def by (simp only: plans_frame reconcile_plans)

section \<open>Plans as built\<close>

lemma BuildCleanupPlan_state:
  "BuildCleanupPlan dj snapshot now maxAge = Inr built \<Longrightarrow> plan_State built = ''preview'' \<and> plan_Policy built = snap_Policy snapshot"
  by (auto simp: BuildCleanupPlan_def bindE_Inr Let_def split: if_splits)

lemma built_item_states:
  assumes "BuildCleanupPlan dj snapshot now maxAge = Inr built" and "item \<in> set (plan_Items built)"
  shows "item_State item = (if is_delete item then ''planned'' else ''protected'')"
proof -
  let ?f = "\<lambda>item. item_State item = (if is_delete item then ''planned'' else ''protected'')"
  obtain graph prot dels where planned: "planned snapshot now graph prot dels (plan_Items built)"
    using assms(1) by (rule BuildCleanupPlan_planned)
  then obtain depths where items: "plan_Items built = number_items (sort_key (item_key depths)
      (map (manifest_item (serviceRepositories snapshot) prot dels) (lg_manifests graph) @
       map (blob_item (reachableBlobs graph prot) (now - pol_MinimumSafetyAge (snap_Policy snapshot)))
         (lg_blobByDigest graph)))"
    by (elim planned_sorted)
  have "?f (manifest_item repos p d entry)" for repos p d entry
    by (cases entry) (simp add: manifest_item_def cleanupItem_def is_delete_def Let_def split: option.splits)
  moreover have "?f (blob_item r c entry)" for r c entry
    by (cases entry) (simp add: blob_item_def cleanupItem_def is_delete_def Let_def)
  ultimately have all: "\<forall>item \<in> set (map (manifest_item (serviceRepositories snapshot) prot dels) (lg_manifests graph) @
       map (blob_item (reachableBlobs graph prot) (now - pol_MinimumSafetyAge (snap_Policy snapshot)))
         (lg_blobByDigest graph)). ?f item"
    by (simp only: set_append set_map) blast
  have "?f ` set (plan_Items built) = set (map ?f (plan_Items built))" by (rule set_map [symmetric])
  also have "\<dots> \<subseteq> {True}"
    unfolding items by (subst number_items_erased) (use all in \<open>auto simp: is_delete_def\<close>)
  finally show ?thesis using assms(2) by blast
qed

lemma stamp_plan_fields [simp]:
  "plan_ID (stamp_plan dj automatic newID plan) = newID"
  "plan_Items (stamp_plan dj automatic newID plan) = plan_Items plan"
  "plan_State (stamp_plan dj automatic newID plan) = plan_State plan"
  "plan_RegistryTargetID (stamp_plan dj automatic newID plan) = plan_RegistryTargetID plan"
  "plan_ServiceID (stamp_plan dj automatic newID plan) = plan_ServiceID plan"
  "plan_SnapshotToken (stamp_plan dj automatic newID plan) = plan_SnapshotToken plan"
  "plan_AuthorityToken (stamp_plan dj automatic newID plan) = plan_AuthorityToken plan"
  "plan_Policy (stamp_plan dj automatic newID plan) = plan_Policy plan"
  by (simp_all add: stamp_plan_def Let_def)

lemma stamped_plan_ok:
  assumes "BuildCleanupPlan dj snapshot now maxAge = Inr built" and "newID \<noteq> []"
  shows "plan_ok dj newID (stamp_plan dj automatic newID built)"
proof -
  have "item_states_ok (plan_Items built)"
    using built_item_states [OF assms(1)] by (auto simp: item_states_ok_def item_state_ok_def blob_started_def)
  then have "plan_states_ok (stamp_plan dj automatic newID built)"
    using built_item_states [OF assms(1)] BuildCleanupPlan_state [OF assms(1)] by (auto simp: plan_states_ok_def)
  then show ?thesis
    using assms by (auto simp: plan_ok_def built_from_def items_static_def)
qed

section \<open>Plan updates\<close>

lemma registry_inv_put:
  assumes "registry_inv dj s" and "plan_ok dj planID plan" and "rs_plans s' = AList.update planID plan (rs_plans s)"
  shows "registry_inv dj s'"
  using assms by (auto simp: registry_inv_def split: if_splits)

lemma registry_inv_same: "registry_inv dj s \<Longrightarrow> rs_plans s' = rs_plans s \<Longrightarrow> registry_inv dj s'"
  by (simp add: registry_inv_def)

lemma registry_invD: "registry_inv dj s \<Longrightarrow> map_of (rs_plans s) planID = Some plan \<Longrightarrow> plan_ok dj planID plan"
  by (simp add: registry_inv_def)

text \<open>Updates that keep the static part of a plan keep its origin.\<close>

lemma plan_ok_update:
  assumes "plan_ok dj planID plan" and "plan_states_ok plan'" and "items_static plan' = items_static plan"
    and "plan_ID plan' = plan_ID plan" and "plan_RegistryTargetID plan' = plan_RegistryTargetID plan"
    and "plan_ServiceID plan' = plan_ServiceID plan" and "plan_SnapshotToken plan' = plan_SnapshotToken plan"
    and "plan_Policy plan' = plan_Policy plan"
  shows "plan_ok dj planID plan'"
  using assms by (auto simp: plan_ok_def built_from_def)

lemma item_static_eq:
  "item_static (item\<lparr>item_State := st\<rparr>) = item_static item"
  "item_static (item\<lparr>item_State := st, item_ProviderMessage := msg, item_UpdatedAt := t\<rparr>) = item_static item"
  by (simp_all add: item_static_def)

lemma item_static_fields:
  assumes "item_static a = item_static b"
  shows "item_Disposition a = item_Disposition b" "item_ResourceKind a = item_ResourceKind b"
    "item_Repository a = item_Repository b" "item_Digest a = item_Digest b" "item_Ordinal a = item_Ordinal b"
    "item_Action a = item_Action b"
  using arg_cong [OF assms, of item_Disposition] arg_cong [OF assms, of item_ResourceKind]
    arg_cong [OF assms, of item_Repository] arg_cong [OF assms, of item_Digest] arg_cong [OF assms, of item_Ordinal]
    arg_cong [OF assms, of item_Action]
  by (simp_all add: item_static_def)

lemma cleanupItemIndex_Some:
  "cleanupItemIndex plan ordinal = Some i \<Longrightarrow> i < length (plan_Items plan) \<and> item_Ordinal (plan_Items plan ! i) = ordinal"
  by (auto simp: cleanupItemIndex_def dest!: filter_eq_find_Some)

lemma items_static_update:
  "i < length (plan_Items plan) \<Longrightarrow> item_static item = item_static (plan_Items plan ! i) \<Longrightarrow>
   map item_static ((plan_Items plan)[i := item]) = items_static plan"
  by (simp add: items_static_def map_update list_update_same_conv)

text \<open>
  Changing the state of one delete item is harmless if a blob item only moves when all
  manifest items are done, and a manifest item that is done does not move.
\<close>

lemma set_list_update_cases: "x \<in> set (xs[i := y]) \<Longrightarrow> x = y \<or> x \<in> set xs"
  using set_update_subset_insert [of xs i y] by blast

lemma item_states_ok_update:
  assumes ok: "item_states_ok items" and i: "i < length items"
    and static: "item_static item = item_static (items ! i)" and state: "item_state_ok item"
    and manifest: "item_ResourceKind (items ! i) \<noteq> ''blob'' \<Longrightarrow> is_delete (items ! i) \<and> item_State (items ! i) \<noteq> ''deleted''"
    and blob: "item_ResourceKind (items ! i) = ''blob'' \<Longrightarrow> blob_started (items ! i) \<or> manifests_done items"
  shows "item_states_ok (items[i := item])"
proof -
  note same = item_static_fields [OF static]
  have all: "\<forall>x \<in> set (items[i := item]). item_state_ok x"
    using ok state by (auto simp: item_states_ok_def dest: set_list_update_cases)
  have "manifests_done (items[i := item])" if started: "\<exists>x \<in> set (items[i := item]). blob_started x"
  proof (cases "item_ResourceKind (items ! i) = ''blob''")
    case True
    then have "manifests_done items"
      using blob ok nth_mem [OF i] by (auto simp: item_states_ok_def)
    then show ?thesis
      using True same(2) by (auto simp: manifests_done_def dest!: set_list_update_cases)
  next
    case False
    then have "\<not> manifests_done items"
      using manifest nth_mem [OF i] by (auto simp: manifests_done_def)
    then have none: "\<not> blob_started x" if "x \<in> set items" for x
      using ok that by (auto simp: item_states_ok_def)
    have "\<not> blob_started item" using False same(2) by (simp add: blob_started_def)
    with none started show ?thesis by (auto dest: set_list_update_cases)
  qed
  with all show ?thesis by (simp add: item_states_ok_def)
qed

section \<open>The life of a plan\<close>

text \<open>What may happen to one stored plan, independent of the rest of the store.\<close>

inductive plan_step :: "registry_cleanup_plan \<Rightarrow> registry_cleanup_plan \<Rightarrow> bool" where
  claim: "plan_State plan = ''preview'' \<Longrightarrow> plan_step plan (plan\<lparr>plan_State := ''executing'', plan_ClaimedAt := Some now\<rparr>)"
| supersede: "plan_State plan = ''preview'' \<Longrightarrow> plan_step plan (plan\<lparr>plan_State := ''superseded''\<rparr>)"
| resume: "RegistryCleanupPlanCanResumeOfflineSweep plan \<Longrightarrow>
    plan_step plan (plan\<lparr>plan_Items := map (resume_item now) (plan_Items plan), plan_State := ''executing'',
                         plan_ClaimedAt := Some now, plan_CompletedAt := None, plan_Failure := []\<rparr>)"
| authorize: "plan_State plan = ''executing'' \<Longrightarrow> i < length (plan_Items plan) \<Longrightarrow> is_delete (plan_Items plan ! i) \<Longrightarrow>
    item_State (plan_Items plan ! i) = ''planned'' \<Longrightarrow>
    (item_ResourceKind (plan_Items plan ! i) = ''blob'' \<longrightarrow> manifests_done (plan_Items plan)) \<Longrightarrow>
    plan_step plan (plan\<lparr>plan_Items := (plan_Items plan)[i := (plan_Items plan ! i)\<lparr>item_State := ''deleting''\<rparr>]\<rparr>)"
| result: "plan_State plan = ''executing'' \<Longrightarrow> i < length (plan_Items plan) \<Longrightarrow>
    item_State (plan_Items plan ! i) = ''deleting'' \<Longrightarrow> st \<in> {''deleted'', ''skipped'', ''failed''} \<Longrightarrow>
    plan_step plan (plan\<lparr>plan_Items := (plan_Items plan)[i := (plan_Items plan ! i)\<lparr>item_State := st,
                           item_ProviderMessage := msg, item_UpdatedAt := t\<rparr>], plan_AuthorityToken := tok\<rparr>)"
| finish: "plan_State plan = ''executing'' \<Longrightarrow>
    (succeeded \<longrightarrow> (\<forall>item \<in> set (plan_Items plan). is_delete item \<longrightarrow> item_State item = ''deleted'')) \<Longrightarrow>
    plan_step plan (plan\<lparr>plan_State := (if succeeded then ''succeeded'' else ''failed''),
                         plan_Failure := failure, plan_CompletedAt := Some now\<rparr>)"

inductive_cases plan_stepE [elim]: "plan_step plan plan'"

lemma resume_item_static: "item_static (resume_item now item) = item_static item"
  by (simp add: resume_item_def item_static_def)

lemma plan_step_static:
  assumes "plan_step plan plan'"
  shows "items_static plan' = items_static plan" "plan_ID plan' = plan_ID plan"
    "plan_RegistryTargetID plan' = plan_RegistryTargetID plan" "plan_ServiceID plan' = plan_ServiceID plan"
    "plan_SnapshotToken plan' = plan_SnapshotToken plan" "plan_Policy plan' = plan_Policy plan"
  using assms
  by (cases; simp add: items_static_def resume_item_static map_update list_update_same_conv item_static_eq comp_def)+

lemma pending_blobs_items:
  assumes "pending_blobs items = Some n" and "item \<in> set items" and "is_delete item"
  shows "item_State item = ''deleted'' \<or> item_ResourceKind item = ''blob''"
  using assms by (induction items arbitrary: n) (auto simp: is_delete_def split: if_splits)

lemma resume_items_ok:
  assumes "item_states_ok items" and "pending_blobs items = Some n"
  shows "item_states_ok (map (resume_item now) items)"
proof -
  have "manifests_done items"
    using pending_blobs_items [OF assms(2)] by (auto simp: manifests_done_def)
  then have "manifests_done (map (resume_item now) items)"
    by (auto simp: manifests_done_def resume_item_def is_delete_def)
  moreover have "item_state_ok (resume_item now item)" if "item_state_ok item" for item
    using that by (auto simp: item_state_ok_def resume_item_def is_delete_def split: if_splits)
  ultimately show ?thesis
    using assms(1) by (simp add: item_states_ok_def)
qed

lemma plan_step_states_ok:
  assumes "plan_step plan plan'" and "plan_states_ok plan"
  shows "plan_states_ok plan'"
  using assms(1)
proof cases
  case (authorize i)
  have "item_states_ok ((plan_Items plan)[i := (plan_Items plan ! i)\<lparr>item_State := ''deleting''\<rparr>])"
    using assms(2) authorize
    by (intro item_states_ok_update) (auto simp: plan_states_ok_def item_static_eq item_state_ok_def is_delete_def)
  with authorize show ?thesis by (simp add: plan_states_ok_def)
next
  case (result i st tok t msg)
  have ok: "item_states_ok (plan_Items plan)" using assms(2) by (simp add: plan_states_ok_def)
  then have "item_state_ok (plan_Items plan ! i)"
    using result by (auto simp: item_states_ok_def)
  then have del: "is_delete (plan_Items plan ! i)"
    using result by (auto simp: item_state_ok_def split: if_splits)
  have "item_states_ok ((plan_Items plan)[i := (plan_Items plan ! i)\<lparr>item_State := st, item_ProviderMessage := msg,
      item_UpdatedAt := t\<rparr>])"
    using ok result del
    by (intro item_states_ok_update) (auto simp: item_static_eq item_state_ok_def is_delete_def blob_started_def)
  with result show ?thesis by (simp add: plan_states_ok_def)
next
  case (resume now)
  then obtain n where "pending_blobs (plan_Items plan) = Some n"
    by (auto simp: RegistryCleanupPlanCanResumeOfflineSweep_def split: option.splits)
  then have "item_states_ok (map (resume_item now) (plan_Items plan))"
    using assms(2) by (intro resume_items_ok) (simp_all add: plan_states_ok_def)
  with resume show ?thesis by (simp add: plan_states_ok_def)
next
  case (finish succeeded now failure)
  with assms(2) show ?thesis by (simp add: plan_states_ok_def)
qed (use assms(2) in \<open>auto simp: plan_states_ok_def\<close>)

lemma plan_step_ok: "plan_step plan plan' \<Longrightarrow> plan_ok dj planID plan \<Longrightarrow> plan_ok dj planID plan'"
  by (rule plan_ok_update)
    (auto simp: plan_step_static intro: plan_step_states_ok simp: plan_ok_def)

section \<open>Every operation is a plan step\<close>

text \<open>How the plan under one identifier may change when an operation runs.\<close>

definition plan_moves :: "digests \<Rightarrow> registry_store \<Rightarrow> registry_store \<Rightarrow> string \<Rightarrow> bool" where
  "plan_moves dj s s' planID \<longleftrightarrow>
     map_of (rs_plans s') planID = map_of (rs_plans s) planID \<or>
     (map_of (rs_plans s) planID = None \<and> planID \<noteq> [] \<and>
        (\<exists>snapshot now maxAge built automatic. BuildCleanupPlan dj snapshot now maxAge = Inr built \<and>
           map_of (rs_plans s') planID = Some (stamp_plan dj automatic planID built))) \<or>
     (\<exists>plan plan'. map_of (rs_plans s) planID = Some plan \<and> map_of (rs_plans s') planID = Some plan' \<and>
        plan_step plan plan')"

lemma plan_moves_same: "rs_plans s' = rs_plans s \<Longrightarrow> plan_moves dj s s' planID"
  by (simp add: plan_moves_def)

lemma plan_moves_put:
  assumes "map_of (rs_plans s) planID = Some plan" and "plan_step plan plan'"
    and "rs_plans s' = AList.update planID plan' (rs_plans s)"
  shows "plan_moves dj s s' otherID"
  using assms by (auto simp: plan_moves_def)

lemma Save_moves:
  assumes "BuildCleanupPlan dj snapshot now maxAge = Inr built"
  shows "plan_moves dj s (snd (SaveRegistryCleanupPlan dj (stamp_plan dj automatic newID built) s)) planID"
proof -
  let ?plan = "stamp_plan dj automatic newID built"
  let ?s' = "snd (SaveRegistryCleanupPlan dj ?plan s)"
  have "rs_plans ?s' = rs_plans s \<or>
      newID \<noteq> [] \<and> map_of (rs_plans s) newID = None \<and> rs_plans ?s' = AList.update newID ?plan (rs_plans s)"
    by (simp add: SaveRegistryCleanupPlan_def saveRegistryCleanupPlanLocked_def Let_def split: option.splits sum.splits)
  then show ?thesis
  proof (elim disjE conjE)
    assume fresh: "newID \<noteq> []" "map_of (rs_plans s) newID = None" and put: "rs_plans ?s' = AList.update newID ?plan (rs_plans s)"
    show ?thesis
    proof (cases "planID = newID")
      case True
      then have "map_of (rs_plans ?s') planID = Some (stamp_plan dj automatic planID built)" by (simp add: put)
      with fresh True assms show ?thesis unfolding plan_moves_def by blast
    qed (simp add: plan_moves_def put)
  qed (rule plan_moves_same)
qed

lemma Claim_moves: "plan_moves dj s (snd (ClaimRegistryCleanupPlan dj planID owner now lease maxAge s)) otherID"
proof (cases "map_of (rs_plans s) planID")
  case None
  then show ?thesis by (simp add: ClaimRegistryCleanupPlan_def plan_moves_same)
next
  case (Some plan)
  let ?s' = "snd (ClaimRegistryCleanupPlan dj planID owner now lease maxAge s)"
  have "rs_plans ?s' = rs_plans s \<or> (\<exists>plan'. plan_step plan plan' \<and> rs_plans ?s' = AList.update planID plan' (rs_plans s))"
    using Some plan_step.claim [of plan now] plan_step.supersede [of plan] plan_step.resume [of plan now]
    by (auto simp: ClaimRegistryCleanupPlan_def Let_def frame_simps split: sum.splits)
  then show ?thesis
    using plan_moves_put [OF Some] plan_moves_same by blast
qed

lemma Authorize_moves: "plan_moves dj s (snd (AuthorizeRegistryCleanupItem dj planID ordinal owner now s)) otherID"
proof (cases "map_of (rs_plans s) planID")
  case None
  then show ?thesis by (simp add: AuthorizeRegistryCleanupItem_def plan_moves_same)
next
  case (Some plan)
  let ?s' = "snd (AuthorizeRegistryCleanupItem dj planID ordinal owner now s)"
  have step: "plan_step plan (plan\<lparr>plan_Items := (plan_Items plan)[i := (plan_Items plan ! i)\<lparr>item_State := ''deleting''\<rparr>]\<rparr>)"
    if "plan_State plan = ''executing''" "cleanupItemIndex plan ordinal = Some i"
      "item_Disposition (plan_Items plan ! i) = RegistryCleanupDelete" "item_State (plan_Items plan ! i) = ''planned''"
      "item_ResourceKind (plan_Items plan ! i) = ''blob'' \<longrightarrow> (\<forall>other \<in> set (plan_Items plan).
         item_ResourceKind other \<noteq> ''blob'' \<longrightarrow> item_Disposition other = RegistryCleanupDelete \<longrightarrow> item_State other = ''deleted'')"
    for i
    using that cleanupItemIndex_Some [OF that(2)]
    by (intro plan_step.authorize) (auto simp: is_delete_def manifests_done_def)
  have "rs_plans ?s' = rs_plans s \<or> (\<exists>plan'. plan_step plan plan' \<and> rs_plans ?s' = AList.update planID plan' (rs_plans s))"
    using Some step
    by (auto simp: AuthorizeRegistryCleanupItem_def Let_def frame_simps split: sum.splits option.splits)
  then show ?thesis
    using plan_moves_put [OF Some] plan_moves_same by blast
qed

lemma record_item_plans:
  "\<exists>tok. map_of (rs_plans (snd (record_item dj planID plan i res s))) = (map_of (rs_plans s))
     (planID \<mapsto> plan\<lparr>plan_Items := (plan_Items plan)[i := (plan_Items plan ! i)\<lparr>item_State := res_State res,
        item_ProviderMessage := res_ProviderMessage res, item_UpdatedAt := res_ObservedAt res\<rparr>],
        plan_AuthorityToken := tok\<rparr>)"
proof -
  let ?plan = "plan\<lparr>plan_Items := (plan_Items plan)[i := (plan_Items plan ! i)\<lparr>item_State := res_State res,
        item_ProviderMessage := res_ProviderMessage res, item_UpdatedAt := res_ObservedAt res\<rparr>]\<rparr>"
  have same: "?plan = ?plan\<lparr>plan_AuthorityToken := plan_AuthorityToken plan\<rparr>" by simp
  have "rs_plans (snd (record_item dj planID plan i res s)) = AList.update planID ?plan (rs_plans s) \<or>
      (\<exists>tok. rs_plans (snd (record_item dj planID plan i res s)) =
         AList.update planID (?plan\<lparr>plan_AuthorityToken := tok\<rparr>) (AList.update planID ?plan (rs_plans s)))"
    unfolding record_item_def Let_def by (simp add: frame_simps split: sum.split) blast
  then show ?thesis
  proof (elim disjE exE)
    assume "rs_plans (snd (record_item dj planID plan i res s)) = AList.update planID ?plan (rs_plans s)"
    then show ?thesis by (intro exI [of _ "plan_AuthorityToken plan"]) simp
  next
    fix tok assume "rs_plans (snd (record_item dj planID plan i res s)) =
         AList.update planID (?plan\<lparr>plan_AuthorityToken := tok\<rparr>) (AList.update planID ?plan (rs_plans s))"
    then show ?thesis by (intro exI [of _ tok]) simp
  qed
qed

text \<open>The operation either leaves the store alone or records the item.\<close>

lemma Record_cases:
  "snd (RecordRegistryCleanupItemResult dj planID ordinal owner res s) = s \<or>
   (\<exists>plan i. res_State res \<in> {''deleted'', ''skipped'', ''failed''} \<and> map_of (rs_plans s) planID = Some plan \<and>
      plan_State plan = ''executing'' \<and> itemLeaseHeldLocked plan ordinal owner (res_ObservedAt res) s \<and>
      cleanupItemIndex plan ordinal = Some i \<and> item_State (plan_Items plan ! i) = ''deleting'' \<and>
      RecordRegistryCleanupItemResult dj planID ordinal owner res s = record_item dj planID plan i res s)"
  unfolding RecordRegistryCleanupItemResult_def Let_def by (simp split: option.split)

lemma Record_moves: "plan_moves dj s (snd (RecordRegistryCleanupItemResult dj planID ordinal owner res s)) otherID"
  using Record_cases [of dj planID ordinal owner res s]
proof (elim disjE exE conjE)
  fix plan i assume rec: "res_State res \<in> {''deleted'', ''skipped'', ''failed''}" "map_of (rs_plans s) planID = Some plan"
    "plan_State plan = ''executing''" "cleanupItemIndex plan ordinal = Some i"
    "item_State (plan_Items plan ! i) = ''deleting''"
    and eq: "RecordRegistryCleanupItemResult dj planID ordinal owner res s = record_item dj planID plan i res s"
  let ?plan = "\<lambda>tok. plan\<lparr>plan_Items := (plan_Items plan)[i := (plan_Items plan ! i)\<lparr>item_State := res_State res,
        item_ProviderMessage := res_ProviderMessage res, item_UpdatedAt := res_ObservedAt res\<rparr>],
        plan_AuthorityToken := tok\<rparr>"
  obtain tok where "map_of (rs_plans (snd (record_item dj planID plan i res s))) = (map_of (rs_plans s))(planID \<mapsto> ?plan tok)"
    using record_item_plans by blast
  moreover have "plan_step plan (?plan tok)"
    using rec cleanupItemIndex_Some [OF rec(4)] by (intro plan_step.result) auto
  ultimately show ?thesis
    unfolding plan_moves_def eq using rec(2) by (cases "otherID = planID") auto
qed (simp add: plan_moves_same)

lemma Finish_moves: "plan_moves dj s (snd (FinishRegistryCleanupPlan planID owner succeeded failure now s)) otherID"
proof (cases "map_of (rs_plans s) planID")
  case None
  then show ?thesis by (simp add: FinishRegistryCleanupPlan_def plan_moves_same)
next
  case (Some plan)
  let ?s' = "snd (FinishRegistryCleanupPlan planID owner succeeded failure now s)"
  let ?plan = "plan\<lparr>plan_State := (if succeeded then ''succeeded'' else ''failed''),
      plan_Failure := (if succeeded then [] else failure), plan_CompletedAt := Some now\<rparr>"
  have "rs_plans ?s' = rs_plans s \<or> plan_step plan ?plan \<and> rs_plans ?s' = AList.update planID ?plan (rs_plans s)"
    using Some plan_step.finish [of plan succeeded now "if succeeded then [] else failure"]
    unfolding FinishRegistryCleanupPlan_def by (auto simp: Let_def frame_simps is_delete_def)
  then show ?thesis
    using plan_moves_put [OF Some] plan_moves_same by blast
qed

lemma map_of_mset_eq: "mset xs = mset ys \<Longrightarrow> wf_map ys \<Longrightarrow> map_of xs = map_of ys \<and> wf_map xs"
proof -
  assume eq: "mset xs = mset ys" and wf: "wf_map ys"
  have "mset (map fst xs) = mset (map fst ys)" using eq by simp
  then have wf': "wf_map xs" using wf by (metis mset_eq_imp_distinct_iff wf_map_def)
  have "set xs = set ys" using eq by (rule mset_eq_setD)
  then show ?thesis
    using wf wf' by (metis map_of_inject_set wf_map_def)
qed

lemma Save_wf: "wf_map (rs_plans s) \<Longrightarrow> wf_map (rs_plans (snd (SaveRegistryCleanupPlan dj plan s)))"
  by (simp add: SaveRegistryCleanupPlan_def saveRegistryCleanupPlanLocked_def Let_def split: option.splits sum.splits)

lemma Claim_wf: "wf_map (rs_plans s) \<Longrightarrow> wf_map (rs_plans (snd (ClaimRegistryCleanupPlan dj planID owner now lease maxAge s)))"
  by (simp add: ClaimRegistryCleanupPlan_def Let_def frame_simps split: option.split sum.split)

lemma Authorize_wf: "wf_map (rs_plans s) \<Longrightarrow> wf_map (rs_plans (snd (AuthorizeRegistryCleanupItem dj planID ordinal owner now s)))"
  by (simp add: AuthorizeRegistryCleanupItem_def Let_def frame_simps split: option.split sum.split)

lemma Record_wf: "wf_map (rs_plans s) \<Longrightarrow> wf_map (rs_plans (snd (RecordRegistryCleanupItemResult dj planID ordinal owner res s)))"
  using Record_cases [of dj planID ordinal owner res s]
  by (auto simp: record_item_def Let_def frame_simps split: sum.split)

lemma Finish_wf: "wf_map (rs_plans s) \<Longrightarrow> wf_map (rs_plans (snd (FinishRegistryCleanupPlan planID owner succeeded failure now s)))"
  by (simp add: FinishRegistryCleanupPlan_def Let_def frame_simps split: option.split)

lemmas wf_plans = Save_wf Claim_wf Authorize_wf Record_wf Finish_wf

lemma registry_step_moves:
  assumes "registry_step dj s s'" and "wf_map (rs_plans s)"
  shows "plan_moves dj s s' planID"
  using assms
proof (induction rule: registry_step.induct)
  case (reorder s s')
  then have "map_of (rs_plans s') = map_of (rs_plans s)"
    using map_of_mset_eq by (auto simp: same_store_def)
  then show ?case by (simp add: plan_moves_def)
next
  case (save snapshot now maxAge built s automatic newID)
  show ?case by (rule Save_moves [OF save(1)])
qed (rule Claim_moves Authorize_moves Record_moves Finish_moves
     | (rule plan_moves_same, simp only: frame_simps))+

lemma registry_step_wf:
  assumes "registry_step dj s s'" and "wf_map (rs_plans s)"
  shows "wf_map (rs_plans s')"
  using assms
proof (induction rule: registry_step.induct)
  case (reorder s s')
  then show ?case using map_of_mset_eq by (auto simp: same_store_def)
qed (simp_all only: frame_simps wf_plans)

section \<open>Histories\<close>

definition plan_evolves :: "registry_cleanup_plan \<Rightarrow> registry_cleanup_plan \<Rightarrow> bool" where
  "plan_evolves plan plan' \<longleftrightarrow>
     items_static plan' = items_static plan \<and> plan_ID plan' = plan_ID plan \<and>
     (\<forall>i < length (plan_Items plan). item_State (plan_Items plan ! i) = ''deleted'' \<longrightarrow>
        item_State (plan_Items plan' ! i) = ''deleted'') \<and>
     (plan_State plan \<in> {''succeeded'', ''superseded''} \<longrightarrow> plan' = plan)"

definition registry_evolves :: "registry_store \<Rightarrow> registry_store \<Rightarrow> bool" where
  "registry_evolves s s' \<longleftrightarrow>
     (\<forall>planID plan. map_of (rs_plans s) planID = Some plan \<longrightarrow>
        (\<exists>plan'. map_of (rs_plans s') planID = Some plan' \<and> plan_evolves plan plan'))"

lemma plan_evolves_refl: "plan_evolves plan plan"
  by (simp add: plan_evolves_def)

lemma items_static_length: "items_static plan' = items_static plan \<Longrightarrow> length (plan_Items plan') = length (plan_Items plan)"
  by (metis items_static_def length_map)

lemma plan_evolves_trans: "plan_evolves p q \<Longrightarrow> plan_evolves q r \<Longrightarrow> plan_evolves p r"
  using items_static_length [of q p] by (auto simp: plan_evolves_def)

lemma plan_step_deleted:
  assumes "plan_step plan plan'" and "i < length (plan_Items plan)" and "item_State (plan_Items plan ! i) = ''deleted''"
  shows "item_State (plan_Items plan' ! i) = ''deleted''"
  using assms by cases (auto simp: nth_list_update resume_item_def)

lemma plan_step_live: "plan_step plan plan' \<Longrightarrow> plan_State plan \<notin> {''succeeded'', ''superseded''}"
  by (auto simp: RegistryCleanupPlanCanResumeOfflineSweep_def)

lemma plan_step_evolves: "plan_step plan plan' \<Longrightarrow> plan_evolves plan plan'"
  using plan_step_deleted plan_step_live by (auto simp: plan_evolves_def plan_step_static)

lemma registry_step_inv:
  assumes "registry_inv dj s" and "registry_step dj s s'"
  shows "registry_inv dj s'"
proof -
  have wf: "wf_map (rs_plans s)" using assms(1) by (simp add: registry_inv_def)
  have "plan_ok dj planID plan" if "map_of (rs_plans s') planID = Some plan" for planID plan
    using registry_step_moves [OF assms(2) wf, of planID] that registry_invD [OF assms(1)]
    by (auto simp: plan_moves_def intro: stamped_plan_ok plan_step_ok)
  with registry_step_wf [OF assms(2) wf] show ?thesis by (simp add: registry_inv_def)
qed

lemma registry_step_evolves:
  assumes "registry_inv dj s" and "registry_step dj s s'"
  shows "registry_evolves s s'"
proof -
  have wf: "wf_map (rs_plans s)" using assms(1) by (simp add: registry_inv_def)
  show ?thesis
    unfolding registry_evolves_def
  proof (intro allI impI)
    fix planID plan assume "map_of (rs_plans s) planID = Some plan"
    then show "\<exists>plan'. map_of (rs_plans s') planID = Some plan' \<and> plan_evolves plan plan'"
      using registry_step_moves [OF assms(2) wf, of planID]
      by (auto simp: plan_moves_def intro: plan_evolves_refl plan_step_evolves)
  qed
qed

interpretation registry: history_system "registry_step dj" empty_store "registry_inv dj" registry_evolves for dj
proof
  show "registry_inv dj empty_store" by (simp add: registry_inv_def empty_store_def)
  show "registry_inv dj s'" if "registry_inv dj s" "registry_step dj s s'" for s s'
    using that by (rule registry_step_inv)
  show "registry_evolves s s" if "registry_inv dj s" for s
    by (auto simp: registry_evolves_def intro: plan_evolves_refl)
  show "registry_evolves s u" if "registry_evolves s t" "registry_evolves t u" for s t u
    using that unfolding registry_evolves_def by (meson plan_evolves_trans)
  show "registry_evolves s s'" if "registry_inv dj s" "registry_step dj s s'" for s s'
    using that by (rule registry_step_evolves)
qed

section \<open>Properties of executions\<close>

lemma reachable_plan_ok:
  "reachable (registry_step dj) empty_store s \<Longrightarrow> map_of (rs_plans s) planID = Some plan \<Longrightarrow> plan_ok dj planID plan"
  by (rule registry_invD [OF registry.reachable_inv])

lemma built_static_item:
  assumes "built_from dj snapshot now maxAge built plan" and "item \<in> set (plan_Items plan)"
  obtains item' where "item' \<in> set (plan_Items built)" and "item_static item = item_static item'"
proof -
  have "item_static item \<in> set (items_static plan)" using assms(2) by (simp add: items_static_def)
  then have "item_static item \<in> set (items_static built)" using assms(1) by (simp add: built_from_def)
  then show thesis using that by (auto simp: items_static_def)
qed


text \<open>
  C13.  Blobs go last: in every reachable store, as soon as the collection of one blob has
  been started, all manifest deletions of that plan are complete.
\<close>

theorem execution_blobs_last:
  assumes "reachable (registry_step dj) empty_store s" and "map_of (rs_plans s) planID = Some plan"
    and "blob \<in> set (plan_Items plan)" and "item_ResourceKind blob = ''blob''"
    and "item_State blob \<in> {''deleting'', ''deleted'', ''failed'', ''skipped''}"
    and "item \<in> set (plan_Items plan)" and "item_ResourceKind item \<noteq> ''blob''"
    and "item_Disposition item = RegistryCleanupDelete"
  shows "item_State item = ''deleted''"
proof -
  have ok: "item_states_ok (plan_Items plan)"
    using reachable_plan_ok [OF assms(1,2)] by (simp add: plan_ok_def plan_states_ok_def)
  then have "item_state_ok blob" using assms(3) by (simp add: item_states_ok_def)
  then have "blob_started blob"
    using assms(4,5) by (auto simp: item_state_ok_def blob_started_def split: if_splits)
  with ok assms(3) have "manifests_done (plan_Items plan)" by (auto simp: item_states_ok_def)
  with assms(6-8) show ?thesis by (simp add: manifests_done_def is_delete_def)
qed

text \<open>
  C14.  Plans are never lost or rewritten: along every run a stored plan keeps its items'
  identity, disposition and order, an item recorded as deleted stays deleted, and a plan
  that succeeded or was superseded never changes again.
\<close>

theorem plan_history:
  assumes "reachable (registry_step dj) empty_store s" and "reachable (registry_step dj) s s'"
    and "map_of (rs_plans s) planID = Some plan"
  shows "\<exists>plan'. map_of (rs_plans s') planID = Some plan' \<and> plan_evolves plan plan'"
  using registry.reachable_rel [OF assms(1,2)] assms(3) by (simp add: registry_evolves_def)

text \<open>
  C15.  A plan that reports success is complete: every delete item is recorded as deleted
  and every other item is still protected.
\<close>

theorem succeeded_plan_complete:
  assumes "reachable (registry_step dj) empty_store s" and "map_of (rs_plans s) planID = Some plan"
    and "plan_State plan = ''succeeded''" and "item \<in> set (plan_Items plan)"
  shows "item_State item = (if item_Disposition item = RegistryCleanupDelete then ''deleted'' else ''protected'')"
proof -
  have ok: "plan_states_ok plan" using reachable_plan_ok [OF assms(1,2)] by (simp add: plan_ok_def)
  then have "item_state_ok item" using assms(4) by (simp add: plan_states_ok_def item_states_ok_def)
  with ok assms(3,4) show ?thesis
    by (auto simp: plan_states_ok_def item_state_ok_def is_delete_def split: if_splits)
qed

end
