(* ===== verification/Registry_Leases.thy ===== *)
theory Registry_Leases
  imports Registry_Protocol
begin

text \<open>
  Mutual exclusion of cleanup executions.  \<open>exclusive_lease\<close> is the contract of a lease
  table: who holds a resource at a time, and what acquiring it requires and gives; the
  registry store provides it with one resource per registry target, the repository
  \<open>"*"\<close> that every plan leases.
\<close>

section \<open>The contract\<close>

locale exclusive_lease =
  fixes holder :: "'s \<Rightarrow> 'r \<Rightarrow> time \<Rightarrow> 'o option"
    and acquire :: "'r \<Rightarrow> 'o \<Rightarrow> time \<Rightarrow> duration \<Rightarrow> 's \<Rightarrow> 's option"
  assumes acquire_free: "acquire r own now dur s = Some s' \<Longrightarrow> holder s r now = None \<or> holder s r now = Some own"
    and acquire_holds: "acquire r own now dur s = Some s' \<Longrightarrow> t < now + dur \<Longrightarrow> holder s' r t = Some own"
begin

lemma acquire_excludes:
  assumes "acquire r o1 now1 dur1 s = Some s1" and "acquire r o2 now2 dur2 s1 = Some s2" and "now2 < now1 + dur1"
  shows "o1 = o2"
  using acquire_holds [OF assms(1,3)] acquire_free [OF assms(2)] by simp

lemma busy_refused:
  assumes "holder s r now = Some o1" and "o1 \<noteq> o2"
  shows "acquire r o2 now dur s = None"
  using assms acquire_free [of r o2 now dur s] by (cases "acquire r o2 now dur s") auto

end

section \<open>The lease table of the registry store\<close>

text \<open>Who may act on a target at a time: the plan and owner of the live lease on \<open>"*"\<close>.\<close>

definition target_holder :: "registry_store \<Rightarrow> string \<Rightarrow> time \<Rightarrow> (string \<times> string) option" where
  "target_holder s targetID now =
     (case map_of (rs_leases s) (registryScopeKey [targetID, ''*'']) of
        None \<Rightarrow> None
      | Some lease \<Rightarrow> if lease_until lease > now then Some (lease_planID lease, lease_owner lease) else None)"

lemma star_leased: "''*'' \<in> set (cleanupLeaseRepositories plan)"
  by (simp add: cleanupLeaseRepositories_def)

lemma held_star:
  assumes "planLeasesHeldLocked plan owner now s" and "plan_ID plan \<noteq> []"
  shows "target_holder s (plan_RegistryTargetID plan) now = Some (plan_ID plan, owner)"
proof -
  have "lease_held plan owner now s ''*''"
    using assms(1) star_leased by (simp add: planLeasesHeldLocked_def list_all_iff)
  then show ?thesis
    using assms(2)
    by (auto simp: lease_held_def Let_def get_or_def lease_key_def target_holder_def zero_lease_def split: option.splits)
qed

lemma item_held_star:
  assumes "itemLeaseHeldLocked plan ordinal owner now s" and "plan_ID plan \<noteq> []"
  shows "target_holder s (plan_RegistryTargetID plan) now = Some (plan_ID plan, owner)"
proof -
  have "lease_held plan owner now s ''*''"
    using assms(1) by (auto simp: itemLeaseHeldLocked_def Let_def split: option.splits if_splits)
  then show ?thesis
    using assms(2)
    by (auto simp: lease_held_def Let_def get_or_def lease_key_def target_holder_def zero_lease_def split: option.splits)
qed

lemma free_star:
  assumes "\<not> lease_conflict plan owner now s"
  shows "target_holder s (plan_RegistryTargetID plan) now \<in> {None, Some (plan_ID plan, owner)}"
  using assms star_leased [of plan]
  by (auto simp: lease_conflict_def target_holder_def lease_key_def split: option.splits if_splits)

lemma take_leases_fold:
  "map_of (foldl (\<lambda>leases repository. AList.update (k repository) v leases) leases repositories) key =
     (if key \<in> k ` set repositories then Some v else map_of leases key)"
  by (induction repositories arbitrary: leases) auto

lemma take_leases_lookup:
  "map_of (rs_leases (take_leases plan owner until s)) key =
     (if key \<in> lease_key plan ` set (cleanupLeaseRepositories plan)
      then Some \<lparr>lease_planID = plan_ID plan, lease_owner = owner, lease_until = until\<rparr> else map_of (rs_leases s) key)"
  by (simp add: take_leases_def take_leases_fold)

lemma take_leases_star:
  "t < until \<Longrightarrow> target_holder (take_leases plan owner until s) (plan_RegistryTargetID plan) t = Some (plan_ID plan, owner)"
  using star_leased [of plan] by (auto simp: target_holder_def take_leases_lookup lease_key_def)

lemma target_holder_put_plan [simp]: "target_holder (put_plan planID plan s) = target_holder s"
  by (simp add: fun_eq_iff target_holder_def frame_simps)

lemma lease_repositories_static:
  assumes "items_static p = items_static q"
  shows "cleanupLeaseRepositories p = cleanupLeaseRepositories q"
proof -
  have "map item_Repository (filter (\<lambda>item. item_Disposition item = RegistryCleanupDelete) items) =
      map item_Repository (filter (\<lambda>item. item_Disposition item = RegistryCleanupDelete) (map item_static items))" for items
    by (induction items) (simp_all add: item_static_def)
  from this [of "plan_Items p"] this [of "plan_Items q"] show ?thesis
    using assms unfolding cleanupLeaseRepositories_def items_static_def by presburger
qed

text \<open>A successful claim found the target free or its own, and a new one takes it.\<close>

lemma Claim_success:
  assumes "ClaimRegistryCleanupPlan dj planID owner now lease maxAge s = (Inr (plan, fresh), s')"
  obtains stored where "map_of (rs_plans s) planID = Some stored"
    and "plan_ID plan = plan_ID stored" and "plan_RegistryTargetID plan = plan_RegistryTargetID stored"
    and "cleanupLeaseRepositories plan = cleanupLeaseRepositories stored"
    and "\<not> fresh \<longrightarrow> s' = s \<and> planLeasesHeldLocked stored owner now s"
    and "fresh \<longrightarrow> \<not> lease_conflict stored owner now s \<and> 0 < lease \<and>
           rs_leases s' = rs_leases (take_leases stored owner (now + lease) s)"
proof -
  have repos: "cleanupLeaseRepositories (p\<lparr>plan_Items := map (resume_item now) (plan_Items p), plan_State := st,
      plan_ClaimedAt := c, plan_CompletedAt := d, plan_Failure := f\<rparr>) = cleanupLeaseRepositories p" for p st c d f
    by (rule lease_repositories_static) (simp add: items_static_def comp_def resume_item_static)
  have repos': "cleanupLeaseRepositories (p\<lparr>plan_State := st, plan_ClaimedAt := c\<rparr>) = cleanupLeaseRepositories p" for p st c
    by (simp add: cleanupLeaseRepositories_def)
  show thesis
    using assms that repos repos'
    by (auto simp: ClaimRegistryCleanupPlan_def Let_def frame_simps split: option.splits sum.splits if_splits)
qed

text \<open>The claim of a plan as acquiring its target.\<close>

definition claim_target ::
  "digests \<Rightarrow> duration \<Rightarrow> string \<Rightarrow> string \<times> string \<Rightarrow> time \<Rightarrow> duration \<Rightarrow> registry_store \<Rightarrow> registry_store option" where
  "claim_target dj maxAge targetID actor now lease s =
     (case actor of (planID, owner) \<Rightarrow>
      case ClaimRegistryCleanupPlan dj planID owner now lease maxAge s of
        (Inr (plan, True), s') \<Rightarrow>
          if plan_RegistryTargetID plan = targetID \<and> plan_ID plan = planID then Some s' else None
      | _ \<Rightarrow> None)"

lemma claim_target_Some:
  assumes "claim_target dj maxAge targetID (planID, owner) now lease s = Some s'"
  obtains plan where "ClaimRegistryCleanupPlan dj planID owner now lease maxAge s = (Inr (plan, True), s')"
    and "plan_RegistryTargetID plan = targetID" and "plan_ID plan = planID"
  using assms by (auto simp: claim_target_def split: prod.splits sum.splits bool.splits if_splits)

lemma target_holder_leases: "rs_leases s = rs_leases s' \<Longrightarrow> target_holder s = target_holder s'"
  by (simp add: fun_eq_iff target_holder_def)

interpretation target_lease: exclusive_lease target_holder "claim_target dj maxAge" for dj maxAge
proof
  fix targetID actor now lease s s'
  assume acq: "claim_target dj maxAge targetID actor now lease s = Some s'"
  obtain planID owner where actor: "actor = (planID, owner)" by (cases actor)
  obtain plan where claim: "ClaimRegistryCleanupPlan dj planID owner now lease maxAge s = (Inr (plan, True), s')"
    and plan: "plan_RegistryTargetID plan = targetID" "plan_ID plan = planID"
    using acq unfolding actor by (rule claim_target_Some)
  from claim obtain stored where stored: "plan_ID plan = plan_ID stored"
      "plan_RegistryTargetID plan = plan_RegistryTargetID stored"
      "\<not> lease_conflict stored owner now s" "rs_leases s' = rs_leases (take_leases stored owner (now + lease) s)"
    by (rule Claim_success) auto
  show "target_holder s targetID now = None \<or> target_holder s targetID now = Some actor"
    using free_star [OF stored(3)] stored(1,2) plan actor by auto
  show "target_holder s' targetID t = Some actor" if "t < now + lease" for t
    using target_holder_leases [OF stored(4)] take_leases_star [OF that, of stored owner s] stored(1,2) plan actor by simp
qed

section \<open>Properties of leases\<close>

lemma fresh_claim_target:
  assumes "registry_inv dj s" and "ClaimRegistryCleanupPlan dj planID owner now lease maxAge s = (Inr (plan, True), s')"
  shows "claim_target dj maxAge (plan_RegistryTargetID plan) (planID, owner) now lease s = Some s'"
proof -
  obtain stored where "map_of (rs_plans s) planID = Some stored" "plan_ID plan = plan_ID stored"
    using assms(2) by (rule Claim_success)
  with registry_invD [OF assms(1)] have "plan_ID plan = planID" by (simp add: plan_ok_def)
  then show ?thesis by (simp add: claim_target_def assms(2))
qed


lemma Authorize_success:
  assumes "AuthorizeRegistryCleanupItem dj planID ordinal owner now s = (Inr item, s')"
  obtains plan i snapshot where "map_of (rs_plans s) planID = Some plan" and "plan_State plan = ''executing''"
    and "itemLeaseHeldLocked plan ordinal owner now s" and "cleanupItemIndex plan ordinal = Some i"
    and "is_delete (plan_Items plan ! i)" and "item_State (plan_Items plan ! i) = ''planned''"
    and "item = (plan_Items plan ! i)\<lparr>item_State := ''deleting''\<rparr>"
    and "registryLifecycleSnapshotLocked (plan_RegistryTargetID plan) (plan_ServiceID plan) now s = Inr snapshot"
    and "RegistryAuthorityTokenForPlan dj snapshot plan = plan_AuthorityToken plan"
  using assms
  by (auto simp: AuthorizeRegistryCleanupItem_def Let_def is_delete_def split: option.splits sum.splits if_splits)

text \<open>
  C27.  Only the worker that holds the target acts on it: whenever an item is authorized in
  a reachable store, the live lease on the target is that of the same plan and owner, the
  plan is executing and the item is a planned delete item.
\<close>

theorem authorize_by_holder:
  assumes "reachable (registry_step dj) empty_store s"
    and "AuthorizeRegistryCleanupItem dj planID ordinal owner now s = (Inr item, s')"
  shows "\<exists>plan. map_of (rs_plans s) planID = Some plan \<and> plan_State plan = ''executing'' \<and>
    target_holder s (plan_RegistryTargetID plan) now = Some (planID, owner) \<and>
    item_Ordinal item = ordinal \<and> item_Disposition item = RegistryCleanupDelete \<and> item_State item = ''deleting'' \<and>
    item_static item \<in> set (items_static plan)"
proof -
  obtain plan i where plan: "map_of (rs_plans s) planID = Some plan" "plan_State plan = ''executing''"
      "itemLeaseHeldLocked plan ordinal owner now s" "cleanupItemIndex plan ordinal = Some i"
      "is_delete (plan_Items plan ! i)" "item = (plan_Items plan ! i)\<lparr>item_State := ''deleting''\<rparr>"
    using assms(2) by (rule Authorize_success)
  have id: "plan_ID plan = planID" "planID \<noteq> []"
    using reachable_plan_ok [OF assms(1) plan(1)] by (simp_all add: plan_ok_def)
  have "target_holder s (plan_RegistryTargetID plan) now = Some (planID, owner)"
    using item_held_star [OF plan(3)] id by simp
  moreover have "item_static item \<in> set (items_static plan)"
    using cleanupItemIndex_Some [OF plan(4)] plan(6) by (simp add: items_static_def item_static_eq)
  ultimately show ?thesis
    using plan cleanupItemIndex_Some [OF plan(4)] by (auto simp: is_delete_def)
qed

end
