(* ===== verification/Registry_Authority.thy ===== *)
theory Registry_Authority
  imports Registry_Leases
begin

text \<open>
  What the tokens of a plan guarantee when it is claimed and executed: the snapshot token
  binds exactly the cleanup content, a claim therefore sees every reference of the moment,
  and saving is idempotent.  The last section is about the authority token, which
  \<open>RecordRegistryCleanupItemResult\<close> recomputes after every item.
\<close>

section \<open>What the snapshot token binds\<close>

definition semantic_inventory :: "registry_inventory_observation \<Rightarrow> registry_inventory_observation" where
  "semantic_inventory inventory =
     inventory\<lparr>inv_Repositories := sort (inv_Repositories inventory), inv_Revision := [], inv_ObservedAt := 0\<rparr>"

text \<open>Two snapshots with the same cleanup content: equal up to order and observer metadata.\<close>

definition same_content :: "registry_lifecycle_snapshot \<Rightarrow> registry_lifecycle_snapshot \<Rightarrow> bool" where
  "same_content a b \<longleftrightarrow>
     snap_Target a = snap_Target b \<and> snap_Policy a = snap_Policy b \<and>
     semantic_inventory (snap_Inventory a) = semantic_inventory (snap_Inventory b) \<and>
     mset (map semantic_catalog (snap_CatalogObservations a)) = mset (map semantic_catalog (snap_CatalogObservations b)) \<and>
     mset (map semantic_authority (snap_AuthorityObservations a)) = mset (map semantic_authority (snap_AuthorityObservations b)) \<and>
     mset (map semantic_reference (snap_References a)) = mset (map semantic_reference (snap_References b)) \<and>
     mset (map semantic_release (snap_Releases a)) = mset (map semantic_release (snap_Releases b)) \<and>
     mset (snap_CacheGenerations a) = mset (snap_CacheGenerations b) \<and>
     mset (map semantic_manifest (snap_Manifests a)) = mset (map semantic_manifest (snap_Manifests b)) \<and>
     mset (map semantic_blob (snap_Blobs a)) = mset (map semantic_blob (snap_Blobs b)) \<and>
     mset (snap_Children a) = mset (snap_Children b) \<and> mset (snap_BlobLinks a) = mset (snap_BlobLinks b)"

text \<open>The identities by which the store keeps the parts of a snapshot.\<close>

definition reference_id :: "registry_artifact_reference \<Rightarrow> string \<times> string \<times> string \<times> string" where
  "reference_id r = (reference_kind_string (ref_Kind r), ref_ReferenceKey r, ref_Repository r, ref_Digest r)"

definition unique_parts :: "registry_lifecycle_snapshot \<Rightarrow> bool" where
  "unique_parts a \<longleftrightarrow>
     distinct (map cat_Repository (snap_CatalogObservations a)) \<and>
     distinct (map (\<lambda>obs. authority_string (auth_Authority obs)) (snap_AuthorityObservations a)) \<and>
     distinct (map reference_id (snap_References a)) \<and>
     distinct (map rel_ID (snap_Releases a)) \<and> distinct (map cache_ID (snap_CacheGenerations a)) \<and>
     distinct (map (\<lambda>m. (man_Repository m, man_Digest m)) (snap_Manifests a)) \<and>
     distinct (map (\<lambda>b. (blob_Repository b, blob_Digest b)) (snap_Blobs a))"

lemma insort_key_map: "insort_key k (f x) (map f xs) = map f (insort_key (\<lambda>x. k (f x)) x xs)"
  by (induction xs) auto

lemma sort_key_map: "sort_key k (map f xs) = map f (sort_key (\<lambda>x. k (f x)) xs)"
  by (induction xs) (simp_all add: insort_key_map)

lemma sort_key_semantic:
  assumes "\<And>x. k (f x) = k' x" and "mset (map f xs) = mset (map f ys)" and "distinct (map k' xs)"
  shows "map f (sort_key k' xs) = map f (sort_key k' ys)"
proof -
  have k': "k' = (\<lambda>x. k (f x))" using assms(1) by (simp add: fun_eq_iff)
  have "inj_on k (set (map f xs))"
    using assms(3) by (auto simp: inj_on_def distinct_map k')
  from sort_key_mset_eq [OF assms(2) this] show ?thesis
    by (simp only: sort_key_map k')
qed

lemma sortedCatalogs_distinct:
  assumes "distinct (map cat_Repository xs)"
  shows "sortedCatalogs xs = sort_key cat_Repository xs"
proof -
  let ?ys = "sort_key cat_Repository xs"
  have "sorted (map cat_Repository ?ys)" and dist: "distinct (map cat_Repository ?ys)"
    using assms by (simp_all add: distinct_map)
  then have strict: "sorted_wrt (<) (map cat_Repository ?ys)" by (simp add: strict_sorted_iff)
  then have "sorted (map (\<lambda>c. (cat_Repository c, cat_Revision c)) ?ys)"
    by (auto simp: sorted_wrt_map less_eq_prod_def elim!: sorted_wrt_mono_rel [rotated])
  then have "sort_key (\<lambda>c. (cat_Repository c, cat_Revision c)) ?ys = ?ys"
    by (rule sort_key_id_if_sorted)
  moreover have "sort_key (\<lambda>c. (cat_Repository c, cat_Revision c)) ?ys = sort_key (\<lambda>c. (cat_Repository c, cat_Revision c)) xs"
    using dist by (intro sort_key_mset_eq) (auto simp: inj_on_def distinct_map)
  ultimately show ?thesis by (simp add: sortedCatalogs_def)
qed

lemma same_content_view:
  assumes "same_content a b" and "unique_parts a" and "unique_parts b"
  shows "semantic_view a = semantic_view b"
proof -
  note same = assms(1) [unfolded same_content_def] and uniq = assms(2,3) [unfolded unique_parts_def]
  have cats: "map semantic_catalog (sortedCatalogs (snap_CatalogObservations a)) =
      map semantic_catalog (sortedCatalogs (snap_CatalogObservations b))"
    using same uniq by (simp only: sortedCatalogs_distinct)
      (intro sort_key_semantic [where k = cat_Repository], simp_all add: semantic_catalog_def)
  have auths: "map semantic_authority (sortedAuthorities (snap_AuthorityObservations a)) =
      map semantic_authority (sortedAuthorities (snap_AuthorityObservations b))"
    unfolding sortedAuthorities_def using same uniq
    by (intro sort_key_semantic [where k = "\<lambda>obs. authority_string (auth_Authority obs)"]) (simp_all add: semantic_authority_def)
  have refs: "map semantic_reference (sort_key reference_id (snap_References a)) =
      map semantic_reference (sort_key reference_id (snap_References b))"
    using same uniq by (intro sort_key_semantic [where k = reference_id]) (simp_all add: semantic_reference_def reference_id_def)
  have rels: "map semantic_release (sort_key rel_ID (snap_Releases a)) = map semantic_release (sort_key rel_ID (snap_Releases b))"
    using same uniq by (intro sort_key_semantic [where k = rel_ID]) (simp_all add: semantic_release_def)
  have mans: "map semantic_manifest (sort_key (\<lambda>m. (man_Repository m, man_Digest m)) (snap_Manifests a)) =
      map semantic_manifest (sort_key (\<lambda>m. (man_Repository m, man_Digest m)) (snap_Manifests b))"
    using same uniq by (intro sort_key_semantic [where k = "\<lambda>m. (man_Repository m, man_Digest m)"]) (simp_all add: semantic_manifest_def)
  have blobs: "map semantic_blob (sort_key (\<lambda>b. (blob_Repository b, blob_Digest b)) (snap_Blobs a)) =
      map semantic_blob (sort_key (\<lambda>b. (blob_Repository b, blob_Digest b)) (snap_Blobs b))"
    using same uniq by (intro sort_key_semantic [where k = "\<lambda>b. (blob_Repository b, blob_Digest b)"]) (simp_all add: semantic_blob_def)
  have caches: "sort_key cache_ID (snap_CacheGenerations a) = sort_key cache_ID (snap_CacheGenerations b)"
    using same uniq by (intro sort_key_mset_eq) (simp_all add: distinct_map)
  have children: "sort_key (\<lambda>l. (link_Repository l, link_ParentDigest l, link_ChildDigest l)) (snap_Children a) =
      sort_key (\<lambda>l. (link_Repository l, link_ParentDigest l, link_ChildDigest l)) (snap_Children b)"
    using same by (intro sort_key_mset_eq) (auto simp: inj_on_def)
  have blinks: "sort_key (\<lambda>l. (blink_Repository l, blink_ManifestDigest l, blink_BlobDigest l)) (snap_BlobLinks a) =
      sort_key (\<lambda>l. (blink_Repository l, blink_ManifestDigest l, blink_BlobDigest l)) (snap_BlobLinks b)"
    using same by (intro sort_key_mset_eq) (auto simp: inj_on_def)
  show ?thesis
    using same cats auths refs rels mans blobs caches children blinks
    by (simp add: semantic_view_def canonicalRegistrySnapshot_def Let_def semantic_inventory_def reference_id_def [abs_def])
qed

lemma mset_map_sort_key: "map f (sort_key k xs) = map f (sort_key k' ys) \<Longrightarrow> mset (map f xs) = mset (map f ys)"
  by (metis mset_map mset_sort)

lemma mset_sort_key: "sort_key k xs = sort_key k' ys \<Longrightarrow> mset xs = mset ys"
  by (metis mset_sort)

lemma view_same_content:
  assumes "semantic_view a = semantic_view b"
  shows "same_content a b"
proof -
  have view: "tv_Target (semantic_view a) = tv_Target (semantic_view b)" "tv_Policy (semantic_view a) = tv_Policy (semantic_view b)"
    "tv_Inventory (semantic_view a) = tv_Inventory (semantic_view b)" "tv_Catalogs (semantic_view a) = tv_Catalogs (semantic_view b)"
    "tv_Authorities (semantic_view a) = tv_Authorities (semantic_view b)" "tv_References (semantic_view a) = tv_References (semantic_view b)"
    "tv_Releases (semantic_view a) = tv_Releases (semantic_view b)" "tv_Caches (semantic_view a) = tv_Caches (semantic_view b)"
    "tv_Manifests (semantic_view a) = tv_Manifests (semantic_view b)" "tv_Blobs (semantic_view a) = tv_Blobs (semantic_view b)"
    "tv_Children (semantic_view a) = tv_Children (semantic_view b)" "tv_BlobLinks (semantic_view a) = tv_BlobLinks (semantic_view b)"
    by (simp_all add: assms)
  note view = view [unfolded semantic_view_def canonicalRegistrySnapshot_def Let_def, simplified]
  show ?thesis
    unfolding same_content_def semantic_inventory_def
    using view(1-3) view(4,5) [unfolded sortedCatalogs_def sortedAuthorities_def, THEN mset_map_sort_key]
      view(6,7,9,10) [THEN mset_map_sort_key] view(8,11,12) [THEN mset_sort_key]
    by simp
qed

text \<open>
  No other view has the digest of this one: the assumption under which a SHA-256 token
  stands for its content.
\<close>

definition no_second_preimage :: "('v \<Rightarrow> string) \<Rightarrow> 'v \<Rightarrow> bool" where
  "no_second_preimage digest view \<longleftrightarrow> (\<forall>other. digest other = digest view \<longrightarrow> other = view)"

lemma token_view:
  assumes "RegistrySnapshotToken dj a = RegistrySnapshotToken dj b" and "no_second_preimage (dj_snapshot dj) (semantic_view b)"
  shows "semantic_view a = semantic_view b"
  using assms by (simp add: RegistrySnapshotToken_def no_second_preimage_def)


section \<open>A claim sees the present\<close>

lemma same_content_references:
  assumes "same_content a b" and "reference \<in> set (snap_References b)"
  obtains reference' where "reference' \<in> set (snap_References a)"
    and "ref_Repository reference' = ref_Repository reference" and "ref_Digest reference' = ref_Digest reference"
proof -
  have "semantic_reference ` set (snap_References a) = semantic_reference ` set (snap_References b)"
    using assms(1) unfolding same_content_def by (metis set_map set_mset_mset)
  with assms(2) obtain reference' where r: "reference' \<in> set (snap_References a)"
      "semantic_reference reference' = semantic_reference reference"
    by (metis imageE imageI)
  from arg_cong [OF r(2), of ref_Repository] arg_cong [OF r(2), of ref_Digest] show thesis
    by (intro that [OF r(1)]) (simp_all add: semantic_reference_def)
qed

lemma same_content_edges:
  assumes "same_content a b"
  shows "catalog_edges a = catalog_edges b"
proof -
  have "mset (snap_Children a) = mset (snap_Children b)" using assms by (simp add: same_content_def)
  from mset_eq_setD [OF this] show ?thesis by (simp only: catalog_edges_def)
qed

lemma Claim_preview:
  assumes claim: "ClaimRegistryCleanupPlan dj planID owner now lease maxAge s = (Inr (plan, fresh), s')"
    and stored: "map_of (rs_plans s) planID = Some stored" "plan_State stored = ''preview''"
    and current: "registryLifecycleSnapshotLocked (plan_RegistryTargetID stored) (plan_ServiceID stored) now s = Inr current"
  shows "RegistrySnapshotToken dj current = plan_SnapshotToken stored"
proof (rule ccontr)
  assume stale: "RegistrySnapshotToken dj current \<noteq> plan_SnapshotToken stored"
  have "\<not> RegistryCleanupPlanCanResumeOfflineSweep stored"
    by (simp add: stored(2) RegistryCleanupPlanCanResumeOfflineSweep_def)
  then have "ClaimRegistryCleanupPlan dj planID owner now lease maxAge s =
      (if owner = [] \<or> lease \<le> 0 then (Inl ErrRegistryPolicyInvalid, s)
       else (Inl ErrRegistrySnapshotStale, put_plan planID (stored\<lparr>plan_State := ''superseded''\<rparr>) s))"
    unfolding ClaimRegistryCleanupPlan_def stored option.case current sum.case using stale by simp
  with claim show False by (simp split: if_splits)
qed

lemma BuildCleanupPlan_token:
  "BuildCleanupPlan dj snapshot now maxAge = Inr built \<Longrightarrow> plan_SnapshotToken built = RegistrySnapshotToken dj snapshot"
  by (auto simp: BuildCleanupPlan_def bindE_Inr Let_def split: if_splits)


section \<open>Saving is idempotent\<close>

lemma snapshot_plans [frame_simps]:
  "registryLifecycleSnapshotLocked targetID serviceID now (s\<lparr>rs_plans := p, rs_planDigests := d\<rparr>) =
     registryLifecycleSnapshotLocked targetID serviceID now s"
  "registryLifecycleSnapshotLocked targetID serviceID now (put_plan planID plan s) =
     registryLifecycleSnapshotLocked targetID serviceID now s"
  by (simp_all add: registryLifecycleSnapshotLocked_def put_plan_def Let_def split: option.split)

lemma plan_digest_ID [simp]: "RegistryCleanupPlanDigest dj (plan\<lparr>plan_ID := newID\<rparr>) = RegistryCleanupPlanDigest dj plan"
  by (simp add: RegistryCleanupPlanDigest_def plan_digest_view_def)

definition save_ok :: "digests \<Rightarrow> registry_cleanup_plan \<Rightarrow> registry_store \<Rightarrow> bool" where
  "save_ok dj plan s \<longleftrightarrow>
     (\<exists>target current. map_of (rs_targets s) (plan_RegistryTargetID plan) = Some target \<and> tgt_Mode target = RegistryTargetManaged \<and>
        plan_ServiceID plan \<noteq> [] \<and> plan_PlanDigest plan \<noteq> [] \<and> plan_PlanDigest plan = RegistryCleanupPlanDigest dj plan \<and>
        registryLifecycleSnapshotLocked (plan_RegistryTargetID plan) (plan_ServiceID plan) (plan_CreatedAt plan) s = Inr current \<and>
        RegistrySnapshotToken dj current = plan_SnapshotToken plan \<and> RegistryAuthorityToken dj current = plan_AuthorityToken plan)"

abbreviation plan_digest_key :: "registry_cleanup_plan \<Rightarrow> string" where
  "plan_digest_key plan \<equiv> registryScopeKey [plan_RegistryTargetID plan, plan_ServiceID plan, plan_PlanDigest plan]"

lemma Save_cases:
  assumes "SaveRegistryCleanupPlan dj plan s = (Inr (saved, False), s')"
  shows "save_ok dj plan s" and "saved = plan"
    and "s' = s\<lparr>rs_plans := AList.update (plan_ID plan) plan (rs_plans s),
          rs_planDigests := AList.update (plan_digest_key plan) (plan_ID plan) (rs_planDigests s)\<rparr>"
proof -
  obtain target where target: "map_of (rs_targets s) (plan_RegistryTargetID plan) = Some target"
    using assms by (cases "map_of (rs_targets s) (plan_RegistryTargetID plan)")
      (simp_all add: SaveRegistryCleanupPlan_def saveRegistryCleanupPlanLocked_def)
  have guards: "tgt_Mode target = RegistryTargetManaged" "plan_ID plan \<noteq> []" "plan_ServiceID plan \<noteq> []" "plan_PlanDigest plan \<noteq> []"
      "plan_PlanDigest plan = RegistryCleanupPlanDigest dj plan"
    using assms by (auto simp: SaveRegistryCleanupPlan_def saveRegistryCleanupPlanLocked_def target split: if_split_asm)
  obtain current where current:
      "registryLifecycleSnapshotLocked (plan_RegistryTargetID plan) (plan_ServiceID plan) (plan_CreatedAt plan) s = Inr current"
    using assms guards(1-4) guards(5) [symmetric]
    by (cases "registryLifecycleSnapshotLocked (plan_RegistryTargetID plan) (plan_ServiceID plan) (plan_CreatedAt plan) s")
      (simp_all add: SaveRegistryCleanupPlan_def saveRegistryCleanupPlanLocked_def target)
  note rest = assms [unfolded SaveRegistryCleanupPlan_def saveRegistryCleanupPlanLocked_def target option.case current sum.case Let_def]
  have tokens: "RegistrySnapshotToken dj current = plan_SnapshotToken plan" "RegistryAuthorityToken dj current = plan_AuthorityToken plan"
    using rest guards(1-4) guards(5) [symmetric] by (simp_all split: if_split_asm)
  with target guards current show "save_ok dj plan s" unfolding save_ok_def by blast
  show "saved = plan" "s' = s\<lparr>rs_plans := AList.update (plan_ID plan) plan (rs_plans s),
      rs_planDigests := AList.update (plan_digest_key plan) (plan_ID plan) (rs_planDigests s)\<rparr>"
    using rest guards(1-4) guards(5) [symmetric] tokens by (auto split: if_split_asm option.split_asm)
qed

lemma Save_existing:
  assumes "save_ok dj plan s" and "plan_ID plan \<noteq> []" and "map_of (rs_planDigests s) (plan_digest_key plan) = Some existing"
  shows "SaveRegistryCleanupPlan dj plan s = (Inr (get_or zero_plan (rs_plans s) existing, True), s)"
proof -
  obtain target current where ok: "map_of (rs_targets s) (plan_RegistryTargetID plan) = Some target" "tgt_Mode target = RegistryTargetManaged"
      "plan_ServiceID plan \<noteq> []" "plan_PlanDigest plan \<noteq> []" "plan_PlanDigest plan = RegistryCleanupPlanDigest dj plan"
      "registryLifecycleSnapshotLocked (plan_RegistryTargetID plan) (plan_ServiceID plan) (plan_CreatedAt plan) s = Inr current"
      "RegistrySnapshotToken dj current = plan_SnapshotToken plan" "RegistryAuthorityToken dj current = plan_AuthorityToken plan"
    using assms(1) unfolding save_ok_def by blast
  show ?thesis
    unfolding SaveRegistryCleanupPlan_def saveRegistryCleanupPlanLocked_def ok(1,6) option.case sum.case Let_def assms(3)
    using ok(2-4,7,8) ok(5) [symmetric] assms(2) by simp
qed

text \<open>
  C30.  A plan that was saved can be read back as it is, and saving the same content again
  under any other identifier, as a repeated preview does, changes nothing and returns the
  plan that is already there.
\<close>

theorem save_roundtrip:
  assumes "SaveRegistryCleanupPlan dj plan s = (Inr (saved, False), s')" and "newID \<noteq> []"
  shows "saved = plan \<and> RegistryCleanupPlan (plan_ID plan) s' = Inr plan \<and>
    SaveRegistryCleanupPlan dj (plan\<lparr>plan_ID := newID\<rparr>) s' = (Inr (plan, True), s')"
proof -
  note saved = Save_cases [OF assms(1)]
  have "save_ok dj (plan\<lparr>plan_ID := newID\<rparr>) s'"
    using saved(1) by (simp add: save_ok_def saved(3) frame_simps)
  from Save_existing [OF this] have "SaveRegistryCleanupPlan dj (plan\<lparr>plan_ID := newID\<rparr>) s' = (Inr (plan, True), s')"
    using assms(2) by (simp add: saved(3))
  then show ?thesis by (simp add: RegistryCleanupPlan_def saved(2,3))
qed

section \<open>The authority token of an execution\<close>

lemma snapshot_at:
  "registryLifecycleSnapshotLocked targetID serviceID now' s =
     map_sum id (\<lambda>snapshot. snapshot\<lparr>snap_AsOf := now'\<rparr>) (registryLifecycleSnapshotLocked targetID serviceID now s)"
  by (simp add: registryLifecycleSnapshotLocked_def Let_def split: option.split)

lemma snapshot_time:
  "registryLifecycleSnapshotLocked targetID serviceID now s = Inr snapshot \<Longrightarrow>
   registryLifecycleSnapshotLocked targetID serviceID now' s = Inr (snapshot\<lparr>snap_AsOf := now'\<rparr>)"
  by (subst snapshot_at [of _ _ _ _ now]) simp

lemma authority_token_fields:
  "RegistryAuthorityTokenForPlan dj (snapshot\<lparr>snap_AsOf := t\<rparr>) plan = RegistryAuthorityTokenForPlan dj snapshot plan"
  "RegistryAuthorityTokenForPlan dj snapshot (plan\<lparr>plan_AuthorityToken := tok\<rparr>) = RegistryAuthorityTokenForPlan dj snapshot plan"
  by (simp_all add: RegistryAuthorityTokenForPlan_def registryAuthorityToken_def authority_view_def Let_def
      canonicalRegistrySnapshot_def RegistryCleanupUsesSemanticSnapshot_def)

lemma record_item_token:
  assumes "record_item dj planID plan i res s = (Inr (), s')"
  obtains plan' snapshot where "map_of (rs_plans s') planID = Some plan'" and "plan_State plan' = plan_State plan"
    and "registryLifecycleSnapshotLocked (plan_RegistryTargetID plan') (plan_ServiceID plan') now s' = Inr snapshot"
    and "RegistryAuthorityTokenForPlan dj snapshot plan' = plan_AuthorityToken plan'"
proof -
  define item' where "item' = (plan_Items plan ! i)\<lparr>item_State := res_State res, item_ProviderMessage := res_ProviderMessage res,
      item_UpdatedAt := res_ObservedAt res\<rparr>"
  define p1 where "p1 = plan\<lparr>plan_Items := (plan_Items plan)[i := item']\<rparr>"
  define s2 where "s2 = (if res_State res = ''deleted''
      then applyCleanupDeletionLocked p1 item' (res_ObservedAt res) (put_plan planID p1 s) else put_plan planID p1 s)"
  have "record_item dj planID plan i res s =
      (case registryLifecycleSnapshotLocked (plan_RegistryTargetID plan) (plan_ServiceID plan) (res_ObservedAt res) s2 of
         Inl e \<Rightarrow> (Inl e, s2)
       | Inr snapshot \<Rightarrow>
           (Inr (), put_plan planID (p1\<lparr>plan_AuthorityToken := RegistryAuthorityTokenForPlan dj snapshot p1\<rparr>) s2))"
    by (simp only: record_item_def Let_def item'_def p1_def s2_def)
  with assms obtain snapshot where
    snap: "registryLifecycleSnapshotLocked (plan_RegistryTargetID plan) (plan_ServiceID plan) (res_ObservedAt res) s2 = Inr snapshot"
    and s': "s' = put_plan planID (p1\<lparr>plan_AuthorityToken := RegistryAuthorityTokenForPlan dj snapshot p1\<rparr>) s2"
    by (cases "registryLifecycleSnapshotLocked (plan_RegistryTargetID plan) (plan_ServiceID plan) (res_ObservedAt res) s2") auto
  let ?p = "p1\<lparr>plan_AuthorityToken := RegistryAuthorityTokenForPlan dj snapshot p1\<rparr>"
  have ids: "plan_RegistryTargetID ?p = plan_RegistryTargetID plan" "plan_ServiceID ?p = plan_ServiceID plan"
      "plan_State ?p = plan_State plan"
    by (simp_all add: p1_def)
  show thesis
  proof (rule that [of ?p])
    show "map_of (rs_plans s') planID = Some ?p" by (simp add: s' frame_simps)
    show "plan_State ?p = plan_State plan" by (rule ids)
    show "registryLifecycleSnapshotLocked (plan_RegistryTargetID ?p) (plan_ServiceID ?p) now s' = Inr (snapshot\<lparr>snap_AsOf := now\<rparr>)"
      using snapshot_time [OF snap] by (simp add: s' ids frame_simps)
    show "RegistryAuthorityTokenForPlan dj (snapshot\<lparr>snap_AsOf := now\<rparr>) ?p = plan_AuthorityToken ?p"
      by (simp add: authority_token_fields)
  qed
qed

text \<open>
  C31.  Recording a result absorbs every change of the protecting records: after an item
  is recorded, each further planned manifest deletion of the plan is authorized whenever the
  lease is held, whatever references, pins or releases were added before the recording.
\<close>

theorem record_absorbs_protection:
  assumes "map_of (rs_plans s) planID = Some plan" and "cleanupItemIndex plan ordinal = Some i"
    and "item_State (plan_Items plan ! i) = ''deleting''"
    and "RecordRegistryCleanupItemResult dj planID ordinal owner res s = (Inr (), s')"
    and "map_of (rs_plans s') planID = Some plan'" and "cleanupItemIndex plan' other = Some j"
    and "item_State (plan_Items plan' ! j) = ''planned''" and "item_Disposition (plan_Items plan' ! j) = RegistryCleanupDelete"
    and "item_ResourceKind (plan_Items plan' ! j) \<noteq> ''blob''" and "itemLeaseHeldLocked plan' other owner now s'"
  shows "fst (AuthorizeRegistryCleanupItem dj planID other owner now s') = Inr ((plan_Items plan' ! j)\<lparr>item_State := ''deleting''\<rparr>)"
proof -
  have "record_item dj planID plan i res s = (Inr (), s')" and exec: "plan_State plan = ''executing''"
    using assms(1-4) by (simp_all add: RecordRegistryCleanupItemResult_def Let_def split: if_splits)
  from record_item_token [OF this(1), of now] obtain q snapshot where q: "map_of (rs_plans s') planID = Some q"
      "plan_State q = plan_State plan"
      "registryLifecycleSnapshotLocked (plan_RegistryTargetID q) (plan_ServiceID q) now s' = Inr snapshot"
      "RegistryAuthorityTokenForPlan dj snapshot q = plan_AuthorityToken q"
    by blast
  from q(1) assms(5) have "q = plan'" by simp
  with q exec assms(5-10) show ?thesis
    by (simp add: AuthorizeRegistryCleanupItem_def Let_def)
qed

end
