(* ===== verification/Registry_Run.thy ===== *)
theory Registry_Run
  imports Registry_Authority "HOL-Library.Code_Target_Nat"
begin

text \<open>
  A concrete run of the registry store from the empty store: a managed target with one
  service, one repository with a manifest \<open>a\<close> that Git refers to and two manifests \<open>c\<close>, with
  its blob \<open>e\<close>, and \<open>f\<close> that nothing refers to; complete observations, a saved preview, and
  its execution to the end.  The properties of runs are applied to it.
\<close>

section \<open>The inputs\<close>

definition run_digest :: "char \<Rightarrow> string" where
  "run_digest c = ''sha256:'' @ replicate 64 c"

definition run_target :: registry_target where
  "run_target = \<lparr>tgt_ID = ''t1'', tgt_Name = ''managed'', tgt_Mode = RegistryTargetManaged, tgt_Endpoint = ''https://registry'',
     tgt_RepositoryPrefix = ''app'', tgt_PullCredentialRef = ''pull'', tgt_PushCredentialRef = ''push'',
     tgt_CacheCredentialRef = ''cache'', tgt_CreatedAt = 1, tgt_UpdatedAt = 1\<rparr>"

definition run_parse :: "string \<Rightarrow> url option" where
  "run_parse _ = Some \<lparr>url_Scheme = ''https'', url_Opaque = [], url_User = False, url_Host = ''registry'', url_Path = [],
     url_RawQuery = [], url_Fragment = [], url_Hostname = ''registry'', url_Port = []\<rparr>"

definition run_manifest :: "char \<Rightarrow> registry_manifest" where
  "run_manifest c =
     \<lparr>man_RegistryTargetID = ''t1'', man_Repository = ''app'', man_Digest = run_digest c,
      man_Kind = RegistryManifestImage, man_MediaType = [], man_SizeBytes = 10, man_PlatformOS = [],
      man_PlatformArchitecture = [], man_PlatformVariant = [], man_Present = True, man_FirstObservedAt = 1,
      man_LastObservedAt = 4 * hour, man_LastObservationRevision = 1, man_DeletedAt = None\<rparr>"

definition run_catalog :: registry_catalog_snapshot where
  "run_catalog =
     \<lparr>cs_Observation = \<lparr>cat_ID = ''c1'', cat_RegistryTargetID = ''t1'', cat_Repository = ''app'', cat_Revision = 1, cat_Complete = True,
        cat_SnapshotDigest = ''c'', cat_ObservedAt = 4 * hour, cat_ManifestCount = 3, cat_BlobCount = 1\<rparr>,
      cs_Manifests = [run_manifest CHR ''a'', run_manifest CHR ''c'', run_manifest CHR ''f''],
      cs_Blobs = [\<lparr>blob_RegistryTargetID = ''t1'', blob_Repository = ''app'', blob_Digest = run_digest CHR ''e'',
        blob_MediaType = [], blob_SizeBytes = 100, blob_Present = True, blob_FirstObservedAt = 1, blob_LastObservedAt = 4 * hour,
        blob_LastObservationRevision = 1, blob_DeletedAt = None\<rparr>],
      cs_Children = [],
      cs_BlobLinks = [\<lparr>blink_Repository = ''app'', blink_ManifestDigest = run_digest CHR ''c'',
        blink_BlobDigest = run_digest CHR ''e''\<rparr>]\<rparr>"

definition run_reference :: "registry_reference_kind \<Rightarrow> char \<Rightarrow> registry_artifact_reference" where
  "run_reference kind c =
     \<lparr>ref_RegistryTargetID = ''t1'', ref_ServiceID = ''svc'', ref_Repository = ''app'', ref_Digest = run_digest c,
      ref_Kind = kind, ref_ReferenceKey = ''main'', ref_SourceRevision = [], ref_CreatedAt = 1, ref_ObservedAt = 4 * hour\<rparr>"

definition run_authority :: "registry_authority \<Rightarrow> registry_protection_snapshot" where
  "run_authority a =
     \<lparr>ps_Observation = \<lparr>auth_RegistryTargetID = ''t1'', auth_ServiceID = ''svc'', auth_Authority = a, auth_Revision = ''r'',
        auth_Complete = True, auth_SnapshotDigest = ''r'', auth_ObservedAt = 4 * hour\<rparr>,
      ps_References = (if a = RegistryAuthorityGitIntent then [run_reference RegistryReferenceCurrentGitIntent CHR ''a''] else [])\<rparr>"

definition run_policy :: service_registry_policy where
  "run_policy = (DefaultPolicy ''t1'' ''svc'' ''app'' 1)\<lparr>pol_MinimumSafetyAge := hour\<rparr>"

definition run_inventory :: registry_inventory_observation where
  "run_inventory = \<lparr>inv_RegistryTargetID = ''t1'', inv_Revision = ''r'', inv_Complete = True, inv_Repositories = [''app''],
     inv_ObservedAt = 4 * hour\<rparr>"

text \<open>The snapshot of the observed store, and digests that no other content shares with it.\<close>

definition run_current :: registry_lifecycle_snapshot where
  "run_current =
     \<lparr>snap_Target = run_target, snap_Policy = run_policy, snap_Inventory = run_inventory,
      snap_CatalogObservations = [cs_Observation run_catalog],
      snap_AuthorityObservations = map (\<lambda>a. ps_Observation (run_authority a))
        [RegistryAuthorityGitIntent, RegistryAuthorityRuntime, RegistryAuthorityOperations],
      snap_References = ps_References (run_authority RegistryAuthorityGitIntent),
      snap_Releases = [], snap_CacheGenerations = [], snap_Manifests = cs_Manifests run_catalog, snap_Blobs = cs_Blobs run_catalog,
      snap_Children = [], snap_BlobLinks = cs_BlobLinks run_catalog, snap_AsOf = 4 * hour\<rparr>"

definition run_dj :: digests where
  "run_dj = \<lparr>dj_snapshot = \<lambda>view. if view = semantic_view run_current then ''s'' else ''x'', dj_authority = \<lambda>_. ''a'',
     dj_versioned = \<lambda>_. ''v'', dj_plan = \<lambda>_. ''p'', dj_catalog = \<lambda>_. ''c'', dj_protection = \<lambda>_. ''r''\<rparr>"

definition run_result :: registry_cleanup_item_result where
  "run_result = \<lparr>res_State = ''deleted'', res_ProviderMessage = [], res_ObservedAt = 4 * hour\<rparr>"

section \<open>The stages of the run\<close>

definition run_observed :: registry_store where
  "run_observed =
     snd (ReplaceRegistryProtectionSnapshot run_dj (run_authority RegistryAuthorityOperations)
     (snd (ReplaceRegistryProtectionSnapshot run_dj (run_authority RegistryAuthorityRuntime)
     (snd (ReplaceRegistryProtectionSnapshot run_dj (run_authority RegistryAuthorityGitIntent)
     (snd (ReplaceRegistryCatalog run_dj ''c1'' run_catalog
     (snd (RecordRegistryInventory run_inventory
     (snd (PutServiceRegistryPolicy run_parse 1 run_policy
     (snd (PutRegistryTarget run_parse 1 run_target empty_store)))))))))))))"

definition run_snapshot :: "registry_store \<Rightarrow> registry_lifecycle_snapshot" where
  "run_snapshot s = projr (registryLifecycleSnapshotLocked ''t1'' ''svc'' (4 * hour) s)"

definition run_built :: "registry_error + registry_cleanup_plan" where
  "run_built = BuildCleanupPlan run_dj (run_snapshot run_observed) (4 * hour) (15 * minute)"

definition run_saved :: registry_store where
  "run_saved = snd (SaveRegistryCleanupPlan run_dj (stamp_plan run_dj False ''p1'' (projr run_built)) run_observed)"

definition run_claimed :: registry_store where
  "run_claimed = snd (ClaimRegistryCleanupPlan run_dj ''p1'' ''w'' (4 * hour) minute (15 * minute) run_saved)"

definition run_blob :: "registry_store \<Rightarrow> registry_store" where
  "run_blob s =
     snd (AuthorizeRegistryCleanupItem run_dj ''p1'' 3 ''w'' (4 * hour)
     (snd (RecordRegistryCleanupItemResult run_dj ''p1'' 2 ''w'' run_result
     (snd (AuthorizeRegistryCleanupItem run_dj ''p1'' 2 ''w'' (4 * hour)
     (snd (RecordRegistryCleanupItemResult run_dj ''p1'' 1 ''w'' run_result
     (snd (AuthorizeRegistryCleanupItem run_dj ''p1'' 1 ''w'' (4 * hour) s)))))))))"

definition run_finished :: "registry_store \<Rightarrow> registry_store" where
  "run_finished s =
     snd (FinishRegistryCleanupPlan ''p1'' ''w'' True [] (4 * hour)
     (snd (RecordRegistryCleanupItemResult run_dj ''p1'' 3 ''w'' run_result s)))"

section \<open>Evaluating the stages\<close>

lemma run_observed_eval [code]:
  "run_observed = empty_store\<lparr>rs_targets := [(''t1'', run_target)], rs_policies := [(registryScopeKey [''t1'', ''svc''], run_policy)],
     rs_inventories := [(''t1'', run_inventory)], rs_catalogs := [(registryScopeKey [''t1'', ''app''], run_catalog)],
     rs_authorities := map (\<lambda>a. (registryScopeKey [''t1'', ''svc'', authority_string a], run_authority a))
       [RegistryAuthorityGitIntent, RegistryAuthorityRuntime, RegistryAuthorityOperations]\<rparr>"
  by code_simp

lemma run_current_ok: "registryLifecycleSnapshotLocked ''t1'' ''svc'' (4 * hour) run_observed = Inr run_current"
  by code_simp

definition run_item :: "nat \<Rightarrow> string \<Rightarrow> string \<Rightarrow> char \<Rightarrow> string \<Rightarrow> int \<Rightarrow> string \<Rightarrow> registry_cleanup_item" where
  "run_item ordinal repository kind c action bytes reason =
     \<lparr>item_Ordinal = ordinal, item_Repository = repository, item_ResourceKind = kind, item_Digest = run_digest c,
      item_Disposition = (if action = ''none'' then RegistryCleanupProtect else RegistryCleanupDelete), item_Action = action,
      item_EstimatedBytes = bytes, item_Reasons = [reason],
      item_State = (if action = ''none'' then ''protected'' else ''planned''), item_ProviderMessage = [], item_UpdatedAt = 0\<rparr>"

definition run_preview :: registry_cleanup_plan where
  "run_preview =
     \<lparr>plan_ID = [], plan_RegistryTargetID = ''t1'', plan_ServiceID = ''svc'', plan_Automatic = False,
      plan_SnapshotToken = ''registry-semantic-v2:s'', plan_AuthorityToken = ''v'', plan_PlanDigest = ''p'',
      plan_State = ''preview'', plan_Policy = run_policy, plan_Inventory = run_inventory,
      plan_Catalogs = snap_CatalogObservations run_current, plan_Authorities = snap_AuthorityObservations run_current,
      plan_Summary = \<lparr>sum_ProtectedManifests = 1, sum_DeletedManifests = 2, sum_GarbageCollectBlobs = 1,
        sum_EstimatedBytes = 100, sum_CacheBytesBefore = 0, sum_CacheBytesAfter = 0, sum_CacheQuotaSatisfied = True\<rparr>,
      plan_Items =
        [run_item 0 ''app'' ''release-manifest'' CHR ''a'' ''none'' 10 ''current-git-intent'',
         run_item 1 ''app'' ''release-manifest'' CHR ''c'' ''delete-manifest'' 10 ''retention-eligible'',
         run_item 2 ''app'' ''release-manifest'' CHR ''f'' ''delete-manifest'' 10 ''retention-eligible'',
         run_item 3 ''*'' ''blob'' CHR ''e'' ''garbage-collect-blob'' 100 ''globally-unreachable''],
      plan_CreatedAt = 4 * hour, plan_ClaimedAt = None, plan_CompletedAt = None, plan_Failure = []\<rparr>"

lemma run_build: "BuildCleanupPlan run_dj run_current (4 * hour) (15 * minute) = Inr run_preview"
  by code_simp

lemma run_lease_repositories: "cleanupLeaseRepositories run_preview = [''*'', ''app'']"
  by code_simp

text \<open>The later stages are computed by rewriting, with digests and the tokens of \<open>run_dj\<close> kept folded.\<close>

lemma run_digest_eq [simp]: "run_digest c = run_digest d \<longleftrightarrow> c = d"
  by (simp add: run_digest_def replicate_eq_replicate)

lemma run_tokens [simp]:
  "RegistrySnapshotToken run_dj run_current = ''registry-semantic-v2:s''" "RegistryAuthorityToken run_dj snapshot = ''v''"
  "RegistryCleanupUsesSemanticSnapshot plan \<Longrightarrow> RegistryAuthorityTokenForPlan run_dj snapshot plan = ''v''"
  "RegistryCleanupPlanDigest run_dj plan = ''p''"
  by (simp_all add: RegistrySnapshotToken_def RegistryAuthorityToken_def RegistryAuthorityTokenForPlan_def
      registryAuthorityToken_def RegistryCleanupPlanDigest_def registrySemanticSnapshotPrefix_def run_dj_def)

lemma run_built_eval: "run_built = Inr run_preview"
  using run_build by (simp add: run_built_def run_snapshot_def run_current_ok)

lemma run_saved_eval:
  "run_saved = run_observed\<lparr>rs_plans := [(''p1'', run_preview\<lparr>plan_ID := ''p1''\<rparr>)],
     rs_planDigests := [(registryScopeKey [''t1'', ''svc'', ''p''], ''p1'')]\<rparr>"
  using run_current_ok
  by (simp add: run_saved_def run_built_eval SaveRegistryCleanupPlan_def saveRegistryCleanupPlanLocked_def stamp_plan_def
      run_preview_def run_observed_eval run_target_def empty_store_def Let_def)

lemma run_saved_plan: "map_of (rs_plans run_saved) ''p1'' = Some (run_preview\<lparr>plan_ID := ''p1''\<rparr>)"
  by (simp add: run_saved_eval)

lemma run_saved_current: "registryLifecycleSnapshotLocked ''t1'' ''svc'' (4 * hour) run_saved = Inr run_current"
  unfolding run_saved_eval by (simp only: frame_simps run_current_ok)

section \<open>The execution\<close>

text \<open>The plan while it executes, with the given item states, and a store that holds it with its leases.\<close>

definition run_exec :: "string list \<Rightarrow> registry_cleanup_plan" where
  "run_exec states = run_preview\<lparr>plan_ID := ''p1'', plan_State := ''executing'', plan_ClaimedAt := Some (4 * hour),
     plan_Items := map2 (\<lambda>item state. item\<lparr>item_State := state, item_UpdatedAt := (if state = ''deleted'' then 4 * hour else 0)\<rparr>)
       (plan_Items run_preview) states\<rparr>"

definition run_lease :: registryCleanupLease where
  "run_lease = \<lparr>lease_planID = ''p1'', lease_owner = ''w'', lease_until = 4 * hour + minute\<rparr>"

definition run_ready :: "string list \<Rightarrow> registry_store \<Rightarrow> bool" where
  "run_ready states s \<longleftrightarrow>
     map_of (rs_plans s) ''p1'' = Some (run_exec states) \<and> map_of (rs_targets s) ''t1'' = Some run_target \<and>
     map_of (rs_policies s) (registryScopeKey [''t1'', ''svc'']) = Some run_policy \<and>
     map_of (rs_leases s) (registryScopeKey [''t1'', ''*'']) = Some run_lease \<and>
     map_of (rs_leases s) (registryScopeKey [''t1'', ''app'']) = Some run_lease"

lemma snapshot_exists:
  "map_of (rs_targets s) targetID = Some target \<Longrightarrow> map_of (rs_policies s) (registryScopeKey [targetID, serviceID]) = Some policy \<Longrightarrow>
   \<exists>snapshot. registryLifecycleSnapshotLocked targetID serviceID now s = Inr snapshot"
  by (simp add: registryLifecycleSnapshotLocked_def Let_def)

lemma run_exec_fields [simp]:
  "plan_ID (run_exec states) = ''p1''" "plan_State (run_exec states) = ''executing''"
  "plan_RegistryTargetID (run_exec states) = ''t1''" "plan_ServiceID (run_exec states) = ''svc''"
  "plan_AuthorityToken (run_exec states) = ''v''" "RegistryCleanupUsesSemanticSnapshot (run_exec states)"
  by (simp_all add: run_exec_def run_preview_def RegistryCleanupUsesSemanticSnapshot_def registrySemanticSnapshotPrefix_def has_prefix_def)

definition run_claim :: "registry_store \<Rightarrow> (registry_cleanup_plan \<times> bool) rs_result" where
  "run_claim s = ClaimRegistryCleanupPlan run_dj ''p1'' ''w'' (4 * hour) minute (15 * minute) s"

abbreviation run_started :: registry_cleanup_plan where
  "run_started \<equiv> run_exec [''protected'', ''planned'', ''planned'', ''planned'']"

lemma run_started_eq:
  "run_preview\<lparr>plan_ID := ''p1'', plan_State := ''executing'', plan_ClaimedAt := Some (4 * hour)\<rparr> = run_started"
  by (simp add: run_exec_def run_preview_def run_item_def)

lemma run_preview_fields [simp]:
  "plan_State run_preview = ''preview''" "plan_RegistryTargetID run_preview = ''t1''" "plan_ServiceID run_preview = ''svc''"
  "plan_SnapshotToken run_preview = ''registry-semantic-v2:s''"
  by (simp_all add: run_preview_def)

lemma run_saved_fields [simp]:
  "rs_targets run_saved = [(''t1'', run_target)]" "rs_leases run_saved = []"
  "rs_policies run_saved = [(registryScopeKey [''t1'', ''svc''], run_policy)]"
  by (simp_all add: run_saved_eval run_observed_eval empty_store_def)

lemma run_claim_saved:
  "run_claim run_saved = (Inr (run_started, True),
     put_plan ''p1'' run_started (take_leases (run_preview\<lparr>plan_ID := ''p1''\<rparr>) ''w'' (4 * hour + minute) run_saved))"
proof -
  have pos: "\<not> minute \<le> 0" by (simp add: duration_defs)
  show ?thesis
    unfolding run_claim_def ClaimRegistryCleanupPlan_def run_saved_plan option.case
    by (simp add: pos run_saved_current run_build lease_conflict_def RegistryCleanupPlanCanResumeOfflineSweep_def Let_def run_started_eq)
qed

lemma run_claimed_eq: "run_claimed = snd (run_claim run_saved)"
  by (simp only: run_claimed_def run_claim_def)

lemma run_claimed_ready: "run_ready [''protected'', ''planned'', ''planned'', ''planned''] run_claimed"
proof -
  have repos: "cleanupLeaseRepositories (run_preview\<lparr>plan_ID := ''p1''\<rparr>) = [''*'', ''app'']"
    using run_lease_repositories by (simp add: cleanupLeaseRepositories_def)
  show ?thesis
    unfolding run_claimed_eq run_claim_saved snd_conv
    by (simp add: run_ready_def take_leases_def repos lease_key_def run_lease_def put_plan_def)
qed

definition run_state :: "string \<Rightarrow> registry_cleanup_item \<Rightarrow> registry_cleanup_item" where
  "run_state state item = item\<lparr>item_State := state, item_UpdatedAt := (if state = ''deleted'' then 4 * hour else 0)\<rparr>"

lemma run_state_fields [simp]:
  "item_State (run_state state item) = state" "item_Ordinal (run_state state item) = item_Ordinal item"
  "item_Repository (run_state state item) = item_Repository item" "item_ResourceKind (run_state state item) = item_ResourceKind item"
  "item_Disposition (run_state state item) = item_Disposition item" "item_ProviderMessage (run_state state item) = item_ProviderMessage item"
  "item_static (run_state state item) = item_static item"
  by (simp_all add: run_state_def item_static_def)

lemma run_preview_items:
  "length (plan_Items run_preview) = 4" "item_Ordinal (plan_Items run_preview ! 0) = 0"
  "item_Ordinal (plan_Items run_preview ! 1) = 1" "item_Ordinal (plan_Items run_preview ! 2) = 2"
  "item_Ordinal (plan_Items run_preview ! 3) = 3" "item_Disposition (plan_Items run_preview ! 0) = RegistryCleanupProtect"
  "i \<in> {1, 2, 3} \<Longrightarrow> item_Disposition (plan_Items run_preview ! i) = RegistryCleanupDelete"
  "i \<in> {1, 2, 3} \<Longrightarrow> item_Repository (plan_Items run_preview ! i) \<in> {''*'', ''app''}"
  "item_ResourceKind (plan_Items run_preview ! i) = ''blob'' \<Longrightarrow> i < 4 \<Longrightarrow> i = 3" "item_ResourceKind (plan_Items run_preview ! 3) = ''blob''"
  "i < 4 \<Longrightarrow> item_ProviderMessage (plan_Items run_preview ! i) = []" "i < 4 \<Longrightarrow> item_UpdatedAt (plan_Items run_preview ! i) = 0"
  by (auto simp: run_preview_def run_item_def less_Suc_eq numeral_eq_Suc)

lemma run_exec_items: "plan_Items (run_exec states) = map2 (\<lambda>item state. run_state state item) (plan_Items run_preview) states"
  by (simp add: run_exec_def run_state_def)

lemma run_exec_length: "length states = 4 \<Longrightarrow> length (plan_Items (run_exec states)) = 4"
  by (simp add: run_exec_items run_preview_items)

lemma run_exec_nth:
  "length states = 4 \<Longrightarrow> i < 4 \<Longrightarrow> plan_Items (run_exec states) ! i = run_state (states ! i) (plan_Items run_preview ! i)"
  by (simp add: run_exec_items run_preview_items)

lemma run_exec_mem:
  assumes "length states = 4" and "item \<in> set (plan_Items (run_exec states))"
  obtains k where "k \<in> {0, 1, 2, 3}" and "item = run_state (states ! k) (plan_Items run_preview ! k)"
proof -
  obtain k where k: "k < 4" "item = plan_Items (run_exec states) ! k"
    using assms by (metis in_set_conv_nth run_exec_length)
  then have "k \<in> {0, 1, 2, 3}" by auto
  with k show thesis using that run_exec_nth [OF assms(1)] by blast
qed

lemma run_exec_update:
  assumes "length states = 4" and "i < 4"
  shows "(run_exec states)\<lparr>plan_Items := (plan_Items (run_exec states))[i := run_state state (plan_Items run_preview ! i)]\<rparr> =
    run_exec (states[i := state])"
proof -
  have "plan_Items (run_exec (states[i := state])) = (plan_Items (run_exec states))[i := run_state state (plan_Items run_preview ! i)]"
    using assms by (intro nth_equalityI) (auto simp: run_exec_length run_exec_nth nth_list_update)
  moreover have "run_exec (states[i := state]) = (run_exec states)\<lparr>plan_Items := plan_Items (run_exec (states[i := state]))\<rparr>"
    by (simp add: run_exec_def)
  ultimately show ?thesis by metis
qed

lemma run_exec_token [simp]: "(run_exec states)\<lparr>plan_AuthorityToken := ''v''\<rparr> = run_exec states"
  by (simp add: run_exec_def run_preview_def)

lemma run_exec_index:
  assumes "length states = 4" and "i \<in> {1, 2, 3}"
  shows "cleanupItemIndex (run_exec states) i = Some i"
proof -
  have "[0..<4] = [0, 1, 2, 3]" by (simp add: upt_rec)
  with assms show ?thesis
    by (auto simp: cleanupItemIndex_def run_exec_length run_exec_nth run_preview_items simp del: One_nat_def)
qed

lemma run_held:
  assumes "run_ready states s" and "length states = 4" and "i \<in> {1, 2, 3}"
  shows "itemLeaseHeldLocked (run_exec states) i ''w'' (4 * hour) s"
proof -
  have "lease_held (run_exec states) ''w'' (4 * hour) s repository" if "repository \<in> {''*'', ''app''}" for repository
    using assms(1) that by (auto simp: lease_held_def lease_key_def get_or_def run_ready_def run_lease_def duration_defs)
  moreover have "item_Repository (plan_Items (run_exec states) ! i) \<in> {''*'', ''app''}"
    using run_preview_items(8) [OF assms(3)] assms(2,3) run_exec_nth [of states i] by auto
  ultimately have "lease_held (run_exec states) ''w'' (4 * hour) s ''*''"
      "lease_held (run_exec states) ''w'' (4 * hour) s (item_Repository (plan_Items (run_exec states) ! i))"
    by blast+
  then show ?thesis
    by (simp add: itemLeaseHeldLocked_def run_exec_index [OF assms(2,3)] Let_def)
qed

lemma run_ready_put: "run_ready states s \<Longrightarrow> run_ready states' (put_plan ''p1'' (run_exec states') s)"
  by (simp add: run_ready_def put_plan_def)

lemma run_ready_apply: "run_ready states s \<Longrightarrow> run_ready states (applyCleanupDeletionLocked plan item t s)"
  by (simp add: run_ready_def frame_simps)

lemma run_ready_snapshot:
  assumes "run_ready states s"
  obtains snapshot where "registryLifecycleSnapshotLocked ''t1'' ''svc'' now s = Inr snapshot"
  using assms snapshot_exists unfolding run_ready_def by blast

lemma run_authorize_step:
  assumes ready: "run_ready states s" and len: "length states = 4" and i: "i \<in> {1, 2, 3}" and planned: "states ! i = ''planned''"
    and blob: "i = 3 \<Longrightarrow> states ! 1 = ''deleted'' \<and> states ! 2 = ''deleted''"
  shows "AuthorizeRegistryCleanupItem run_dj ''p1'' i ''w'' (4 * hour) s =
    (Inr (run_state ''deleting'' (plan_Items run_preview ! i)), put_plan ''p1'' (run_exec (states[i := ''deleting''])) s)"
proof -
  have i4: "i < 4" using i by auto
  have plan: "map_of (rs_plans s) ''p1'' = Some (run_exec states)" using ready by (simp add: run_ready_def)
  obtain snapshot where snap: "registryLifecycleSnapshotLocked ''t1'' ''svc'' (4 * hour) s = Inr snapshot"
    using ready by (rule run_ready_snapshot)
  note nth = run_exec_nth [OF len i4]
  have item: "(plan_Items (run_exec states) ! i)\<lparr>item_State := ''deleting''\<rparr> = run_state ''deleting'' (plan_Items run_preview ! i)"
    by (simp add: nth planned run_state_def)
  have "item_State other = ''deleted''"
    if i3: "i = 3" and other: "other \<in> set (plan_Items (run_exec states))" "item_ResourceKind other \<noteq> ''blob''"
      "item_Disposition other = RegistryCleanupDelete" for other
  proof -
    obtain k where "k \<in> {0, 1, 2, 3}" "other = run_state (states ! k) (plan_Items run_preview ! k)"
      using len other(1) by (rule run_exec_mem)
    then show ?thesis using i3 other blob run_preview_items(6,10) by (auto simp del: One_nat_def)
  qed
  then have guard: "\<not> (item_ResourceKind (plan_Items (run_exec states) ! i) = ''blob'' \<and>
      (\<exists>other \<in> set (plan_Items (run_exec states)). item_ResourceKind other \<noteq> ''blob'' \<and>
         item_Disposition other = RegistryCleanupDelete \<and> item_State other \<noteq> ''deleted''))"
    using run_preview_items(9) [OF _ i4] by (auto simp: nth)
  show ?thesis
    unfolding AuthorizeRegistryCleanupItem_def plan option.case run_exec_index [OF len i] run_exec_fields snap sum.case Let_def item
      run_exec_update [OF len i4]
    using run_held [OF ready len i] guard run_preview_items(7) [OF i] planned by (simp add: nth)
qed

lemma run_record_step:
  assumes ready: "run_ready states s" and len: "length states = 4" and i: "i \<in> {1, 2, 3}" and deleting: "states ! i = ''deleting''"
  shows "\<exists>s'. RecordRegistryCleanupItemResult run_dj ''p1'' i ''w'' run_result s = (Inr (), s') \<and>
    run_ready (states[i := ''deleted'']) s' \<and> rs_pins s' = rs_pins s"
proof -
  have i4: "i < 4" using i by auto
  have plan: "map_of (rs_plans s) ''p1'' = Some (run_exec states)" using ready by (simp add: run_ready_def)
  note nth = run_exec_nth [OF len i4]
  let ?plan' = "run_exec (states[i := ''deleted''])" and ?item = "run_state ''deleted'' (plan_Items run_preview ! i)"
  have item: "(plan_Items (run_exec states) ! i)\<lparr>item_State := res_State run_result, item_ProviderMessage := res_ProviderMessage run_result,
      item_UpdatedAt := res_ObservedAt run_result\<rparr> = ?item"
    using run_preview_items(11) [OF i4] by (simp add: nth run_result_def run_state_def)
  let ?s2 = "applyCleanupDeletionLocked ?plan' ?item (4 * hour) (put_plan ''p1'' ?plan' s)"
  have ready2: "run_ready (states[i := ''deleted'']) ?s2" by (intro run_ready_apply run_ready_put [OF ready])
  then obtain snapshot where snap: "registryLifecycleSnapshotLocked ''t1'' ''svc'' (4 * hour) ?s2 = Inr snapshot"
    by (rule run_ready_snapshot)
  have "RecordRegistryCleanupItemResult run_dj ''p1'' i ''w'' run_result s = record_item run_dj ''p1'' (run_exec states) i run_result s"
    unfolding RecordRegistryCleanupItemResult_def plan option.case run_exec_index [OF len i] run_exec_fields Let_def
    using run_held [OF ready len i] by (simp add: run_result_def nth deleting)
  also have "\<dots> = (Inr (), put_plan ''p1'' ?plan' ?s2)"
    unfolding record_item_def Let_def item run_exec_update [OF len i4] run_exec_fields
    by (simp add: run_result_def snap)
  finally show ?thesis
    using run_ready_put [OF ready2] by (simp add: put_plan_def applyCleanupDeletionLocked_def Let_def)
qed

lemma run_finish_step:
  assumes "run_ready [''protected'', ''deleted'', ''deleted'', ''deleted''] s"
  shows "map_of (rs_plans (snd (FinishRegistryCleanupPlan ''p1'' ''w'' True [] (4 * hour) s))) ''p1'' =
    Some ((run_exec [''protected'', ''deleted'', ''deleted'', ''deleted''])
      \<lparr>plan_State := ''succeeded'', plan_Failure := [], plan_CompletedAt := Some (4 * hour)\<rparr>)"
proof -
  let ?states = "[''protected'', ''deleted'', ''deleted'', ''deleted'']"
  have "items_static (run_exec ?states) = items_static run_preview"
    by (intro nth_equalityI) (simp_all add: items_static_def run_exec_length run_exec_nth run_preview_items)
  then have "cleanupLeaseRepositories (run_exec ?states) = cleanupLeaseRepositories run_preview"
    by (rule lease_repositories_static)
  then have held: "planLeasesHeldLocked (run_exec ?states) ''w'' (4 * hour) s"
    using assms by (simp add: planLeasesHeldLocked_def run_lease_repositories lease_held_def lease_key_def get_or_def
        run_ready_def run_lease_def duration_defs)
  have "item_State item = ''deleted''"
    if item: "item \<in> set (plan_Items (run_exec ?states))" "item_Disposition item = RegistryCleanupDelete" for item
  proof -
    obtain k where "k \<in> {0, 1, 2, 3}" "item = run_state (?states ! k) (plan_Items run_preview ! k)"
      by (rule run_exec_mem [OF _ item(1)]) simp_all
    then show ?thesis using item(2) run_preview_items(6) by auto
  qed
  then show ?thesis
    using assms held by (auto simp: FinishRegistryCleanupPlan_def run_ready_def frame_simps Let_def)
qed

section \<open>The stages are reachable\<close>

abbreviation run_reachable :: "registry_store \<Rightarrow> bool" where
  "run_reachable \<equiv> reachable (registry_step run_dj) empty_store"

lemma run_observed_reachable: "run_reachable run_observed"
  unfolding run_observed_def
  by (rule reachable.move, rule reachable.move, rule reachable.move, rule reachable.move, rule reachable.move,
      rule reachable.move, rule reachable.move, rule reachable.start,
      rule registry_step.put_target, rule registry_step.put_policy, rule registry_step.inventory,
      rule registry_step.catalog, (rule registry_step.protection)+)

lemma run_saved_reachable: "run_reachable run_saved"
proof -
  have "BuildCleanupPlan run_dj (run_snapshot run_observed) (4 * hour) (15 * minute) = Inr (projr run_built)"
    using run_built_eval by (simp add: run_built_def)
  from reachable.move [OF run_observed_reachable registry_step.save [OF this]] show ?thesis
    by (simp only: run_saved_def)
qed

lemma run_claimed_reachable: "run_reachable run_claimed"
  unfolding run_claimed_def by (rule reachable.move [OF run_saved_reachable registry_step.claim])

lemma run_blob_reachable: "run_reachable (run_blob run_claimed)"
  unfolding run_blob_def
  by (rule reachable.move, rule reachable.move, rule reachable.move, rule reachable.move, rule reachable.move,
      rule run_claimed_reachable,
      rule registry_step.authorize, rule registry_step.record_result, rule registry_step.authorize,
      rule registry_step.record_result, rule registry_step.authorize)

lemma run_finish_steps: "reachable (registry_step run_dj) s (run_finished s)"
  unfolding run_finished_def
  by (rule reachable.move, rule reachable.move, rule reachable.start, rule registry_step.record_result, rule registry_step.finish)

lemma run_finished_reachable: "run_reachable (run_finished (run_blob run_claimed))"
  using run_finish_steps run_blob_reachable by (rule reachable_trans)

section \<open>The stages of the execution\<close>

lemma run_blob_ready: "run_ready [''protected'', ''deleted'', ''deleted'', ''deleting''] (run_blob run_claimed)"
proof -
  let ?s1 = "snd (AuthorizeRegistryCleanupItem run_dj ''p1'' 1 ''w'' (4 * hour) run_claimed)"
  let ?s2 = "snd (RecordRegistryCleanupItemResult run_dj ''p1'' 1 ''w'' run_result ?s1)"
  let ?s3 = "snd (AuthorizeRegistryCleanupItem run_dj ''p1'' 2 ''w'' (4 * hour) ?s2)"
  let ?s4 = "snd (RecordRegistryCleanupItemResult run_dj ''p1'' 2 ''w'' run_result ?s3)"
  have 1: "run_ready [''protected'', ''deleting'', ''planned'', ''planned''] ?s1"
    using run_authorize_step [OF run_claimed_ready, of 1] run_ready_put [OF run_claimed_ready] by simp
  have 2: "run_ready [''protected'', ''deleted'', ''planned'', ''planned''] ?s2"
    using run_record_step [OF 1, of 1] by auto
  have 3: "run_ready [''protected'', ''deleted'', ''deleting'', ''planned''] ?s3"
    using run_authorize_step [OF 2, of 2] run_ready_put [OF 2] by simp
  have 4: "run_ready [''protected'', ''deleted'', ''deleted'', ''planned''] ?s4"
    using run_record_step [OF 3, of 2] by auto
  show ?thesis
    unfolding run_blob_def
    using run_authorize_step [OF 4, of 3] run_ready_put [OF 4] by simp
qed

definition run_done :: registry_cleanup_plan where
  "run_done = (run_exec [''protected'', ''deleted'', ''deleted'', ''deleted''])
     \<lparr>plan_State := ''succeeded'', plan_Failure := [], plan_CompletedAt := Some (4 * hour)\<rparr>"

abbreviation run_sweeping :: registry_cleanup_plan where
  "run_sweeping \<equiv> run_exec [''protected'', ''deleted'', ''deleted'', ''deleting'']"

lemma run_blob_plan: "map_of (rs_plans (run_blob run_claimed)) ''p1'' = Some run_sweeping"
  using run_blob_ready by (simp add: run_ready_def)

lemma run_finished_plan: "map_of (rs_plans (run_finished (run_blob run_claimed))) ''p1'' = Some run_done"
proof -
  have "run_ready [''protected'', ''deleted'', ''deleted'', ''deleted'']
      (snd (RecordRegistryCleanupItemResult run_dj ''p1'' 3 ''w'' run_result (run_blob run_claimed)))"
    using run_record_step [OF run_blob_ready, of 3] by auto
  from run_finish_step [OF this] show ?thesis by (simp only: run_finished_def run_done_def)
qed

lemma run_sweeping_item: "i < 4 \<Longrightarrow> plan_Items run_sweeping ! i \<in> set (plan_Items run_sweeping)"
  by (rule nth_mem) (simp add: run_exec_length)

lemma run_item_c:
    "item_ResourceKind (plan_Items run_sweeping ! 1) \<noteq> ''blob''" "item_State (plan_Items run_sweeping ! 1) = ''deleted''"
    "item_Disposition (plan_Items run_sweeping ! 1) = RegistryCleanupDelete"
  using run_preview_items(7,9) [of 1] by (auto simp: run_exec_nth simp del: One_nat_def)

lemma run_item_e: "item_ResourceKind (plan_Items run_sweeping ! 3) = ''blob''" "item_State (plan_Items run_sweeping ! 3) = ''deleting''"
  by (simp_all add: run_exec_nth run_preview_items)

section \<open>The properties at work\<close>


theorem execution_blobs_last_witness: "item_State (plan_Items run_sweeping ! 1) = ''deleted''"
  by (rule execution_blobs_last [OF run_blob_reachable run_blob_plan run_sweeping_item [of 3] run_item_e(1) _ run_sweeping_item [of 1]])
     (simp_all add: run_item_c [simplified] run_item_e)

theorem plan_history_witness:
  "\<exists>plan'. map_of (rs_plans (run_finished (run_blob run_claimed))) ''p1'' = Some plan' \<and> plan_evolves run_sweeping plan'"
  by (rule plan_history [OF run_blob_reachable run_finish_steps run_blob_plan])

theorem succeeded_plan_complete_witness:
  "item_State (plan_Items run_done ! 3) =
     (if item_Disposition (plan_Items run_done ! 3) = RegistryCleanupDelete then ''deleted'' else ''protected'')"
  by (rule succeeded_plan_complete [OF run_finished_reachable run_finished_plan])
     (simp_all add: run_done_def run_exec_length)

lemma run_claim_again: "run_claim run_claimed = (Inr (run_started, False), run_claimed)"
proof -
  have plan: "map_of (rs_plans run_claimed) ''p1'' = Some run_started" using run_claimed_ready by (simp add: run_ready_def)
  have "cleanupLeaseRepositories run_started = cleanupLeaseRepositories run_preview"
    by (simp add: cleanupLeaseRepositories_def run_started_eq [symmetric])
  then have "planLeasesHeldLocked run_started ''w'' (4 * hour) run_claimed"
    using run_claimed_ready by (simp add: planLeasesHeldLocked_def run_lease_repositories lease_held_def lease_key_def get_or_def
        run_ready_def run_lease_def duration_defs)
  moreover have "\<not> minute \<le> 0" by (simp add: duration_defs)
  ultimately show ?thesis
    unfolding run_claim_def ClaimRegistryCleanupPlan_def plan option.case by simp
qed

lemma run_claim_fresh:
  "ClaimRegistryCleanupPlan run_dj ''p1'' ''w'' (4 * hour) minute (15 * minute) run_saved = (Inr (run_started, True), run_claimed)"
  using run_claim_saved by (simp add: run_claim_def run_claimed_eq)


lemma run_authorized:
  "AuthorizeRegistryCleanupItem run_dj ''p1'' 1 ''w'' (4 * hour) run_claimed =
    (Inr (run_state ''deleting'' (plan_Items run_preview ! 1)), put_plan ''p1'' (run_exec [''protected'', ''deleting'', ''planned'', ''planned'']) run_claimed)"
  using run_authorize_step [OF run_claimed_ready, of 1] by simp

theorem authorize_by_holder_witness:
  "\<exists>plan. map_of (rs_plans run_claimed) ''p1'' = Some plan \<and> plan_State plan = ''executing'' \<and>
    target_holder run_claimed (plan_RegistryTargetID plan) (4 * hour) = Some (''p1'', ''w'') \<and>
    item_Ordinal (run_state ''deleting'' (plan_Items run_preview ! 1)) = 1 \<and>
    item_Disposition (run_state ''deleting'' (plan_Items run_preview ! 1)) = RegistryCleanupDelete \<and>
    item_State (run_state ''deleting'' (plan_Items run_preview ! 1)) = ''deleting'' \<and>
    item_static (run_state ''deleting'' (plan_Items run_preview ! 1)) \<in> set (items_static plan)"
  by (rule authorize_by_holder [OF run_claimed_reachable run_authorized])

definition run_refreshed :: registry_lifecycle_snapshot where
  "run_refreshed = run_current\<lparr>snap_Inventory := run_inventory\<lparr>inv_Revision := ''r2'', inv_ObservedAt := 5 * hour\<rparr>,
     snap_CatalogObservations := [(cs_Observation run_catalog)\<lparr>cat_Revision := 2, cat_ObservedAt := 5 * hour\<rparr>],
     snap_Manifests := rev (map (\<lambda>m. m\<lparr>man_LastObservedAt := 5 * hour, man_LastObservationRevision := 2\<rparr>) (cs_Manifests run_catalog))\<rparr>"

lemma run_no_second_preimage: "no_second_preimage (dj_snapshot run_dj) (semantic_view run_current)"
  by (simp add: no_second_preimage_def run_dj_def)

lemma run_unique_parts: "unique_parts run_current" "unique_parts run_refreshed"
  by (simp_all add: unique_parts_def run_current_def run_refreshed_def run_authority_def authority_string_def run_catalog_def
      run_manifest_def)


lemma run_item_a: "plan_Items run_preview ! 0 \<in> set (plan_Items run_preview)"
    "item_ResourceKind (plan_Items run_preview ! 0) \<noteq> ''blob''"
    "item_node (plan_Items run_preview ! 0) = nodeKey ''app'' (run_digest CHR ''a'')"
  by (simp_all add: run_preview_def run_item_def item_node_def)


theorem save_roundtrip_witness:
  "RegistryCleanupPlan ''p1'' run_saved = Inr (stamp_plan run_dj False ''p1'' run_preview) \<and>
   SaveRegistryCleanupPlan run_dj ((stamp_plan run_dj False ''p1'' run_preview)\<lparr>plan_ID := ''p2''\<rparr>) run_saved =
     (Inr (stamp_plan run_dj False ''p1'' run_preview, True), run_saved)"
proof -
  have "fst (SaveRegistryCleanupPlan run_dj (stamp_plan run_dj False ''p1'' run_preview) run_observed) =
      Inr (stamp_plan run_dj False ''p1'' run_preview, False)"
    using run_current_ok
    by (simp add: SaveRegistryCleanupPlan_def saveRegistryCleanupPlanLocked_def stamp_plan_def
        run_preview_def run_observed_eval run_target_def empty_store_def Let_def)
  moreover have "snd (SaveRegistryCleanupPlan run_dj (stamp_plan run_dj False ''p1'' run_preview) run_observed) = run_saved"
    by (simp add: run_saved_def run_built_eval)
  ultimately have "SaveRegistryCleanupPlan run_dj (stamp_plan run_dj False ''p1'' run_preview) run_observed =
      (Inr (stamp_plan run_dj False ''p1'' run_preview, False), run_saved)"
    by (simp add: prod_eq_iff)
  from save_roundtrip [OF this, of "''p2''"] show ?thesis by simp
qed

text \<open>A pin on the manifest \<open>f\<close>, set while the deletion of \<open>c\<close> is under way, does not stop the deletion of \<open>f\<close>.\<close>

definition run_pinned :: registry_store where
  "run_pinned = snd (PutRegistryPin 1 (run_reference RegistryReferencePin CHR ''f'')
     (snd (AuthorizeRegistryCleanupItem run_dj ''p1'' 1 ''w'' (4 * hour) run_claimed)))"

lemma run_pinned_ready:
  "run_ready [''protected'', ''deleting'', ''planned'', ''planned''] run_pinned"
  "map_of (rs_pins run_pinned) (registryScopeKey [''t1'', ''svc'', ''main'']) = Some (run_reference RegistryReferencePin CHR ''f'')"
  using run_ready_put [OF run_claimed_ready, of "[''protected'', ''deleting'', ''planned'', ''planned'']"]
  unfolding run_pinned_def run_authorized snd_conv
  by (simp_all add: PutRegistryPin_def Let_def run_reference_def run_ready_def put_plan_def duration_defs)

theorem record_absorbs_protection_witness:
  "\<exists>s item. RecordRegistryCleanupItemResult run_dj ''p1'' 1 ''w'' run_result run_pinned = (Inr (), s) \<and>
     map_of (rs_pins s) (registryScopeKey [''t1'', ''svc'', ''main'']) = Some (run_reference RegistryReferencePin CHR ''f'') \<and>
     fst (AuthorizeRegistryCleanupItem run_dj ''p1'' 2 ''w'' (4 * hour) s) = Inr item \<and> item_Digest item = run_digest CHR ''f''"
proof -
  let ?states = "[''protected'', ''deleting'', ''planned'', ''planned'']" and ?states' = "[''protected'', ''deleted'', ''planned'', ''planned'']"
  obtain s where rec: "RecordRegistryCleanupItemResult run_dj ''p1'' 1 ''w'' run_result run_pinned = (Inr (), s)"
    and ready: "run_ready ?states' s" and pins: "rs_pins s = rs_pins run_pinned"
    using run_record_step [OF run_pinned_ready(1), of 1] by auto
  let ?item = "plan_Items (run_exec ?states') ! 2"
  have "fst (AuthorizeRegistryCleanupItem run_dj ''p1'' 2 ''w'' (4 * hour) s) = Inr (?item\<lparr>item_State := ''deleting''\<rparr>)"
  proof (rule record_absorbs_protection [OF _ _ _ rec])
    show "map_of (rs_plans run_pinned) ''p1'' = Some (run_exec ?states)" "map_of (rs_plans s) ''p1'' = Some (run_exec ?states')"
      using run_pinned_ready(1) ready by (simp_all add: run_ready_def)
    show "cleanupItemIndex (run_exec ?states) 1 = Some 1" "cleanupItemIndex (run_exec ?states') 2 = Some 2"
      by (simp_all add: run_exec_index del: One_nat_def)
    show "item_State (plan_Items (run_exec ?states) ! 1) = ''deleting''" "item_State ?item = ''planned''"
      by (simp_all add: run_exec_nth)
    show "item_Disposition ?item = RegistryCleanupDelete" "item_ResourceKind ?item \<noteq> ''blob''"
      using run_preview_items(7,9) [of 2] by (auto simp: run_exec_nth)
    show "itemLeaseHeldLocked (run_exec ?states') 2 ''w'' (4 * hour) s"
      by (rule run_held [OF ready]) simp_all
  qed
  moreover have "item_Digest (?item\<lparr>item_State := ''deleting''\<rparr>) = run_digest CHR ''f''"
    by (simp add: run_exec_nth run_state_def) (simp add: run_preview_def run_item_def)
  ultimately show ?thesis using rec pins run_pinned_ready(2) by metis
qed

end
