(* ===== verification/Workload.thy ===== *)
theory Workload
  imports Go_Text
begin

text \<open>
  The workload runtime of \<open>internal/domain/workload.go\<close>: its data, the defaults a request
  receives and the validation of every field.  The Go functions report through a callback
  \<open>add\<close> that appends to one slice; here each returns the problems it adds, in order, and
  the callers concatenate.  A pointer is an \<open>option\<close>; \<open>Command\<close> and \<open>Args\<close> are optional as
  well, since a nil slice and an empty one are treated differently.  A parsed quantity
  \<open>(value, ok)\<close> is \<open>Some value\<close> or \<open>None\<close>.
\<close>

section \<open>Data\<close>

record workload_strategy =
  strat_Type :: string

record workload_port =
  port_Name :: string
  port_ContainerPort :: int
  port_ServicePort :: int
  port_Protocol :: string

record secret_binding_ref =
  sref_BindingID :: string
  sref_Name :: string
  sref_Key :: string
  sref_Version :: int

record workload_env_value_from =
  from_SecretBindingRef :: secret_binding_ref

record workload_env =
  env_Name :: string
  env_Value :: "string option"
  env_ValueFrom :: "workload_env_value_from option"

record resource_list =
  rl_CPU :: string
  rl_Memory :: string

record workload_resources =
  res_Requests :: resource_list
  res_Limits :: "resource_list option"

record selector_requirement =
  expr_Key :: string
  expr_Operator :: string
  expr_Values :: "string list"

record node_selector_term =
  term_MatchExpressions :: "selector_requirement list"

record node_selector =
  ns_NodeSelectorTerms :: "node_selector_term list"

record preferred_scheduling_term =
  pst_Weight :: int
  pst_Preference :: node_selector_term

record node_affinity =
  na_Required :: "node_selector option"
  na_Preferred :: "preferred_scheduling_term list"

record label_selector =
  sel_MatchLabels :: "(string, string) gomap"
  sel_MatchExpressions :: "selector_requirement list"

record pod_affinity_term =
  pat_LabelSelector :: label_selector
  pat_TopologyKey :: string

record weighted_pod_affinity_term =
  wpat_Weight :: int
  wpat_PodAffinityTerm :: pod_affinity_term

record pod_affinity =
  pa_Required :: "pod_affinity_term list"
  pa_Preferred :: "weighted_pod_affinity_term list"

record workload_affinity =
  aff_NodeAffinity :: "node_affinity option"
  aff_PodAffinity :: "pod_affinity option"
  aff_PodAntiAffinity :: "pod_affinity option"

record topology_spread_constraint =
  tsc_MaxSkew :: int
  tsc_TopologyKey :: string
  tsc_WhenUnsatisfiable :: string
  tsc_LabelSelector :: label_selector
  tsc_MinDomains :: "int option"
  tsc_NodeAffinityPolicy :: string
  tsc_NodeTaintsPolicy :: string

record workload_toleration =
  tol_Key :: string
  tol_Operator :: string
  tol_Value :: string
  tol_Effect :: string
  tol_TolerationSeconds :: "int option"

record workload_probe_port =
  pp_Name :: string
  pp_Number :: int

record workload_http_get_action =
  http_Path :: string
  http_Port :: workload_probe_port
  http_Scheme :: string

record workload_tcp_socket_action =
  tcp_Port :: workload_probe_port

record workload_exec_action =
  exec_Command :: "string list"

record workload_probe =
  probe_HTTPGet :: "workload_http_get_action option"
  probe_TCPSocket :: "workload_tcp_socket_action option"
  probe_Exec :: "workload_exec_action option"
  probe_InitialDelaySeconds :: "int option"
  probe_PeriodSeconds :: "int option"
  probe_TimeoutSeconds :: "int option"
  probe_SuccessThreshold :: "int option"
  probe_FailureThreshold :: "int option"

record workload_probes =
  probes_Startup :: "workload_probe option"
  probes_Readiness :: "workload_probe option"
  probes_Liveness :: "workload_probe option"

record workload_runtime =
  rt_WorkloadType :: string
  rt_Replicas :: int
  rt_Strategy :: workload_strategy
  rt_Command :: "string list option"
  rt_Args :: "string list option"
  rt_WorkingDirectory :: string
  rt_PodManagementPolicy :: string
  rt_TerminationGracePeriodSeconds :: "int option"
  rt_Ports :: "workload_port list"
  rt_Env :: "workload_env list"
  rt_Resources :: workload_resources
  rt_NodeSelector :: "(string, string) gomap"
  rt_Affinity :: "workload_affinity option"
  rt_TopologySpreadConstraints :: "topology_spread_constraint list"
  rt_Tolerations :: "workload_toleration list"
  rt_PriorityClassName :: string
  rt_Probes :: "workload_probes option"

record workload_validation_error =
  err_Pointer :: string
  err_Code :: string
  err_Detail :: string

definition DefaultCPURequest :: string where "DefaultCPURequest = ''50m''"
definition DefaultMemoryRequest :: string where "DefaultMemoryRequest = ''100Mi''"

section \<open>Patterns and labels\<close>

definition is_lower_alnum :: "char \<Rightarrow> bool" where
  "is_lower_alnum c \<longleftrightarrow> is_lower c \<or> is_digit c"

text \<open>\<open>^[a-z](?:[-a-z0-9]*[a-z0-9])?$\<close>\<close>

definition portNamePattern :: "string \<Rightarrow> bool" where
  "portNamePattern s \<longleftrightarrow> s \<noteq> [] \<and> is_lower (hd s) \<and> is_lower_alnum (last s) \<and>
     list_all (\<lambda>c. is_lower_alnum c \<or> c = CHR ''-'') s"

text \<open>\<open>^[A-Za-z_][A-Za-z0-9_]*$\<close>\<close>

definition envNamePattern :: "string \<Rightarrow> bool" where
  "envNamePattern s \<longleftrightarrow> s \<noteq> [] \<and> \<not> is_digit (hd s) \<and> list_all (\<lambda>c. is_alnum c \<or> c = CHR ''_'') s"

text \<open>\<open>^[A-Za-z0-9._-]+$\<close>\<close>

definition secretPartPattern :: "string \<Rightarrow> bool" where
  "secretPartPattern s \<longleftrightarrow> s \<noteq> [] \<and> list_all (\<lambda>c. is_alnum c \<or> c \<in> set ''._-'') s"

text \<open>\<open>^[0-9a-f]{8}-[0-9a-f]{4}-[1-8][0-9a-f]{3}-[89ab][0-9a-f]{3}-[0-9a-f]{12}$\<close>\<close>

definition uuidPattern :: "string \<Rightarrow> bool" where
  "uuidPattern s \<longleftrightarrow>
     (case split_on CHR ''-'' s of
        [a, b, c, d, e] \<Rightarrow>
          length a = 8 \<and> length b = 4 \<and> length c = 4 \<and> length d = 4 \<and> length e = 12 \<and>
          list_all is_hex (a @ b @ c @ d @ e) \<and> in_range CHR ''1'' CHR ''8'' (c ! 0) \<and> d ! 0 \<in> set ''89ab''
      | _ \<Rightarrow> False)"

text \<open>\<open>^[A-Za-z0-9](?:[-_.A-Za-z0-9]*[A-Za-z0-9])?$\<close>\<close>

definition labelNamePattern :: "string \<Rightarrow> bool" where
  "labelNamePattern s \<longleftrightarrow> s \<noteq> [] \<and> is_alnum (hd s) \<and> is_alnum (last s) \<and>
     list_all (\<lambda>c. is_alnum c \<or> c \<in> set ''-_.'') s"

text \<open>\<open>^[a-z0-9](?:[-a-z0-9]*[a-z0-9])?$\<close>\<close>

definition dnsLabelPattern :: "string \<Rightarrow> bool" where
  "dnsLabelPattern s \<longleftrightarrow> s \<noteq> [] \<and> is_lower_alnum (hd s) \<and> is_lower_alnum (last s) \<and>
     list_all (\<lambda>c. is_lower_alnum c \<or> c = CHR ''-'') s"

definition validDNSLabel :: "string \<Rightarrow> bool" where
  "validDNSLabel value \<longleftrightarrow> 0 < length value \<and> length value \<le> 63 \<and> dnsLabelPattern value"

definition SecretBindingRef_Valid :: "secret_binding_ref \<Rightarrow> bool" where
  "SecretBindingRef_Valid r \<longleftrightarrow>
     uuidPattern (sref_BindingID r) \<and> validDNSLabel (sref_Name r) \<and> length (sref_Key r) \<le> 253 \<and>
     secretPartPattern (sref_Key r) \<and> sref_Version r > 0"

definition validLabelKey :: "string \<Rightarrow> bool" where
  "validLabelKey value =
     (if value = [] \<or> length value > 253 then False
      else
        let parts = split_on CHR ''/'' value in
        if length parts > 2 \<or> length (last parts) > 63 \<or> \<not> labelNamePattern (last parts) then False
        else if length parts = 1 then True
        else
          let prefix = hd parts in
          if length prefix > 253 then False
          else list_all (\<lambda>label. \<not> (label = [] \<or> length label > 63 \<or> \<not> dnsLabelPattern label))
                 (split_on CHR ''.'' prefix))"

definition reservedSchedulingKey :: "string \<Rightarrow> bool" where
  "reservedSchedulingKey key \<longleftrightarrow>
     key = ''node-role.kubernetes.io/control-plane'' \<or> key = ''node-role.kubernetes.io/master'' \<or>
     has_prefix key ''kuberploy.io/''"

section \<open>Quantities\<close>

definition cpuMilli :: "string \<Rightarrow> int option" where
  "cpuMilli value =
     (if has_suffix value ''m'' then
        case atoi (take (length value - 1) value) of
          None \<Rightarrow> None
        | Some milli \<Rightarrow> if milli > 0 \<and> milli \<le> 1000000 then Some milli else None
      else
        let parts = split_on CHR ''.'' value in
        if length parts > 2 \<or> parts ! 0 = [] \<or> length (parts ! 0) > 4 then None
        else
          case atoi (parts ! 0) of
            None \<Rightarrow> None
          | Some whole \<Rightarrow>
              if whole < 0 then None
              else
                case (if length parts = 2 then
                        (if length (parts ! 1) < 1 \<or> length (parts ! 1) > 3 then None
                         else atoi (parts ! 1 @ replicate (3 - length (parts ! 1)) CHR ''0''))
                      else Some 0) of
                  None \<Rightarrow> None
                | Some fraction \<Rightarrow>
                    let milli = i64 (i64 (whole * 1000) + fraction) in
                    if milli > 0 \<and> milli \<le> 1000000 then Some milli else None)"

definition memory_units :: "(string, int) gomap" where
  "memory_units = [(''Ki'', 2 ^ 10), (''Mi'', 2 ^ 20), (''Gi'', 2 ^ 30), (''Ti'', 2 ^ 40)]"

definition memory_amount :: "string \<Rightarrow> int \<Rightarrow> int option" where
  "memory_amount number multiplier =
     (if number = [] \<or> length number > 12 \<or> has_prefix number ''0'' then None
      else
        case atoi number of
          None \<Rightarrow> None
        | Some amount \<Rightarrow>
            if amount \<le> 0 \<or> amount > (64 * 2 ^ 40) div multiplier then None
            else Some (i64 (amount * multiplier)))"

fun memory_loop :: "string \<Rightarrow> (string, int) gomap \<Rightarrow> int option" where
  "memory_loop value [] = None"
| "memory_loop value ((suffix, multiplier) # units) =
     (if \<not> has_suffix value suffix then memory_loop value units
      else memory_amount (take (length value - length suffix) value) multiplier)"

definition memoryBytes :: "string \<Rightarrow> int option" where
  "memoryBytes value = memory_loop value memory_units"

section \<open>Defaults\<close>

definition DefaultWorkloadRuntime :: "int \<Rightarrow> (string, string) gomap \<Rightarrow> workload_runtime" where
  "DefaultWorkloadRuntime port ordinary =
     \<lparr>rt_WorkloadType = ''Deployment'', rt_Replicas = 1, rt_Strategy = \<lparr>strat_Type = ''RollingUpdate''\<rparr>,
      rt_Command = None, rt_Args = None, rt_WorkingDirectory = [], rt_PodManagementPolicy = [],
      rt_TerminationGracePeriodSeconds = None,
      rt_Ports = [\<lparr>port_Name = ''http'', port_ContainerPort = port, port_ServicePort = 0, port_Protocol = []\<rparr>],
      rt_Env = map (\<lambda>key. \<lparr>env_Name = key, env_Value = Some (get_or [] ordinary key), env_ValueFrom = None\<rparr>)
                 (sort (map fst ordinary)),
      rt_Resources = \<lparr>res_Requests = \<lparr>rl_CPU = DefaultCPURequest, rl_Memory = DefaultMemoryRequest\<rparr>, res_Limits = None\<rparr>,
      rt_NodeSelector = [], rt_Affinity = None, rt_TopologySpreadConstraints = [], rt_Tolerations = [],
      rt_PriorityClassName = [], rt_Probes = None\<rparr>"

definition default_text :: "string \<Rightarrow> string \<Rightarrow> string" where
  "default_text d s = (if s = [] then d else s)"

definition NormalizeWorkloadRuntime :: "workload_runtime \<Rightarrow> workload_runtime" where
  "NormalizeWorkloadRuntime rt =
     (let wt = default_text ''Deployment'' (rt_WorkloadType rt) in
      rt\<lparr>rt_WorkloadType := wt,
         rt_Replicas := (if rt_Replicas rt = 0 then 1 else rt_Replicas rt),
         rt_Strategy := \<lparr>strat_Type = default_text ''RollingUpdate'' (strat_Type (rt_Strategy rt))\<rparr>,
         rt_PodManagementPolicy :=
           (if wt = ''StatefulSet'' \<and> rt_PodManagementPolicy rt = [] then ''OrderedReady''
            else rt_PodManagementPolicy rt),
         rt_Resources := (rt_Resources rt)\<lparr>res_Requests :=
           \<lparr>rl_CPU = default_text DefaultCPURequest (rl_CPU (res_Requests (rt_Resources rt))),
            rl_Memory = default_text DefaultMemoryRequest (rl_Memory (res_Requests (rt_Resources rt)))\<rparr>\<rparr>,
         rt_Ports := map (\<lambda>p. p\<lparr>port_Protocol := default_text ''TCP'' (port_Protocol p)\<rparr>) (rt_Ports rt),
         rt_Env := map (\<lambda>v. v\<lparr>env_Name := trim_space (env_Name v)\<rparr>) (rt_Env rt)\<rparr>)"

definition RuntimeForCreateDeployment ::
  "workload_runtime \<Rightarrow> int \<Rightarrow> int \<Rightarrow> (string, string) gomap \<Rightarrow> workload_runtime" where
  "RuntimeForCreateDeployment in_Runtime in_Replicas in_Port in_Environment =
     NormalizeWorkloadRuntime
       (if rt_Ports in_Runtime = [] then
          (DefaultWorkloadRuntime in_Port in_Environment)\<lparr>rt_Replicas := in_Replicas\<rparr>
        else in_Runtime)"

definition LegacyWorkloadFields :: "workload_runtime \<Rightarrow> int \<times> int \<times> (string, string) gomap" where
  "LegacyWorkloadFields rt =
     (rt_Replicas rt,
      (case rt_Ports rt of p # _ \<Rightarrow> port_ContainerPort p | [] \<Rightarrow> 0),
      foldl (\<lambda>ordinary v. case env_Value v of Some x \<Rightarrow> AList.update (env_Name v) x ordinary | None \<Rightarrow> ordinary)
        [] (rt_Env rt))"

end
