(* ===== verification/Workload_Validate.thy ===== *)
theory Workload_Validate
  imports Workload
begin

text \<open>
  \<open>ValidateWorkloadRuntime\<close>, \<open>ValidateApplicationScheduling\<close> and their helpers of
  \<open>internal/domain/workload.go\<close>.  A loop over a slice visits it with its index; the loops
  that remember the names they have seen carry them as a list.
\<close>

type_synonym problems = "workload_validation_error list"

definition add_if :: "bool \<Rightarrow> string \<Rightarrow> string \<Rightarrow> string \<Rightarrow> problems" where
  "add_if b pointer code detail =
     (if b then [\<lparr>err_Pointer = pointer, err_Code = code, err_Detail = detail\<rparr>] else [])"

definition each :: "(nat \<Rightarrow> 'a \<Rightarrow> problems) \<Rightarrow> 'a list \<Rightarrow> problems" where
  "each f xs = concat (map (\<lambda>(i, x). f i x) (enumerate 0 xs))"

definition at_index :: "string \<Rightarrow> nat \<Rightarrow> string" where
  "at_index pointer index = pointer @ ''/'' @ itoa index"

section \<open>Commands and probes\<close>

definition bad_argument :: "string \<Rightarrow> bool" where
  "bad_argument value \<longleftrightarrow> value = [] \<or> length value > 4096 \<or> \<not> utf8_valid value \<or> CHR 0x00 \<in> set value"

definition slice :: "'a list option \<Rightarrow> 'a list" where
  "slice values = (case values of None \<Rightarrow> [] | Some vs \<Rightarrow> vs)"

definition total_bytes :: "string list \<Rightarrow> nat" where
  "total_bytes values = sum_list (map length values)"

definition validateRuntimeCommandVector :: "string list option \<Rightarrow> nat \<Rightarrow> string \<Rightarrow> problems \<times> nat" where
  "validateRuntimeCommandVector values maximum pointer =
     (add_if (values \<noteq> None \<and> (length (slice values) < 1 \<or> length (slice values) > maximum)) pointer ''OutOfRange''
        (''configure between 1 and '' @ itoa maximum @ '' entries or omit the field'') @
      each (\<lambda>index value.
        add_if (bad_argument value) (at_index pointer index) ''InvalidCommandArgument''
          ''command entries must be valid UTF-8, non-empty, NUL-free, and at most 4096 bytes'') (slice values),
      total_bytes (slice values))"

definition port_matches :: "workload_probe_port \<Rightarrow> workload_port \<Rightarrow> bool" where
  "port_matches port candidate \<longleftrightarrow>
     port_Protocol candidate = ''TCP'' \<and>
     (pp_Name port \<noteq> [] \<and> pp_Number port = 0 \<and> port_Name candidate = pp_Name port \<or>
      pp_Name port = [] \<and> pp_Number port \<ge> 1 \<and> pp_Number port \<le> 65535 \<and> port_ContainerPort candidate = pp_Number port)"

definition validateProbePort :: "workload_runtime \<Rightarrow> workload_probe_port \<Rightarrow> string \<Rightarrow> problems" where
  "validateProbePort rt port pointer =
     add_if (\<not> list_ex (port_matches port) (rt_Ports rt)) pointer ''InvalidProbePort''
       ''probe port must reference a configured TCP container port by name or number''"

definition validateProbeSeconds :: "int option \<Rightarrow> int \<Rightarrow> int \<Rightarrow> string \<Rightarrow> problems" where
  "validateProbeSeconds value minimum maximum pointer =
     (case value of
        None \<Rightarrow> []
      | Some v \<Rightarrow> add_if (v < minimum \<or> v > maximum) pointer ''OutOfRange''
                    (''value must be between '' @ itoa (nat minimum) @ '' and '' @ itoa (nat maximum)))"

definition validate_http_get :: "workload_runtime \<Rightarrow> string \<Rightarrow> workload_http_get_action \<Rightarrow> problems" where
  "validate_http_get rt pointer action =
     add_if (http_Path action = [] \<or> length (http_Path action) > 2048 \<or> \<not> has_prefix (http_Path action) ''/'' \<or>
             list_ex (\<lambda>(r, _). r < 32) (runes (http_Path action)))
       (pointer @ ''/httpGet/path'') ''InvalidProbePath''
       ''HTTP probe path must begin with /, contain no control characters, and be at most 2048 bytes'' @
     add_if (http_Scheme action \<noteq> [] \<and> http_Scheme action \<noteq> ''HTTP'' \<and> http_Scheme action \<noteq> ''HTTPS'')
       (pointer @ ''/httpGet/scheme'') ''InvalidValue'' ''HTTP probe scheme must be HTTP or HTTPS'' @
     validateProbePort rt (http_Port action) (pointer @ ''/httpGet/port'')"

definition validate_exec :: "string \<Rightarrow> workload_exec_action \<Rightarrow> problems" where
  "validate_exec pointer action =
     (let command = exec_Command action in
      add_if (length command < 1 \<or> length command > 32) (pointer @ ''/exec/command'') ''OutOfRange''
        ''exec probe command must contain between 1 and 32 arguments'' @
      each (\<lambda>index argument.
        add_if (bad_argument argument) (at_index (pointer @ ''/exec/command'') index) ''InvalidCommandArgument''
          ''exec probe arguments must be valid UTF-8, non-empty, NUL-free, and at most 4096 bytes'') command @
      add_if (total_bytes command > 16384) (pointer @ ''/exec/command'') ''TooLong''
        ''exec probe command is limited to 16384 bytes'')"

definition on_some :: "('a \<Rightarrow> problems) \<Rightarrow> 'a option \<Rightarrow> problems" where
  "on_some f x = (case x of None \<Rightarrow> [] | Some v \<Rightarrow> f v)"

definition probe_actions :: "workload_probe \<Rightarrow> nat" where
  "probe_actions probe =
     of_bool (probe_HTTPGet probe \<noteq> None) + of_bool (probe_TCPSocket probe \<noteq> None) + of_bool (probe_Exec probe \<noteq> None)"

definition validateProbe :: "workload_runtime \<Rightarrow> string \<Rightarrow> workload_probe \<Rightarrow> problems" where
  "validateProbe rt phase probe =
     (let pointer = ''/runtime/probes/'' @ phase in
      on_some (validate_http_get rt pointer) (probe_HTTPGet probe) @
      on_some (\<lambda>action. validateProbePort rt (tcp_Port action) (pointer @ ''/tcpSocket/port'')) (probe_TCPSocket probe) @
      on_some (validate_exec pointer) (probe_Exec probe) @
      add_if (probe_actions probe \<noteq> 1) pointer ''ExactlyOneRequired'' ''set exactly one of httpGet, tcpSocket, or exec'' @
      validateProbeSeconds (probe_InitialDelaySeconds probe) 0 3600 (pointer @ ''/initialDelaySeconds'') @
      validateProbeSeconds (probe_PeriodSeconds probe) 1 300 (pointer @ ''/periodSeconds'') @
      validateProbeSeconds (probe_TimeoutSeconds probe) 1 300 (pointer @ ''/timeoutSeconds'') @
      validateProbeSeconds (probe_SuccessThreshold probe) 1 100 (pointer @ ''/successThreshold'') @
      validateProbeSeconds (probe_FailureThreshold probe) 1 100 (pointer @ ''/failureThreshold'') @
      on_some (\<lambda>threshold. add_if (phase \<noteq> ''readiness'' \<and> threshold \<noteq> 1) (pointer @ ''/successThreshold'')
        ''InvalidValue'' ''startup and liveness probe successThreshold must be 1'') (probe_SuccessThreshold probe))"

definition validateProbes :: "workload_runtime \<Rightarrow> problems" where
  "validateProbes rt =
     on_some (\<lambda>probes.
       on_some (validateProbe rt ''startup'') (probes_Startup probes) @
       on_some (validateProbe rt ''readiness'') (probes_Readiness probes) @
       on_some (validateProbe rt ''liveness'') (probes_Liveness probes) @
       add_if (probes_Startup probes = None \<and> probes_Readiness probes = None \<and> probes_Liveness probes = None)
         ''/runtime/probes'' ''Required'' ''configure at least one startup, readiness, or liveness probe'')
       (rt_Probes rt)"

section \<open>Selectors and affinity\<close>

definition bad_label_value :: "string \<Rightarrow> bool" where
  "bad_label_value value \<longleftrightarrow> length value > 63 \<or> (value \<noteq> [] \<and> \<not> labelNamePattern value)"

definition validateNodeSelector :: "(string, string) gomap \<Rightarrow> string \<Rightarrow> problems" where
  "validateNodeSelector selector pointer =
     add_if (length selector > 32) pointer ''OutOfRange'' ''at most 32 selector entries are allowed'' @
     concat (map (\<lambda>(key, value).
       add_if (\<not> validLabelKey key) (pointer @ ''/'' @ key) ''InvalidLabelKey'' ''selector key must be a Kubernetes label key'' @
       add_if (has_prefix pointer ''/runtime/nodeSelector'' \<and> reservedSchedulingKey key) (pointer @ ''/'' @ key)
         ''ReservedSchedulingKey'' ''system, control-plane, and builder node labels are not available to application scheduling'' @
       add_if (bad_label_value value) (pointer @ ''/'' @ key) ''InvalidLabelValue'' ''selector value must be a Kubernetes label value'')
       selector)"

definition validate_label_expression :: "string \<Rightarrow> selector_requirement \<Rightarrow> problems" where
  "validate_label_expression path expression =
     (let needsValues = expr_Operator expression \<in> {''In'', ''NotIn''};
          n = length (expr_Values expression) in
      add_if (\<not> validLabelKey (expr_Key expression)) (path @ ''/key'') ''InvalidLabelKey'' ''key must be a Kubernetes label key'' @
      add_if (\<not> needsValues \<and> expr_Operator expression \<noteq> ''Exists'' \<and> expr_Operator expression \<noteq> ''DoesNotExist'')
        (path @ ''/operator'') ''InvalidValue'' ''use In, NotIn, Exists, or DoesNotExist'' @
      add_if (needsValues \<and> (n < 1 \<or> n > 32) \<or> \<not> needsValues \<and> n > 0)
        (path @ ''/values'') ''InvalidValue'' ''values must match the selected operator'' @
      each (\<lambda>valueIndex value. add_if (bad_label_value value) (at_index (path @ ''/values'') valueIndex)
        ''InvalidLabelValue'' ''selector values must be Kubernetes label values'') (expr_Values expression))"

definition validateLabelSelector :: "label_selector \<Rightarrow> string \<Rightarrow> problems" where
  "validateLabelSelector selector pointer =
     add_if (sel_MatchLabels selector = [] \<and> sel_MatchExpressions selector = []) pointer ''Required''
       ''an explicit label selector is required'' @
     add_if (length (sel_MatchLabels selector) > 32 \<or> length (sel_MatchExpressions selector) > 32) pointer ''OutOfRange''
       ''a label selector supports at most 32 labels and 32 expressions'' @
     validateNodeSelector (sel_MatchLabels selector) (pointer @ ''/matchLabels'') @
     each (\<lambda>index. validate_label_expression (at_index (pointer @ ''/matchExpressions'') index)) (sel_MatchExpressions selector)"

definition validatePodAffinityTerm :: "pod_affinity_term \<Rightarrow> string \<Rightarrow> problems" where
  "validatePodAffinityTerm t pointer =
     add_if (\<not> validLabelKey (pat_TopologyKey t)) (pointer @ ''/topologyKey'') ''InvalidLabelKey''
       ''topologyKey must be a Kubernetes label key'' @
     add_if (reservedSchedulingKey (pat_TopologyKey t)) (pointer @ ''/topologyKey'') ''ReservedSchedulingKey''
       ''system and builder placement labels are not available to application scheduling'' @
     validateLabelSelector (pat_LabelSelector t) (pointer @ ''/labelSelector'')"

definition bad_weight :: "int \<Rightarrow> bool" where
  "bad_weight w \<longleftrightarrow> w < 1 \<or> w > 100"

definition required_path :: string where "required_path = ''/requiredDuringSchedulingIgnoredDuringExecution''"
definition preferred_path :: string where "preferred_path = ''/preferredDuringSchedulingIgnoredDuringExecution''"

definition validatePodAffinity :: "pod_affinity option \<Rightarrow> string \<Rightarrow> problems" where
  "validatePodAffinity affinity pointer =
     on_some (\<lambda>a.
       add_if (pa_Required a = [] \<and> pa_Preferred a = []) pointer ''Required''
         ''pod affinity must configure a required or preferred term'' @
       add_if (length (pa_Required a) > 16 \<or> length (pa_Preferred a) > 16) pointer ''OutOfRange''
         ''at most 16 required and 16 preferred pod affinity terms are allowed'' @
       each (\<lambda>index t. validatePodAffinityTerm t (at_index (pointer @ required_path) index)) (pa_Required a) @
       each (\<lambda>index t.
         let path = at_index (pointer @ preferred_path) index in
         add_if (bad_weight (wpat_Weight t)) (path @ ''/weight'') ''OutOfRange'' ''weight must be between 1 and 100'' @
         validatePodAffinityTerm (wpat_PodAffinityTerm t) (path @ ''/podAffinityTerm'')) (pa_Preferred a))
       affinity"

definition validate_node_value :: "string \<Rightarrow> string \<Rightarrow> nat \<Rightarrow> string \<Rightarrow> problems" where
  "validate_node_value operator path valueIndex value =
     add_if (length value > 63 \<or> \<not> labelNamePattern value) (at_index (path @ ''/values'') valueIndex)
       ''InvalidLabelValue'' ''selector values must be Kubernetes label values'' @
     add_if ((operator = ''Gt'' \<or> operator = ''Lt'') \<and> atoi value = None) (at_index (path @ ''/values'') valueIndex)
       ''InvalidInteger'' ''Gt and Lt values must be integers''"

definition validate_node_expression :: "string \<Rightarrow> selector_requirement \<Rightarrow> problems" where
  "validate_node_expression path expression =
     (let operator = expr_Operator expression; n = length (expr_Values expression);
          needsValues = operator \<in> {''In'', ''NotIn'', ''Gt'', ''Lt''} in
      add_if (\<not> validLabelKey (expr_Key expression)) (path @ ''/key'') ''InvalidLabelKey'' ''key must be a Kubernetes label key'' @
      add_if (reservedSchedulingKey (expr_Key expression)) (path @ ''/key'') ''ReservedSchedulingKey''
        ''system, control-plane, and builder node labels are not available to application scheduling'' @
      add_if (operator \<notin> {''In'', ''NotIn'', ''Exists'', ''DoesNotExist'', ''Gt'', ''Lt''}) (path @ ''/operator'')
        ''InvalidValue'' ''unsupported node selector operator'' @
      add_if (needsValues \<and> (n < 1 \<or> n > 32) \<or> \<not> needsValues \<and> n > 0) (path @ ''/values'') ''InvalidValue''
        ''values must match the selected operator'' @
      add_if ((operator = ''Gt'' \<or> operator = ''Lt'') \<and> n \<noteq> 1) (path @ ''/values'') ''InvalidValue''
        ''Gt and Lt require exactly one integer value'' @
      each (validate_node_value operator path) (expr_Values expression))"

definition validateNodeTerm :: "node_selector_term \<Rightarrow> string \<Rightarrow> problems" where
  "validateNodeTerm t pointer =
     add_if (length (term_MatchExpressions t) < 1 \<or> length (term_MatchExpressions t) > 32) (pointer @ ''/matchExpressions'')
       ''OutOfRange'' ''configure between 1 and 32 match expressions'' @
     each (\<lambda>index. validate_node_expression (at_index (pointer @ ''/matchExpressions'') index)) (term_MatchExpressions t)"

definition validate_node_affinity :: "node_affinity \<Rightarrow> problems" where
  "validate_node_affinity node =
     (let base = ''/runtime/affinity/nodeAffinity'' in
      add_if (na_Required node = None \<and> na_Preferred node = []) base ''Required''
        ''nodeAffinity must configure a required or preferred term'' @
      on_some (\<lambda>required.
        let terms = ns_NodeSelectorTerms required; path = base @ required_path @ ''/nodeSelectorTerms'' in
        add_if (length terms < 1 \<or> length terms > 16) path ''OutOfRange''
          ''configure between 1 and 16 required node selector terms'' @
        each (\<lambda>index t. validateNodeTerm t (at_index path index)) terms) (na_Required node) @
      add_if (length (na_Preferred node) > 16) (base @ preferred_path) ''OutOfRange''
        ''at most 16 preferred node selector terms are allowed'' @
      each (\<lambda>index t.
        let pointer = at_index (base @ preferred_path) index in
        add_if (bad_weight (pst_Weight t)) (pointer @ ''/weight'') ''OutOfRange'' ''weight must be between 1 and 100'' @
        validateNodeTerm (pst_Preference t) (pointer @ ''/preference'')) (na_Preferred node))"

definition validateAffinity :: "workload_affinity \<Rightarrow> problems" where
  "validateAffinity affinity =
     add_if (aff_NodeAffinity affinity = None \<and> aff_PodAffinity affinity = None \<and> aff_PodAntiAffinity affinity = None)
       ''/runtime/affinity'' ''Required'' ''affinity must configure node, pod, or pod anti-affinity'' @
     on_some validate_node_affinity (aff_NodeAffinity affinity) @
     validatePodAffinity (aff_PodAffinity affinity) ''/runtime/affinity/podAffinity'' @
     validatePodAffinity (aff_PodAntiAffinity affinity) ''/runtime/affinity/podAntiAffinity''"

section \<open>Topology and tolerations\<close>

definition bad_policy :: "string \<Rightarrow> bool" where
  "bad_policy value \<longleftrightarrow> value \<noteq> [] \<and> value \<noteq> ''Honor'' \<and> value \<noteq> ''Ignore''"

definition validate_constraint :: "nat \<Rightarrow> topology_spread_constraint \<Rightarrow> problems" where
  "validate_constraint index constraint =
     (let pointer = at_index ''/runtime/topologySpreadConstraints'' index in
      add_if (tsc_MaxSkew constraint < 1 \<or> tsc_MaxSkew constraint > 100) (pointer @ ''/maxSkew'') ''OutOfRange''
        ''maxSkew must be between 1 and 100'' @
      add_if (\<not> validLabelKey (tsc_TopologyKey constraint)) (pointer @ ''/topologyKey'') ''InvalidLabelKey''
        ''topologyKey must be a Kubernetes label key'' @
      add_if (reservedSchedulingKey (tsc_TopologyKey constraint)) (pointer @ ''/topologyKey'') ''ReservedSchedulingKey''
        ''system and builder placement labels are not available to application scheduling'' @
      add_if (tsc_WhenUnsatisfiable constraint \<noteq> ''DoNotSchedule'' \<and> tsc_WhenUnsatisfiable constraint \<noteq> ''ScheduleAnyway'')
        (pointer @ ''/whenUnsatisfiable'') ''InvalidValue'' ''use DoNotSchedule or ScheduleAnyway'' @
      validateLabelSelector (tsc_LabelSelector constraint) (pointer @ ''/labelSelector'') @
      on_some (\<lambda>domains.
        if tsc_WhenUnsatisfiable constraint \<noteq> ''DoNotSchedule'' then
          add_if True (pointer @ ''/minDomains'') ''InvalidValue''
            ''minDomains is supported only when whenUnsatisfiable is DoNotSchedule''
        else add_if (domains < 1 \<or> domains > 1000) (pointer @ ''/minDomains'') ''OutOfRange''
            ''minDomains must be between 1 and 1000'') (tsc_MinDomains constraint) @
      add_if (bad_policy (tsc_NodeAffinityPolicy constraint)) (pointer @ ''/nodeAffinityPolicy'') ''InvalidValue'' ''use Honor or Ignore'' @
      add_if (bad_policy (tsc_NodeTaintsPolicy constraint)) (pointer @ ''/nodeTaintsPolicy'') ''InvalidValue'' ''use Honor or Ignore'')"

definition validate_toleration :: "nat \<Rightarrow> workload_toleration \<Rightarrow> problems" where
  "validate_toleration index toleration =
     (let pointer = at_index ''/runtime/tolerations'' index in
      add_if (\<not> validLabelKey (tol_Key toleration)) (pointer @ ''/key'') ''InvalidLabelKey''
        ''a specific taint key is required; broad all-taint tolerations are not allowed'' @
      add_if (reservedSchedulingKey (tol_Key toleration)) (pointer @ ''/key'') ''ReservedSchedulingKey''
        ''system, control-plane, and builder taints cannot be tolerated by a service'' @
      add_if (tol_Operator toleration \<noteq> ''Equal'' \<and> tol_Operator toleration \<noteq> ''Exists'') (pointer @ ''/operator'')
        ''InvalidValue'' ''operator must be Equal or Exists'' @
      add_if (tol_Operator toleration = ''Exists'' \<and> tol_Value toleration \<noteq> []) (pointer @ ''/value'') ''Forbidden''
        ''Exists tolerations must not set a value'' @
      add_if (bad_label_value (tol_Value toleration)) (pointer @ ''/value'') ''InvalidLabelValue''
        ''toleration value must be a Kubernetes label value'' @
      add_if (tol_Effect toleration \<noteq> ''NoSchedule'' \<and> tol_Effect toleration \<noteq> ''PreferNoSchedule'' \<and>
              tol_Effect toleration \<noteq> ''NoExecute'') (pointer @ ''/effect'') ''InvalidValue''
        ''a specific NoSchedule, PreferNoSchedule, or NoExecute effect is required'' @
      on_some (\<lambda>seconds. add_if (tol_Effect toleration \<noteq> ''NoExecute'' \<or> seconds < 0 \<or> seconds > 604800)
        (pointer @ ''/tolerationSeconds'') ''InvalidValue''
        ''tolerationSeconds is allowed only for NoExecute and must be between 0 and 604800'') (tol_TolerationSeconds toleration))"

section \<open>The runtime\<close>

definition validate_kind :: "workload_runtime \<Rightarrow> problems" where
  "validate_kind rt =
     (let workloadType = default_text ''Deployment'' (rt_WorkloadType rt);
          strategyType = default_text ''RollingUpdate'' (strat_Type (rt_Strategy rt));
          policy = rt_PodManagementPolicy rt in
      add_if (workloadType \<noteq> ''Deployment'' \<and> workloadType \<noteq> ''StatefulSet'') ''/runtime/workloadType'' ''InvalidWorkloadType''
        ''workloadType must be Deployment or StatefulSet'' @
      (if rt_PriorityClassName rt \<noteq> [] \<and> \<not> validDNSLabel (rt_PriorityClassName rt) then
         add_if True ''/runtime/priorityClassName'' ''InvalidDNSLabel'' ''priorityClassName must be a Kubernetes DNS label''
       else add_if (has_prefix (rt_PriorityClassName rt) ''system-'') ''/runtime/priorityClassName'' ''ReservedPriorityClass''
         ''Kubernetes system-* PriorityClasses are reserved for cluster-critical workloads'') @
      add_if (rt_Replicas rt < 1 \<or> rt_Replicas rt > 100) ''/runtime/replicas'' ''OutOfRange'' ''replicas must be between 1 and 100'' @
      (if workloadType = ''StatefulSet'' then
         add_if (strategyType \<noteq> ''RollingUpdate'' \<and> strategyType \<noteq> ''OnDelete'') ''/runtime/strategy/type''
           ''InvalidStatefulSetStrategy'' ''StatefulSet strategy type must be RollingUpdate or OnDelete'' @
         add_if (policy \<noteq> [] \<and> policy \<noteq> ''OrderedReady'' \<and> policy \<noteq> ''Parallel'') ''/runtime/podManagementPolicy''
           ''InvalidPodManagementPolicy'' ''StatefulSet podManagementPolicy must be OrderedReady or Parallel''
       else
         add_if (strategyType \<noteq> ''RollingUpdate'' \<and> strategyType \<noteq> ''Recreate'') ''/runtime/strategy/type''
           ''InvalidDeploymentStrategy'' ''Deployment strategy type must be RollingUpdate or Recreate'' @
         add_if (policy \<noteq> []) ''/runtime/podManagementPolicy'' ''Forbidden''
           ''podManagementPolicy is supported only for StatefulSet workloads''))"

definition validate_process :: "workload_runtime \<Rightarrow> problems" where
  "validate_process rt =
     (let command = validateRuntimeCommandVector (rt_Command rt) 64 ''/runtime/command'';
          arguments = validateRuntimeCommandVector (rt_Args rt) 128 ''/runtime/args'';
          wd = rt_WorkingDirectory rt in
      fst command @ fst arguments @
      add_if (snd command + snd arguments > 65536) ''/runtime'' ''CommandTooLong''
        ''container command and arguments are limited to 65536 bytes in total'' @
      add_if (wd \<noteq> [] \<and> (length wd > 4096 \<or> \<not> utf8_valid wd \<or> CHR 0x00 \<in> set wd \<or> \<not> path_is_abs wd \<or> path_clean wd \<noteq> wd))
        ''/runtime/workingDirectory'' ''InvalidWorkingDirectory''
        ''workingDirectory must be a canonical absolute path of at most 4096 bytes'' @
      on_some (\<lambda>grace. add_if (grace < 1 \<or> grace > 3600) ''/runtime/terminationGracePeriodSeconds'' ''OutOfRange''
        ''termination grace period must be between 1 and 3600 seconds'') (rt_TerminationGracePeriodSeconds rt))"

definition validate_port :: "string \<Rightarrow> string list \<Rightarrow> workload_port \<Rightarrow> problems" where
  "validate_port pointer portNames port =
     add_if (length (port_Name port) > 15 \<or> \<not> portNamePattern (port_Name port)) (pointer @ ''/name'') ''InvalidPortName''
       ''use a unique lowercase Kubernetes port name of at most 15 characters'' @
     add_if (port_Name port \<in> set portNames) (pointer @ ''/name'') ''Duplicate'' ''port names must be unique'' @
     add_if (port_ContainerPort port < 1 \<or> port_ContainerPort port > 65535 \<or> port_ServicePort port < 0 \<or> port_ServicePort port > 65535)
       pointer ''InvalidPort'' ''containerPort and optional servicePort must be between 1 and 65535'' @
     add_if (port_Protocol port \<noteq> ''TCP'' \<and> port_Protocol port \<noteq> ''UDP'') (pointer @ ''/protocol'') ''InvalidProtocol''
       ''protocol must be TCP or UDP''"

fun validate_ports :: "nat \<Rightarrow> string list \<Rightarrow> workload_port list \<Rightarrow> problems" where
  "validate_ports index portNames [] = []"
| "validate_ports index portNames (port # ports) =
     validate_port (at_index ''/runtime/ports'' index) portNames port @
     validate_ports (Suc index) (port_Name port # portNames) ports"

definition validate_variable :: "string \<Rightarrow> string list \<Rightarrow> workload_env \<Rightarrow> problems" where
  "validate_variable pointer envNames variable =
     add_if (length (env_Name variable) > 128 \<or> \<not> envNamePattern (env_Name variable)) (pointer @ ''/name'')
       ''InvalidEnvironmentName'' ''use a POSIX-style name of at most 128 characters'' @
     add_if (env_Name variable \<in> set envNames) (pointer @ ''/name'') ''Duplicate'' ''environment names must be unique'' @
     (if (env_Value variable = None) = (env_ValueFrom variable = None) then
        add_if True pointer ''ExactlyOneRequired'' ''set exactly one of value or valueFrom.secretBindingRef''
      else
        on_some (\<lambda>value. add_if (length value > 4096) (pointer @ ''/value'') ''TooLong''
          ''ordinary ConfigMap values are limited to 4096 bytes'') (env_Value variable) @
        on_some (\<lambda>from. add_if (\<not> SecretBindingRef_Valid (from_SecretBindingRef from))
          (pointer @ ''/valueFrom/secretBindingRef'') ''InvalidSecretBindingRef''
          ''reference an existing binding by immutable UUID, reviewed DNS name, key, and positive integer version; secret values are not accepted here'')
          (env_ValueFrom variable))"

fun validate_env :: "nat \<Rightarrow> string list \<Rightarrow> workload_env list \<Rightarrow> problems" where
  "validate_env index envNames [] = []"
| "validate_env index envNames (variable # rest) =
     validate_variable (at_index ''/runtime/env'' index) envNames variable @
     validate_env (Suc index) (env_Name variable # envNames) rest"

definition bad_cpu_text :: string where
  "bad_cpu_text = ''CPU must be positive, at most 1000 cores, and use cores or millicores''"

definition bad_memory_text :: string where
  "bad_memory_text = ''memory must be positive, at most 64Ti, and use Ki, Mi, Gi, or Ti''"

definition validate_limit :: "(string \<Rightarrow> int option) \<Rightarrow> string \<Rightarrow> string \<Rightarrow> string \<Rightarrow> string \<Rightarrow> string \<Rightarrow> problems" where
  "validate_limit quantity limit request pointer bad below =
     (if limit = [] then []
      else case quantity limit of
             None \<Rightarrow> add_if True pointer ''InvalidQuantity'' bad
           | Some l \<Rightarrow> on_some (\<lambda>r. add_if (l < r) pointer ''LimitBelowRequest'' below) (quantity request))"

definition validate_resources :: "workload_resources \<Rightarrow> problems" where
  "validate_resources resources =
     (let requests = res_Requests resources in
      add_if (cpuMilli (rl_CPU requests) = None) ''/runtime/resources/requests/cpu'' ''InvalidQuantity'' bad_cpu_text @
      add_if (memoryBytes (rl_Memory requests) = None) ''/runtime/resources/requests/memory'' ''InvalidQuantity'' bad_memory_text @
      on_some (\<lambda>limits.
        add_if (rl_CPU limits = [] \<and> rl_Memory limits = []) ''/runtime/resources/limits'' ''Required''
          ''configure at least one CPU or memory limit'' @
        validate_limit cpuMilli (rl_CPU limits) (rl_CPU requests) ''/runtime/resources/limits/cpu'' bad_cpu_text
          ''CPU limit must be greater than or equal to its request'' @
        validate_limit memoryBytes (rl_Memory limits) (rl_Memory requests) ''/runtime/resources/limits/memory'' bad_memory_text
          ''memory limit must be greater than or equal to its request'') (res_Limits resources))"

definition ValidateWorkloadRuntime :: "workload_runtime \<Rightarrow> problems" where
  "ValidateWorkloadRuntime rt =
     validate_kind rt @
     validate_process rt @
     add_if (length (rt_Ports rt) < 1 \<or> length (rt_Ports rt) > 32) ''/runtime/ports'' ''OutOfRange'' ''configure between 1 and 32 ports'' @
     validate_ports 0 [] (rt_Ports rt) @
     add_if (length (rt_Env rt) > 256) ''/runtime/env'' ''OutOfRange'' ''at most 256 environment entries are allowed'' @
     validate_env 0 [] (rt_Env rt) @
     validate_resources (rt_Resources rt) @
     validateNodeSelector (rt_NodeSelector rt) ''/runtime/nodeSelector'' @
     on_some validateAffinity (rt_Affinity rt) @
     add_if (length (rt_TopologySpreadConstraints rt) > 16) ''/runtime/topologySpreadConstraints'' ''OutOfRange''
       ''at most 16 topology spread constraints are allowed'' @
     each validate_constraint (rt_TopologySpreadConstraints rt) @
     add_if (length (rt_Tolerations rt) > 32) ''/runtime/tolerations'' ''OutOfRange'' ''at most 32 tolerations are allowed'' @
     each validate_toleration (rt_Tolerations rt) @
     validateProbes rt"

section \<open>Pod selectors of one application\<close>

definition exact_selector :: "string \<Rightarrow> label_selector \<Rightarrow> bool" where
  "exact_selector applicationID selector \<longleftrightarrow>
     \<not> (applicationID = [] \<or> sel_MatchExpressions selector \<noteq> [] \<or> length (sel_MatchLabels selector) \<noteq> 1 \<or>
        get_or [] (sel_MatchLabels selector) ''kuberploy.io/application'' \<noteq> applicationID)"

definition require_exact :: "string \<Rightarrow> label_selector \<Rightarrow> string \<Rightarrow> problems" where
  "require_exact applicationID selector pointer =
     add_if (\<not> exact_selector applicationID selector) pointer ''ApplicationSelectorRequired''
       ''Pod placement selectors must target only this exact application; arbitrary labels, expressions, and cross-application identity are not accepted.''"

definition validate_pod_terms :: "string \<Rightarrow> pod_affinity option \<Rightarrow> string \<Rightarrow> problems" where
  "validate_pod_terms applicationID affinity pointer =
     on_some (\<lambda>a.
       each (\<lambda>index t. require_exact applicationID (pat_LabelSelector t)
         (at_index (pointer @ required_path) index @ ''/labelSelector'')) (pa_Required a) @
       each (\<lambda>index t. require_exact applicationID (pat_LabelSelector (wpat_PodAffinityTerm t))
         (at_index (pointer @ preferred_path) index @ ''/podAffinityTerm/labelSelector'')) (pa_Preferred a)) affinity"

definition ValidateApplicationScheduling :: "workload_runtime \<Rightarrow> string \<Rightarrow> problems" where
  "ValidateApplicationScheduling rt applicationID =
     on_some (\<lambda>affinity.
       validate_pod_terms applicationID (aff_PodAffinity affinity) ''/runtime/affinity/podAffinity'' @
       validate_pod_terms applicationID (aff_PodAntiAffinity affinity) ''/runtime/affinity/podAntiAffinity'') (rt_Affinity rt) @
     each (\<lambda>index constraint. require_exact applicationID (tsc_LabelSelector constraint)
       (at_index ''/runtime/topologySpreadConstraints'' index @ ''/labelSelector'')) (rt_TopologySpreadConstraints rt)"

end
