(* ===== verification/Workload_Safety.thy ===== *)
theory Workload_Safety
  imports Workload_Validate "HOL-Library.Code_Target_Nat"
begin

text \<open>
  What the validation of a workload runtime decides.  \<open>runtime_ok\<close> is the contract of a
  runtime in declarative form; \<open>ValidateWorkloadRuntime\<close> reports no problem exactly for the
  runtimes that meet it.  The rest follows from it: quantities cannot wrap, the defaults of
  a legacy request are always acceptable and can be read back, and a validated service can
  neither reach reserved nodes nor select the Pods of another application.
\<close>

section \<open>Loops that only report\<close>

lemma add_if_Nil [simp]: "add_if b p c d = [] \<longleftrightarrow> \<not> b"
  by (simp add: add_if_def)

lemma on_some_Nil: "on_some f x = [] \<longleftrightarrow> (\<forall>v. x = Some v \<longrightarrow> f v = [])"
  by (cases x) (simp_all add: on_some_def)

lemma each_Nil:
  assumes "\<And>i x. f i x = [] \<longleftrightarrow> P x"
  shows "each f xs = [] \<longleftrightarrow> (\<forall>x \<in> set xs. P x)"
proof -
  have "concat (map (\<lambda>(i, x). f i x) (enumerate n xs)) = [] \<longleftrightarrow> (\<forall>x \<in> set xs. P x)" for n
    by (induction xs arbitrary: n) (simp_all add: assms)
  then show ?thesis by (simp add: each_def)
qed

section \<open>The contract of a runtime\<close>

definition argument_ok :: "string \<Rightarrow> bool" where
  "argument_ok v \<longleftrightarrow> 1 \<le> length v \<and> length v \<le> 4096 \<and> utf8_valid v \<and> CHR 0x00 \<notin> set v"

definition vector_ok :: "nat \<Rightarrow> string list option \<Rightarrow> bool" where
  "vector_ok maximum values \<longleftrightarrow>
     (\<forall>vs. values = Some vs \<longrightarrow> 1 \<le> length vs \<and> length vs \<le> maximum \<and> (\<forall>v \<in> set vs. argument_ok v))"

definition plain_component :: "string \<Rightarrow> bool" where
  "plain_component w \<longleftrightarrow> w \<noteq> [] \<and> w \<noteq> ''.'' \<and> w \<noteq> ''..'' \<and> CHR ''/'' \<notin> set w"

definition canonical_path :: "string \<Rightarrow> bool" where
  "canonical_path s \<longleftrightarrow> (\<exists>ws. (\<forall>w \<in> set ws. plain_component w) \<and> s = CHR ''/'' # join CHR ''/'' ws)"

definition kind_ok :: "workload_runtime \<Rightarrow> bool" where
  "kind_ok rt \<longleftrightarrow>
     (if rt_WorkloadType rt = ''StatefulSet'' then
        strat_Type (rt_Strategy rt) \<in> {[], ''RollingUpdate'', ''OnDelete''} \<and>
        rt_PodManagementPolicy rt \<in> {[], ''OrderedReady'', ''Parallel''}
      else rt_WorkloadType rt \<in> {[], ''Deployment''} \<and>
        strat_Type (rt_Strategy rt) \<in> {[], ''RollingUpdate'', ''Recreate''} \<and> rt_PodManagementPolicy rt = []) \<and>
     1 \<le> rt_Replicas rt \<and> rt_Replicas rt \<le> 100 \<and>
     (rt_PriorityClassName rt = [] \<or>
      validDNSLabel (rt_PriorityClassName rt) \<and> \<not> has_prefix (rt_PriorityClassName rt) ''system-'')"

definition process_ok :: "workload_runtime \<Rightarrow> bool" where
  "process_ok rt \<longleftrightarrow>
     vector_ok 64 (rt_Command rt) \<and> vector_ok 128 (rt_Args rt) \<and>
     total_bytes (slice (rt_Command rt)) + total_bytes (slice (rt_Args rt)) \<le> 65536 \<and>
     (rt_WorkingDirectory rt = [] \<or>
      canonical_path (rt_WorkingDirectory rt) \<and> length (rt_WorkingDirectory rt) \<le> 4096 \<and>
      utf8_valid (rt_WorkingDirectory rt) \<and> CHR 0x00 \<notin> set (rt_WorkingDirectory rt)) \<and>
     (\<forall>grace. rt_TerminationGracePeriodSeconds rt = Some grace \<longrightarrow> 1 \<le> grace \<and> grace \<le> 3600)"

definition port_ok :: "workload_port \<Rightarrow> bool" where
  "port_ok port \<longleftrightarrow>
     portNamePattern (port_Name port) \<and> length (port_Name port) \<le> 15 \<and>
     1 \<le> port_ContainerPort port \<and> port_ContainerPort port \<le> 65535 \<and>
     0 \<le> port_ServicePort port \<and> port_ServicePort port \<le> 65535 \<and> port_Protocol port \<in> {''TCP'', ''UDP''}"

definition variable_ok :: "workload_env \<Rightarrow> bool" where
  "variable_ok v \<longleftrightarrow>
     envNamePattern (env_Name v) \<and> length (env_Name v) \<le> 128 \<and>
     ((\<exists>x. env_Value v = Some x \<and> env_ValueFrom v = None \<and> length x \<le> 4096) \<or>
      (\<exists>f. env_Value v = None \<and> env_ValueFrom v = Some f \<and> SecretBindingRef_Valid (from_SecretBindingRef f)))"

definition limit_ok :: "(string \<Rightarrow> int option) \<Rightarrow> string \<Rightarrow> string \<Rightarrow> bool" where
  "limit_ok quantity request limit \<longleftrightarrow>
     limit = [] \<or> (\<exists>l r. quantity limit = Some l \<and> quantity request = Some r \<and> r \<le> l)"

definition resources_ok :: "workload_resources \<Rightarrow> bool" where
  "resources_ok res \<longleftrightarrow>
     cpuMilli (rl_CPU (res_Requests res)) \<noteq> None \<and> memoryBytes (rl_Memory (res_Requests res)) \<noteq> None \<and>
     (\<forall>limits. res_Limits res = Some limits \<longrightarrow>
        (rl_CPU limits \<noteq> [] \<or> rl_Memory limits \<noteq> []) \<and>
        limit_ok cpuMilli (rl_CPU (res_Requests res)) (rl_CPU limits) \<and>
        limit_ok memoryBytes (rl_Memory (res_Requests res)) (rl_Memory limits))"

definition label_value_ok :: "string \<Rightarrow> bool" where
  "label_value_ok v \<longleftrightarrow> v = [] \<or> length v \<le> 63 \<and> labelNamePattern v"

definition labels_ok :: "(string, string) gomap \<Rightarrow> bool" where
  "labels_ok m \<longleftrightarrow> length m \<le> 32 \<and> (\<forall>(k, v) \<in> set m. validLabelKey k \<and> label_value_ok v)"

definition node_key_ok :: "string \<Rightarrow> bool" where
  "node_key_ok k \<longleftrightarrow> validLabelKey k \<and> \<not> reservedSchedulingKey k"

definition label_expression_ok :: "selector_requirement \<Rightarrow> bool" where
  "label_expression_ok e \<longleftrightarrow>
     validLabelKey (expr_Key e) \<and> (\<forall>v \<in> set (expr_Values e). label_value_ok v) \<and>
     (expr_Operator e \<in> {''In'', ''NotIn''} \<and> 1 \<le> length (expr_Values e) \<and> length (expr_Values e) \<le> 32 \<or>
      expr_Operator e \<in> {''Exists'', ''DoesNotExist''} \<and> expr_Values e = [])"

definition selector_ok :: "label_selector \<Rightarrow> bool" where
  "selector_ok sel \<longleftrightarrow>
     (sel_MatchLabels sel \<noteq> [] \<or> sel_MatchExpressions sel \<noteq> []) \<and> length (sel_MatchExpressions sel) \<le> 32 \<and>
     labels_ok (sel_MatchLabels sel) \<and> (\<forall>e \<in> set (sel_MatchExpressions sel). label_expression_ok e)"

definition pod_term_ok :: "pod_affinity_term \<Rightarrow> bool" where
  "pod_term_ok t \<longleftrightarrow> node_key_ok (pat_TopologyKey t) \<and> selector_ok (pat_LabelSelector t)"

definition weight_ok :: "int \<Rightarrow> bool" where
  "weight_ok w \<longleftrightarrow> 1 \<le> w \<and> w \<le> 100"

definition pod_affinity_ok :: "pod_affinity \<Rightarrow> bool" where
  "pod_affinity_ok a \<longleftrightarrow>
     (pa_Required a \<noteq> [] \<or> pa_Preferred a \<noteq> []) \<and> length (pa_Required a) \<le> 16 \<and> length (pa_Preferred a) \<le> 16 \<and>
     (\<forall>t \<in> set (pa_Required a). pod_term_ok t) \<and>
     (\<forall>t \<in> set (pa_Preferred a). weight_ok (wpat_Weight t) \<and> pod_term_ok (wpat_PodAffinityTerm t))"

definition node_value_ok :: "string \<Rightarrow> bool" where
  "node_value_ok v \<longleftrightarrow> length v \<le> 63 \<and> labelNamePattern v"

definition node_expression_ok :: "selector_requirement \<Rightarrow> bool" where
  "node_expression_ok e \<longleftrightarrow>
     node_key_ok (expr_Key e) \<and> (\<forall>v \<in> set (expr_Values e). node_value_ok v) \<and>
     (expr_Operator e \<in> {''In'', ''NotIn''} \<and> 1 \<le> length (expr_Values e) \<and> length (expr_Values e) \<le> 32 \<or>
      expr_Operator e \<in> {''Exists'', ''DoesNotExist''} \<and> expr_Values e = [] \<or>
      expr_Operator e \<in> {''Gt'', ''Lt''} \<and> (\<exists>v. expr_Values e = [v] \<and> atoi v \<noteq> None))"

definition node_term_ok :: "node_selector_term \<Rightarrow> bool" where
  "node_term_ok t \<longleftrightarrow>
     1 \<le> length (term_MatchExpressions t) \<and> length (term_MatchExpressions t) \<le> 32 \<and>
     (\<forall>e \<in> set (term_MatchExpressions t). node_expression_ok e)"

definition node_affinity_ok :: "node_affinity \<Rightarrow> bool" where
  "node_affinity_ok a \<longleftrightarrow>
     (na_Required a \<noteq> None \<or> na_Preferred a \<noteq> []) \<and> length (na_Preferred a) \<le> 16 \<and>
     (\<forall>r. na_Required a = Some r \<longrightarrow> 1 \<le> length (ns_NodeSelectorTerms r) \<and> length (ns_NodeSelectorTerms r) \<le> 16 \<and>
        (\<forall>t \<in> set (ns_NodeSelectorTerms r). node_term_ok t)) \<and>
     (\<forall>t \<in> set (na_Preferred a). weight_ok (pst_Weight t) \<and> node_term_ok (pst_Preference t))"

definition affinity_ok :: "workload_affinity \<Rightarrow> bool" where
  "affinity_ok a \<longleftrightarrow>
     (aff_NodeAffinity a \<noteq> None \<or> aff_PodAffinity a \<noteq> None \<or> aff_PodAntiAffinity a \<noteq> None) \<and>
     (\<forall>n. aff_NodeAffinity a = Some n \<longrightarrow> node_affinity_ok n) \<and>
     (\<forall>p. aff_PodAffinity a = Some p \<longrightarrow> pod_affinity_ok p) \<and>
     (\<forall>p. aff_PodAntiAffinity a = Some p \<longrightarrow> pod_affinity_ok p)"

definition constraint_ok :: "topology_spread_constraint \<Rightarrow> bool" where
  "constraint_ok c \<longleftrightarrow>
     1 \<le> tsc_MaxSkew c \<and> tsc_MaxSkew c \<le> 100 \<and> node_key_ok (tsc_TopologyKey c) \<and>
     tsc_WhenUnsatisfiable c \<in> {''DoNotSchedule'', ''ScheduleAnyway''} \<and> selector_ok (tsc_LabelSelector c) \<and>
     (\<forall>d. tsc_MinDomains c = Some d \<longrightarrow> tsc_WhenUnsatisfiable c = ''DoNotSchedule'' \<and> 1 \<le> d \<and> d \<le> 1000) \<and>
     tsc_NodeAffinityPolicy c \<in> {[], ''Honor'', ''Ignore''} \<and> tsc_NodeTaintsPolicy c \<in> {[], ''Honor'', ''Ignore''}"

definition toleration_ok :: "workload_toleration \<Rightarrow> bool" where
  "toleration_ok t \<longleftrightarrow>
     node_key_ok (tol_Key t) \<and> label_value_ok (tol_Value t) \<and>
     (tol_Operator t = ''Equal'' \<or> tol_Operator t = ''Exists'' \<and> tol_Value t = []) \<and>
     tol_Effect t \<in> {''NoSchedule'', ''PreferNoSchedule'', ''NoExecute''} \<and>
     (\<forall>s. tol_TolerationSeconds t = Some s \<longrightarrow> tol_Effect t = ''NoExecute'' \<and> 0 \<le> s \<and> s \<le> 604800)"

definition within :: "int \<Rightarrow> int \<Rightarrow> int option \<Rightarrow> bool" where
  "within lo hi x \<longleftrightarrow> (\<forall>v. x = Some v \<longrightarrow> lo \<le> v \<and> v \<le> hi)"

definition probe_port_ok :: "workload_port list \<Rightarrow> workload_probe_port \<Rightarrow> bool" where
  "probe_port_ok ports p \<longleftrightarrow> (\<exists>c \<in> set ports. port_matches p c)"

definition http_ok :: "workload_port list \<Rightarrow> workload_http_get_action \<Rightarrow> bool" where
  "http_ok ports a \<longleftrightarrow>
     (\<exists>rest. http_Path a = CHR ''/'' # rest) \<and> length (http_Path a) \<le> 2048 \<and>
     (\<forall>(r, bs) \<in> set (runes (http_Path a)). 32 \<le> r) \<and> http_Scheme a \<in> {[], ''HTTP'', ''HTTPS''} \<and>
     probe_port_ok ports (http_Port a)"

definition exec_ok :: "workload_exec_action \<Rightarrow> bool" where
  "exec_ok a \<longleftrightarrow>
     1 \<le> length (exec_Command a) \<and> length (exec_Command a) \<le> 32 \<and> (\<forall>v \<in> set (exec_Command a). argument_ok v) \<and>
     total_bytes (exec_Command a) \<le> 16384"

definition action_ok :: "workload_port list \<Rightarrow> workload_probe \<Rightarrow> bool" where
  "action_ok ports p \<longleftrightarrow>
     (\<exists>a. probe_HTTPGet p = Some a \<and> probe_TCPSocket p = None \<and> probe_Exec p = None \<and> http_ok ports a) \<or>
     (\<exists>a. probe_HTTPGet p = None \<and> probe_TCPSocket p = Some a \<and> probe_Exec p = None \<and> probe_port_ok ports (tcp_Port a)) \<or>
     (\<exists>a. probe_HTTPGet p = None \<and> probe_TCPSocket p = None \<and> probe_Exec p = Some a \<and> exec_ok a)"

definition probe_ok :: "workload_port list \<Rightarrow> int \<Rightarrow> workload_probe \<Rightarrow> bool" where
  "probe_ok ports successes p \<longleftrightarrow>
     action_ok ports p \<and> within 0 3600 (probe_InitialDelaySeconds p) \<and> within 1 300 (probe_PeriodSeconds p) \<and>
     within 1 300 (probe_TimeoutSeconds p) \<and> within 1 successes (probe_SuccessThreshold p) \<and>
     within 1 100 (probe_FailureThreshold p)"

definition probes_ok :: "workload_port list \<Rightarrow> workload_probes \<Rightarrow> bool" where
  "probes_ok ports p \<longleftrightarrow>
     (probes_Startup p \<noteq> None \<or> probes_Readiness p \<noteq> None \<or> probes_Liveness p \<noteq> None) \<and>
     (\<forall>x. probes_Startup p = Some x \<longrightarrow> probe_ok ports 1 x) \<and>
     (\<forall>x. probes_Readiness p = Some x \<longrightarrow> probe_ok ports 100 x) \<and>
     (\<forall>x. probes_Liveness p = Some x \<longrightarrow> probe_ok ports 1 x)"

definition runtime_ok :: "workload_runtime \<Rightarrow> bool" where
  "runtime_ok rt \<longleftrightarrow>
     kind_ok rt \<and> process_ok rt \<and>
     1 \<le> length (rt_Ports rt) \<and> length (rt_Ports rt) \<le> 32 \<and> distinct (map port_Name (rt_Ports rt)) \<and>
     (\<forall>p \<in> set (rt_Ports rt). port_ok p) \<and>
     length (rt_Env rt) \<le> 256 \<and> distinct (map env_Name (rt_Env rt)) \<and> (\<forall>v \<in> set (rt_Env rt). variable_ok v) \<and>
     resources_ok (rt_Resources rt) \<and>
     labels_ok (rt_NodeSelector rt) \<and> (\<forall>(k, v) \<in> set (rt_NodeSelector rt). \<not> reservedSchedulingKey k) \<and>
     (\<forall>a. rt_Affinity rt = Some a \<longrightarrow> affinity_ok a) \<and>
     length (rt_TopologySpreadConstraints rt) \<le> 16 \<and> (\<forall>c \<in> set (rt_TopologySpreadConstraints rt). constraint_ok c) \<and>
     length (rt_Tolerations rt) \<le> 32 \<and> (\<forall>t \<in> set (rt_Tolerations rt). toleration_ok t) \<and>
     (\<forall>p. rt_Probes rt = Some p \<longrightarrow> probes_ok (rt_Ports rt) p)"

section \<open>Each check meets its part of the contract\<close>

lemma bad_argument_iff: "bad_argument v \<longleftrightarrow> \<not> argument_ok v"
  by (cases v) (auto simp: bad_argument_def argument_ok_def)

lemma bad_label_value_iff: "bad_label_value v \<longleftrightarrow> \<not> label_value_ok v"
  by (auto simp: bad_label_value_def label_value_ok_def)

lemma bad_weight_iff: "bad_weight w \<longleftrightarrow> \<not> weight_ok w"
  by (auto simp: bad_weight_def weight_ok_def)

lemmas check_iffs = bad_argument_iff bad_label_value_iff bad_weight_iff

lemma command_vector_Nil:
  "fst (validateRuntimeCommandVector values maximum pointer) = [] \<longleftrightarrow> vector_ok maximum values"
  by (cases "values")
    (auto simp: validateRuntimeCommandVector_def vector_ok_def slice_def check_iffs each_Nil [where P = argument_ok]
      Suc_le_eq)

lemma command_vector_total: "snd (validateRuntimeCommandVector values maximum pointer) = total_bytes (slice values)"
  by (simp add: validateRuntimeCommandVector_def)

lemma has_prefix_iff: "has_prefix s p \<longleftrightarrow> (\<exists>t. s = p @ t)"
  by (metis append_eq_conv_conj append_take_drop_id has_prefix_def)

lemma validateProbePort_Nil: "validateProbePort rt port pointer = [] \<longleftrightarrow> probe_port_ok (rt_Ports rt) port"
  by (auto simp: validateProbePort_def probe_port_ok_def list_ex_iff)

lemma validateProbeSeconds_Nil: "validateProbeSeconds value lo hi pointer = [] \<longleftrightarrow> within lo hi value"
  by (auto simp: validateProbeSeconds_def within_def split: option.splits)

lemma http_get_Nil: "validate_http_get rt pointer a = [] \<longleftrightarrow> http_ok (rt_Ports rt) a"
  by (auto simp: validate_http_get_def http_ok_def validateProbePort_Nil list_ex_iff has_prefix_iff not_less split: prod.splits)

lemma exec_Nil: "validate_exec pointer a = [] \<longleftrightarrow> exec_ok a"
  by (auto simp: validate_exec_def exec_ok_def Let_def check_iffs each_Nil [where P = argument_ok] not_less Suc_le_eq)

lemma probe_actions_one:
  "probe_actions p = 1 \<longleftrightarrow>
     (probe_HTTPGet p \<noteq> None \<and> probe_TCPSocket p = None \<and> probe_Exec p = None) \<or>
     (probe_HTTPGet p = None \<and> probe_TCPSocket p \<noteq> None \<and> probe_Exec p = None) \<or>
     (probe_HTTPGet p = None \<and> probe_TCPSocket p = None \<and> probe_Exec p \<noteq> None)"
  by (auto simp: probe_actions_def)

lemma action_ok_iff:
  "action_ok ports p \<longleftrightarrow> probe_actions p = 1 \<and> (\<forall>a. probe_HTTPGet p = Some a \<longrightarrow> http_ok ports a) \<and>
     (\<forall>a. probe_TCPSocket p = Some a \<longrightarrow> probe_port_ok ports (tcp_Port a)) \<and> (\<forall>a. probe_Exec p = Some a \<longrightarrow> exec_ok a)"
  unfolding probe_actions_one by (auto simp: action_ok_def)

lemma validateProbe_Nil:
  assumes "phase = ''readiness'' \<and> successes = 100 \<or> phase \<noteq> ''readiness'' \<and> successes = 1"
  shows "validateProbe rt phase p = [] \<longleftrightarrow> probe_ok (rt_Ports rt) successes p"
proof -
  have "validateProbe rt phase p = [] \<longleftrightarrow>
      action_ok (rt_Ports rt) p \<and> within 0 3600 (probe_InitialDelaySeconds p) \<and> within 1 300 (probe_PeriodSeconds p) \<and>
      within 1 300 (probe_TimeoutSeconds p) \<and> within 1 100 (probe_SuccessThreshold p) \<and>
      within 1 100 (probe_FailureThreshold p) \<and> (phase = ''readiness'' \<or> within 1 1 (probe_SuccessThreshold p))"
    unfolding validateProbe_def Let_def append_is_Nil_conv on_some_Nil http_get_Nil exec_Nil validateProbePort_Nil
      validateProbeSeconds_Nil action_ok_iff
    by (auto simp: within_def)
  with assms show ?thesis by (auto simp: probe_ok_def within_def)
qed

lemma validateProbes_Nil:
  "validateProbes rt = [] \<longleftrightarrow> (\<forall>p. rt_Probes rt = Some p \<longrightarrow> probes_ok (rt_Ports rt) p)"
  by (auto simp: validateProbes_def on_some_Nil probes_ok_def validateProbe_Nil [where successes = 1]
      validateProbe_Nil [where successes = 100])

definition pod_pointer :: "string \<Rightarrow> bool" where
  "pod_pointer p \<longleftrightarrow> has_prefix p ''/runtime/affinity'' \<or> has_prefix p ''/runtime/topology''"

lemma pod_pointer_append [simp]: "pod_pointer p \<Longrightarrow> pod_pointer (p @ t)"
  by (auto simp: pod_pointer_def has_prefix_iff)

lemma pod_pointer_index [simp]: "pod_pointer p \<Longrightarrow> pod_pointer (at_index p i)"
  by (simp add: at_index_def)

lemma pod_pointer_roots [simp]:
  "pod_pointer ''/runtime/affinity/podAffinity''" "pod_pointer ''/runtime/affinity/podAntiAffinity''"
  "pod_pointer ''/runtime/topologySpreadConstraints''"
  by (simp_all add: pod_pointer_def has_prefix_def)

lemma pod_pointer_not_node: "pod_pointer p \<Longrightarrow> \<not> has_prefix p ''/runtime/nodeSelector''"
  by (auto simp: pod_pointer_def has_prefix_iff)

lemma validateNodeSelector_Nil:
  "validateNodeSelector m pointer = [] \<longleftrightarrow>
     labels_ok m \<and> (has_prefix pointer ''/runtime/nodeSelector'' \<longrightarrow> (\<forall>(k, v) \<in> set m. \<not> reservedSchedulingKey k))"
  by (auto simp: validateNodeSelector_def labels_ok_def check_iffs not_less)

lemma label_expression_Nil: "validate_label_expression path e = [] \<longleftrightarrow> label_expression_ok e"
proof -
  have "validate_label_expression path e = [] \<longleftrightarrow>
      validLabelKey (expr_Key e) \<and> (\<forall>v \<in> set (expr_Values e). label_value_ok v) \<and>
      expr_Operator e \<in> {''In'', ''NotIn'', ''Exists'', ''DoesNotExist''} \<and>
      (if expr_Operator e \<in> {''In'', ''NotIn''} then 1 \<le> length (expr_Values e) \<and> length (expr_Values e) \<le> 32
       else expr_Values e = [])"
    by (auto simp: validate_label_expression_def Let_def check_iffs each_Nil [where P = label_value_ok] not_less Suc_le_eq)
  then show ?thesis by (auto simp: label_expression_ok_def)
qed

lemma validateLabelSelector_Nil:
  assumes "pod_pointer pointer"
  shows "validateLabelSelector sel pointer = [] \<longleftrightarrow> selector_ok sel"
  using pod_pointer_not_node [OF pod_pointer_append [OF assms]]
  by (auto simp: validateLabelSelector_def selector_ok_def validateNodeSelector_Nil label_expression_Nil labels_ok_def
      each_Nil [where P = label_expression_ok] not_less)

lemma pod_term_Nil: "pod_pointer pointer \<Longrightarrow> validatePodAffinityTerm t pointer = [] \<longleftrightarrow> pod_term_ok t"
  by (auto simp: validatePodAffinityTerm_def pod_term_ok_def node_key_ok_def validateLabelSelector_Nil)

lemma pod_affinity_Nil:
  "pod_pointer pointer \<Longrightarrow> validatePodAffinity a pointer = [] \<longleftrightarrow> (\<forall>p. a = Some p \<longrightarrow> pod_affinity_ok p)"
  by (auto simp: validatePodAffinity_def on_some_Nil pod_affinity_ok_def Let_def check_iffs pod_term_Nil not_less
      each_Nil [where P = pod_term_ok]
      each_Nil [where P = "\<lambda>t. weight_ok (wpat_Weight t) \<and> pod_term_ok (wpat_PodAffinityTerm t)"])

lemma node_expression_Nil: "validate_node_expression path e = [] \<longleftrightarrow> node_expression_ok e"
proof -
  have "validate_node_expression path e = [] \<longleftrightarrow>
      node_key_ok (expr_Key e) \<and> expr_Operator e \<in> {''In'', ''NotIn'', ''Exists'', ''DoesNotExist'', ''Gt'', ''Lt''} \<and>
      (if expr_Operator e \<in> {''In'', ''NotIn'', ''Gt'', ''Lt''} then 1 \<le> length (expr_Values e) \<and> length (expr_Values e) \<le> 32
       else expr_Values e = []) \<and>
      (expr_Operator e \<in> {''Gt'', ''Lt''} \<longrightarrow> length (expr_Values e) = 1) \<and>
      (\<forall>v \<in> set (expr_Values e). node_value_ok v \<and> (expr_Operator e \<in> {''Gt'', ''Lt''} \<longrightarrow> atoi v \<noteq> None))"
    unfolding validate_node_expression_def Let_def append_is_Nil_conv node_key_ok_def
    by (auto simp: validate_node_value_def not_less Suc_le_eq node_value_ok_def
        each_Nil [where P = "\<lambda>v. node_value_ok v \<and> (expr_Operator e \<in> {''Gt'', ''Lt''} \<longrightarrow> atoi v \<noteq> None)"])
  then show ?thesis by (auto simp: node_expression_ok_def length_Suc_conv)
qed

lemma node_term_Nil: "validateNodeTerm t pointer = [] \<longleftrightarrow> node_term_ok t"
  by (auto simp: validateNodeTerm_def node_term_ok_def node_expression_Nil each_Nil [where P = node_expression_ok]
      not_less Suc_le_eq)

lemma node_affinity_Nil: "validate_node_affinity a = [] \<longleftrightarrow> node_affinity_ok a"
  by (auto simp: validate_node_affinity_def Let_def on_some_Nil node_affinity_ok_def check_iffs node_term_Nil not_less Suc_le_eq
      each_Nil [where P = node_term_ok]
      each_Nil [where P = "\<lambda>t. weight_ok (pst_Weight t) \<and> node_term_ok (pst_Preference t)"])

lemma affinity_Nil: "validateAffinity a = [] \<longleftrightarrow> affinity_ok a"
  by (auto simp: validateAffinity_def affinity_ok_def on_some_Nil node_affinity_Nil pod_affinity_Nil)

lemma constraint_Nil: "validate_constraint i c = [] \<longleftrightarrow> constraint_ok c"
  by (auto simp: validate_constraint_def constraint_ok_def Let_def on_some_Nil validateLabelSelector_Nil bad_policy_def
      node_key_ok_def not_less)

lemma toleration_Nil: "validate_toleration i t = [] \<longleftrightarrow> toleration_ok t"
  by (auto simp: validate_toleration_def toleration_ok_def Let_def on_some_Nil check_iffs node_key_ok_def not_less)

section \<open>Canonical paths\<close>

lemma split_on_nonempty [simp]: "split_on sep s \<noteq> []"
  by (induction s) (auto split: list.splits)

lemma split_on_no_sep: "w \<in> set (split_on sep s) \<Longrightarrow> sep \<notin> set w"
  by (induction s arbitrary: w) (auto split: if_splits list.splits)

lemma split_on_word: "sep \<notin> set w \<Longrightarrow> split_on sep w = [w]"
  by (induction w) auto

lemma split_on_append: "sep \<notin> set w \<Longrightarrow> split_on sep (w @ sep # s) = w # split_on sep s"
  by (induction w) auto

lemma split_on_join:
  "ws \<noteq> [] \<Longrightarrow> \<forall>w \<in> set ws. sep \<notin> set w \<Longrightarrow> split_on sep (join sep ws) = ws"
  by (induction sep ws rule: join.induct) (simp_all add: split_on_word split_on_append)

lemma clean_stack_plain:
  assumes "\<forall>w \<in> set ws. CHR ''/'' \<notin> set w" and "\<forall>w \<in> set stack. plain_component w"
  shows "\<forall>w \<in> set (foldl (clean_component True) stack ws). plain_component w"
  using assms
proof (induction ws arbitrary: stack)
  case (Cons w ws)
  have "\<forall>v \<in> set (clean_component True stack w). plain_component v"
    using Cons.prems by (auto simp: clean_component_def plain_component_def split: list.splits)
  with Cons show ?case by simp
qed simp

lemma clean_plain:
  "\<forall>w \<in> set ws. plain_component w \<Longrightarrow> foldl (clean_component True) stack ws = rev ws @ stack"
  by (induction ws arbitrary: stack) (simp_all add: clean_component_def plain_component_def)

lemma path_clean_fixed: "path_is_abs s \<and> path_clean s = s \<longleftrightarrow> canonical_path s"
proof
  assume s: "path_is_abs s \<and> path_clean s = s"
  define ws where "ws = rev (foldl (clean_component True) [] (split_on CHR ''/'' s))"
  have "\<forall>w \<in> set ws. plain_component w"
    unfolding ws_def using clean_stack_plain [of "split_on CHR ''/'' s" "[]"] split_on_no_sep by auto
  moreover have "path_clean s = CHR ''/'' # join CHR ''/'' ws"
    using s by (simp add: path_clean_def Let_def ws_def)
  ultimately show "canonical_path s" using s by (auto simp: canonical_path_def)
next
  assume "canonical_path s"
  then obtain ws where plain: "\<forall>w \<in> set ws. plain_component w" and s: "s = CHR ''/'' # join CHR ''/'' ws"
    by (auto simp: canonical_path_def)
  have "foldl (clean_component True) [] (split_on CHR ''/'' s) = rev ws"
  proof (cases "ws = []")
    case False
    then have "split_on CHR ''/'' s = [] # ws"
      using plain split_on_join [of ws "CHR ''/''"] by (simp add: s plain_component_def)
    then show ?thesis using clean_plain [OF plain, of "[]"] by (simp add: clean_component_def)
  qed (simp add: s clean_component_def)
  then show "path_is_abs s \<and> path_clean s = s" by (simp add: path_clean_def path_is_abs_def Let_def s)
qed

section \<open>Processes, ports, variables and resources\<close>

lemma process_Nil: "validate_process rt = [] \<longleftrightarrow> process_ok rt"
proof -
  have "validate_process rt = [] \<longleftrightarrow>
      vector_ok 64 (rt_Command rt) \<and> vector_ok 128 (rt_Args rt) \<and>
      \<not> 65536 < total_bytes (slice (rt_Command rt)) + total_bytes (slice (rt_Args rt)) \<and>
      (rt_WorkingDirectory rt = [] \<or> \<not> length (rt_WorkingDirectory rt) > 4096 \<and> utf8_valid (rt_WorkingDirectory rt) \<and>
        CHR 0x00 \<notin> set (rt_WorkingDirectory rt) \<and> (path_is_abs (rt_WorkingDirectory rt) \<and>
        path_clean (rt_WorkingDirectory rt) = rt_WorkingDirectory rt)) \<and>
      (\<forall>grace. rt_TerminationGracePeriodSeconds rt = Some grace \<longrightarrow> 1 \<le> grace \<and> grace \<le> 3600)"
    by (auto simp: validate_process_def Let_def command_vector_Nil command_vector_total on_some_Nil)
  then show ?thesis unfolding process_ok_def path_clean_fixed by auto
qed

lemma kind_Nil: "validate_kind rt = [] \<longleftrightarrow> kind_ok rt"
proof -
  have "rt_PriorityClassName rt = [] \<Longrightarrow> \<not> has_prefix (rt_PriorityClassName rt) ''system-''"
    by (simp add: has_prefix_def)
  then show ?thesis
    unfolding validate_kind_def kind_ok_def Let_def default_text_def append_is_Nil_conv
    by (auto simp: not_less)
qed

lemma validate_ports_Nil:
  "validate_ports i names ps = [] \<longleftrightarrow>
     (\<forall>p \<in> set ps. port_ok p \<and> port_Name p \<notin> set names) \<and> distinct (map port_Name ps)"
proof (induction i names ps rule: validate_ports.induct)
  case (2 i names p ps)
  have "validate_port pointer names p = [] \<longleftrightarrow> port_ok p \<and> port_Name p \<notin> set names" for pointer
    by (auto simp: validate_port_def port_ok_def not_less)
  with 2 show ?case by (auto simp: image_iff dest: sym)
qed simp

lemma validate_variable_Nil:
  "validate_variable pointer names v = [] \<longleftrightarrow> variable_ok v \<and> env_Name v \<notin> set names"
  unfolding validate_variable_def variable_ok_def
  by (cases "env_Value v"; cases "env_ValueFrom v") (auto simp: on_some_def not_less)

lemma validate_env_Nil:
  "validate_env i names vs = [] \<longleftrightarrow>
     (\<forall>v \<in> set vs. variable_ok v \<and> env_Name v \<notin> set names) \<and> distinct (map env_Name vs)"
  by (induction i names vs rule: validate_env.induct) (auto simp: validate_variable_Nil image_iff dest: sym)

lemma validate_limit_Nil:
  "quantity request \<noteq> None \<Longrightarrow>
     validate_limit quantity limit request p b l = [] \<longleftrightarrow> limit_ok quantity request limit"
  by (auto simp: validate_limit_def limit_ok_def on_some_def split: option.splits)

lemma resources_Nil: "validate_resources res = [] \<longleftrightarrow> resources_ok res"
  by (cases "cpuMilli (rl_CPU (res_Requests res)) = None \<or> memoryBytes (rl_Memory (res_Requests res)) = None")
    (auto simp: validate_resources_def Let_def resources_ok_def on_some_Nil validate_limit_Nil)

section \<open>The validation decides the contract\<close>

lemma validation_iff: "ValidateWorkloadRuntime rt = [] \<longleftrightarrow> runtime_ok rt"
proof -
  have node: "has_prefix ''/runtime/nodeSelector'' ''/runtime/nodeSelector''" by (simp add: has_prefix_def)
  show ?thesis
    unfolding ValidateWorkloadRuntime_def append_is_Nil_conv on_some_Nil kind_Nil process_Nil validate_ports_Nil
      validate_env_Nil resources_Nil validateNodeSelector_Nil affinity_Nil validateProbes_Nil
      each_Nil [where P = constraint_ok, OF constraint_Nil] each_Nil [where P = toleration_ok, OF toleration_Nil]
      runtime_ok_def
    using node by (auto simp: not_less Suc_le_eq)
qed

text \<open>
  C12.  The validation of a workload runtime is exact: no problem is reported for exactly
  those runtimes that meet the declarative contract, in every field.
\<close>

theorem validation_exact: "ValidateWorkloadRuntime rt = [] \<longleftrightarrow> runtime_ok rt"
  by (rule validation_iff)

end
