(* ===== verification/Workload_Defaults.thy ===== *)
theory Workload_Defaults
  imports Workload_Safety
begin

text \<open>
  Quantities, defaults and scheduling of a workload runtime: exact values of parsed
  quantities, the runtime a legacy request receives, and what a validated service can
  reach.
\<close>

section \<open>Quantities\<close>

lemma has_suffix_iff: "has_suffix s p \<longleftrightarrow> (\<exists>t. s = t @ p)"
  unfolding has_suffix_def has_prefix_iff by (metis rev_append rev_rev_ident)

lemma div_bound:
  fixes a b m :: int
  assumes "0 < m"
  shows "a \<le> b div m \<longleftrightarrow> a * m \<le> b"
proof
  assume "a \<le> b div m"
  then have "a * m \<le> b div m * m" using assms by (simp add: mult_right_mono)
  also have "\<dots> \<le> b" using assms by (simp add: minus_mod_eq_div_mult [symmetric])
  finally show "a * m \<le> b" .
next
  assume "a * m \<le> b"
  then show "a \<le> b div m" using assms zdiv_mono1 [of "a * m" b m] by simp
qed

lemma memory_amount_Some:
  assumes "0 < m" and "m \<le> 2 ^ 40"
  shows "memory_amount number m = Some b \<longleftrightarrow>
     length number \<le> 12 \<and> \<not> has_prefix number ''0'' \<and>
     (\<exists>amount. atoi number = Some amount \<and> 0 < amount \<and> b = amount * m \<and> b \<le> 64 * 2 ^ 40)"
proof -
  have none: "atoi [] = None" by (simp add: atoi_def)
  have over: "(64 * 2 ^ 40) div m < amount \<longleftrightarrow> 64 * 2 ^ 40 < amount * m" for amount :: int
    using div_bound [OF assms(1), of amount "64 * 2 ^ 40"] by linarith
  have wrap: "i64 (amount * m) = amount * m" if "0 < amount" "amount * m \<le> 64 * 2 ^ 40" for amount
    using that assms(1) by (intro i64_of_nat_small) simp_all
  show ?thesis
    unfolding memory_amount_def using wrap none
    by (cases "number = []") (auto simp: not_le not_less over [simplified] split: option.splits)
qed

lemma memory_loop_Some:
  "memory_loop q units = Some b \<Longrightarrow>
     \<exists>number suffix unit. q = number @ suffix \<and> (suffix, unit) \<in> set units \<and> memory_amount number unit = Some b"
proof (induction q units rule: memory_loop.induct)
  case (2 q suffix unit units)
  show ?case
  proof (cases "has_suffix q suffix")
    case True
    then obtain number where "q = number @ suffix" by (auto simp: has_suffix_iff)
    with True 2(2) show ?thesis by fastforce
  next
    case False
    with 2 show ?thesis by fastforce
  qed
qed simp

lemma memory_loop_unit:
  "(suffix, unit) \<in> set memory_units \<Longrightarrow> memory_loop (number @ suffix) memory_units = memory_amount number unit"
  by (auto simp: memory_units_def has_suffix_def has_prefix_def)


lemma digit_range: "is_digit c \<Longrightarrow> 0 \<le> (of_char c :: int) - 48 \<and> (of_char c :: int) - 48 \<le> 9"
  using of_nat_of_char [of c, where ?'a = int] by (auto simp: is_digit_def in_range_def simp del: of_nat_of_char)

lemma digits_value_snoc: "digits_value (ds @ [d]) = 10 * digits_value ds + (of_char d - 48)"
  by (simp add: digits_value_def)

lemma digits_value_bounds:
  "list_all is_digit ds \<Longrightarrow> 0 \<le> digits_value ds \<and> digits_value ds < 10 ^ length ds"
proof (induction ds rule: rev_induct)
  case (snoc d ds)
  then have "0 \<le> digits_value ds" "digits_value ds + 1 \<le> 10 ^ length ds" by auto
  moreover have "0 \<le> (of_char d :: int) - 48 \<and> (of_char d :: int) - 48 \<le> 9"
    using snoc.prems digit_range by simp
  ultimately show ?case by (simp add: digits_value_snoc)
qed (simp add: digits_value_def)

lemma digits_value_zeros: "digits_value (ds @ replicate n CHR ''0'') = digits_value ds * 10 ^ n"
proof (induction n)
  case (Suc n)
  have "ds @ replicate (Suc n) CHR ''0'' = (ds @ replicate n CHR ''0'') @ [CHR ''0'']"
    by (simp add: replicate_append_same)
  then show ?case using Suc by (simp only: digits_value_snoc) simp
qed simp

lemma atoi_digits:
  assumes "ds \<noteq> []" "list_all is_digit ds" "length ds \<le> 12"
  shows "atoi ds = Some (digits_value ds)"
proof -
  have "hd ds \<notin> set ''+-''" using assms(1,2) by (cases ds) (auto simp: is_digit_def in_range_def)
  moreover have "(10::int) ^ length ds \<le> 10 ^ 12" using assms(3) by (intro power_increasing) simp_all
  then have "in_i64 (digits_value ds)"
    using digits_value_bounds [OF assms(2)] by (simp add: in_i64_def)
  ultimately show ?thesis using assms(1,2) by (simp add: atoi_def)
qed

lemma digits_no_char: "list_all is_digit ds \<Longrightarrow> \<not> is_digit c \<Longrightarrow> c \<notin> set ds"
  by (auto simp: list_all_iff)

text \<open>
  A decimal CPU quantity, up to four digits and up to three decimals, is read as
  exactly that many thousandths of a core.
\<close>

theorem cpu_decimal:
  assumes "w \<noteq> []" "list_all is_digit w" "length w \<le> 4"
    and "f \<noteq> []" "list_all is_digit f" "length f \<le> 3"
    and "m = 1000 * digits_value w + digits_value f * 10 ^ (3 - length f)"
  shows "cpuMilli (w @ ''.'' @ f) = (if 0 < m \<and> m \<le> 1000000 then Some m else None)"
proof -
  have "\<not> has_suffix (w @ ''.'' @ f) ''m''"
    using assms(4,5) by (cases f rule: rev_cases) (auto simp: has_suffix_iff is_digit_def in_range_def)
  moreover have "CHR ''.'' \<notin> set w" "CHR ''.'' \<notin> set f"
    using digits_no_char assms(2,5) by (auto simp: is_digit_def in_range_def)
  then have "split_on CHR ''.'' (w @ ''.'' @ f) = [w, f]"
    by (simp add: split_on_append split_on_word)
  moreover have "atoi w = Some (digits_value w)" using assms by (intro atoi_digits) auto
  moreover have "atoi (f @ replicate (3 - length f) CHR ''0'') = Some (digits_value f * 10 ^ (3 - length f))"
    using assms by (subst atoi_digits) (auto simp: digits_value_zeros list_all_iff is_digit_def in_range_def)
  moreover have w: "0 \<le> digits_value w \<and> digits_value w < 10 ^ length w" by (rule digits_value_bounds) fact
  moreover have "(10::int) ^ length w \<le> 10 ^ 4" using assms(3) by (intro power_increasing) simp_all
  moreover have f: "0 \<le> digits_value f \<and> digits_value f < 10 ^ length f" by (rule digits_value_bounds) fact
  moreover have "digits_value f * 10 ^ (3 - length f) < 10 ^ length f * 10 ^ (3 - length f)"
    using f by (intro mult_strict_right_mono) simp_all
  then have "digits_value f * 10 ^ (3 - length f) < 1000"
    using assms(6) by (simp add: power_add [symmetric])
  moreover have "0 \<le> digits_value f * 10 ^ (3 - length f)" using f by simp
  ultimately have "i64 (i64 (digits_value w * 1000) + digits_value f * 10 ^ (3 - length f)) = m"
    using assms(7) by (simp add: i64_of_nat_small)
  then show ?thesis
    using \<open>\<not> has_suffix _ _\<close> \<open>split_on _ _ = _\<close> \<open>atoi w = _\<close> \<open>atoi (f @ _) = _\<close> w assms(1,3,4,6)
    by (simp add: cpuMilli_def Let_def)
qed

theorem cpu_decimal_witness: "cpuMilli ''0.25'' = Some 250"
proof -
  have "cpuMilli (''0'' @ ''.'' @ ''25'') = (if 0 < (250::int) \<and> (250::int) \<le> 1000000 then Some 250 else None)"
    by (rule cpu_decimal) (simp_all add: is_digit_def in_range_def digits_value_def)
  then show ?thesis by simp
qed

text \<open>
  The fraction of a CPU quantity is parsed as a signed number of its own, so a sign after
  the point is accepted and moves the value.
\<close>

lemma cpu_signed_fraction: "cpuMilli ''1.-5'' = Some 950 \<and> cpuMilli ''1.+5'' = Some 1050 \<and> cpuMilli ''1.5'' = Some 1500"
  by code_simp

section \<open>Trimming\<close>

lemma lead_byte_cases:
  obtains (ascii) "byte a < 128"
    | (two) "\<not> byte a < 128" "194 \<le> byte a \<and> byte a \<le> 223"
    | (three) "\<not> byte a < 128" "\<not> (194 \<le> byte a \<and> byte a \<le> 223)" "224 \<le> byte a \<and> byte a \<le> 239"
    | (four) "\<not> byte a < 128" "\<not> (194 \<le> byte a \<and> byte a \<le> 223)" "\<not> (224 \<le> byte a \<and> byte a \<le> 239)" "240 \<le> byte a \<and> byte a \<le> 244"
    | (other) "\<not> byte a < 128" "\<not> (194 \<le> byte a \<and> byte a \<le> 223)" "\<not> (224 \<le> byte a \<and> byte a \<le> 239)" "\<not> (240 \<le> byte a \<and> byte a \<le> 244)"
  by blast

lemma list3_cases:
  obtains "s = []" | b where "s = [b]" | b c where "s = [b, c]" | b c d t where "s = b # c # d # t"
  by (metis neq_Nil_conv)

lemma decode_rune_width: "decode_rune (a # s) = (r, w) \<Longrightarrow> 1 \<le> w \<and> w \<le> Suc (length s)"
  by (cases a rule: lead_byte_cases; cases s rule: list3_cases)
    (simp_all only: decode_rune.simps Let_def if_True if_False simp_thms list.case, auto split: if_splits)

lemma decode_rune_take:
  assumes "decode_rune (a # s) = (r, w)" and "w \<le> Suc n"
  shows "decode_rune (a # take n s) = (r, w)"
proof -
  consider (zero) "n = 0" | (one) "n = Suc 0" | (two) "n = Suc (Suc 0)" | (more) m where "n = Suc (Suc (Suc m))"
    by (metis not0_implies_Suc)
  then show ?thesis
    using assms
    by cases (cases a rule: lead_byte_cases; cases s rule: list3_cases;
      simp only: decode_rune.simps Let_def if_True if_False simp_thms list.case take_0 take_Nil take_Suc_Cons; auto split: if_splits)+
qed

lemma runes_prefix: "runes (concat (map snd (take k (runes s)))) = take k (runes s)"
proof (induction s arbitrary: k rule: runes.induct)
  case (2 c s)
  obtain r w where d: "decode_rune (c # s) = (r, w)" by fastforce
  show ?case
  proof (cases k)
    case (Suc j)
    define rest where "rest = concat (map snd (take j (runes (drop (w - 1) s))))"
    have "\<exists>t. drop (w - 1) s = rest @ t"
      using concat_runes [of "drop (w - 1) s"] append_take_drop_id [of j "runes (drop (w - 1) s)"]
      unfolding rest_def by (metis concat_append map_append)
    then obtain t where t: "drop (w - 1) s = rest @ t" by blast
    have w: "1 \<le> w" "w \<le> Suc (length s)" using decode_rune_width [OF d] by auto
    have split: "take (w - 1) s @ rest = take (w - 1 + length rest) s"
      unfolding take_add t by simp
    have "decode_rune (c # take (w - 1) s @ rest) = (r, w)"
      unfolding split using d w by (intro decode_rune_take) auto
    moreover have "take (w - 1) (take (w - 1) s @ rest) = take (w - 1) s" "drop (w - 1) (take (w - 1) s @ rest) = rest"
      using w by simp_all
    ultimately have "runes (c # take (w - 1) s @ rest) = (r, c # take (w - 1) s) # runes rest"
      by simp
    moreover have "runes rest = take j (runes (drop (w - 1) s))"
      unfolding rest_def using 2 [OF d [symmetric]] by simp
    ultimately show ?thesis using d Suc by (simp add: rest_def)
  qed simp
qed simp

lemma runes_suffix: "runes (concat (map snd (drop k (runes s)))) = drop k (runes s)"
proof (induction s arbitrary: k rule: runes.induct)
  case (2 c s)
  obtain r w where d: "decode_rune (c # s) = (r, w)" by fastforce
  show ?case
  proof (cases k)
    case 0
    then show ?thesis using concat_runes [of "c # s"] by simp
  next
    case (Suc j)
    then show ?thesis using d 2 [OF d [symmetric], of j] by simp
  qed
qed simp

lemma trim_space_idem: "trim_space (trim_space s) = trim_space s"
proof -
  define sp :: "nat \<times> string \<Rightarrow> bool" where "sp = (\<lambda>(r, _). is_space r)"
  define body where "body = rev (dropWhile sp (rev (dropWhile sp (runes s))))"
  have trim: "trim_space s = concat (map snd body)" by (simp add: trim_space_def sp_def [symmetric] body_def)
  obtain k where k: "dropWhile sp (runes s) = drop k (runes s)" by (metis dropWhile_eq_drop)
  define tail where "tail = concat (map snd (drop k (runes s)))"
  have tail: "runes tail = drop k (runes s)" unfolding tail_def by (rule runes_suffix)
  obtain j where "body = take j (runes tail)"
    unfolding body_def k tail by (metis dropWhile_eq_drop rev_drop rev_rev_ident)
  then have runes: "runes (trim_space s) = body" unfolding trim by (simp add: runes_prefix)
  have "dropWhile sp (rev body) = rev body" by (simp add: body_def)
  moreover have "dropWhile sp body = body"
  proof (cases body)
    case (Cons x xs)
    have "body @ rev (takeWhile sp (rev (dropWhile sp (runes s)))) = dropWhile sp (runes s)"
      unfolding body_def by (metis rev_append rev_rev_ident takeWhile_dropWhile_id)
    with Cons have "\<exists>ys. dropWhile sp (runes s) = x # ys" by (metis append_Cons)
    then have "\<not> sp x" by (metis dropWhile_eq_Cons_conv)
    with Cons show ?thesis by simp
  qed simp
  moreover have "trim_space (trim_space s) =
      concat (map snd (rev (dropWhile sp (rev (dropWhile sp (runes (trim_space s)))))))"
    by (simp only: trim_space_def [of "trim_space s"] Let_def sp_def)
  ultimately show ?thesis by (simp add: runes trim [symmetric])
qed

section \<open>Normal form and defaults\<close>

text \<open>
  Normalizing a runtime is idempotent: the normal form is stored and read back
  without drifting.
\<close>

theorem normalize_idempotent:
  "NormalizeWorkloadRuntime (NormalizeWorkloadRuntime rt) = NormalizeWorkloadRuntime rt"
  by (simp add: NormalizeWorkloadRuntime_def Let_def default_text_def trim_space_idem DefaultCPURequest_def
      DefaultMemoryRequest_def comp_def)

lemma ascii_runes: "list_all (\<lambda>c. byte c < 128) s \<Longrightarrow> runes s = map (\<lambda>c. (byte c, [c])) s"
  by (induction s) auto

lemma env_name_trimmed: "envNamePattern s \<Longrightarrow> trim_space s = s"
proof -
  assume "envNamePattern s"
  then have chars: "\<forall>c \<in> set s. is_alnum c \<or> c = CHR ''_''" by (simp add: envNamePattern_def list_all_iff)
  have plain: "byte c < 128 \<and> \<not> is_space (byte c)" if "is_alnum c \<or> c = CHR ''_''" for c
    using that by (auto simp: char_class_defs byte_def is_space_def)
  have runes: "runes s = map (\<lambda>c. (byte c, [c])) s"
    using chars plain by (intro ascii_runes) (auto simp: list_all_iff)
  have keep: "dropWhile (\<lambda>(r, _). is_space r) (map (\<lambda>c. (byte c, [c])) t) = map (\<lambda>c. (byte c, [c])) t"
    if "set t \<subseteq> set s" for t :: string
    using that chars plain by (cases t) auto
  have "concat (map snd (map (\<lambda>c. (byte c, [c])) t)) = t" for t :: string by (induction t) auto
  then show ?thesis
    unfolding trim_space_def runes Let_def using keep [of s] keep [of "rev s"]
    by (simp add: rev_map [symmetric])
qed

definition legacy_env_ok :: "(string, string) gomap \<Rightarrow> bool" where
  "legacy_env_ok env \<longleftrightarrow> wf_map env \<and> length env \<le> 256 \<and>
     (\<forall>(k, v) \<in> set env. envNamePattern k \<and> length k \<le> 128 \<and> length v \<le> 4096)"

lemma legacy_runtime:
  assumes "rt_Ports r = []" and "\<forall>k \<in> keys env. trim_space k = k"
  shows "RuntimeForCreateDeployment r replicas port env =
     (DefaultWorkloadRuntime port env)\<lparr>rt_Replicas := (if replicas = 0 then 1 else replicas),
        rt_Ports := [\<lparr>port_Name = ''http'', port_ContainerPort = port, port_ServicePort = 0, port_Protocol = ''TCP''\<rparr>]\<rparr>"
  using assms
  by (simp add: RuntimeForCreateDeployment_def NormalizeWorkloadRuntime_def DefaultWorkloadRuntime_def Let_def
      default_text_def DefaultCPURequest_def DefaultMemoryRequest_def comp_def keys_def)

lemma default_resources: "resources_ok \<lparr>res_Requests = \<lparr>rl_CPU = DefaultCPURequest, rl_Memory = DefaultMemoryRequest\<rparr>, res_Limits = None\<rparr>"
proof -
  have "cpuMilli DefaultCPURequest = Some 50 \<and> memoryBytes DefaultMemoryRequest = Some 104857600" by code_simp
  then show ?thesis by (simp add: resources_ok_def)
qed

text \<open>
  A legacy deployment request (replicas, one port, plain variables) always receives a
  runtime that passes the validation, when its own values are in range.
\<close>

theorem default_request_valid:
  assumes "rt_Ports r = []" and "0 \<le> replicas" "replicas \<le> 100" and "1 \<le> port" "port \<le> 65535" and "legacy_env_ok env"
  shows "ValidateWorkloadRuntime (RuntimeForCreateDeployment r replicas port env) = []"
proof -
  have env: "distinct (map fst env)" "length env \<le> 256"
    and var: "\<And>k v. (k, v) \<in> set env \<Longrightarrow> envNamePattern k \<and> length k \<le> 128 \<and> length v \<le> 4096"
    using assms(6) by (auto simp: legacy_env_ok_def wf_map_def)
  have keys: "envNamePattern k \<and> length k \<le> 128 \<and> length (get_or [] env k) \<le> 4096" if "k \<in> fst ` set env" for k
  proof -
    from that obtain v where kv: "(k, v) \<in> set env" by auto
    then have "map_of env k = Some v" using env(1) by simp
    with var [OF kv] show ?thesis by (simp add: get_or_def)
  qed
  have trimmed: "\<forall>k \<in> keys env. trim_space k = k" using keys env_name_trimmed by (simp add: keys_def)
  have "runtime_ok (RuntimeForCreateDeployment r replicas port env)"
    unfolding legacy_runtime [OF assms(1) trimmed]
    using assms(2-5) env keys default_resources
    by (auto simp: runtime_ok_def DefaultWorkloadRuntime_def kind_ok_def process_ok_def vector_ok_def slice_def
        total_bytes_def port_ok_def variable_ok_def labels_ok_def comp_def portNamePattern_def is_lower_alnum_def
        char_class_defs)
  then show ?thesis by (simp add: validation_iff)
qed

lemma legacy_fold:
  "map_of (foldl (\<lambda>m v. case env_Value v of Some x \<Rightarrow> AList.update (env_Name v) x m | None \<Rightarrow> m) m0
     (map (\<lambda>k. \<lparr>env_Name = k, env_Value = Some (g k), env_ValueFrom = None\<rparr>) ks)) =
   (\<lambda>k. if k \<in> set ks then Some (g k) else map_of m0 k)"
  by (induction ks arbitrary: m0) (auto simp: fun_eq_iff)

text \<open>
  Round trip of a legacy request: the runtime it receives reads back as its replicas
  (an omitted count is one), its port and exactly its variables.
\<close>

theorem legacy_roundtrip:
  assumes "rt_Ports r = []" and "\<forall>k \<in> keys env. trim_space k = k"
  shows "\<exists>env'. LegacyWorkloadFields (RuntimeForCreateDeployment r replicas port env) =
           (if replicas = 0 then 1 else replicas, port, env') \<and> map_of env' = map_of env"
proof -
  have "(\<lambda>k. if k \<in> set (sort (map fst env)) then Some (get_or [] env k) else map_of [] k) = map_of env"
    by (rule ext) (auto simp: get_or_def dom_map_of_conv_image_fst [symmetric] domIff split: option.splits)
  then show ?thesis
    unfolding legacy_runtime [OF assms]
    by (simp add: LegacyWorkloadFields_def DefaultWorkloadRuntime_def legacy_fold)
qed

definition legacy_base :: workload_runtime where
  "legacy_base = (DefaultWorkloadRuntime 1 [])\<lparr>rt_Ports := []\<rparr>"

lemma legacy_base_ports: "rt_Ports legacy_base = []"
  by (simp add: legacy_base_def)

lemma mode_name: "envNamePattern ''MODE''"
  by (simp add: envNamePattern_def char_class_defs)

theorem default_request_valid_witness:
  "ValidateWorkloadRuntime (RuntimeForCreateDeployment legacy_base 0 3000 [(''MODE'', ''prod'')]) = []"
  by (rule default_request_valid [OF legacy_base_ports])
    (simp_all add: legacy_env_ok_def wf_map_def mode_name)

theorem legacy_roundtrip_witness:
  "\<exists>env'. LegacyWorkloadFields (RuntimeForCreateDeployment legacy_base 0 3000 [(''MODE'', ''prod'')]) =
     (1, 3000, env') \<and> map_of env' = map_of [(''MODE'', ''prod'')]"
proof -
  have "\<forall>k \<in> keys [(''MODE'', ''prod'')]. trim_space k = k"
    using env_name_trimmed [OF mode_name] by (simp add: keys_def)
  from legacy_roundtrip [OF legacy_base_ports this, of 0 3000] show ?thesis by (simp only: simp_thms if_True)
qed

section \<open>What a validated service can reach\<close>

text \<open>The node labels and taints a runtime schedules by, and the selectors it applies to Pods.\<close>

definition pod_terms :: "workload_affinity \<Rightarrow> pod_affinity_term set" where
  "pod_terms a = (\<Union>p \<in> set_option (aff_PodAffinity a) \<union> set_option (aff_PodAntiAffinity a).
     set (pa_Required p) \<union> wpat_PodAffinityTerm ` set (pa_Preferred p))"

definition node_terms :: "workload_affinity \<Rightarrow> node_selector_term set" where
  "node_terms a = (\<Union>n \<in> set_option (aff_NodeAffinity a).
     (\<Union>r \<in> set_option (na_Required n). set (ns_NodeSelectorTerms r)) \<union> pst_Preference ` set (na_Preferred n))"

definition node_keys :: "workload_runtime \<Rightarrow> string set" where
  "node_keys rt =
     fst ` set (rt_NodeSelector rt) \<union> tol_Key ` set (rt_Tolerations rt) \<union> tsc_TopologyKey ` set (rt_TopologySpreadConstraints rt) \<union>
     (\<Union>a \<in> set_option (rt_Affinity rt). pat_TopologyKey ` pod_terms a \<union>
        (\<Union>t \<in> node_terms a. expr_Key ` set (term_MatchExpressions t)))"

definition pod_selectors :: "workload_runtime \<Rightarrow> label_selector set" where
  "pod_selectors rt =
     tsc_LabelSelector ` set (rt_TopologySpreadConstraints rt) \<union>
     (\<Union>a \<in> set_option (rt_Affinity rt). pat_LabelSelector ` pod_terms a)"

definition own_pods :: "string \<Rightarrow> label_selector" where
  "own_pods app = \<lparr>sel_MatchLabels = [(''kuberploy.io/application'', app)], sel_MatchExpressions = []\<rparr>"

lemma exact_selector_own: "exact_selector app sel \<Longrightarrow> sel = own_pods app"
  by (cases sel) (auto simp: exact_selector_def own_pods_def get_or_def length_Suc_conv split: option.splits if_splits)

lemma require_exact_Nil: "require_exact app sel pointer = [] \<longleftrightarrow> exact_selector app sel"
  by (simp add: require_exact_def)

lemma pod_terms_Nil:
  "validate_pod_terms app a pointer = [] \<longleftrightarrow>
     (\<forall>p \<in> set_option a. \<forall>t \<in> set (pa_Required p) \<union> wpat_PodAffinityTerm ` set (pa_Preferred p). exact_selector app (pat_LabelSelector t))"
  by (auto simp: validate_pod_terms_def on_some_Nil require_exact_Nil
      each_Nil [where P = "\<lambda>t. exact_selector app (pat_LabelSelector t)"]
      each_Nil [where P = "\<lambda>t. exact_selector app (pat_LabelSelector (wpat_PodAffinityTerm t))"])

lemma scheduling_Nil:
  "ValidateApplicationScheduling rt app = [] \<longleftrightarrow> (\<forall>sel \<in> pod_selectors rt. exact_selector app sel)"
  unfolding ValidateApplicationScheduling_def append_is_Nil_conv on_some_Nil pod_terms_Nil pod_selectors_def pod_terms_def
  by (auto simp: require_exact_Nil each_Nil [where P = "\<lambda>c. exact_selector app (tsc_LabelSelector c)"])

lemma affinity_keys:
  "affinity_ok a \<Longrightarrow> t \<in> pod_terms a \<Longrightarrow> node_key_ok (pat_TopologyKey t)"
  "affinity_ok a \<Longrightarrow> u \<in> node_terms a \<Longrightarrow> e \<in> set (term_MatchExpressions u) \<Longrightarrow> node_key_ok (expr_Key e)"
  by (force simp: affinity_ok_def pod_terms_def pod_affinity_ok_def pod_term_ok_def)
    (force simp: affinity_ok_def node_terms_def node_affinity_ok_def node_term_ok_def node_expression_ok_def)

lemma runtime_node_keys:
  assumes "runtime_ok rt" and "k \<in> node_keys rt"
  shows "node_key_ok k"
proof -
  have selector: "\<forall>x \<in> set (rt_NodeSelector rt). node_key_ok (fst x)"
    and tolerations: "\<forall>t \<in> set (rt_Tolerations rt). node_key_ok (tol_Key t)"
    and constraints: "\<forall>c \<in> set (rt_TopologySpreadConstraints rt). node_key_ok (tsc_TopologyKey c)"
    and affinity: "\<forall>a. rt_Affinity rt = Some a \<longrightarrow> affinity_ok a"
    using assms(1)
    by (auto simp: runtime_ok_def labels_ok_def toleration_ok_def constraint_ok_def node_key_ok_def)
  from assms(2) show ?thesis
    unfolding node_keys_def using selector tolerations constraints affinity affinity_keys by fastforce
qed

text \<open>
  C32.  Isolation of a validated service: it neither selects, prefers nor tolerates nodes by
  a reserved label or taint, and every Pod selector in it selects exactly the Pods of its
  own application.
\<close>

theorem validated_isolation:
  assumes "ValidateWorkloadRuntime rt = []" and "ValidateApplicationScheduling rt app = []"
  shows "(\<forall>k \<in> node_keys rt. validLabelKey k \<and> \<not> reservedSchedulingKey k) \<and>
         (\<forall>sel \<in> pod_selectors rt. sel = own_pods app)"
  using assms runtime_node_keys exact_selector_own
  by (auto simp: validation_iff scheduling_Nil node_key_ok_def)

definition spread_constraint :: topology_spread_constraint where
  "spread_constraint =
     \<lparr>tsc_MaxSkew = 1, tsc_TopologyKey = ''zone'', tsc_WhenUnsatisfiable = ''DoNotSchedule'',
      tsc_LabelSelector = own_pods ''app-1'', tsc_MinDomains = None, tsc_NodeAffinityPolicy = [],
      tsc_NodeTaintsPolicy = []\<rparr>"

definition gpu_toleration :: workload_toleration where
  "gpu_toleration =
     \<lparr>tol_Key = ''gpu'', tol_Operator = ''Exists'', tol_Value = [], tol_Effect = ''NoSchedule'',
      tol_TolerationSeconds = None\<rparr>"

definition spread_runtime :: workload_runtime where
  "spread_runtime =
     (RuntimeForCreateDeployment legacy_base 2 8080 [])\<lparr>
        rt_TopologySpreadConstraints := [spread_constraint], rt_Tolerations := [gpu_toleration]\<rparr>"

lemma spread_label_keys:
  "validLabelKey ''zone''" "validLabelKey ''gpu''" "validLabelKey ''kuberploy.io/application''" "label_value_ok ''app-1''"
  "\<not> reservedSchedulingKey ''zone''" "\<not> reservedSchedulingKey ''gpu''"
  by (simp_all add: validLabelKey_def labelNamePattern_def dnsLabelPattern_def is_lower_alnum_def char_class_defs Let_def
      label_value_ok_def reservedSchedulingKey_def has_prefix_def)

lemma spread_constraint_ok: "constraint_ok spread_constraint"
  using spread_label_keys
  by (simp add: constraint_ok_def spread_constraint_def node_key_ok_def selector_ok_def own_pods_def labels_ok_def)

lemma gpu_toleration_ok: "toleration_ok gpu_toleration"
  using spread_label_keys by (simp add: toleration_ok_def gpu_toleration_def node_key_ok_def label_value_ok_def)

lemma spread_runtime_eq:
  "spread_runtime = (DefaultWorkloadRuntime 8080 [])\<lparr>rt_Replicas := 2,
     rt_Ports := [\<lparr>port_Name = ''http'', port_ContainerPort = 8080, port_ServicePort = 0, port_Protocol = ''TCP''\<rparr>],
     rt_TopologySpreadConstraints := [spread_constraint], rt_Tolerations := [gpu_toleration]\<rparr>"
  by (simp add: spread_runtime_def legacy_runtime [OF legacy_base_ports] keys_def)

lemma spread_runtime_valid: "ValidateWorkloadRuntime spread_runtime = []"
  unfolding validation_iff spread_runtime_eq using default_resources spread_constraint_ok gpu_toleration_ok
  by (simp add: runtime_ok_def DefaultWorkloadRuntime_def kind_ok_def process_ok_def vector_ok_def slice_def
      total_bytes_def port_ok_def labels_ok_def portNamePattern_def is_lower_alnum_def char_class_defs)

lemma spread_runtime_scheduling: "ValidateApplicationScheduling spread_runtime ''app-1'' = []"
  by (simp add: scheduling_Nil pod_selectors_def spread_runtime_eq DefaultWorkloadRuntime_def spread_constraint_def
      exact_selector_def own_pods_def get_or_def)

lemma spread_node_keys: "''zone'' \<in> node_keys spread_runtime" "''gpu'' \<in> node_keys spread_runtime"
  by (simp_all add: node_keys_def spread_runtime_eq spread_constraint_def gpu_toleration_def)

theorem validated_isolation_witness:
  "''zone'' \<in> node_keys spread_runtime \<and> \<not> reservedSchedulingKey ''zone'' \<and>
   ''gpu'' \<in> node_keys spread_runtime \<and> \<not> reservedSchedulingKey ''gpu''"
  using validated_isolation [OF spread_runtime_valid spread_runtime_scheduling] spread_node_keys by blast

end
