(* ===== verification/Access_Policy.thy ===== *)
theory Access_Policy
  imports Go_Text "HOL-Library.Product_Lexorder" "HOL-Library.Code_Target_Nat"
begin

text \<open>
  The authorization policy: the roles, scopes and permissions of \<open>internal/domain/access.go\<close>
  and the evaluator of \<open>internal/access/policy.go\<close>, with the token policy of
  \<open>internal/automation/policy.go\<close>.  The string types with a closed set of constants are
  datatypes; any other text is the last constructor.  Where the code compares or joins the
  texts, \<open>role_text\<close> and \<open>scope_text\<close> give them.
\<close>

section \<open>Roles, scopes, permissions\<close>

datatype access_role =
  RoleViewer
  | RoleDeveloper
  | RoleProjectAdmin
  | RoleOrganizationAdmin
  | RolePlatformAdmin
  | RoleOther string

datatype access_scope =
  ScopePlatform | ScopeTeam | ScopeProject | ScopeEnvironment | ScopeNamespace | ScopeApplication
  | ScopeOther string

datatype permission =
  PermissionResourcesRead | PermissionResourcesWrite | PermissionConfigRead
  | PermissionConfigWrite | PermissionOperationsRead | PermissionMetricsRead
  | PermissionLogsRead | PermissionSecretsRead | PermissionSecretsBind
  | PermissionSecretsCreate | PermissionSecretsRotate | PermissionSecretsDelete
  | PermissionCertificatesRead | PermissionCertificatesCreate | PermissionCertificatesRotate
  | PermissionCertificatesDelete | PermissionRegistryCredentialsRead | PermissionRegistryCredentialsCreate
  | PermissionRegistryCredentialsRotate | PermissionRegistryCredentialsDelete | PermissionBuildsRead
  | PermissionBuildsManage | PermissionBuildsCancel | PermissionBuildsRetry
  | PermissionHelmRead | PermissionHelmDeploy | PermissionHelmRetry
  | PermissionHelmRollback | PermissionRegistryRead | PermissionRegistryPolicyWrite
  | PermissionRegistryCleanupPreview | PermissionRegistryCleanupExecute | PermissionRegistryTargetsManage
  | PermissionExternalDNSRead | PermissionExternalDNSManage | PermissionGrantsRead
  | PermissionGrantsManage | PermissionPlatformAdmin
  | PermissionOther string

fun role_text :: "access_role \<Rightarrow> string" where
  "role_text RoleViewer = ''viewer''"
| "role_text RoleDeveloper = ''developer''"
| "role_text RoleProjectAdmin = ''project-admin''"
| "role_text RoleOrganizationAdmin = ''organization-admin''"
| "role_text RolePlatformAdmin = ''platform-admin''"
| "role_text (RoleOther s) = s"

fun scope_text :: "access_scope \<Rightarrow> string" where
  "scope_text ScopePlatform = ''platform''"
| "scope_text ScopeTeam = ''team''"
| "scope_text ScopeProject = ''project''"
| "scope_text ScopeEnvironment = ''environment''"
| "scope_text ScopeNamespace = ''namespace''"
| "scope_text ScopeApplication = ''application''"
| "scope_text (ScopeOther s) = s"

record access_target =
  at_Type :: string
  at_ID :: string
  at_TeamID :: string
  at_ProjectID :: string
  at_EnvironmentID :: string
  at_Namespace :: string
  at_ApplicationID :: string

record access_binding =
  bnd_Role :: access_role
  bnd_ScopeType :: access_scope
  bnd_ScopeID :: string
  bnd_Permissions :: "permission list"
  bnd_Source :: string

record access_capability =
  cap_Role :: access_role
  cap_ScopeType :: access_scope
  cap_ScopeID :: string
  cap_Source :: string
  cap_Actions :: "string list"

section \<open>The tables\<close>

definition roleRank :: "(access_role, int) gomap" where
  "roleRank = [(RoleViewer, 10), (RoleDeveloper, 20), (RoleProjectAdmin, 30), (RoleOrganizationAdmin, 40), (RolePlatformAdmin, 50)]"

fun rolePermissions :: "access_role \<Rightarrow> permission list" where
  "rolePermissions RoleViewer =
     [PermissionResourcesRead, PermissionConfigRead, PermissionOperationsRead,
      PermissionMetricsRead, PermissionSecretsRead, PermissionCertificatesRead,
      PermissionRegistryCredentialsRead, PermissionBuildsRead, PermissionHelmRead,
      PermissionRegistryRead, PermissionExternalDNSRead]"
| "rolePermissions RoleDeveloper =
     [PermissionResourcesRead, PermissionResourcesWrite, PermissionConfigRead,
      PermissionConfigWrite, PermissionOperationsRead, PermissionMetricsRead,
      PermissionLogsRead, PermissionSecretsRead, PermissionSecretsBind,
      PermissionCertificatesRead, PermissionRegistryCredentialsRead, PermissionBuildsRead,
      PermissionBuildsCancel, PermissionBuildsRetry, PermissionHelmRead,
      PermissionHelmDeploy, PermissionHelmRetry, PermissionRegistryRead,
      PermissionExternalDNSRead]"
| "rolePermissions RoleProjectAdmin =
     [PermissionResourcesRead, PermissionResourcesWrite, PermissionConfigRead,
      PermissionConfigWrite, PermissionOperationsRead, PermissionMetricsRead,
      PermissionLogsRead, PermissionSecretsRead, PermissionSecretsBind,
      PermissionSecretsCreate, PermissionSecretsRotate, PermissionSecretsDelete,
      PermissionCertificatesRead, PermissionCertificatesCreate, PermissionCertificatesRotate,
      PermissionCertificatesDelete, PermissionRegistryCredentialsRead, PermissionRegistryCredentialsCreate,
      PermissionRegistryCredentialsRotate, PermissionRegistryCredentialsDelete, PermissionBuildsRead,
      PermissionBuildsManage, PermissionBuildsCancel, PermissionBuildsRetry,
      PermissionHelmRead, PermissionHelmDeploy, PermissionHelmRetry,
      PermissionHelmRollback, PermissionRegistryRead, PermissionRegistryPolicyWrite,
      PermissionRegistryCleanupPreview, PermissionRegistryCleanupExecute, PermissionExternalDNSRead,
      PermissionGrantsRead, PermissionGrantsManage]"
| "rolePermissions RoleOrganizationAdmin =
     [PermissionResourcesRead, PermissionResourcesWrite, PermissionConfigRead,
      PermissionConfigWrite, PermissionOperationsRead, PermissionMetricsRead,
      PermissionLogsRead, PermissionSecretsRead, PermissionSecretsBind,
      PermissionSecretsCreate, PermissionSecretsRotate, PermissionSecretsDelete,
      PermissionCertificatesRead, PermissionCertificatesCreate, PermissionCertificatesRotate,
      PermissionCertificatesDelete, PermissionRegistryCredentialsRead, PermissionRegistryCredentialsCreate,
      PermissionRegistryCredentialsRotate, PermissionRegistryCredentialsDelete, PermissionBuildsRead,
      PermissionBuildsManage, PermissionBuildsCancel, PermissionBuildsRetry,
      PermissionHelmRead, PermissionHelmDeploy, PermissionHelmRetry,
      PermissionHelmRollback, PermissionRegistryRead, PermissionRegistryPolicyWrite,
      PermissionRegistryCleanupPreview, PermissionRegistryCleanupExecute, PermissionExternalDNSRead,
      PermissionGrantsRead, PermissionGrantsManage]"
| "rolePermissions RolePlatformAdmin =
     [PermissionResourcesRead, PermissionResourcesWrite, PermissionConfigRead,
      PermissionConfigWrite, PermissionOperationsRead, PermissionMetricsRead,
      PermissionLogsRead, PermissionSecretsRead, PermissionSecretsBind,
      PermissionSecretsCreate, PermissionSecretsRotate, PermissionSecretsDelete,
      PermissionCertificatesRead, PermissionCertificatesCreate, PermissionCertificatesRotate,
      PermissionCertificatesDelete, PermissionRegistryCredentialsRead, PermissionRegistryCredentialsCreate,
      PermissionRegistryCredentialsRotate, PermissionRegistryCredentialsDelete, PermissionBuildsRead,
      PermissionBuildsManage, PermissionBuildsCancel, PermissionBuildsRetry,
      PermissionHelmRead, PermissionHelmDeploy, PermissionHelmRetry,
      PermissionHelmRollback, PermissionRegistryRead, PermissionRegistryPolicyWrite,
      PermissionRegistryCleanupPreview, PermissionRegistryCleanupExecute, PermissionRegistryTargetsManage,
      PermissionExternalDNSRead, PermissionExternalDNSManage, PermissionGrantsRead,
      PermissionGrantsManage, PermissionPlatformAdmin]"
| "rolePermissions (RoleOther s) = []"

text \<open>\<open>permissionActions\<close>, the API actions of a permission at a scope.\<close>

fun permissionActions :: "permission \<Rightarrow> access_scope \<Rightarrow> string list" where
  "permissionActions PermissionResourcesRead scope =
     (if scope = ScopePlatform \<or> scope = ScopeTeam then
        [''applications:read'', ''deployments:read'', ''environments:read'', ''projects:read'', ''team-members:read'', ''teams:read'']
      else if scope = ScopeEnvironment \<or> scope = ScopeNamespace then
        [''deployments:read'', ''environments:read'', ''projects:read'']
      else if scope = ScopeApplication then
        [''applications:read'', ''deployments:read'', ''projects:read'']
      else [''applications:read'', ''deployments:read'', ''environments:read'', ''projects:read''])"
| "permissionActions PermissionResourcesWrite scope =
     (if scope = ScopePlatform \<or> scope = ScopeTeam then
        [''applications:create'', ''applications:delete'', ''deployments:create'', ''deployments:update'', ''environments:create'', ''environments:delete'', ''projects:create'']
      else if scope = ScopeProject then
        [''applications:create'', ''applications:delete'', ''deployments:create'', ''deployments:update'', ''environments:create'', ''environments:delete'']
      else [''deployments:create'', ''deployments:update''])"
| "permissionActions PermissionConfigRead scope =
     [''deployment-config:read'', ''deployment-config:validate'']"
| "permissionActions PermissionConfigWrite scope =
     [''deployment-config:preview'', ''deployment-config:write'']"
| "permissionActions PermissionOperationsRead scope =
     [''operations:read'']"
| "permissionActions PermissionMetricsRead scope =
     [''metrics:read'']"
| "permissionActions PermissionLogsRead scope =
     [''logs:read'']"
| "permissionActions PermissionSecretsRead scope =
     [''secret-bindings:read'']"
| "permissionActions PermissionSecretsBind scope =
     [''secret-bindings:bind'']"
| "permissionActions PermissionSecretsCreate scope =
     [''secret-bindings:create'']"
| "permissionActions PermissionSecretsRotate scope =
     [''secret-bindings:rotate'']"
| "permissionActions PermissionSecretsDelete scope =
     [''secret-bindings:delete'']"
| "permissionActions PermissionCertificatesRead scope =
     [''certificate-bindings:read'']"
| "permissionActions PermissionCertificatesCreate scope =
     [''certificate-bindings:create'']"
| "permissionActions PermissionCertificatesRotate scope =
     [''certificate-bindings:rotate'']"
| "permissionActions PermissionCertificatesDelete scope =
     [''certificate-bindings:delete'']"
| "permissionActions PermissionRegistryCredentialsRead scope =
     [''registry-credential-bindings:read'']"
| "permissionActions PermissionRegistryCredentialsCreate scope =
     [''registry-credential-bindings:create'']"
| "permissionActions PermissionRegistryCredentialsRotate scope =
     [''registry-credential-bindings:rotate'']"
| "permissionActions PermissionRegistryCredentialsDelete scope =
     [''registry-credential-bindings:delete'']"
| "permissionActions PermissionBuildsRead scope =
     [''app-sources:read'', ''builds:read'']"
| "permissionActions PermissionBuildsManage scope =
     [''app-sources:write'']"
| "permissionActions PermissionBuildsCancel scope =
     [''builds:cancel'']"
| "permissionActions PermissionBuildsRetry scope =
     [''builds:retry'']"
| "permissionActions PermissionHelmRead scope =
     [''helm-releases:read'']"
| "permissionActions PermissionHelmDeploy scope =
     [''helm-releases:deploy'', ''helm-releases:disable'']"
| "permissionActions PermissionHelmRetry scope =
     [''helm-releases:retry'']"
| "permissionActions PermissionHelmRollback scope =
     [''helm-releases:rollback'']"
| "permissionActions PermissionRegistryRead scope =
     [''registry:read'']"
| "permissionActions PermissionRegistryPolicyWrite scope =
     [''registry-policies:write'']"
| "permissionActions PermissionRegistryCleanupPreview scope =
     [''registry-cleanup:preview'']"
| "permissionActions PermissionRegistryCleanupExecute scope =
     [''registry-cleanup:execute'']"
| "permissionActions PermissionRegistryTargetsManage scope =
     [''registry-targets:read'', ''registry-targets:write'']"
| "permissionActions PermissionExternalDNSRead scope =
     [''external-dns-integrations:read'']"
| "permissionActions PermissionExternalDNSManage scope =
     [''external-dns-integrations:read'', ''external-dns-integrations:write'']"
| "permissionActions PermissionGrantsRead scope =
     (if scope = ScopePlatform \<or> scope = ScopeTeam then
        [''access-grants:read'', ''team-members:read'', ''users:read'']
      else [''access-grants:read''])"
| "permissionActions PermissionGrantsManage scope =
     (if scope = ScopePlatform \<or> scope = ScopeTeam then
        [''access-grants:create'', ''access-grants:delete'', ''projects:delete'', ''team-members:write'']
      else [''access-grants:create'', ''access-grants:delete'', ''projects:delete''])"
| "permissionActions PermissionPlatformAdmin scope =
     [''github-installations:setup'', ''platform-releases:read'', ''team-members:write'', ''teams:create'', ''teams:read'', ''user-invitations:create'', ''users:read'']"
| "permissionActions (PermissionOther s) scope = []"

section \<open>The evaluator\<close>

definition ValidRole :: "access_role \<Rightarrow> bool" where
  "ValidRole role \<longleftrightarrow> map_of roleRank role \<noteq> None"

definition RoleRank :: "access_role \<Rightarrow> int" where
  "RoleRank role = get_or 0 roleRank role"

definition ValidScope :: "access_scope \<Rightarrow> bool" where
  "ValidScope scope \<longleftrightarrow>
     scope \<in> {ScopePlatform, ScopeTeam, ScopeProject, ScopeEnvironment, ScopeNamespace, ScopeApplication}"

fun valid_extra_loop :: "permission list \<Rightarrow> permission list \<Rightarrow> bool" where
  "valid_extra_loop seen [] = True"
| "valid_extra_loop seen (permission # permissions) =
     (if permission \<noteq> PermissionLogsRead \<or> permission \<in> set seen then False
      else valid_extra_loop (permission # seen) permissions)"

definition ValidExtraPermissions :: "permission list \<Rightarrow> bool" where
  "ValidExtraPermissions permissions = valid_extra_loop [] permissions"

fun scope_id_of :: "access_scope \<Rightarrow> access_target \<Rightarrow> string" where
  "scope_id_of ScopeTeam target = at_TeamID target"
| "scope_id_of ScopeProject target = at_ProjectID target"
| "scope_id_of ScopeEnvironment target = at_EnvironmentID target"
| "scope_id_of ScopeNamespace target = at_Namespace target"
| "scope_id_of ScopeApplication target = at_ApplicationID target"
| "scope_id_of _ target = []"

definition BindingMatches :: "access_binding \<Rightarrow> access_target \<Rightarrow> bool" where
  "BindingMatches binding target \<longleftrightarrow>
     (if bnd_ScopeType binding = ScopePlatform then bnd_ScopeID binding = ''platform''
      else bnd_ScopeID binding \<noteq> [] \<and> bnd_ScopeID binding = scope_id_of (bnd_ScopeType binding) target)"

definition bindingHas :: "access_binding \<Rightarrow> permission \<Rightarrow> bool" where
  "bindingHas binding p \<longleftrightarrow> p \<in> set (rolePermissions (bnd_Role binding)) \<or> p \<in> set (bnd_Permissions binding)"

fun HasPermission :: "access_binding list \<Rightarrow> access_target \<Rightarrow> permission \<Rightarrow> bool" where
  "HasPermission [] target p = False"
| "HasPermission (binding # bindings) target p =
     (if \<not> BindingMatches binding target then HasPermission bindings target p
      else if p \<in> set (rolePermissions (bnd_Role binding)) then True
      else if p \<in> set (bnd_Permissions binding) then True
      else HasPermission bindings target p)"

fun CanManageGrant :: "access_binding list \<Rightarrow> access_target \<Rightarrow> access_role \<Rightarrow> bool" where
  "CanManageGrant [] target requestedRole = False"
| "CanManageGrant (binding # bindings) target requestedRole =
     (if \<not> BindingMatches binding target \<or> \<not> bindingHas binding PermissionGrantsManage then
        CanManageGrant bindings target requestedRole
      else if RoleRank (bnd_Role binding) \<ge> RoleRank requestedRole then True
      else CanManageGrant bindings target requestedRole)"

section \<open>Capabilities\<close>

definition Actions :: "access_binding \<Rightarrow> string list" where
  "Actions binding =
     sort (remdups (concat (map (\<lambda>p. permissionActions p (bnd_ScopeType binding))
       (rolePermissions (bnd_Role binding) @ bnd_Permissions binding))))"

definition capability_key :: "access_binding \<Rightarrow> string" where
  "capability_key binding =
     role_text (bnd_Role binding) @ CHR 0x00 # scope_text (bnd_ScopeType binding) @ CHR 0x00 #
     bnd_ScopeID binding @ CHR 0x00 # bnd_Source binding"

definition capability_of :: "access_binding \<Rightarrow> access_capability" where
  "capability_of binding =
     \<lparr>cap_Role = bnd_Role binding, cap_ScopeType = bnd_ScopeType binding, cap_ScopeID = bnd_ScopeID binding,
      cap_Source = bnd_Source binding, cap_Actions = Actions binding\<rparr>"

fun capabilities_loop :: "string list \<Rightarrow> access_binding list \<Rightarrow> access_capability list" where
  "capabilities_loop seen [] = []"
| "capabilities_loop seen (binding # bindings) =
     (if capability_key binding \<in> set seen then capabilities_loop seen bindings
      else capability_of binding # capabilities_loop (capability_key binding # seen) bindings)"

definition Capabilities :: "access_binding list \<Rightarrow> access_capability list" where
  "Capabilities bindings =
     sort_key (\<lambda>c. (scope_text (cap_ScopeType c), cap_ScopeID c, - RoleRank (cap_Role c))) (capabilities_loop [] bindings)"

section \<open>Service-account tokens\<close>

datatype automation_scope =
  AutomationScopeAppRead | AutomationScopeAppEdit | AutomationScopeBuildCreate | AutomationScopeLogsRead
  | AutomationScopeOther string

fun automation_scope_text :: "automation_scope \<Rightarrow> string" where
  "automation_scope_text AutomationScopeAppRead = ''app.read''"
| "automation_scope_text AutomationScopeAppEdit = ''app.edit''"
| "automation_scope_text AutomationScopeBuildCreate = ''build.create''"
| "automation_scope_text AutomationScopeLogsRead = ''logs.read''"
| "automation_scope_text (AutomationScopeOther s) = s"

definition MaxTokenTTL :: duration where "MaxTokenTTL = 90 * 24 * hour"

text \<open>\<open>^kp_sa_[A-Za-z0-9_-]{8}$\<close>\<close>

definition tokenPrefixPattern :: "string \<Rightarrow> bool" where
  "tokenPrefixPattern s \<longleftrightarrow> has_prefix s ''kp_sa_'' \<and> length s = 14 \<and>
     list_all (\<lambda>c. is_alnum c \<or> c \<in> set ''_-'') (drop 6 s)"

definition automation_ValidRole :: "access_role \<Rightarrow> bool" where
  "automation_ValidRole role \<longleftrightarrow> role \<in> {RoleViewer, RoleDeveloper, RoleProjectAdmin}"

definition ValidName :: "string \<Rightarrow> bool" where
  "ValidName name \<longleftrightarrow>
     \<not> (length name < 1 \<or> length name > 100 \<or> \<not> utf8_valid name \<or> trim_space name \<noteq> name) \<and>
     list_all (\<lambda>(character, _). \<not> is_control character) (runes name)"

definition ValidTokenPrefix :: "string \<Rightarrow> bool" where
  "ValidTokenPrefix prefix = tokenPrefixPattern prefix"

fun normalize_scopes_loop :: "automation_scope list \<Rightarrow> automation_scope list \<Rightarrow> automation_scope list option" where
  "normalize_scopes_loop seen [] = Some (rev seen)"
| "normalize_scopes_loop seen (scope # scopes) =
     (if scope \<notin> {AutomationScopeAppRead, AutomationScopeAppEdit, AutomationScopeBuildCreate, AutomationScopeLogsRead} then None
      else if scope \<in> set seen then None
      else normalize_scopes_loop (scope # seen) scopes)"

definition NormalizeScopes :: "automation_scope list \<Rightarrow> automation_scope list option" where
  "NormalizeScopes scopes =
     (if length scopes = 0 \<or> length scopes > 4 then None
      else map_option (sort_key automation_scope_text) (normalize_scopes_loop [] scopes))"

definition Allows :: "automation_scope list \<Rightarrow> automation_scope \<Rightarrow> bool" where
  "Allows scopes required = list_ex (\<lambda>scope. scope = required) scopes"

definition ValidExpiry :: "time \<Rightarrow> time \<Rightarrow> bool" where
  "ValidExpiry now expires \<longleftrightarrow> expires > now + 5 * minute \<and> \<not> expires > now + MaxTokenTTL"

section \<open>Lemmas\<close>

lemma HasPermission_iff: "HasPermission bs t p \<longleftrightarrow> (\<exists>b \<in> set bs. BindingMatches b t \<and> bindingHas b p)"
  by (induction bs t p rule: HasPermission.induct) (auto simp: bindingHas_def)

lemma CanManageGrant_iff:
  "CanManageGrant bs t r \<longleftrightarrow>
     (\<exists>b \<in> set bs. BindingMatches b t \<and> bindingHas b PermissionGrantsManage \<and> RoleRank r \<le> RoleRank (bnd_Role b))"
  by (induction bs t r rule: CanManageGrant.induct) auto

lemma ValidExtraPermissions_iff: "ValidExtraPermissions ps \<longleftrightarrow> ps = [] \<or> ps = [PermissionLogsRead]"
proof -
  have "valid_extra_loop [PermissionLogsRead] qs \<longleftrightarrow> qs = []" for qs by (cases qs) auto
  then show ?thesis by (cases ps) (auto simp: ValidExtraPermissions_def)
qed

lemma RoleRank_simps [simp]:
  "RoleRank RoleViewer = 10" "RoleRank RoleDeveloper = 20" "RoleRank RoleProjectAdmin = 30"
  "RoleRank RoleOrganizationAdmin = 40" "RoleRank RolePlatformAdmin = 50" "RoleRank (RoleOther s) = 0"
  by (simp_all add: RoleRank_def roleRank_def get_or_def)

lemma ValidRole_simps [simp]:
  "ValidRole RoleViewer" "ValidRole RoleDeveloper" "ValidRole RoleProjectAdmin"
  "ValidRole RoleOrganizationAdmin" "ValidRole RolePlatformAdmin" "\<not> ValidRole (RoleOther s)"
  by (simp_all add: ValidRole_def roleRank_def)

lemma role_permissions_chain:
  "set (rolePermissions RoleViewer) \<subseteq> set (rolePermissions RoleDeveloper)"
  "set (rolePermissions RoleDeveloper) \<subseteq> set (rolePermissions RoleProjectAdmin)"
  "set (rolePermissions RoleProjectAdmin) = set (rolePermissions RoleOrganizationAdmin)"
  "set (rolePermissions RoleOrganizationAdmin) \<subseteq> set (rolePermissions RolePlatformAdmin)"
  by simp_all

text \<open>A higher rank carries every permission of a lower one.\<close>

lemma rank_permissions:
  assumes "RoleRank r \<le> RoleRank r'" and "ValidRole r"
  shows "set (rolePermissions r) \<subseteq> set (rolePermissions r')"
  using assms role_permissions_chain
  by (cases r; cases r') (auto simp del: rolePermissions.simps)

lemma manager_roles:
  "PermissionGrantsManage \<in> set (rolePermissions r) \<longleftrightarrow> r \<in> {RoleProjectAdmin, RoleOrganizationAdmin, RolePlatformAdmin}"
  by (cases r) auto

lemma manager_reads_logs:
  "PermissionGrantsManage \<in> set (rolePermissions r) \<Longrightarrow> PermissionLogsRead \<in> set (rolePermissions r)"
  by (cases r) auto

text \<open>
  Delegation is bounded by the role order: whoever may hand out a role on a target
  holds every permission of that role there.
\<close>

theorem delegation_bounded:
  assumes "CanManageGrant bindings target role" and "ValidRole role" and "p \<in> set (rolePermissions role)"
  shows "HasPermission bindings target p"
  using assms rank_permissions unfolding CanManageGrant_iff HasPermission_iff bindingHas_def by blast

theorem delegation_bounded_witness:
  "HasPermission
     [\<lparr>bnd_Role = RoleProjectAdmin, bnd_ScopeType = ScopeProject, bnd_ScopeID = ''p1'', bnd_Permissions = [], bnd_Source = ''explicit''\<rparr>]
     \<lparr>at_Type = ''environment'', at_ID = ''e1'', at_TeamID = [], at_ProjectID = ''p1'', at_EnvironmentID = ''e1'',
      at_Namespace = ''kp-a-b'', at_ApplicationID = []\<rparr> PermissionResourcesWrite"
  by (rule delegation_bounded [where role = RoleDeveloper])
    (simp_all add: BindingMatches_def bindingHas_def)

section \<open>What capabilities advertise\<close>

lemma set_Actions:
  "set (Actions b) = {a. \<exists>p. bindingHas b p \<and> a \<in> set (permissionActions p (bnd_ScopeType b))}"
  by (auto simp: Actions_def bindingHas_def simp del: rolePermissions.simps)

lemma capabilities_loop_sub: "c \<in> set (capabilities_loop seen bs) \<Longrightarrow> \<exists>b \<in> set bs. c = capability_of b"
  by (induction seen bs rule: capabilities_loop.induct) (auto split: if_splits)

lemma capabilities_loop_all:
  "distinct (map capability_key bs) \<Longrightarrow> set (map capability_key bs) \<inter> set seen = {} \<Longrightarrow>
     capabilities_loop seen bs = map capability_of bs"
  by (induction seen bs rule: capabilities_loop.induct) auto

text \<open>
  The capabilities shown to a user never promise more than the bindings grant: every
  advertised action belongs to a permission the user holds at that scope; and when no two
  bindings differ only in their extra permissions, every such action is advertised.
\<close>

theorem capabilities_exact:
  assumes "distinct (map capability_key bindings)"
  shows "(\<exists>c \<in> set (Capabilities bindings). cap_ScopeType c = scope \<and> cap_ScopeID c = i \<and> a \<in> set (cap_Actions c)) \<longleftrightarrow>
         (\<exists>b \<in> set bindings. bnd_ScopeType b = scope \<and> bnd_ScopeID b = i \<and>
            (\<exists>p. bindingHas b p \<and> a \<in> set (permissionActions p scope)))"
proof -
  have "set (Capabilities bindings) = capability_of ` set bindings"
    using assms by (simp add: Capabilities_def capabilities_loop_all)
  then show ?thesis by (auto simp: capability_of_def set_Actions)
qed

definition viewer_binding :: "permission list \<Rightarrow> access_binding" where
  "viewer_binding extra =
     \<lparr>bnd_Role = RoleViewer, bnd_ScopeType = ScopeProject, bnd_ScopeID = ''p1'', bnd_Permissions = extra, bnd_Source = ''explicit''\<rparr>"

theorem capabilities_exact_witness:
  "\<exists>c \<in> set (Capabilities [viewer_binding [PermissionLogsRead]]).
     cap_ScopeType c = ScopeProject \<and> cap_ScopeID c = ''p1'' \<and> ''logs:read'' \<in> set (cap_Actions c)"
proof -
  have "\<exists>b \<in> set [viewer_binding [PermissionLogsRead]]. bnd_ScopeType b = ScopeProject \<and> bnd_ScopeID b = ''p1'' \<and>
      (\<exists>p. bindingHas b p \<and> ''logs:read'' \<in> set (permissionActions p ScopeProject))"
    by (auto simp: viewer_binding_def bindingHas_def intro!: exI [of _ PermissionLogsRead])
  with capabilities_exact [of "[viewer_binding [PermissionLogsRead]]" ScopeProject "''p1''" "''logs:read''"]
  show ?thesis by simp
qed

text \<open>
  Two bindings that differ only in their extra permissions share one key, and the second
  is dropped from the capabilities although the evaluator honours both.
\<close>

lemma capabilities_drop_extra:
  "HasPermission [viewer_binding [], viewer_binding [PermissionLogsRead]]
     \<lparr>at_Type = ''project'', at_ID = ''p1'', at_TeamID = [], at_ProjectID = ''p1'', at_EnvironmentID = [], at_Namespace = [], at_ApplicationID = []\<rparr>
     PermissionLogsRead \<and>
   (\<forall>c \<in> set (Capabilities [viewer_binding [], viewer_binding [PermissionLogsRead]]). ''logs:read'' \<notin> set (cap_Actions c))"
  by code_simp

section \<open>Token scopes\<close>

lemma normalize_loop_Some:
  "normalize_scopes_loop seen scopes = Some out \<longleftrightarrow>
     out = rev seen @ scopes \<and> distinct scopes \<and> set scopes \<inter> set seen = {} \<and> (\<forall>x. AutomationScopeOther x \<notin> set scopes)"
proof (induction seen scopes rule: normalize_scopes_loop.induct)
  case (2 seen scope scopes)
  then show ?case by (cases scope) auto
qed auto

text \<open>
  Normalized token scopes are a sorted permutation of the request, which is accepted
  exactly when it is non-empty, free of repetitions and within the four known scopes.
\<close>

theorem normalize_scopes_exact:
  "NormalizeScopes scopes = Some out \<longleftrightarrow>
     out = sort_key automation_scope_text scopes \<and> scopes \<noteq> [] \<and> distinct scopes \<and>
     set scopes \<subseteq> {AutomationScopeAppRead, AutomationScopeAppEdit, AutomationScopeBuildCreate, AutomationScopeLogsRead}"
proof -
  let ?known = "{AutomationScopeAppRead, AutomationScopeAppEdit, AutomationScopeBuildCreate, AutomationScopeLogsRead}"
  have known: "(\<forall>x. AutomationScopeOther x \<notin> set scopes) \<longleftrightarrow> set scopes \<subseteq> ?known"
  proof
    assume other: "\<forall>x. AutomationScopeOther x \<notin> set scopes"
    show "set scopes \<subseteq> ?known"
    proof
      fix y assume "y \<in> set scopes"
      with other show "y \<in> ?known" by (cases y) auto
    qed
  qed auto
  have "length scopes \<le> 4" if "distinct scopes" "set scopes \<subseteq> ?known"
    using card_mono [OF _ that(2)] distinct_card [OF that(1)] by simp
  then show ?thesis
    unfolding NormalizeScopes_def by (auto simp: normalize_loop_Some known)
qed

end
