(* ===== verification/Access_Store.thy ===== *)
theory Access_Store
  imports Access_Policy Workload Registry_Store
begin

text \<open>
  The state of the in-memory store (\<open>internal/store/memory/store.go\<close>) as far as identities,
  teams, grants, service accounts and the resources they guard are concerned, and the
  authorization of \<open>internal/store/memory/access.go\<close> on it.  The registry part of the store
  is the \<open>registry_store\<close> of the registry theories.  A Git binding and a Git write command
  are kept with the identities these operations read.

  \<open>time.Now()\<close> is the argument \<open>now\<close> and \<open>id.New()\<close> an argument \<open>newID\<close>.  The Unicode case
  mappings \<open>strings.ToLower\<close> and \<open>strings.EqualFold\<close> are the fields of \<open>text_case\<close>, an
  argument of the operations that use them; nothing is assumed of them.
\<close>

section \<open>Data\<close>

record text_case =
  tc_ToLower :: "string \<Rightarrow> string"
  tc_EqualFold :: "string \<Rightarrow> string \<Rightarrow> bool"

record user =
  usr_ID :: string
  usr_Email :: string
  usr_DisplayName :: string
  usr_Role :: string
  usr_Issuer :: string
  usr_Subject :: string
  usr_GrantRevision :: int
  usr_CreatedAt :: time

record user_invitation =
  inv_ID :: string
  inv_Email :: string
  inv_Token :: string
  inv_ExpiresAt :: time

record invitationRecord =
  ir_invitation :: user_invitation
  ir_email :: string
  ir_accepted :: bool

record team =
  team_ID :: string
  team_Name :: string
  team_Slug :: string
  team_CreatedAt :: time

record team_member =
  mem_TeamID :: string
  mem_UserID :: string
  mem_Role :: string
  mem_User :: "user option"
  mem_CreatedAt :: time

record github_installation =
  ins_ID :: string
  ins_GitHubInstallationID :: int
  ins_AccountLogin :: string
  ins_AccountType :: string
  ins_OwnerUserID :: string
  ins_Visibility :: string
  ins_TeamID :: string
  ins_RepositorySelection :: string
  ins_RepositoryCount :: int
  ins_CreatedAt :: time
  ins_UpdatedAt :: time

record access_grant =
  gr_ID :: string
  gr_SubjectUserID :: string
  gr_SubjectTeamID :: string
  gr_Role :: access_role
  gr_ScopeType :: access_scope
  gr_ScopeID :: string
  gr_Permissions :: "permission list"
  gr_Source :: string
  gr_CreatedBy :: string
  gr_CreatedAt :: time

record service_account =
  sa_ID :: string
  sa_ProjectID :: string
  sa_Name :: string
  sa_Role :: access_role
  sa_CreatedBy :: string
  sa_CreatedAt :: time
  sa_DisabledAt :: "time option"

record service_account_token =
  tok_ID :: string
  tok_ServiceAccountID :: string
  tok_Name :: string
  tok_Prefix :: string
  tok_Scopes :: "automation_scope list"
  tok_ExpiresAt :: time
  tok_LastUsedAt :: "time option"
  tok_RevokedAt :: "time option"
  tok_CreatedBy :: string
  tok_CreatedAt :: time

record credential =
  cred_userID :: string
  cred_hash :: string

record session =
  ses_userID :: string
  ses_revision :: int
  ses_expires :: time

record project =
  prj_ID :: string
  prj_Name :: string
  prj_Slug :: string
  prj_TeamID :: string
  prj_CreatedAt :: time

record environment =
  envt_ID :: string
  envt_ProjectID :: string
  envt_Name :: string
  envt_Slug :: string
  envt_Namespace :: string
  envt_ArgoProject :: string
  envt_ProtectionPolicy :: string
  envt_CreatedAt :: time

record application =
  app_ID :: string
  app_ProjectID :: string
  app_Name :: string
  app_Slug :: string
  app_SourceKind :: string
  app_CreatedAt :: time

record environment_app_placement =
  pl_ProjectID :: string
  pl_EnvironmentID :: string
  pl_ApplicationID :: string
  pl_ApplicationName :: string
  pl_ApplicationSlug :: string
  pl_State :: string
  pl_DesiredState :: string
  pl_CreatedAt :: time
  pl_UpdatedAt :: time

record route =
  rou_Hostname :: string
  rou_PathPrefix :: string
  rou_TLSMode :: string
  rou_DNSMode :: string

record registry_pull_reference =
  rpr_TargetID :: string
  rpr_ProfileName :: string
  rpr_ProfileRevision :: int

record deployment =
  dep_ID :: string
  dep_EnvironmentID :: string
  dep_ApplicationID :: string
  dep_Image :: string
  dep_Replicas :: int
  dep_Port :: int
  dep_Environment :: "(string, string) gomap"
  dep_Route :: "route option"
  dep_Runtime :: workload_runtime
  dep_RegistryPull :: "registry_pull_reference option"
  dep_State :: string
  dep_OperationID :: string
  dep_Generation :: int
  dep_DesiredRevision :: string
  dep_ObservedRevision :: string
  dep_CreatedAt :: time
  dep_UpdatedAt :: time
  dep_ConfigRaw :: string
  dep_ConfigVersion :: int

record progress_step =
  prog_Name :: string
  prog_Status :: string
  prog_Detail :: string
  prog_StartedAt :: "time option"
  prog_FinishedAt :: "time option"

record pull_request_publication =
  prp_Number :: int
  prp_URL :: string
  prp_State :: string
  prp_CandidateRevision :: string

record problem_data =
  prob_Code :: string
  prob_Detail :: string

record operation =
  op_ID :: string
  op_Kind :: string
  op_Status :: string
  op_TargetType :: string
  op_TargetID :: string
  op_RequestID :: string
  op_Generation :: int
  op_Progress :: "progress_step list"
  op_GitRevision :: string
  op_PullRequest :: "pull_request_publication option"
  op_Problem :: "problem_data option"
  op_CreatedAt :: time
  op_UpdatedAt :: time
  op_FinishedAt :: "time option"

record idemRecord =
  idem_fingerprint :: string
  idem_typ :: string
  idem_resourceID :: string
  idem_operationID :: string

record project_registry_pull_credential =
  prc_ID :: string
  prc_ProjectID :: string
  prc_RegistryTargetID :: string
  prc_Name :: string
  prc_RegistryName :: string
  prc_RegistryServer :: string
  prc_RepositoryPrefix :: string
  prc_CreatedAt :: time
  prc_UpdatedAt :: time

record git_binding =
  gb_ID :: string
  gb_EnvironmentID :: string

record write_command =
  wc_OperationID :: string
  wc_DeploymentID :: string

record access_store =
  st_users :: "(string, user) gomap"
  st_invitations :: "(string, invitationRecord) gomap"
  st_teams :: "(string, team) gomap"
  st_memberships :: "(string, (string, team_member) gomap) gomap"
  st_installations :: "(string, github_installation) gomap"
  st_accessGrants :: "(string, access_grant) gomap"
  st_serviceAccounts :: "(string, service_account) gomap"
  st_serviceAccountTokens :: "(string, service_account_token) gomap"
  st_serviceAccountTokenHashes :: "(string, string) gomap"
  st_passwordCredentials :: "(string, credential) gomap"
  st_sessions :: "(string, session) gomap"
  st_projects :: "(string, project) gomap"
  st_environments :: "(string, environment) gomap"
  st_applications :: "(string, application) gomap"
  st_environmentAppPlacements :: "(string, (string, environment_app_placement) gomap) gomap"
  st_deployments :: "(string, deployment) gomap"
  st_deploymentInputs :: "(string, deployment) gomap"
  st_gitWriteCommands :: "(string, write_command) gomap"
  st_gitBindings :: "(string, git_binding) gomap"
  st_operations :: "(string, operation) gomap"
  st_idempotency :: "(string, idemRecord) gomap"
  st_projectRegistryPullCredentials :: "(string, project_registry_pull_credential) gomap"
  st_audits :: int
  st_registry :: registry_store

definition new_store :: access_store where
  "new_store =
     \<lparr>st_users = [], st_invitations = [], st_teams = [], st_memberships = [], st_installations = [], st_accessGrants = [],
      st_serviceAccounts = [], st_serviceAccountTokens = [], st_serviceAccountTokenHashes = [], st_passwordCredentials = [],
      st_sessions = [], st_projects = [], st_environments = [], st_applications = [], st_environmentAppPlacements = [],
      st_deployments = [], st_deploymentInputs = [], st_gitWriteCommands = [], st_gitBindings = [], st_operations = [],
      st_idempotency = [], st_projectRegistryPullCredentials = [], st_audits = 0, st_registry = empty_store\<rparr>"

datatype access_error =
  ErrNotFound | ErrConflict | ErrForbidden | ErrIdempotencyConflict | ErrBootstrapConsumed | ErrInvitationInvalid
  | ErrSelfDeletion | ErrDeletionConfirmation | ErrUserDeletionBlocked | ErrTeamDeletionBlocked
  | ErrProjectDeletionBlocked | ErrEnvironmentDeletionBlocked | ErrApplicationDeletionBlocked

type_synonym resource_id = string
type_synonym 'a st_result = "(access_error + 'a) \<times> access_store"

section \<open>Zero values\<close>

definition no_user :: user where
  "no_user = \<lparr>usr_ID = [], usr_Email = [], usr_DisplayName = [], usr_Role = [], usr_Issuer = [], usr_Subject = [],
     usr_GrantRevision = 0, usr_CreatedAt = 0\<rparr>"

definition no_project :: project where
  "no_project = \<lparr>prj_ID = [], prj_Name = [], prj_Slug = [], prj_TeamID = [], prj_CreatedAt = 0\<rparr>"

definition no_environment :: environment where
  "no_environment = \<lparr>envt_ID = [], envt_ProjectID = [], envt_Name = [], envt_Slug = [], envt_Namespace = [],
     envt_ArgoProject = [], envt_ProtectionPolicy = [], envt_CreatedAt = 0\<rparr>"

definition no_application :: application where
  "no_application = \<lparr>app_ID = [], app_ProjectID = [], app_Name = [], app_Slug = [], app_SourceKind = [], app_CreatedAt = 0\<rparr>"

definition no_target :: access_target where
  "no_target = \<lparr>at_Type = [], at_ID = [], at_TeamID = [], at_ProjectID = [], at_EnvironmentID = [], at_Namespace = [],
     at_ApplicationID = []\<rparr>"

section \<open>Bindings\<close>

definition member_of :: "access_store \<Rightarrow> string \<Rightarrow> string \<Rightarrow> team_member option" where
  "member_of s teamID userID = map_of (get_or [] (st_memberships s) teamID) userID"

definition grant_applies :: "access_store \<Rightarrow> string \<Rightarrow> access_grant \<Rightarrow> bool" where
  "grant_applies s actor grant \<longleftrightarrow>
     gr_SubjectUserID grant = actor \<or> gr_SubjectTeamID grant \<noteq> [] \<and> member_of s (gr_SubjectTeamID grant) actor \<noteq> None"

definition grant_binding :: "access_grant \<Rightarrow> access_binding" where
  "grant_binding grant =
     \<lparr>bnd_Role = gr_Role grant, bnd_ScopeType = gr_ScopeType grant, bnd_ScopeID = gr_ScopeID grant,
      bnd_Permissions = gr_Permissions grant, bnd_Source = gr_Source grant\<rparr>"

definition member_binding :: "string \<Rightarrow> team_member \<Rightarrow> access_binding" where
  "member_binding teamID member =
     \<lparr>bnd_Role = (if mem_Role member = ''owner'' then RoleOrganizationAdmin else RoleDeveloper), bnd_ScopeType = ScopeTeam,
      bnd_ScopeID = teamID, bnd_Permissions = [], bnd_Source = ''team-'' @ mem_Role member\<rparr>"

definition bindingsLocked :: "access_store \<Rightarrow> string \<Rightarrow> access_binding list" where
  "bindingsLocked s actor =
     map (\<lambda>(_, grant). grant_binding grant) (filter (\<lambda>(_, grant). grant_applies s actor grant) (st_accessGrants s)) @
     concat (map (\<lambda>(teamID, members).
       case map_of members actor of None \<Rightarrow> [] | Some member \<Rightarrow> [member_binding teamID member]) (st_memberships s))"

section \<open>Targets\<close>

definition platform_target :: access_target where
  "platform_target = no_target\<lparr>at_Type := ''platform'', at_ID := ''platform''\<rparr>"

definition typed_target :: "string \<Rightarrow> string \<Rightarrow> access_target" where
  "typed_target typ i = no_target\<lparr>at_Type := typ, at_ID := i\<rparr>"

definition project_target :: "project \<Rightarrow> access_target" where
  "project_target project =
     no_target\<lparr>at_Type := ''project'', at_ID := prj_ID project, at_TeamID := prj_TeamID project, at_ProjectID := prj_ID project\<rparr>"

definition environment_target :: "string \<Rightarrow> string \<Rightarrow> project \<Rightarrow> environment \<Rightarrow> access_target" where
  "environment_target typ i project environment =
     no_target\<lparr>at_Type := typ, at_ID := i, at_TeamID := prj_TeamID project, at_ProjectID := prj_ID project,
       at_EnvironmentID := envt_ID environment, at_Namespace := envt_Namespace environment\<rparr>"

definition the_project :: "access_store \<Rightarrow> string \<Rightarrow> project" where
  "the_project s i = get_or no_project (st_projects s) i"

definition the_environment :: "access_store \<Rightarrow> string \<Rightarrow> environment" where
  "the_environment s i = get_or no_environment (st_environments s) i"

definition the_application :: "access_store \<Rightarrow> string \<Rightarrow> application" where
  "the_application s i = get_or no_application (st_applications s) i"

definition resolve_secret_binding :: "access_store \<Rightarrow> access_target \<Rightarrow> access_target \<times> bool" where
  "resolve_secret_binding s target =
     (let application = the_application s (at_ApplicationID target);
          environment = the_environment s (at_EnvironmentID target);
          project = the_project s (app_ProjectID application);
          valid = (at_ID target \<noteq> [] \<and> map_of (st_applications s) (at_ApplicationID target) \<noteq> None \<and>
            map_of (st_environments s) (at_EnvironmentID target) \<noteq> None \<and> prj_ID project \<noteq> [] \<and>
            envt_ProjectID environment = prj_ID project \<and> at_ProjectID target = prj_ID project \<and>
            at_TeamID target = prj_TeamID project \<and> at_Namespace target = envt_Namespace environment) in
      ((environment_target ''secret-binding'' (at_ID target) project environment)\<lparr>at_ApplicationID := app_ID application\<rparr>, valid))"

definition resolve_deployment :: "access_store \<Rightarrow> string \<Rightarrow> access_target \<times> bool" where
  "resolve_deployment s i =
     (case map_of (st_deployments s) i of
        None \<Rightarrow>
          (let environment = the_environment s []; project = the_project s (envt_ProjectID environment) in
           (environment_target ''deployment'' [] project environment, False))
      | Some deployment \<Rightarrow>
          (let environment = the_environment s (dep_EnvironmentID deployment);
               project = the_project s (envt_ProjectID environment) in
           ((environment_target ''deployment'' (dep_ID deployment) project environment)
              \<lparr>at_ApplicationID := dep_ApplicationID deployment\<rparr>, prj_ID project \<noteq> [])))"

definition resolve_resource :: "access_store \<Rightarrow> access_target \<Rightarrow> access_target \<times> bool" where
  "resolve_resource s target =
     (let typ = at_Type target; i = at_ID target in
      if typ = ''platform'' then (platform_target, True)
      else if typ = ''team'' then
        ((typed_target ''team'' i)\<lparr>at_TeamID := i\<rparr>, map_of (st_teams s) i \<noteq> None)
      else if typ = ''project'' then
        (project_target (the_project s i), map_of (st_projects s) i \<noteq> None)
      else if typ = ''environment'' then
        (let environment = the_environment s i; project = the_project s (envt_ProjectID environment) in
         (environment_target ''environment'' (envt_ID environment) project environment,
          map_of (st_environments s) i \<noteq> None \<and> prj_ID project \<noteq> []))
      else if typ = ''namespace'' then
        (case find (\<lambda>(_, environment). envt_Namespace environment = i) (st_environments s) of
           None \<Rightarrow> (no_target, False)
         | Some (_, environment) \<Rightarrow>
             (let project = the_project s (envt_ProjectID environment) in
              (environment_target ''namespace'' (envt_Namespace environment) project environment, prj_ID project \<noteq> [])))
      else if typ = ''application'' then
        (let application = the_application s i; project = the_project s (app_ProjectID application) in
         (no_target\<lparr>at_Type := ''application'', at_ID := app_ID application, at_TeamID := prj_TeamID project,
            at_ProjectID := prj_ID project, at_ApplicationID := app_ID application\<rparr>,
          map_of (st_applications s) i \<noteq> None \<and> prj_ID project \<noteq> []))
      else if typ = ''secret-binding'' then resolve_secret_binding s target
      else if typ = ''deployment'' then resolve_deployment s i
      else (no_target, False))"

definition resolveTargetLocked :: "access_store \<Rightarrow> access_target \<Rightarrow> access_target \<times> bool" where
  "resolveTargetLocked s target =
     (if at_Type target = ''operation'' then
        (case map_of (st_operations s) (at_ID target) of
           None \<Rightarrow> (no_target, False)
         | Some operation \<Rightarrow>
             if op_TargetType operation \<in> {''deployment'', ''environment'', ''project''} then
               resolve_resource s (typed_target (op_TargetType operation) (op_TargetID operation))
             else (no_target, False))
      else resolve_resource s target)"

section \<open>Authorization\<close>

definition isAdminLocked :: "access_store \<Rightarrow> string \<Rightarrow> bool" where
  "isAdminLocked s actor =
     (case map_of (st_users s) actor of
        None \<Rightarrow> False
      | Some user \<Rightarrow>
          if usr_Issuer user = ''kuberploy:deleted'' then False
          else HasPermission (bindingsLocked s actor) platform_target PermissionPlatformAdmin)"

definition team_target :: "string \<Rightarrow> access_target" where
  "team_target teamID = (typed_target ''team'' teamID)\<lparr>at_TeamID := teamID\<rparr>"

definition ownsTeamLocked :: "access_store \<Rightarrow> string \<Rightarrow> string \<Rightarrow> bool" where
  "ownsTeamLocked s actor teamID =
     (case member_of s teamID actor of None \<Rightarrow> False | Some member \<Rightarrow> mem_Role member = ''owner'')"

definition canManageTeamLocked :: "access_store \<Rightarrow> string \<Rightarrow> string \<Rightarrow> bool" where
  "canManageTeamLocked s actor teamID =
     HasPermission (bindingsLocked s actor) (team_target teamID) PermissionGrantsManage"

definition canAccessTeamLocked :: "access_store \<Rightarrow> string \<Rightarrow> string \<Rightarrow> bool" where
  "canAccessTeamLocked s actor teamID =
     (if teamID = [] then isAdminLocked s actor
      else if map_of (st_teams s) teamID = None then False
      else HasPermission (bindingsLocked s actor) (team_target teamID) PermissionResourcesRead)"

definition scopeTargetForProjectLocked ::
  "access_store \<Rightarrow> project \<Rightarrow> access_scope \<Rightarrow> string \<Rightarrow> access_target \<times> bool" where
  "scopeTargetForProjectLocked s project scopeType scopeID =
     (let checked = (\<lambda>target. (target, at_ProjectID target = prj_ID project \<or>
            scopeType = ScopeTeam \<and> at_TeamID target = prj_TeamID project));
          resolved = (\<lambda>typ. checked (fst (resolveTargetLocked s (typed_target typ scopeID)))) in
      case scopeType of
        ScopeTeam \<Rightarrow>
          if prj_TeamID project = [] \<or> scopeID \<noteq> prj_TeamID project then (no_target, False) else resolved ''team''
      | ScopeProject \<Rightarrow> if scopeID \<noteq> prj_ID project then (no_target, False) else resolved ''project''
      | ScopeEnvironment \<Rightarrow> resolved ''environment''
      | ScopeNamespace \<Rightarrow> resolved ''namespace''
      | ScopeApplication \<Rightarrow> resolved ''application''
      | _ \<Rightarrow> (no_target, False))"

definition canAccessProjectLocked :: "access_store \<Rightarrow> string \<Rightarrow> project \<Rightarrow> bool" where
  "canAccessProjectLocked s actor project =
     (if prj_ID project = [] then False
      else
        let bindings = bindingsLocked s actor in
        if HasPermission bindings (project_target project) PermissionResourcesRead then True
        else list_ex (\<lambda>binding.
          let (target, ok) = scopeTargetForProjectLocked s project (bnd_ScopeType binding) (bnd_ScopeID binding) in
          ok \<and> HasPermission [binding] target PermissionResourcesRead) bindings)"

definition authorizeLocked :: "access_store \<Rightarrow> string \<Rightarrow> permission \<Rightarrow> access_target \<Rightarrow> access_error + unit" where
  "authorizeLocked s actor permission target =
     (let (resolved, exists) = resolveTargetLocked s target; bindings = bindingsLocked s actor in
      if \<not> exists then Inl ErrNotFound
      else if HasPermission bindings resolved permission then Inr ()
      else
        let projectVisible = (at_Type resolved = ''project'' \<and>
              canAccessProjectLocked s actor (the_project s (at_ProjectID resolved))) in
        if at_Type resolved = ''platform'' \<or> projectVisible \<or> HasPermission bindings resolved PermissionResourcesRead
        then Inl ErrForbidden else Inl ErrNotFound)"

definition Authorize :: "string \<Rightarrow> permission \<Rightarrow> access_target \<Rightarrow> access_store \<Rightarrow> access_error + unit" where
  "Authorize actor permission target s = authorizeLocked s actor permission target"

definition AuthorizePromotion :: "string \<Rightarrow> string \<Rightarrow> string \<Rightarrow> access_store \<Rightarrow> access_error + unit" where
  "AuthorizePromotion actor environmentID applicationID s =
     (case (map_of (st_environments s) environmentID, map_of (st_applications s) applicationID) of
        (Some environment, Some application) \<Rightarrow>
          (case map_of (st_projects s) (envt_ProjectID environment) of
             None \<Rightarrow> Inl ErrNotFound
           | Some project \<Rightarrow>
               if app_ProjectID application \<noteq> envt_ProjectID environment then Inl ErrNotFound
               else
                 let target = (environment_target ''deployment'' (environmentID @ '':'' @ applicationID) project environment)
                       \<lparr>at_ApplicationID := app_ID application\<rparr>;
                     bindings = bindingsLocked s actor in
                 if HasPermission bindings target PermissionResourcesWrite then Inr ()
                 else if HasPermission bindings target PermissionResourcesRead then Inl ErrForbidden
                 else Inl ErrNotFound)
      | _ \<Rightarrow> Inl ErrNotFound)"

definition EffectiveCapabilities :: "string \<Rightarrow> access_store \<Rightarrow> access_error + access_capability list" where
  "EffectiveCapabilities actor s =
     (case map_of (st_users s) actor of None \<Rightarrow> Inl ErrNotFound | Some _ \<Rightarrow> Inr (Capabilities (bindingsLocked s actor)))"

section \<open>Idempotency\<close>

definition ik :: "string \<Rightarrow> string \<Rightarrow> string \<Rightarrow> string" where
  "ik actor scope key = actor @ CHR 0x00 # scope @ CHR 0x00 # key"

text \<open>The lookup of a recorded request together with \<open>check\<close>: the record on a replay.\<close>

definition check_replay :: "access_store \<Rightarrow> string \<Rightarrow> string \<Rightarrow> access_error + idemRecord option" where
  "check_replay s k fp =
     (case map_of (st_idempotency s) k of
        None \<Rightarrow> Inr None
      | Some old \<Rightarrow> if idem_fingerprint old \<noteq> fp then Inl ErrIdempotencyConflict else Inr (Some old))"

definition remember :: "string \<Rightarrow> string \<Rightarrow> string \<Rightarrow> string \<Rightarrow> access_store \<Rightarrow> access_store" where
  "remember k fp typ resourceID s =
     s\<lparr>st_idempotency := AList.update k
         \<lparr>idem_fingerprint = fp, idem_typ = typ, idem_resourceID = resourceID, idem_operationID = []\<rparr> (st_idempotency s)\<rparr>"

definition audited :: "access_store \<Rightarrow> access_store" where
  "audited s = s\<lparr>st_audits := st_audits s + 1\<rparr>"

end
