(* ===== verification/Access_Accounts.thy ===== *)
theory Access_Accounts
  imports Access_Store
begin

text \<open>
  Identities, sessions, invitations, teams, GitHub installations and access grants: the
  operations of \<open>internal/store/memory/access.go\<close> and the bootstrap and session operations
  of \<open>internal/store/memory/store.go\<close>.  A set of user IDs that a Go map collects is the
  list of its keys.  A replayed creation answers with the stored resource, \<open>None\<close> standing
  for the zero value when it is gone; the flag of an answer is \<open>Replay\<close>.
\<close>

section \<open>Revocation\<close>

definition revoke_tokens :: "time \<Rightarrow> string \<Rightarrow> access_store \<Rightarrow> access_store" where
  "revoke_tokens now accountID s =
     s\<lparr>st_serviceAccountTokens := map (\<lambda>(tokenID, token).
         (tokenID, if tok_ServiceAccountID token = accountID \<and> tok_RevokedAt token = None
                   then token\<lparr>tok_RevokedAt := Some now\<rparr> else token)) (st_serviceAccountTokens s)\<rparr>"

definition drop_sessions :: "string \<Rightarrow> access_store \<Rightarrow> access_store" where
  "drop_sessions userID s = s\<lparr>st_sessions := filter (\<lambda>(_, session). ses_userID session \<noteq> userID) (st_sessions s)\<rparr>"

definition bump_user :: "time \<Rightarrow> string \<Rightarrow> access_store \<Rightarrow> access_store" where
  "bump_user now userID s =
     (case map_of (st_users s) userID of
        None \<Rightarrow> s
      | Some u \<Rightarrow>
          if usr_Role u = ''platform-admin'' then s
          else drop_sessions userID (revoke_tokens now userID
                 (s\<lparr>st_users := AList.update userID (u\<lparr>usr_GrantRevision := i64 (usr_GrantRevision u + 1)\<rparr>) (st_users s)\<rparr>)))"

definition bumpGrantsLocked :: "time \<Rightarrow> string list \<Rightarrow> access_store \<Rightarrow> access_store" where
  "bumpGrantsLocked now userIDs s = fold (bump_user now) userIDs s"

definition bumpGrantSubjectsLocked :: "time \<Rightarrow> access_grant \<Rightarrow> access_store \<Rightarrow> access_store" where
  "bumpGrantSubjectsLocked now grant s =
     bumpGrantsLocked now
       (if gr_SubjectUserID grant \<noteq> [] then [gr_SubjectUserID grant]
        else map fst (get_or [] (st_memberships s) (gr_SubjectTeamID grant))) s"

section \<open>Bootstrap and sessions\<close>

definition BootstrapRequired :: "access_store \<Rightarrow> bool" where
  "BootstrapRequired s \<longleftrightarrow> st_users s = []"

definition put_session :: "string \<Rightarrow> user \<Rightarrow> time \<Rightarrow> access_store \<Rightarrow> access_store" where
  "put_session hash u expires s =
     s\<lparr>st_sessions := AList.update (hex_encode hash)
         \<lparr>ses_userID = usr_ID u, ses_revision = usr_GrantRevision u, ses_expires = expires\<rparr> (st_sessions s)\<rparr>"

definition BootstrapAdmin ::
  "text_case \<Rightarrow> string \<Rightarrow> user \<Rightarrow> string \<Rightarrow> string \<Rightarrow> time \<Rightarrow> access_store \<Rightarrow> unit st_result" where
  "BootstrapAdmin tc newID u passwordHash hash expires s =
     (let email = tc_ToLower tc (trim_space (usr_Email u)) in
      if st_users s \<noteq> [] then (Inl ErrBootstrapConsumed, s)
      else if email = [] \<or> passwordHash = [] then (Inl ErrConflict, s)
      else if map_of (st_passwordCredentials s) email \<noteq> None then (Inl ErrConflict, s)
      else
        let grant = \<lparr>gr_ID = newID, gr_SubjectUserID = usr_ID u, gr_SubjectTeamID = [], gr_Role = RolePlatformAdmin,
              gr_ScopeType = ScopePlatform, gr_ScopeID = ''platform'', gr_Permissions = [], gr_Source = ''bootstrap'',
              gr_CreatedBy = usr_ID u, gr_CreatedAt = usr_CreatedAt u\<rparr> in
        (Inr (), put_session hash u expires
           (s\<lparr>st_users := AList.update (usr_ID u) u (st_users s),
              st_passwordCredentials := AList.update email \<lparr>cred_userID = usr_ID u, cred_hash = passwordHash\<rparr> (st_passwordCredentials s),
              st_accessGrants := AList.update newID grant (st_accessGrants s)\<rparr>)))"

definition LocalCredential :: "text_case \<Rightarrow> string \<Rightarrow> access_store \<Rightarrow> access_error + user \<times> string" where
  "LocalCredential tc email s =
     (case map_of (st_passwordCredentials s) (tc_ToLower tc (trim_space email)) of
        None \<Rightarrow> Inl ErrNotFound
      | Some c \<Rightarrow>
          (case map_of (st_users s) (cred_userID c) of
             None \<Rightarrow> Inl ErrNotFound
           | Some u \<Rightarrow> if usr_Issuer u = ''kuberploy:deleted'' then Inl ErrNotFound else Inr (u, cred_hash c)))"

definition CreateLoginSession ::
  "text_case \<Rightarrow> time \<Rightarrow> string \<Rightarrow> string \<Rightarrow> string \<Rightarrow> string \<Rightarrow> time \<Rightarrow> access_store \<Rightarrow> user st_result" where
  "CreateLoginSession tc now userID expectedHash upgradedHash sessionHash expires s =
     (case map_of (st_users s) userID of
        None \<Rightarrow> (Inl ErrNotFound, s)
      | Some u \<Rightarrow>
          if usr_Issuer u = ''kuberploy:deleted'' \<or> length sessionHash \<noteq> 32 \<or> \<not> expires > now then (Inl ErrNotFound, s)
          else
            let email = tc_ToLower tc (trim_space (usr_Email u)) in
            case map_of (st_passwordCredentials s) email of
              None \<Rightarrow> (Inl ErrNotFound, s)
            | Some c \<Rightarrow>
                if cred_userID c \<noteq> userID \<or> cred_hash c \<noteq> expectedHash then (Inl ErrNotFound, s)
                else
                  (Inr u, put_session sessionHash u expires
                     (if upgradedHash \<noteq> [] then
                        s\<lparr>st_passwordCredentials := AList.update email (c\<lparr>cred_hash := upgradedHash\<rparr>) (st_passwordCredentials s)\<rparr>
                      else s)))"

definition UserBySession :: "string \<Rightarrow> time \<Rightarrow> access_store \<Rightarrow> access_error + user" where
  "UserBySession hash now s =
     (case map_of (st_sessions s) (hex_encode hash) of
        None \<Rightarrow> Inl ErrNotFound
      | Some session \<Rightarrow>
          if \<not> ses_expires session > now then Inl ErrNotFound
          else
            case map_of (st_users s) (ses_userID session) of
              None \<Rightarrow> Inl ErrNotFound
            | Some u \<Rightarrow>
                if usr_Issuer u = ''kuberploy:deleted'' \<or> usr_GrantRevision u \<noteq> ses_revision session then Inl ErrNotFound
                else Inr u)"

definition RevokeSession :: "string \<Rightarrow> access_store \<Rightarrow> unit st_result" where
  "RevokeSession hash s = (Inr (), s\<lparr>st_sessions := AList.delete (hex_encode hash) (st_sessions s)\<rparr>)"

section \<open>Invitations\<close>

definition CreateUserInvitation ::
  "text_case \<Rightarrow> time \<Rightarrow> string \<Rightarrow> string \<Rightarrow> string \<Rightarrow> string \<Rightarrow> time \<Rightarrow> access_store \<Rightarrow> user_invitation st_result" where
  "CreateUserInvitation tc now newID actor email tokenHash expires s =
     (if \<not> isAdminLocked s actor then (Inl ErrForbidden, s)
      else if length tokenHash \<noteq> 32 \<or> \<not> expires > now \<or> expires > now + (24 * hour + minute) then (Inl ErrConflict, s)
      else
        let key = hex_encode tokenHash in
        if map_of (st_invitations s) key \<noteq> None then (Inl ErrConflict, s)
        else
          let older = map (\<lambda>(token, r).
                (token, if \<not> ir_accepted r \<and> tc_EqualFold tc (ir_email r) email \<and> inv_ExpiresAt (ir_invitation r) > now
                        then r\<lparr>ir_invitation := (ir_invitation r)\<lparr>inv_ExpiresAt := now\<rparr>\<rparr> else r)) (st_invitations s);
              invitation = \<lparr>inv_ID = newID, inv_Email = email, inv_Token = [], inv_ExpiresAt = expires\<rparr> in
          (Inr invitation, audited (s\<lparr>st_invitations :=
             AList.update key \<lparr>ir_invitation = invitation, ir_email = email, ir_accepted = False\<rparr> older\<rparr>)))"

definition invited_user :: "time \<Rightarrow> string \<Rightarrow> string \<Rightarrow> invitationRecord \<Rightarrow> user" where
  "invited_user now newID displayName r =
     \<lparr>usr_ID = newID, usr_Email = ir_email r, usr_DisplayName = displayName, usr_Role = ''developer'',
      usr_Issuer = ''kuberploy:invitation'', usr_Subject = inv_ID (ir_invitation r), usr_GrantRevision = 1,
      usr_CreatedAt = now\<rparr>"

definition AcceptUserInvitation ::
  "text_case \<Rightarrow> time \<Rightarrow> string \<Rightarrow> string \<Rightarrow> string \<Rightarrow> string \<Rightarrow> string \<Rightarrow> string \<Rightarrow> time \<Rightarrow> access_store \<Rightarrow> user st_result" where
  "AcceptUserInvitation tc now newID tokenHash displayName passwordHash sessionHash previousSessionHash sessionExpires s =
     (let key = hex_encode tokenHash in
      case map_of (st_invitations s) key of
        None \<Rightarrow> (Inl ErrInvitationInvalid, s)
      | Some r \<Rightarrow>
          if ir_accepted r \<or> \<not> inv_ExpiresAt (ir_invitation r) > now \<or> length sessionHash \<noteq> 32 \<or> \<not> sessionExpires > now
          then (Inl ErrInvitationInvalid, s)
          else
            let u = invited_user now newID displayName r;
                email = tc_ToLower tc (trim_space (ir_email r)) in
            if map_of (st_passwordCredentials s) email \<noteq> None \<or> passwordHash = [] then (Inl ErrInvitationInvalid, s)
            else if length previousSessionHash \<noteq> 0 \<and> length previousSessionHash \<noteq> 32 then (Inl ErrInvitationInvalid, s)
            else
              let s1 = (if length previousSessionHash = 32
                        then s\<lparr>st_sessions := AList.delete (hex_encode previousSessionHash) (st_sessions s)\<rparr> else s) in
              (Inr u, audited (put_session sessionHash u sessionExpires
                 (s1\<lparr>st_users := AList.update newID u (st_users s1),
                     st_passwordCredentials := AList.update email \<lparr>cred_userID = newID, cred_hash = passwordHash\<rparr>
                       (st_passwordCredentials s1),
                     st_invitations := AList.update key (r\<lparr>ir_accepted := True\<rparr>) (st_invitations s1)\<rparr>))))"

section \<open>Users\<close>

definition ownerCountLocked :: "access_store \<Rightarrow> string \<Rightarrow> nat" where
  "ownerCountLocked s teamID =
     length (filter (\<lambda>(_, member). mem_Role member = ''owner'') (get_or [] (st_memberships s) teamID))"

definition ListUsersForActor :: "string \<Rightarrow> access_store \<Rightarrow> access_error + user list" where
  "ListUsersForActor actor s =
     (let managed = filter (\<lambda>(teamID, _). canManageTeamLocked s actor teamID) (st_teams s);
          visible = (if isAdminLocked s actor then map fst (st_users s)
            else remdups (concat (map (\<lambda>(teamID, _). map fst (get_or [] (st_memberships s) teamID)) managed))) in
      if \<not> isAdminLocked s actor \<and> managed = [] then Inl ErrForbidden
      else
        Inr (sort_key usr_CreatedAt
          (filter (\<lambda>user. usr_Issuer user \<noteq> ''kuberploy:deleted'')
            (map (get_or no_user (st_users s)) (filter (\<lambda>userID. map_of (st_serviceAccounts s) userID = None) visible)))))"

definition only_owner :: "access_store \<Rightarrow> string \<Rightarrow> bool" where
  "only_owner s userID =
     list_ex (\<lambda>(teamID, members).
       case map_of members userID of
         None \<Rightarrow> False
       | Some member \<Rightarrow> mem_Role member = ''owner'' \<and> ownerCountLocked s teamID = 1) (st_memberships s)"

definition erase_user :: "text_case \<Rightarrow> time \<Rightarrow> string \<Rightarrow> string \<Rightarrow> user \<Rightarrow> access_store \<Rightarrow> access_store" where
  "erase_user tc now actor userID user s =
     drop_sessions userID (s\<lparr>
        st_memberships := map (\<lambda>(teamID, members). (teamID, AList.delete userID members)) (st_memberships s),
        st_installations := map (\<lambda>(installationID, installation).
          (installationID, if ins_OwnerUserID installation = userID
             then installation\<lparr>ins_OwnerUserID := actor, ins_UpdatedAt := now\<rparr> else installation)) (st_installations s),
        st_accessGrants := filter (\<lambda>(_, grant). gr_SubjectUserID grant \<noteq> userID) (st_accessGrants s),
        st_passwordCredentials := AList.delete (tc_ToLower tc (trim_space (usr_Email user))) (st_passwordCredentials s),
        st_users := AList.update userID
          (user\<lparr>usr_Email := [], usr_DisplayName := ''Deleted user'', usr_Issuer := ''kuberploy:deleted'',
             usr_GrantRevision := i64 (usr_GrantRevision user + 1)\<rparr>) (st_users s)\<rparr>)"

definition DeleteUser ::
  "text_case \<Rightarrow> time \<Rightarrow> string \<Rightarrow> string \<Rightarrow> string \<Rightarrow> string \<Rightarrow> string \<Rightarrow> access_store \<Rightarrow> bool st_result" where
  "DeleteUser tc now actor userID confirmationEmail key fp s =
     (let idemKey = ik actor (''users.delete:'' @ userID) key in
      case check_replay s idemKey fp of
        Inl e \<Rightarrow> (Inl e, s)
      | Inr (Some _) \<Rightarrow> (Inr True, s)
      | Inr None \<Rightarrow>
          if \<not> isAdminLocked s actor then (Inl ErrForbidden, s)
          else if actor = userID then (Inl ErrSelfDeletion, s)
          else
            case map_of (st_users s) userID of
              None \<Rightarrow> (Inr False, s)
            | Some user \<Rightarrow>
                if usr_Issuer user = ''kuberploy:deleted'' then (Inr False, s)
                else if map_of (st_serviceAccounts s) userID \<noteq> None then (Inl ErrNotFound, s)
                else if \<not> tc_EqualFold tc (trim_space confirmationEmail) (trim_space (usr_Email user)) then (Inl ErrDeletionConfirmation, s)
                else if only_owner s userID then (Inl ErrUserDeletionBlocked, s)
                else (Inr False, audited (remember idemKey fp ''user'' userID
                       (erase_user tc now actor userID user s))))"

section \<open>Teams\<close>

definition team_owner :: "time \<Rightarrow> string \<Rightarrow> string \<Rightarrow> team_member" where
  "team_owner now teamID actor =
     \<lparr>mem_TeamID = teamID, mem_UserID = actor, mem_Role = ''owner'', mem_User = None, mem_CreatedAt = now\<rparr>"

definition CreateTeam ::
  "time \<Rightarrow> string \<Rightarrow> string \<Rightarrow> string \<Rightarrow> string \<Rightarrow> string \<Rightarrow> string \<Rightarrow> access_store \<Rightarrow> (team option \<times> bool) st_result" where
  "CreateTeam now newID actor key fp in_Name in_Slug s =
     (if map_of (st_users s) actor = None then (Inl ErrForbidden, s)
      else
        let idemKey = ik actor ''teams.create'' key in
        case check_replay s idemKey fp of
          Inl e \<Rightarrow> (Inl e, s)
        | Inr (Some old) \<Rightarrow> (Inr (map_of (st_teams s) (idem_resourceID old), True), s)
        | Inr None \<Rightarrow>
            if list_ex (\<lambda>(_, team). team_Slug team = in_Slug) (st_teams s) then (Inl ErrConflict, s)
            else
              let team = \<lparr>team_ID = newID, team_Name = in_Name, team_Slug = in_Slug, team_CreatedAt = now\<rparr> in
              (Inr (Some team, False), audited (remember idemKey fp ''team'' newID
                 (s\<lparr>st_teams := AList.update newID team (st_teams s),
                    st_memberships := AList.update newID [(actor, team_owner now newID actor)] (st_memberships s)\<rparr>))))"

definition ListTeamsForActor :: "string \<Rightarrow> access_store \<Rightarrow> team list" where
  "ListTeamsForActor actor s =
     sort_key team_CreatedAt (map snd (filter (\<lambda>(teamID, _). canAccessTeamLocked s actor teamID) (st_teams s)))"

definition erase_team :: "string \<Rightarrow> access_store \<Rightarrow> access_store" where
  "erase_team teamID s =
     s\<lparr>st_accessGrants := filter (\<lambda>(_, grant).
         \<not> (gr_SubjectTeamID grant = teamID \<or> gr_ScopeType grant = ScopeTeam \<and> gr_ScopeID grant = teamID)) (st_accessGrants s),
       st_memberships := AList.delete teamID (st_memberships s),
       st_teams := AList.delete teamID (st_teams s)\<rparr>"

definition DeleteTeam ::
  "time \<Rightarrow> string \<Rightarrow> string \<Rightarrow> string \<Rightarrow> string \<Rightarrow> string \<Rightarrow> access_store \<Rightarrow> bool st_result" where
  "DeleteTeam now actor teamID confirmationName key fp s =
     (let idemKey = ik actor (''teams.delete:'' @ teamID) key in
      case check_replay s idemKey fp of
        Inl e \<Rightarrow> (Inl e, s)
      | Inr (Some _) \<Rightarrow> (Inr True, s)
      | Inr None \<Rightarrow>
          case map_of (st_teams s) teamID of
            None \<Rightarrow> (Inl ErrNotFound, s)
          | Some team \<Rightarrow>
              if \<not> canManageTeamLocked s actor teamID then (Inl ErrForbidden, s)
              else if trim_space confirmationName \<noteq> team_Name team then (Inl ErrDeletionConfirmation, s)
              else if list_ex (\<lambda>(_, project). prj_TeamID project = teamID) (st_projects s) then (Inl ErrTeamDeletionBlocked, s)
              else if list_ex (\<lambda>(_, installation). ins_TeamID installation = teamID) (st_installations s) then (Inl ErrTeamDeletionBlocked, s)
              else
                let affected = map fst (get_or [] (st_memberships s) teamID) in
                (Inr False, bumpGrantsLocked now affected (audited (remember idemKey fp ''team'' teamID (erase_team teamID s)))))"

definition ListTeamMembersForActor :: "string \<Rightarrow> string \<Rightarrow> access_store \<Rightarrow> access_error + team_member list" where
  "ListTeamMembersForActor actor teamID s =
     (if map_of (st_teams s) teamID = None \<or> \<not> canAccessTeamLocked s actor teamID then Inl ErrNotFound
      else Inr (sort_key mem_CreatedAt
        (map (\<lambda>(_, member). member\<lparr>mem_User := Some (get_or no_user (st_users s) (mem_UserID member))\<rparr>)
          (get_or [] (st_memberships s) teamID))))"

definition put_member :: "string \<Rightarrow> string \<Rightarrow> team_member \<Rightarrow> access_store \<Rightarrow> access_store" where
  "put_member teamID userID member s =
     s\<lparr>st_memberships := AList.update teamID (AList.update userID member (get_or [] (st_memberships s) teamID)) (st_memberships s)\<rparr>"

definition joined_member :: "time \<Rightarrow> string \<Rightarrow> string \<Rightarrow> string \<Rightarrow> team_member option \<Rightarrow> team_member" where
  "joined_member now teamID userID role existing =
     (case existing of
        None \<Rightarrow> \<lparr>mem_TeamID = teamID, mem_UserID = userID, mem_Role = role, mem_User = None, mem_CreatedAt = now\<rparr>
      | Some m \<Rightarrow> m\<lparr>mem_Role := role\<rparr>)"

definition demotes_last_owner :: "access_store \<Rightarrow> string \<Rightarrow> string \<Rightarrow> string \<Rightarrow> bool" where
  "demotes_last_owner s teamID userID role =
     (case member_of s teamID userID of
        None \<Rightarrow> False
      | Some m \<Rightarrow> mem_Role m = ''owner'' \<and> role \<noteq> ''owner'' \<and> ownerCountLocked s teamID = 1)"

definition AddTeamMember ::
  "time \<Rightarrow> string \<Rightarrow> string \<Rightarrow> string \<Rightarrow> string \<Rightarrow> string \<Rightarrow> string \<Rightarrow> access_store \<Rightarrow> (team_member option \<times> bool) st_result" where
  "AddTeamMember now actor teamID key fp in_UserID in_Role s =
     (if map_of (st_teams s) teamID = None then (Inl ErrNotFound, s)
      else if \<not> canManageTeamLocked s actor teamID then (Inl ErrForbidden, s)
      else
        case map_of (st_users s) in_UserID of
          None \<Rightarrow> (Inl ErrNotFound, s)
        | Some user \<Rightarrow>
            if usr_Issuer user = ''kuberploy:deleted'' then (Inl ErrNotFound, s)
            else if map_of (st_serviceAccounts s) in_UserID \<noteq> None then (Inl ErrNotFound, s)
            else
              let idemKey = ik actor (''teams.members.add:'' @ teamID) key in
              case check_replay s idemKey fp of
                Inl e \<Rightarrow> (Inl e, s)
              | Inr (Some old) \<Rightarrow> (Inr (member_of s teamID (idem_resourceID old), True), s)
              | Inr None \<Rightarrow>
                  if demotes_last_owner s teamID in_UserID in_Role then (Inl ErrConflict, s)
                  else
                    let existing = member_of s teamID in_UserID;
                        changed = (case existing of None \<Rightarrow> True | Some member \<Rightarrow> mem_Role member \<noteq> in_Role);
                        member = joined_member now teamID in_UserID in_Role existing;
                        s1 = audited (remember idemKey fp ''team-member'' in_UserID (put_member teamID in_UserID member s)) in
                    (Inr (Some member, False), if changed then bumpGrantsLocked now [in_UserID] s1 else s1))"

definition RemoveTeamMember ::
  "time \<Rightarrow> string \<Rightarrow> string \<Rightarrow> string \<Rightarrow> access_store \<Rightarrow> unit st_result" where
  "RemoveTeamMember now actor teamID userID s =
     (if map_of (st_teams s) teamID = None then (Inl ErrNotFound, s)
      else if \<not> canManageTeamLocked s actor teamID then (Inl ErrForbidden, s)
      else
        case member_of s teamID userID of
          None \<Rightarrow> (Inr (), s)
        | Some member \<Rightarrow>
            if mem_Role member = ''owner'' \<and> ownerCountLocked s teamID = 1 then (Inl ErrConflict, s)
            else
              (Inr (), bumpGrantsLocked now [userID] (audited
                 (s\<lparr>st_memberships := AList.update teamID (AList.delete userID (get_or [] (st_memberships s) teamID)) (st_memberships s)\<rparr>))))"

section \<open>GitHub installations\<close>

record create_github_installation =
  cgi_GitHubInstallationID :: int
  cgi_AccountLogin :: string
  cgi_AccountType :: string
  cgi_RepositorySelection :: string
  cgi_RepositoryCount :: int

definition new_installation :: "time \<Rightarrow> string \<Rightarrow> string \<Rightarrow> create_github_installation \<Rightarrow> github_installation" where
  "new_installation now newID actor i =
     \<lparr>ins_ID = newID, ins_GitHubInstallationID = cgi_GitHubInstallationID i, ins_AccountLogin = cgi_AccountLogin i,
      ins_AccountType = cgi_AccountType i, ins_OwnerUserID = actor, ins_Visibility = ''private'', ins_TeamID = [],
      ins_RepositorySelection = cgi_RepositorySelection i, ins_RepositoryCount = cgi_RepositoryCount i,
      ins_CreatedAt = now, ins_UpdatedAt = now\<rparr>"

definition put_installation :: "string \<Rightarrow> github_installation \<Rightarrow> access_store \<Rightarrow> access_store" where
  "put_installation i installation s = s\<lparr>st_installations := AList.update i installation (st_installations s)\<rparr>"

definition CreateGitHubInstallation ::
  "time \<Rightarrow> string \<Rightarrow> string \<Rightarrow> string \<Rightarrow> string \<Rightarrow> create_github_installation \<Rightarrow> access_store \<Rightarrow>
     (github_installation option \<times> bool) st_result" where
  "CreateGitHubInstallation now newID actor key fp i s =
     (if \<not> isAdminLocked s actor then (Inl ErrForbidden, s)
      else
        let idemKey = ik actor ''github-installations.create'' key in
        case check_replay s idemKey fp of
          Inl e \<Rightarrow> (Inl e, s)
        | Inr (Some old) \<Rightarrow> (Inr (map_of (st_installations s) (idem_resourceID old), True), s)
        | Inr None \<Rightarrow>
            if list_ex (\<lambda>(_, installation). ins_GitHubInstallationID installation = cgi_GitHubInstallationID i) (st_installations s)
            then (Inl ErrConflict, s)
            else
              let installation = new_installation now newID actor i in
              (Inr (Some installation, False),
               audited (remember idemKey fp ''github-installation'' newID (put_installation newID installation s))))"

definition LinkVerifiedGitHubInstallation ::
  "text_case \<Rightarrow> time \<Rightarrow> string \<Rightarrow> string \<Rightarrow> string \<Rightarrow> string \<Rightarrow> create_github_installation \<Rightarrow> access_store \<Rightarrow>
     (github_installation \<times> bool) st_result" where
  "LinkVerifiedGitHubInstallation tc now newID actor key fp i s =
     (if map_of (st_users s) actor = None then (Inl ErrNotFound, s)
      else
        let idemKey = ik actor ''github-installations.link'' key in
        case check_replay s idemKey fp of
          Inl e \<Rightarrow> (Inl e, s)
        | Inr (Some old) \<Rightarrow>
            (case map_of (st_installations s) (idem_resourceID old) of
               None \<Rightarrow> (Inl ErrNotFound, s)
             | Some installation \<Rightarrow> (Inr (installation, True), s))
        | Inr None \<Rightarrow>
            case find (\<lambda>(_, installation). ins_GitHubInstallationID installation = cgi_GitHubInstallationID i) (st_installations s) of
              Some (installationID, installation) \<Rightarrow>
                if ins_OwnerUserID installation \<noteq> actor \<or> \<not> tc_EqualFold tc (ins_AccountLogin installation) (cgi_AccountLogin i) \<or>
                   ins_AccountType installation \<noteq> cgi_AccountType i \<or>
                   cgi_RepositorySelection i \<noteq> ''all'' \<and> cgi_RepositorySelection i \<noteq> ''selected''
                then (Inl ErrConflict, s)
                else
                  let installation' = installation\<lparr>ins_RepositorySelection := cgi_RepositorySelection i,
                        ins_RepositoryCount := cgi_RepositoryCount i, ins_UpdatedAt := now\<rparr> in
                  (Inr (installation', False),
                   audited (remember idemKey fp ''github-installation'' (ins_ID installation)
                     (put_installation installationID installation' s)))
            | None \<Rightarrow>
                let installation = new_installation now newID actor i in
                (Inr (installation, False),
                 audited (remember idemKey fp ''github-installation'' newID (put_installation newID installation s))))"

definition ListGitHubInstallationsForActor :: "string \<Rightarrow> access_store \<Rightarrow> github_installation list" where
  "ListGitHubInstallationsForActor actor s =
     sort_key ins_CreatedAt (map snd (filter (\<lambda>(_, installation).
       isAdminLocked s actor \<or> ins_OwnerUserID installation = actor \<or>
       ins_Visibility installation = ''team'' \<and> member_of s (ins_TeamID installation) actor \<noteq> None) (st_installations s)))"

definition AuthorizeGitHubInstallationForProject :: "string \<Rightarrow> string \<Rightarrow> string \<Rightarrow> access_store \<Rightarrow> access_error + unit" where
  "AuthorizeGitHubInstallationForProject actor installationID projectID s =
     (case (map_of (st_installations s) installationID, map_of (st_projects s) projectID) of
        (Some installation, Some project) \<Rightarrow>
          (case authorizeLocked s actor PermissionBuildsManage (typed_target ''project'' (prj_ID project)) of
             Inl e \<Rightarrow> Inl e
           | Inr _ \<Rightarrow>
               if isAdminLocked s actor \<or> ins_OwnerUserID installation = actor \<or>
                  ins_Visibility installation = ''team'' \<and> ins_TeamID installation \<noteq> [] \<and> ins_TeamID installation = prj_TeamID project
               then Inr () else Inl ErrNotFound)
      | _ \<Rightarrow> Inl ErrNotFound)"

definition team_users :: "access_store \<Rightarrow> string \<Rightarrow> string list" where
  "team_users s teamID = (if teamID \<noteq> [] then map fst (get_or [] (st_memberships s) teamID) else [])"

definition UpdateGitHubInstallationSharing ::
  "time \<Rightarrow> string \<Rightarrow> string \<Rightarrow> string \<Rightarrow> string \<Rightarrow> string \<Rightarrow> string \<Rightarrow> access_store \<Rightarrow> (github_installation \<times> bool) st_result" where
  "UpdateGitHubInstallationSharing now actor installationID key fp in_Visibility in_TeamID s =
     (case map_of (st_installations s) installationID of
        None \<Rightarrow> (Inl ErrNotFound, s)
      | Some installation \<Rightarrow>
          let idemKey = ik actor (''github-installations.sharing:'' @ installationID) key in
          case check_replay s idemKey fp of
            Inl e \<Rightarrow> (Inl e, s)
          | Inr (Some old) \<Rightarrow>
              (case map_of (st_installations s) (idem_resourceID old) of
                 None \<Rightarrow> (Inl ErrNotFound, s)
               | Some stored \<Rightarrow> (Inr (stored, True), s))
          | Inr None \<Rightarrow>
              let admin = isAdminLocked s actor;
                  currentTeamOwner = (ins_TeamID installation \<noteq> [] \<and> canManageTeamLocked s actor (ins_TeamID installation)) in
              if \<not> admin \<and> actor \<noteq> ins_OwnerUserID installation \<and> \<not> currentTeamOwner then (Inl ErrForbidden, s)
              else if in_Visibility = ''team'' \<and> map_of (st_teams s) in_TeamID = None then (Inl ErrNotFound, s)
              else if in_Visibility = ''team'' \<and> \<not> admin \<and> \<not> canManageTeamLocked s actor in_TeamID then (Inl ErrForbidden, s)
              else if ins_Visibility installation = in_Visibility \<and> ins_TeamID installation = in_TeamID then
                (Inr (installation, False), remember idemKey fp ''github-installation'' (ins_ID installation) s)
              else
                let affected = remdups (ins_OwnerUserID installation # team_users s (ins_TeamID installation) @ team_users s in_TeamID);
                    installation' = installation\<lparr>ins_Visibility := in_Visibility, ins_TeamID := in_TeamID, ins_UpdatedAt := now\<rparr> in
                (Inr (installation', False),
                 bumpGrantsLocked now affected (audited (remember idemKey fp ''github-installation'' (ins_ID installation)
                   (put_installation (ins_ID installation) installation' s)))))"

section \<open>Access grants\<close>

record create_access_grant =
  cag_ProjectID :: string
  cag_SubjectUserID :: string
  cag_SubjectTeamID :: string
  cag_Role :: access_role
  cag_ScopeType :: access_scope
  cag_ScopeID :: string
  cag_Permissions :: "permission list"

definition ListProjectAccessGrants :: "string \<Rightarrow> string \<Rightarrow> access_store \<Rightarrow> access_error + access_grant list" where
  "ListProjectAccessGrants actor projectID s =
     (case map_of (st_projects s) projectID of
        None \<Rightarrow> Inl ErrNotFound
      | Some project \<Rightarrow>
          (case authorizeLocked s actor PermissionGrantsRead (typed_target ''project'' projectID) of
             Inl e \<Rightarrow> Inl e
           | Inr _ \<Rightarrow>
               Inr (sort_key (\<lambda>g. (gr_CreatedAt g, gr_ID g)) (map snd (filter (\<lambda>(_, grant).
                 snd (scopeTargetForProjectLocked s project (gr_ScopeType grant) (gr_ScopeID grant))) (st_accessGrants s))))))"

definition grant_request_ok :: "create_access_grant \<Rightarrow> bool" where
  "grant_request_ok i \<longleftrightarrow>
     \<not> ((cag_SubjectUserID i = []) = (cag_SubjectTeamID i = []) \<or> \<not> ValidRole (cag_Role i) \<or> \<not> ValidScope (cag_ScopeType i) \<or>
        \<not> ValidExtraPermissions (cag_Permissions i) \<or> cag_Role i = RolePlatformAdmin \<or> cag_ScopeType i = ScopePlatform \<or>
        cag_Role i = RoleOrganizationAdmin \<and> cag_ScopeType i \<noteq> ScopeTeam \<or>
        cag_Role i = RoleProjectAdmin \<and> cag_ScopeType i \<noteq> ScopeProject)"

definition subject_exists :: "access_store \<Rightarrow> create_access_grant \<Rightarrow> bool" where
  "subject_exists s i \<longleftrightarrow>
     (if cag_SubjectUserID i \<noteq> [] then map_of (st_users s) (cag_SubjectUserID i) \<noteq> None
      else map_of (st_teams s) (cag_SubjectTeamID i) \<noteq> None)"

definition same_grant :: "create_access_grant \<Rightarrow> access_grant \<Rightarrow> bool" where
  "same_grant i grant \<longleftrightarrow>
     gr_SubjectUserID grant = cag_SubjectUserID i \<and> gr_SubjectTeamID grant = cag_SubjectTeamID i \<and> gr_Role grant = cag_Role i \<and>
     gr_ScopeType grant = cag_ScopeType i \<and> gr_ScopeID grant = cag_ScopeID i"

definition new_grant :: "time \<Rightarrow> string \<Rightarrow> string \<Rightarrow> create_access_grant \<Rightarrow> access_grant" where
  "new_grant now newID actor i =
     \<lparr>gr_ID = newID, gr_SubjectUserID = cag_SubjectUserID i, gr_SubjectTeamID = cag_SubjectTeamID i, gr_Role = cag_Role i,
      gr_ScopeType = cag_ScopeType i, gr_ScopeID = cag_ScopeID i, gr_Permissions = cag_Permissions i, gr_Source = ''explicit'',
      gr_CreatedBy = actor, gr_CreatedAt = now\<rparr>"

definition CreateProjectAccessGrant ::
  "time \<Rightarrow> string \<Rightarrow> string \<Rightarrow> string \<Rightarrow> string \<Rightarrow> create_access_grant \<Rightarrow> access_store \<Rightarrow> (access_grant \<times> bool) st_result" where
  "CreateProjectAccessGrant now newID actor key fp i s =
     (case map_of (st_projects s) (cag_ProjectID i) of
        None \<Rightarrow> (Inl ErrNotFound, s)
      | Some project \<Rightarrow>
          if \<not> grant_request_ok i then (Inl ErrConflict, s)
          else
            let (target, ok) = scopeTargetForProjectLocked s project (cag_ScopeType i) (cag_ScopeID i);
                bindings = bindingsLocked s actor in
            if \<not> ok then (Inl ErrNotFound, s)
            else if \<not> HasPermission bindings (project_target project) PermissionResourcesRead then (Inl ErrNotFound, s)
            else if \<not> CanManageGrant bindings target (cag_Role i) then (Inl ErrForbidden, s)
            else if \<not> subject_exists s i then (Inl ErrNotFound, s)
            else
              let idemKey = ik actor (''projects.grants.create:'' @ cag_ProjectID i) key in
              case check_replay s idemKey fp of
                Inl e \<Rightarrow> (Inl e, s)
              | Inr (Some old) \<Rightarrow>
                  (case map_of (st_accessGrants s) (idem_resourceID old) of
                     None \<Rightarrow> (Inl ErrConflict, s)
                   | Some grant \<Rightarrow> (Inr (grant, True), s))
              | Inr None \<Rightarrow>
                  if list_ex (\<lambda>(_, grant). same_grant i grant) (st_accessGrants s) then (Inl ErrConflict, s)
                  else
                    let grant = new_grant now newID actor i in
                    (Inr (grant, False), bumpGrantSubjectsLocked now grant (audited (remember idemKey fp ''access-grant'' newID
                       (s\<lparr>st_accessGrants := AList.update newID grant (st_accessGrants s)\<rparr>)))))"

definition DeleteProjectAccessGrant ::
  "time \<Rightarrow> string \<Rightarrow> string \<Rightarrow> string \<Rightarrow> string \<Rightarrow> string \<Rightarrow> access_store \<Rightarrow> bool st_result" where
  "DeleteProjectAccessGrant now actor projectID grantID key fp s =
     (case map_of (st_projects s) projectID of
        None \<Rightarrow> (Inl ErrNotFound, s)
      | Some project \<Rightarrow>
          let bindings = bindingsLocked s actor in
          if \<not> HasPermission bindings (project_target project) PermissionResourcesRead then (Inl ErrNotFound, s)
          else
            let idemKey = ik actor (''projects.grants.delete:'' @ projectID @ '':'' @ grantID) key in
            case check_replay s idemKey fp of
              Inl e \<Rightarrow> (Inl e, s)
            | Inr (Some _) \<Rightarrow> (Inr True, s)
            | Inr None \<Rightarrow>
                case map_of (st_accessGrants s) grantID of
                  None \<Rightarrow> (Inl ErrNotFound, s)
                | Some grant \<Rightarrow>
                    let (target, ok) = scopeTargetForProjectLocked s project (gr_ScopeType grant) (gr_ScopeID grant) in
                    if \<not> ok then (Inl ErrNotFound, s)
                    else if gr_Source grant \<noteq> ''explicit'' \<or> \<not> CanManageGrant bindings target (gr_Role grant) then (Inl ErrForbidden, s)
                    else
                      (Inr False, bumpGrantSubjectsLocked now grant (audited (remember idemKey fp ''access-grant'' grantID
                         (s\<lparr>st_accessGrants := AList.delete grantID (st_accessGrants s)\<rparr>)))))"

end
