(* ===== verification/Access_Resources.thy ===== *)
theory Access_Resources
  imports Access_Accounts
begin

text \<open>
  Projects, environments, applications and service accounts: the operations of
  \<open>internal/store/memory/store.go\<close> and \<open>service_accounts.go\<close>, the per-actor reads of
  \<open>access.go\<close>, and the destination names of \<open>internal/domain/destination.go\<close>.  The hash of
  \<open>crypto/sha256\<close> is the argument \<open>sha\<close>.
\<close>

section \<open>Destinations\<close>

definition trim_right_dashes :: "string \<Rightarrow> string" where
  "trim_right_dashes s = rev (dropWhile (\<lambda>c. c = CHR ''-'') (rev s))"

definition DeriveEnvironmentDestination :: "(string \<Rightarrow> string) \<Rightarrow> project \<Rightarrow> string \<Rightarrow> string" where
  "DeriveEnvironmentDestination sha project environmentSlug =
     (let candidate = ''kp-'' @ prj_Slug project @ ''-'' @ environmentSlug in
      if length candidate > 63 then
        let suffix = hex_encode (take 5 (sha (prj_ID project @ CHR 0x00 # environmentSlug)));
            prefix = trim_right_dashes (take 52 candidate) in
        prefix @ ''-'' @ suffix
      else candidate)"

section \<open>Projects\<close>

definition new_project :: "time \<Rightarrow> string \<Rightarrow> string \<Rightarrow> string \<Rightarrow> string \<Rightarrow> project" where
  "new_project now newID name slug teamID =
     \<lparr>prj_ID = newID, prj_Name = name, prj_Slug = slug, prj_TeamID = teamID, prj_CreatedAt = now\<rparr>"

definition CreateProject ::
  "time \<Rightarrow> string \<Rightarrow> string \<Rightarrow> string \<Rightarrow> string \<Rightarrow> string \<Rightarrow> string \<Rightarrow> string \<Rightarrow> access_store \<Rightarrow> (project \<times> bool) st_result" where
  "CreateProject now newID actor key fp in_Name in_Slug in_TeamID s =
     (let k = ik actor ''projects.create'' key;
          target = (if in_TeamID \<noteq> [] then typed_target ''team'' in_TeamID else platform_target) in
      case check_replay s k fp of
        Inl e \<Rightarrow> (Inl e, s)
      | Inr (Some old) \<Rightarrow>
          (case authorizeLocked s actor PermissionResourcesWrite target of
             Inl e \<Rightarrow> (Inl e, s)
           | Inr _ \<Rightarrow> (Inr (the_project s (idem_resourceID old), True), s))
      | Inr None \<Rightarrow>
          (case authorizeLocked s actor PermissionResourcesWrite target of
             Inl e \<Rightarrow> (Inl e, s)
           | Inr _ \<Rightarrow>
               if list_ex (\<lambda>(_, v). prj_Slug v = in_Slug) (st_projects s) then (Inl ErrConflict, s)
               else
                 let p = new_project now newID in_Name in_Slug in_TeamID in
                 (Inr (p, False), audited (remember k fp ''project'' newID
                    (s\<lparr>st_projects := AList.update newID p (st_projects s)\<rparr>)))))"

definition GetProject :: "string \<Rightarrow> access_store \<Rightarrow> access_error + project" where
  "GetProject v s = (case map_of (st_projects s) v of None \<Rightarrow> Inl ErrNotFound | Some x \<Rightarrow> Inr x)"

definition ListProjects :: "access_store \<Rightarrow> project list" where
  "ListProjects s = sort_key prj_CreatedAt (map snd (st_projects s))"

definition erase_project :: "string \<Rightarrow> access_store \<Rightarrow> access_store" where
  "erase_project projectID s =
     (let accounts = map fst (filter (\<lambda>(_, account). sa_ProjectID account = projectID) (st_serviceAccounts s));
          tokens = map fst (filter (\<lambda>(_, token). tok_ServiceAccountID token \<in> set accounts) (st_serviceAccountTokens s)) in
      s\<lparr>st_serviceAccounts := filter (\<lambda>(accountID, _). accountID \<notin> set accounts) (st_serviceAccounts s),
        st_users := filter (\<lambda>(userID, _). userID \<notin> set accounts) (st_users s),
        st_sessions := filter (\<lambda>(_, session). ses_userID session \<notin> set accounts) (st_sessions s),
        st_serviceAccountTokens := filter (\<lambda>(tokenID, _). tokenID \<notin> set tokens) (st_serviceAccountTokens s),
        st_serviceAccountTokenHashes := filter (\<lambda>(_, tokenID). tokenID \<notin> set tokens) (st_serviceAccountTokenHashes s),
        st_accessGrants := filter (\<lambda>(_, grant). \<not> (gr_ScopeType grant = ScopeProject \<and> gr_ScopeID grant = projectID)) (st_accessGrants s),
        st_projectRegistryPullCredentials :=
          filter (\<lambda>(_, credential). prc_ProjectID credential \<noteq> projectID) (st_projectRegistryPullCredentials s),
        st_projects := AList.delete projectID (st_projects s)\<rparr>)"

definition DeleteProject ::
  "string \<Rightarrow> string \<Rightarrow> string \<Rightarrow> string \<Rightarrow> string \<Rightarrow> access_store \<Rightarrow> bool st_result" where
  "DeleteProject actor projectID confirmationName key fp s =
     (let idemKey = ik actor (''projects.delete:'' @ projectID) key in
      case check_replay s idemKey fp of
        Inl e \<Rightarrow> (Inl e, s)
      | Inr (Some _) \<Rightarrow> (Inr True, s)
      | Inr None \<Rightarrow>
          case map_of (st_projects s) projectID of
            None \<Rightarrow> (Inl ErrNotFound, s)
          | Some project \<Rightarrow>
              case authorizeLocked s actor PermissionGrantsManage (typed_target ''project'' projectID) of
                Inl e \<Rightarrow> (Inl e, s)
              | Inr _ \<Rightarrow>
                  if trim_space confirmationName \<noteq> prj_Name project then (Inl ErrDeletionConfirmation, s)
                  else if list_ex (\<lambda>(_, environment). envt_ProjectID environment = projectID) (st_environments s) then (Inl ErrProjectDeletionBlocked, s)
                  else if list_ex (\<lambda>(_, application). app_ProjectID application = projectID) (st_applications s) then (Inl ErrProjectDeletionBlocked, s)
                  else if list_ex (\<lambda>(_, account). sa_ProjectID account = projectID \<and> sa_DisabledAt account = None) (st_serviceAccounts s)
                  then (Inl ErrProjectDeletionBlocked, s)
                  else (Inr False, audited (remember idemKey fp ''project'' projectID (erase_project projectID s))))"

section \<open>Environments\<close>

definition new_environment :: "time \<Rightarrow> string \<Rightarrow> string \<Rightarrow> string \<Rightarrow> string \<Rightarrow> string \<Rightarrow> string \<Rightarrow> environment" where
  "new_environment now newID projectID name slug namespace policy =
     \<lparr>envt_ID = newID, envt_ProjectID = projectID, envt_Name = name, envt_Slug = slug, envt_Namespace = namespace,
      envt_ArgoProject = namespace, envt_ProtectionPolicy = policy, envt_CreatedAt = now\<rparr>"

definition CreateEnvironment ::
  "(string \<Rightarrow> string) \<Rightarrow> time \<Rightarrow> resource_id \<Rightarrow> resource_id \<Rightarrow> string \<Rightarrow> string \<Rightarrow> resource_id \<Rightarrow> string \<Rightarrow> string \<Rightarrow> string \<Rightarrow> access_store \<Rightarrow>
     (environment \<times> bool) st_result" where
  "CreateEnvironment sha now newID actor key fp in_ProjectID in_Name in_Slug in_ProtectionPolicy s =
     (let k = ik actor ''environments.create'' key in
      case check_replay s k fp of
        Inl e \<Rightarrow> (Inl e, s)
      | Inr (Some old) \<Rightarrow>
          (let replayed = the_environment s (idem_resourceID old) in
           case authorizeLocked s actor PermissionResourcesWrite (typed_target ''project'' (envt_ProjectID replayed)) of
             Inl e \<Rightarrow> (Inl e, s)
           | Inr _ \<Rightarrow> (Inr (replayed, True), s))
      | Inr None \<Rightarrow>
          case map_of (st_projects s) in_ProjectID of
            None \<Rightarrow> (Inl ErrNotFound, s)
          | Some project \<Rightarrow>
              case authorizeLocked s actor PermissionResourcesWrite (typed_target ''project'' (prj_ID project)) of
                Inl e \<Rightarrow> (Inl e, s)
              | Inr _ \<Rightarrow>
                  let namespace = DeriveEnvironmentDestination sha project in_Slug;
                      policy = (if in_ProtectionPolicy = [] then ''protected'' else in_ProtectionPolicy) in
                  if policy \<noteq> ''development'' \<and> policy \<noteq> ''protected'' then (Inl ErrConflict, s)
                  else if list_ex (\<lambda>(_, v). envt_Namespace v = namespace \<or> envt_ProjectID v = in_ProjectID \<and> envt_Slug v = in_Slug)
                       (st_environments s) then (Inl ErrConflict, s)
                  else
                    let v = new_environment now newID in_ProjectID in_Name in_Slug namespace policy in
                    (Inr (v, False), audited (remember k fp ''environment'' newID
                       (s\<lparr>st_environments := AList.update newID v (st_environments s)\<rparr>))))"

definition GetEnvironment :: "string \<Rightarrow> access_store \<Rightarrow> access_error + environment" where
  "GetEnvironment v s = (case map_of (st_environments s) v of None \<Rightarrow> Inl ErrNotFound | Some x \<Rightarrow> Inr x)"

definition ListEnvironments :: "access_store \<Rightarrow> environment list" where
  "ListEnvironments s = sort_key envt_CreatedAt (map snd (st_environments s))"

definition no_placement :: environment_app_placement where
  "no_placement = \<lparr>pl_ProjectID = [], pl_EnvironmentID = [], pl_ApplicationID = [], pl_ApplicationName = [],
     pl_ApplicationSlug = [], pl_State = [], pl_DesiredState = [], pl_CreatedAt = 0, pl_UpdatedAt = 0\<rparr>"

definition deployment_blocks :: "access_store \<Rightarrow> string \<Rightarrow> deployment \<Rightarrow> bool" where
  "deployment_blocks s environmentID deployment \<longleftrightarrow>
     dep_EnvironmentID deployment = environmentID \<and>
     (let placement = get_or no_placement (get_or [] (st_environmentAppPlacements s) environmentID) (dep_ApplicationID deployment) in
      dep_State deployment \<noteq> ''stopped'' \<or> pl_State placement \<noteq> ''draft'' \<or> pl_DesiredState placement \<noteq> ''stopped'')"

definition erase_environment :: "string \<Rightarrow> access_store \<Rightarrow> access_store" where
  "erase_environment environmentID s =
     s\<lparr>st_gitWriteCommands := filter (\<lambda>(_, command).
         \<not> (case map_of (st_deployments s) (wc_DeploymentID command) of
              None \<Rightarrow> False | Some deployment \<Rightarrow> dep_EnvironmentID deployment = environmentID)) (st_gitWriteCommands s),
       st_deployments := filter (\<lambda>(_, deployment). dep_EnvironmentID deployment \<noteq> environmentID) (st_deployments s),
       st_deploymentInputs := filter (\<lambda>(_, input). dep_EnvironmentID input \<noteq> environmentID) (st_deploymentInputs s),
       st_gitBindings := AList.delete environmentID (st_gitBindings s),
       st_accessGrants := filter (\<lambda>(_, grant). \<not> (gr_ScopeType grant = ScopeEnvironment \<and> gr_ScopeID grant = environmentID))
         (st_accessGrants s),
       st_environmentAppPlacements := AList.delete environmentID (st_environmentAppPlacements s),
       st_environments := AList.delete environmentID (st_environments s)\<rparr>"

definition DeleteEnvironment ::
  "string \<Rightarrow> string \<Rightarrow> string \<Rightarrow> string \<Rightarrow> string \<Rightarrow> access_store \<Rightarrow> bool st_result" where
  "DeleteEnvironment actor environmentID confirmationName key fp s =
     (let idemKey = ik actor (''environments.delete:'' @ environmentID) key in
      case check_replay s idemKey fp of
        Inl e \<Rightarrow> (Inl e, s)
      | Inr (Some _) \<Rightarrow> (Inr True, s)
      | Inr None \<Rightarrow>
          case map_of (st_environments s) environmentID of
            None \<Rightarrow> (Inl ErrNotFound, s)
          | Some environment \<Rightarrow>
              case authorizeLocked s actor PermissionResourcesWrite (typed_target ''project'' (envt_ProjectID environment)) of
                Inl e \<Rightarrow> (Inl e, s)
              | Inr _ \<Rightarrow>
                  if trim_space confirmationName \<noteq> envt_Name environment then (Inl ErrDeletionConfirmation, s)
                  else if list_ex (\<lambda>(_, deployment). deployment_blocks s environmentID deployment) (st_deployments s)
                  then (Inl ErrEnvironmentDeletionBlocked, s)
                  else (Inr False, audited (remember idemKey fp ''environment'' environmentID (erase_environment environmentID s))))"

definition environmentAppPlacementsLocked :: "access_store \<Rightarrow> string \<Rightarrow> environment_app_placement list" where
  "environmentAppPlacementsLocked s environmentID =
     sort_key (\<lambda>p. (pl_ApplicationSlug p, pl_ApplicationID p)) (map snd (get_or [] (st_environmentAppPlacements s) environmentID))"

section \<open>Applications\<close>

definition SourceKind_Valid :: "string \<Rightarrow> bool" where
  "SourceKind_Valid kind \<longleftrightarrow> kind \<in> {''oci'', ''github'', ''git-ssh'', ''helm''}"

definition draft_placement :: "time \<Rightarrow> string \<Rightarrow> string \<Rightarrow> application \<Rightarrow> environment_app_placement" where
  "draft_placement now projectID environmentID v =
     \<lparr>pl_ProjectID = projectID, pl_EnvironmentID = environmentID, pl_ApplicationID = app_ID v, pl_ApplicationName = app_Name v,
      pl_ApplicationSlug = app_Slug v, pl_State = ''draft'', pl_DesiredState = ''stopped'', pl_CreatedAt = now, pl_UpdatedAt = now\<rparr>"

definition source_draft :: "time \<Rightarrow> string \<Rightarrow> string \<Rightarrow> string \<Rightarrow> string \<Rightarrow> deployment" where
  "source_draft now deploymentID operationID environmentID applicationID =
     \<lparr>dep_ID = deploymentID, dep_EnvironmentID = environmentID, dep_ApplicationID = applicationID, dep_Image = [], dep_Replicas = 1,
      dep_Port = 3000, dep_Environment = [], dep_Route = None, dep_Runtime = DefaultWorkloadRuntime 3000 [],
      dep_RegistryPull = None, dep_State = ''stopped'', dep_OperationID = operationID, dep_Generation = 1,
      dep_DesiredRevision = [], dep_ObservedRevision = [], dep_CreatedAt = now, dep_UpdatedAt = now, dep_ConfigRaw = [],
      dep_ConfigVersion = 0\<rparr>"

definition source_draft_operation :: "time \<Rightarrow> string \<Rightarrow> string \<Rightarrow> string \<Rightarrow> operation" where
  "source_draft_operation now operationID deploymentID applicationID =
     \<lparr>op_ID = operationID, op_Kind = ''deployment.source-draft'', op_Status = ''succeeded'', op_TargetType = ''deployment'',
      op_TargetID = deploymentID, op_RequestID = ''application-create:'' @ applicationID, op_Generation = 1, op_Progress = [],
      op_GitRevision = [], op_PullRequest = None, op_Problem = None, op_CreatedAt = now, op_UpdatedAt = now,
      op_FinishedAt = Some now\<rparr>"

definition place_application :: "time \<Rightarrow> string \<Rightarrow> string \<Rightarrow> string \<Rightarrow> string \<Rightarrow> application \<Rightarrow> access_store \<Rightarrow> access_store" where
  "place_application now deploymentID operationID projectID environmentID v s =
     (let placements = AList.update (app_ID v) (draft_placement now projectID environmentID v)
            (get_or [] (st_environmentAppPlacements s) environmentID);
          s1 = s\<lparr>st_environmentAppPlacements := AList.update environmentID placements (st_environmentAppPlacements s)\<rparr> in
      if app_SourceKind v = ''github'' \<or> app_SourceKind v = ''git-ssh'' then
        s1\<lparr>st_deployments := AList.update deploymentID (source_draft now deploymentID operationID environmentID (app_ID v)) (st_deployments s1),
           st_operations := AList.update operationID (source_draft_operation now operationID deploymentID (app_ID v)) (st_operations s1)\<rparr>
      else s1)"

definition new_application :: "time \<Rightarrow> string \<Rightarrow> string \<Rightarrow> string \<Rightarrow> string \<Rightarrow> string \<Rightarrow> application" where
  "new_application now newID projectID name slug kind =
     \<lparr>app_ID = newID, app_ProjectID = projectID, app_Name = name, app_Slug = slug,
      app_SourceKind = (if SourceKind_Valid kind then kind else ''oci''), app_CreatedAt = now\<rparr>"

definition CreateApplication ::
  "time \<Rightarrow> resource_id \<Rightarrow> resource_id \<Rightarrow> resource_id \<Rightarrow> resource_id \<Rightarrow> string \<Rightarrow> string \<Rightarrow> resource_id \<Rightarrow> resource_id \<Rightarrow> string \<Rightarrow> string \<Rightarrow> string \<Rightarrow> access_store \<Rightarrow>
     (application \<times> bool) st_result" where
  "CreateApplication now newID deploymentID operationID actor key fp in_ProjectID in_EnvironmentID in_Name in_Slug in_SourceKind s =
     (let k = ik actor ''applications.create'' key in
      case check_replay s k fp of
        Inl e \<Rightarrow> (Inl e, s)
      | Inr (Some old) \<Rightarrow>
          (let replayed = the_application s (idem_resourceID old) in
           case authorizeLocked s actor PermissionResourcesWrite (typed_target ''project'' (app_ProjectID replayed)) of
             Inl e \<Rightarrow> (Inl e, s)
           | Inr _ \<Rightarrow> (Inr (replayed, True), s))
      | Inr None \<Rightarrow>
          case map_of (st_projects s) in_ProjectID of
            None \<Rightarrow> (Inl ErrNotFound, s)
          | Some project \<Rightarrow>
              case authorizeLocked s actor PermissionResourcesWrite (typed_target ''project'' (prj_ID project)) of
                Inl e \<Rightarrow> (Inl e, s)
              | Inr _ \<Rightarrow>
                  if in_EnvironmentID \<noteq> [] \<and> map_of (st_environments s) in_EnvironmentID = None then (Inl ErrNotFound, s)
                  else if in_EnvironmentID \<noteq> [] \<and> envt_ProjectID (the_environment s in_EnvironmentID) \<noteq> prj_ID project then (Inl ErrConflict, s)
                  else if list_ex (\<lambda>(_, v). app_ProjectID v = in_ProjectID \<and> app_Slug v = in_Slug) (st_applications s) then (Inl ErrConflict, s)
                  else
                    let v = new_application now newID in_ProjectID in_Name in_Slug in_SourceKind;
                        s1 = s\<lparr>st_applications := AList.update newID v (st_applications s)\<rparr>;
                        s2 = (if in_EnvironmentID \<noteq> [] then place_application now deploymentID operationID (prj_ID project) in_EnvironmentID v s1
                              else s1) in
                    (Inr (v, False), audited (remember k fp ''application'' newID s2)))"

definition GetApplication :: "string \<Rightarrow> access_store \<Rightarrow> access_error + application" where
  "GetApplication v s = (case map_of (st_applications s) v of None \<Rightarrow> Inl ErrNotFound | Some x \<Rightarrow> Inr x)"

definition ListApplications :: "access_store \<Rightarrow> application list" where
  "ListApplications s = sort_key app_CreatedAt (map snd (st_applications s))"

definition withdraw_service :: "string \<Rightarrow> registry_store \<Rightarrow> registry_store" where
  "withdraw_service serviceID r =
     r\<lparr>rs_policies := filter (\<lambda>(_, policy). pol_ServiceID policy \<noteq> serviceID) (rs_policies r),
       rs_pins := filter (\<lambda>(_, reference). ref_ServiceID reference \<noteq> serviceID) (rs_pins r),
       rs_authorities := filter (\<lambda>(_, snapshot). auth_ServiceID (ps_Observation snapshot) \<noteq> serviceID) (rs_authorities r),
       rs_releases := filter (\<lambda>(_, release). rel_ServiceID release \<noteq> serviceID) (rs_releases r),
       rs_caches := filter (\<lambda>(_, generation). cache_ServiceID generation \<noteq> serviceID) (rs_caches r)\<rparr>"

definition erase_application :: "string \<Rightarrow> access_store \<Rightarrow> access_store" where
  "erase_application applicationID s =
     (let gone = map fst (filter (\<lambda>(_, deployment). dep_ApplicationID deployment = applicationID) (st_deployments s)) in
      s\<lparr>st_deployments := filter (\<lambda>(_, deployment). dep_ApplicationID deployment \<noteq> applicationID) (st_deployments s),
        st_gitWriteCommands := filter (\<lambda>(_, command). wc_DeploymentID command \<notin> set gone) (st_gitWriteCommands s),
        st_deploymentInputs := filter (\<lambda>(_, input). dep_ID input \<notin> set gone) (st_deploymentInputs s),
        st_environmentAppPlacements := map (\<lambda>(environmentID, placements). (environmentID, AList.delete applicationID placements))
          (st_environmentAppPlacements s),
        st_registry := withdraw_service applicationID (st_registry s),
        st_accessGrants := filter (\<lambda>(_, grant). \<not> (gr_ScopeType grant = ScopeApplication \<and> gr_ScopeID grant = applicationID))
          (st_accessGrants s),
        st_applications := AList.delete applicationID (st_applications s)\<rparr>)"

definition DeleteApplication ::
  "string \<Rightarrow> string \<Rightarrow> string \<Rightarrow> string \<Rightarrow> string \<Rightarrow> access_store \<Rightarrow> bool st_result" where
  "DeleteApplication actor applicationID confirmationName key fp s =
     (let idemKey = ik actor (''applications.delete:'' @ applicationID) key in
      case check_replay s idemKey fp of
        Inl e \<Rightarrow> (Inl e, s)
      | Inr (Some _) \<Rightarrow> (Inr True, s)
      | Inr None \<Rightarrow>
          case map_of (st_applications s) applicationID of
            None \<Rightarrow> (Inl ErrNotFound, s)
          | Some application \<Rightarrow>
              case authorizeLocked s actor PermissionResourcesWrite (typed_target ''project'' (app_ProjectID application)) of
                Inl e \<Rightarrow> (Inl e, s)
              | Inr _ \<Rightarrow>
                  if trim_space confirmationName \<noteq> app_Name application then (Inl ErrDeletionConfirmation, s)
                  else if list_ex (\<lambda>(_, deployment). dep_ApplicationID deployment = applicationID \<and> dep_State deployment \<noteq> ''stopped'')
                       (st_deployments s) then (Inl ErrApplicationDeletionBlocked, s)
                  else (Inr False, audited (remember idemKey fp ''application'' applicationID (erase_application applicationID s))))"

section \<open>Service accounts\<close>

record create_service_account_token =
  cst_ServiceAccountID :: string
  cst_Name :: string
  cst_Prefix :: string
  cst_TokenHash :: string
  cst_Scopes :: "automation_scope list"
  cst_ExpiresAt :: time

record automation_principal =
  ap_User :: user
  ap_ServiceAccountID :: string
  ap_TokenID :: string
  ap_Scopes :: "automation_scope list"
  ap_ExpiresAt :: time

definition account_user :: "time \<Rightarrow> string \<Rightarrow> string \<Rightarrow> user" where
  "account_user now accountID name =
     \<lparr>usr_ID = accountID, usr_Email = [], usr_DisplayName = name, usr_Role = ''developer'',
      usr_Issuer = ''kuberploy:service-account'', usr_Subject = accountID, usr_GrantRevision = 1, usr_CreatedAt = now\<rparr>"

definition new_account :: "time \<Rightarrow> string \<Rightarrow> string \<Rightarrow> project \<Rightarrow> string \<Rightarrow> access_role \<Rightarrow> service_account" where
  "new_account now accountID actor project name role =
     \<lparr>sa_ID = accountID, sa_ProjectID = prj_ID project, sa_Name = name, sa_Role = role, sa_CreatedBy = actor,
      sa_CreatedAt = now, sa_DisabledAt = None\<rparr>"

definition account_grant :: "time \<Rightarrow> string \<Rightarrow> string \<Rightarrow> string \<Rightarrow> project \<Rightarrow> access_role \<Rightarrow> access_grant" where
  "account_grant now accountID grantID actor project role =
     \<lparr>gr_ID = grantID, gr_SubjectUserID = accountID, gr_SubjectTeamID = [], gr_Role = role, gr_ScopeType = ScopeProject,
      gr_ScopeID = prj_ID project, gr_Permissions = [], gr_Source = ''service-account'', gr_CreatedBy = actor,
      gr_CreatedAt = now\<rparr>"

definition CreateServiceAccount ::
  "text_case \<Rightarrow> time \<Rightarrow> string \<Rightarrow> string \<Rightarrow> string \<Rightarrow> string \<Rightarrow> string \<Rightarrow> string \<Rightarrow> string \<Rightarrow> access_role \<Rightarrow> access_store \<Rightarrow>
     (service_account \<times> bool) st_result" where
  "CreateServiceAccount tc now accountID grantID actor key fp in_ProjectID in_Name in_Role s =
     (if \<not> ValidName in_Name then (Inl ErrConflict, s)
      else
        case map_of (st_projects s) in_ProjectID of
          None \<Rightarrow> (Inl ErrNotFound, s)
        | Some project \<Rightarrow>
            let target = project_target project; bindings = bindingsLocked s actor in
            if \<not> HasPermission bindings target PermissionResourcesRead then (Inl ErrNotFound, s)
            else if \<not> automation_ValidRole in_Role \<or> \<not> CanManageGrant bindings target in_Role then (Inl ErrForbidden, s)
            else
              let idemKey = ik actor (''projects.service-accounts.create:'' @ prj_ID project) key in
              case check_replay s idemKey fp of
                Inl e \<Rightarrow> (Inl e, s)
              | Inr (Some old) \<Rightarrow>
                  (case map_of (st_serviceAccounts s) (idem_resourceID old) of
                     None \<Rightarrow> (Inl ErrConflict, s)
                   | Some account \<Rightarrow> (Inr (account, True), s))
              | Inr None \<Rightarrow>
                  if list_ex (\<lambda>(_, account). sa_ProjectID account = prj_ID project \<and> tc_EqualFold tc (sa_Name account) in_Name)
                       (st_serviceAccounts s) then (Inl ErrConflict, s)
                  else
                    let account = new_account now accountID actor project in_Name in_Role in
                    (Inr (account, False), audited (remember idemKey fp ''service-account'' accountID
                       (s\<lparr>st_users := AList.update accountID (account_user now accountID in_Name) (st_users s),
                          st_serviceAccounts := AList.update accountID account (st_serviceAccounts s),
                          st_accessGrants := AList.update grantID (account_grant now accountID grantID actor project in_Role)
                            (st_accessGrants s)\<rparr>))))"

definition ListServiceAccounts :: "string \<Rightarrow> string \<Rightarrow> access_store \<Rightarrow> access_error + service_account list" where
  "ListServiceAccounts actor projectID s =
     (case map_of (st_projects s) projectID of
        None \<Rightarrow> Inl ErrNotFound
      | Some project \<Rightarrow>
          let bindings = bindingsLocked s actor in
          if \<not> HasPermission bindings (project_target project) PermissionResourcesRead then Inl ErrNotFound
          else if \<not> HasPermission bindings (project_target project) PermissionGrantsRead then Inl ErrForbidden
          else Inr (sort_key (\<lambda>a. (sa_CreatedAt a, sa_ID a))
            (map snd (filter (\<lambda>(_, account). sa_ProjectID account = prj_ID project) (st_serviceAccounts s)))))"

definition manageableServiceAccountLocked :: "access_store \<Rightarrow> string \<Rightarrow> string \<Rightarrow> access_error + service_account" where
  "manageableServiceAccountLocked s actor accountID =
     (case map_of (st_serviceAccounts s) accountID of
        None \<Rightarrow> Inl ErrNotFound
      | Some account \<Rightarrow>
          (case map_of (st_projects s) (sa_ProjectID account) of
             None \<Rightarrow> Inl ErrNotFound
           | Some project \<Rightarrow>
               let bindings = bindingsLocked s actor in
               if \<not> HasPermission bindings (project_target project) PermissionResourcesRead then Inl ErrNotFound
               else if \<not> CanManageGrant bindings (project_target project) (sa_Role account) then Inl ErrForbidden
               else Inr account))"

definition CreateServiceAccountToken ::
  "time \<Rightarrow> string \<Rightarrow> string \<Rightarrow> string \<Rightarrow> string \<Rightarrow> create_service_account_token \<Rightarrow> access_store \<Rightarrow> (service_account_token \<times> bool) st_result" where
  "CreateServiceAccountToken now newID actor key fp i s =
     (if \<not> ValidName (cst_Name i) then (Inl ErrConflict, s)
      else
        case manageableServiceAccountLocked s actor (cst_ServiceAccountID i) of
          Inl e \<Rightarrow> (Inl e, s)
        | Inr account \<Rightarrow>
            let idemKey = ik actor (''service-accounts.tokens.create:'' @ sa_ID account) key in
            case check_replay s idemKey fp of
              Inl e \<Rightarrow> (Inl e, s)
            | Inr (Some old) \<Rightarrow>
                (case map_of (st_serviceAccountTokens s) (idem_resourceID old) of
                   None \<Rightarrow> (Inl ErrConflict, s)
                 | Some token \<Rightarrow> (Inr (token, True), s))
            | Inr None \<Rightarrow>
                if sa_DisabledAt account \<noteq> None \<or> length (cst_TokenHash i) \<noteq> 32 \<or> \<not> ValidTokenPrefix (cst_Prefix i) then (Inl ErrConflict, s)
                else if \<not> ValidExpiry now (cst_ExpiresAt i) then (Inl ErrConflict, s)
                else
                  case NormalizeScopes (cst_Scopes i) of
                    None \<Rightarrow> (Inl ErrConflict, s)
                  | Some scopes \<Rightarrow>
                      let hashKey = hex_encode (cst_TokenHash i) in
                      if map_of (st_serviceAccountTokenHashes s) hashKey \<noteq> None then (Inl ErrConflict, s)
                      else
                        let token = \<lparr>tok_ID = newID, tok_ServiceAccountID = sa_ID account, tok_Name = cst_Name i, tok_Prefix = cst_Prefix i,
                              tok_Scopes = scopes, tok_ExpiresAt = cst_ExpiresAt i, tok_LastUsedAt = None, tok_RevokedAt = None,
                              tok_CreatedBy = actor, tok_CreatedAt = now\<rparr> in
                        (Inr (token, False), audited (remember idemKey fp ''service-account-token'' newID
                           (s\<lparr>st_serviceAccountTokens := AList.update newID token (st_serviceAccountTokens s),
                              st_serviceAccountTokenHashes := AList.update hashKey newID (st_serviceAccountTokenHashes s)\<rparr>))))"

definition ServiceAccountTokenReplay ::
  "string \<Rightarrow> string \<Rightarrow> string \<Rightarrow> string \<Rightarrow> access_store \<Rightarrow> access_error + service_account_token option" where
  "ServiceAccountTokenReplay actor serviceAccountID key fp s =
     bindE (manageableServiceAccountLocked s actor serviceAccountID) (\<lambda>account.
       bindE (check_replay s (ik actor (''service-accounts.tokens.create:'' @ sa_ID account) key) fp) (\<lambda>replay.
         case replay of
           None \<Rightarrow> Inr None
         | Some old \<Rightarrow>
             (case map_of (st_serviceAccountTokens s) (idem_resourceID old) of
                None \<Rightarrow> Inl ErrConflict
              | Some token \<Rightarrow> Inr (Some token))))"

definition ListServiceAccountTokens :: "string \<Rightarrow> string \<Rightarrow> access_store \<Rightarrow> access_error + service_account_token list" where
  "ListServiceAccountTokens actor serviceAccountID s =
     (case map_of (st_serviceAccounts s) serviceAccountID of
        None \<Rightarrow> Inl ErrNotFound
      | Some account \<Rightarrow>
          (case map_of (st_projects s) (sa_ProjectID account) of
             None \<Rightarrow> Inl ErrNotFound
           | Some project \<Rightarrow>
               let bindings = bindingsLocked s actor in
               if \<not> HasPermission bindings (project_target project) PermissionResourcesRead then Inl ErrNotFound
               else if \<not> HasPermission bindings (project_target project) PermissionGrantsRead then Inl ErrForbidden
               else Inr (sort_key (\<lambda>t. (tok_CreatedAt t, tok_ID t))
                 (map snd (filter (\<lambda>(_, token). tok_ServiceAccountID token = sa_ID account) (st_serviceAccountTokens s))))))"

definition RevokeServiceAccountToken ::
  "time \<Rightarrow> string \<Rightarrow> string \<Rightarrow> string \<Rightarrow> string \<Rightarrow> string \<Rightarrow> access_store \<Rightarrow> bool st_result" where
  "RevokeServiceAccountToken now actor serviceAccountID tokenID key fp s =
     (case manageableServiceAccountLocked s actor serviceAccountID of
        Inl e \<Rightarrow> (Inl e, s)
      | Inr account \<Rightarrow>
          let idemKey = ik actor (''service-accounts.tokens.revoke:'' @ sa_ID account @ '':'' @ tokenID) key in
          case check_replay s idemKey fp of
            Inl e \<Rightarrow> (Inl e, s)
          | Inr (Some _) \<Rightarrow> (Inr True, s)
          | Inr None \<Rightarrow>
              case map_of (st_serviceAccountTokens s) tokenID of
                None \<Rightarrow> (Inl ErrNotFound, s)
              | Some token \<Rightarrow>
                  if tok_ServiceAccountID token \<noteq> sa_ID account then (Inl ErrNotFound, s)
                  else
                    let s1 = (if tok_RevokedAt token = None then
                          audited (s\<lparr>st_serviceAccountTokens :=
                            AList.update (tok_ID token) (token\<lparr>tok_RevokedAt := Some now\<rparr>) (st_serviceAccountTokens s)\<rparr>)
                        else s) in
                    (Inr False, remember idemKey fp ''service-account-token'' (tok_ID token) s1))"

definition DisableServiceAccount ::
  "time \<Rightarrow> string \<Rightarrow> string \<Rightarrow> string \<Rightarrow> string \<Rightarrow> access_store \<Rightarrow> bool st_result" where
  "DisableServiceAccount now actor serviceAccountID key fp s =
     (case manageableServiceAccountLocked s actor serviceAccountID of
        Inl e \<Rightarrow> (Inl e, s)
      | Inr account \<Rightarrow>
          let idemKey = ik actor (''service-accounts.disable:'' @ sa_ID account) key in
          case check_replay s idemKey fp of
            Inl e \<Rightarrow> (Inl e, s)
          | Inr (Some _) \<Rightarrow> (Inr True, s)
          | Inr None \<Rightarrow>
              let s1 = (if sa_DisabledAt account = None then
                    audited (revoke_tokens now (sa_ID account)
                      (s\<lparr>st_serviceAccounts := AList.update (sa_ID account) (account\<lparr>sa_DisabledAt := Some now\<rparr>) (st_serviceAccounts s)\<rparr>))
                  else s) in
              (Inr False, remember idemKey fp ''service-account'' (sa_ID account) s1))"

definition ServiceAccountByToken :: "string \<Rightarrow> time \<Rightarrow> access_store \<Rightarrow> automation_principal st_result" where
  "ServiceAccountByToken tokenHash now s =
     (if length tokenHash \<noteq> 32 then (Inl ErrNotFound, s)
      else
        case map_of (st_serviceAccountTokenHashes s) (hex_encode tokenHash) of
          None \<Rightarrow> (Inl ErrNotFound, s)
        | Some tokenID \<Rightarrow>
            case map_of (st_serviceAccountTokens s) tokenID of
              None \<Rightarrow> (Inl ErrNotFound, s)
            | Some token \<Rightarrow>
                if tok_RevokedAt token \<noteq> None \<or> \<not> tok_ExpiresAt token > now then (Inl ErrNotFound, s)
                else
                  case map_of (st_serviceAccounts s) (tok_ServiceAccountID token) of
                    None \<Rightarrow> (Inl ErrNotFound, s)
                  | Some account \<Rightarrow>
                      if sa_DisabledAt account \<noteq> None then (Inl ErrNotFound, s)
                      else
                        case map_of (st_users s) (sa_ID account) of
                          None \<Rightarrow> (Inl ErrNotFound, s)
                        | Some user \<Rightarrow>
                            if usr_Issuer user \<noteq> ''kuberploy:service-account'' \<or> usr_Subject user \<noteq> sa_ID account then (Inl ErrNotFound, s)
                            else
                              let stale = (case tok_LastUsedAt token of None \<Rightarrow> True | Some used \<Rightarrow> used < now - 15 * minute) in
                              (Inr \<lparr>ap_User = user, ap_ServiceAccountID = sa_ID account, ap_TokenID = tok_ID token,
                                    ap_Scopes = tok_Scopes token, ap_ExpiresAt = tok_ExpiresAt token\<rparr>,
                               if stale then s\<lparr>st_serviceAccountTokens :=
                                 AList.update (tok_ID token) (token\<lparr>tok_LastUsedAt := Some now\<rparr>) (st_serviceAccountTokens s)\<rparr>
                               else s))"

section \<open>Reads on behalf of an actor\<close>

definition readable :: "access_store \<Rightarrow> string \<Rightarrow> string \<Rightarrow> string \<Rightarrow> bool" where
  "readable s actor typ i =
     (let (target, ok) = resolveTargetLocked s (typed_target typ i) in
      ok \<and> HasPermission (bindingsLocked s actor) target PermissionResourcesRead)"

definition ListProjectsForActor :: "string \<Rightarrow> access_store \<Rightarrow> project list" where
  "ListProjectsForActor actor s =
     sort_key prj_CreatedAt (filter (canAccessProjectLocked s actor) (map snd (st_projects s)))"

definition GetProjectForActor :: "string \<Rightarrow> string \<Rightarrow> access_store \<Rightarrow> access_error + project" where
  "GetProjectForActor actor projectID s =
     (case map_of (st_projects s) projectID of
        None \<Rightarrow> Inl ErrNotFound
      | Some project \<Rightarrow> if \<not> canAccessProjectLocked s actor project then Inl ErrNotFound else Inr project)"

definition ListEnvironmentsForActor :: "string \<Rightarrow> access_store \<Rightarrow> environment list" where
  "ListEnvironmentsForActor actor s =
     sort_key envt_CreatedAt (filter (\<lambda>environment. readable s actor ''environment'' (envt_ID environment)) (map snd (st_environments s)))"

definition GetEnvironmentForActor :: "string \<Rightarrow> string \<Rightarrow> access_store \<Rightarrow> access_error + environment" where
  "GetEnvironmentForActor actor environmentID s =
     (case map_of (st_environments s) environmentID of
        None \<Rightarrow> Inl ErrNotFound
      | Some environment \<Rightarrow> if \<not> readable s actor ''environment'' environmentID then Inl ErrNotFound else Inr environment)"

definition legacy_placement :: "environment \<Rightarrow> string \<Rightarrow> application \<Rightarrow> deployment \<Rightarrow> environment_app_placement" where
  "legacy_placement environment environmentID application deployment =
     \<lparr>pl_ProjectID = envt_ProjectID environment, pl_EnvironmentID = environmentID, pl_ApplicationID = app_ID application,
      pl_ApplicationName = app_Name application, pl_ApplicationSlug = app_Slug application, pl_State = ''active'',
      pl_DesiredState = ''running'', pl_CreatedAt = dep_CreatedAt deployment, pl_UpdatedAt = dep_UpdatedAt deployment\<rparr>"

definition add_legacy_placement ::
  "access_store \<Rightarrow> environment \<Rightarrow> string \<Rightarrow> (string, environment_app_placement) gomap \<Rightarrow> deployment \<Rightarrow>
     (string, environment_app_placement) gomap" where
  "add_legacy_placement s environment environmentID byApplication deployment =
     (if dep_EnvironmentID deployment \<noteq> environmentID \<or> map_of byApplication (dep_ApplicationID deployment) \<noteq> None then byApplication
      else
        case map_of (st_applications s) (dep_ApplicationID deployment) of
          None \<Rightarrow> byApplication
        | Some application \<Rightarrow>
            if app_ProjectID application \<noteq> envt_ProjectID environment then byApplication
            else AList.update (app_ID application) (legacy_placement environment environmentID application deployment) byApplication)"

definition ListEnvironmentAppPlacementsForActor ::
  "string \<Rightarrow> string \<Rightarrow> access_store \<Rightarrow> access_error + environment_app_placement list" where
  "ListEnvironmentAppPlacementsForActor actor environmentID s =
     (case map_of (st_environments s) environmentID of
        None \<Rightarrow> Inl ErrNotFound
      | Some environment \<Rightarrow>
          if \<not> readable s actor ''environment'' environmentID then Inl ErrNotFound
          else
            Inr (sort_key (\<lambda>p. (pl_ApplicationSlug p, pl_ApplicationID p))
              (map snd (foldl (add_legacy_placement s environment environmentID)
                (get_or [] (st_environmentAppPlacements s) environmentID) (map snd (st_deployments s))))))"

definition ListApplicationsForActor :: "string \<Rightarrow> access_store \<Rightarrow> application list" where
  "ListApplicationsForActor actor s =
     sort_key app_CreatedAt (filter (\<lambda>application. readable s actor ''application'' (app_ID application)) (map snd (st_applications s)))"

definition GetApplicationForActor :: "string \<Rightarrow> string \<Rightarrow> access_store \<Rightarrow> access_error + application" where
  "GetApplicationForActor actor applicationID s =
     (case map_of (st_applications s) applicationID of
        None \<Rightarrow> Inl ErrNotFound
      | Some application \<Rightarrow> if \<not> readable s actor ''application'' applicationID then Inl ErrNotFound else Inr application)"

definition canAccessDeploymentLocked :: "access_store \<Rightarrow> string \<Rightarrow> deployment \<Rightarrow> bool" where
  "canAccessDeploymentLocked s actor deployment = readable s actor ''deployment'' (dep_ID deployment)"

definition ListDeploymentsForActor :: "string \<Rightarrow> access_store \<Rightarrow> deployment list" where
  "ListDeploymentsForActor actor s =
     sort_key dep_CreatedAt (filter (canAccessDeploymentLocked s actor) (map snd (st_deployments s)))"

definition GetDeploymentForActor :: "string \<Rightarrow> string \<Rightarrow> access_store \<Rightarrow> access_error + deployment" where
  "GetDeploymentForActor actor deploymentID s =
     (case map_of (st_deployments s) deploymentID of
        None \<Rightarrow> Inl ErrNotFound
      | Some deployment \<Rightarrow> if \<not> canAccessDeploymentLocked s actor deployment then Inl ErrNotFound else Inr deployment)"

definition canAccessOperationLocked :: "access_store \<Rightarrow> string \<Rightarrow> operation \<Rightarrow> bool" where
  "canAccessOperationLocked s actor operation =
     (let (target, ok) = resolveTargetLocked s (typed_target ''operation'' (op_ID operation)) in
      ok \<and> HasPermission (bindingsLocked s actor) target PermissionOperationsRead)"

definition AuditRuntimeAccess :: "string \<Rightarrow> string \<Rightarrow> string \<Rightarrow> access_store \<Rightarrow> unit st_result" where
  "AuditRuntimeAccess actor deploymentID action s =
     (if action \<noteq> ''runtime.logs.snapshot'' \<and> action \<noteq> ''runtime.logs.follow'' \<and> action \<noteq> ''runtime.events.snapshot'' then (Inl ErrConflict, s)
      else
        case authorizeLocked s actor PermissionLogsRead (typed_target ''deployment'' deploymentID) of
          Inl e \<Rightarrow> (Inl e, s)
        | Inr _ \<Rightarrow> (Inr (), audited s))"

end
