(* ===== verification/Access_Safety.thy ===== *)
theory Access_Safety
  imports Access_Resources Transition
begin

text \<open>
  The access part of the store as a transition system.  A state pairs the store with the
  set of identifiers issued so far; \<open>id.New()\<close> returns one outside it.  \<open>store_ok\<close> is the
  inductive invariant: identifiers are keys, ownership chains are complete, namespaces are
  unique, every team has an owner and every grant has a role that fits its scope.
\<close>

section \<open>Bindings\<close>

lemma in_bindings:
  "b \<in> set (bindingsLocked s actor) \<longleftrightarrow>
     (\<exists>k g. (k, g) \<in> set (st_accessGrants s) \<and> grant_applies s actor g \<and> b = grant_binding g) \<or>
     (\<exists>team members m. (team, members) \<in> set (st_memberships s) \<and> map_of members actor = Some m \<and> b = member_binding team m)"
  unfolding bindingsLocked_def by (auto split: option.splits) force+

lemma bindings_same:
  assumes "st_accessGrants s' = st_accessGrants s" and "st_memberships s' = st_memberships s"
  shows "bindingsLocked s' actor = bindingsLocked s actor"
  using assms by (simp add: bindingsLocked_def grant_applies_def member_of_def)

lemma member_of_mem:
  assumes "wf_map (st_memberships s)"
  shows "(\<exists>members. (team, members) \<in> set (st_memberships s) \<and> map_of members u = Some m) \<longleftrightarrow> member_of s team u = Some m"
  using assms by (auto simp: member_of_def get_or_def wf_map_mem_iff split: option.splits)

lemma in_bindings_wf:
  assumes "wf_map (st_memberships s)"
  shows "b \<in> set (bindingsLocked s actor) \<longleftrightarrow>
     (\<exists>k g. (k, g) \<in> set (st_accessGrants s) \<and> grant_applies s actor g \<and> b = grant_binding g) \<or>
     (\<exists>team m. member_of s team actor = Some m \<and> b = member_binding team m)"
  unfolding in_bindings using member_of_mem [OF assms] by blast

section \<open>Frames\<close>

lemma audited_fields [simp]:
  "st_users (audited s) = st_users s" "st_teams (audited s) = st_teams s" "st_memberships (audited s) = st_memberships s"
  "st_accessGrants (audited s) = st_accessGrants s" "st_projects (audited s) = st_projects s"
  "st_environments (audited s) = st_environments s" "st_applications (audited s) = st_applications s"
  "st_deployments (audited s) = st_deployments s" "st_serviceAccounts (audited s) = st_serviceAccounts s"
  "st_serviceAccountTokens (audited s) = st_serviceAccountTokens s" "st_sessions (audited s) = st_sessions s"
  "st_serviceAccountTokenHashes (audited s) = st_serviceAccountTokenHashes s" "st_registry (audited s) = st_registry s"
  "st_idempotency (audited s) = st_idempotency s"
  by (simp_all add: audited_def)

lemma remember_fields [simp]:
  "st_users (remember k fp t r s) = st_users s" "st_teams (remember k fp t r s) = st_teams s"
  "st_memberships (remember k fp t r s) = st_memberships s" "st_accessGrants (remember k fp t r s) = st_accessGrants s"
  "st_projects (remember k fp t r s) = st_projects s" "st_environments (remember k fp t r s) = st_environments s"
  "st_applications (remember k fp t r s) = st_applications s" "st_deployments (remember k fp t r s) = st_deployments s"
  "st_serviceAccounts (remember k fp t r s) = st_serviceAccounts s"
  "st_serviceAccountTokens (remember k fp t r s) = st_serviceAccountTokens s" "st_sessions (remember k fp t r s) = st_sessions s"
  "st_serviceAccountTokenHashes (remember k fp t r s) = st_serviceAccountTokenHashes s"
  "st_registry (remember k fp t r s) = st_registry s"
  by (simp_all add: remember_def)

lemma put_session_fields [simp]:
  "st_users (put_session h u e s) = st_users s" "st_teams (put_session h u e s) = st_teams s"
  "st_memberships (put_session h u e s) = st_memberships s" "st_accessGrants (put_session h u e s) = st_accessGrants s"
  "st_projects (put_session h u e s) = st_projects s" "st_environments (put_session h u e s) = st_environments s"
  "st_applications (put_session h u e s) = st_applications s" "st_deployments (put_session h u e s) = st_deployments s"
  "st_serviceAccounts (put_session h u e s) = st_serviceAccounts s"
  "st_serviceAccountTokens (put_session h u e s) = st_serviceAccountTokens s"
  by (simp_all add: put_session_def)

lemma put_installation_fields [simp]:
  "st_users (put_installation i x s) = st_users s" "st_teams (put_installation i x s) = st_teams s"
  "st_memberships (put_installation i x s) = st_memberships s" "st_accessGrants (put_installation i x s) = st_accessGrants s"
  "st_projects (put_installation i x s) = st_projects s" "st_environments (put_installation i x s) = st_environments s"
  "st_applications (put_installation i x s) = st_applications s" "st_deployments (put_installation i x s) = st_deployments s"
  "st_serviceAccounts (put_installation i x s) = st_serviceAccounts s"
  "st_serviceAccountTokens (put_installation i x s) = st_serviceAccountTokens s"
  by (simp_all add: put_installation_def)

text \<open>A bump touches the user records, the tokens and the sessions, and keeps their keys.\<close>

definition same_core :: "access_store \<Rightarrow> access_store \<Rightarrow> bool" where
  "same_core s s' \<longleftrightarrow>
     st_teams s' = st_teams s \<and> st_memberships s' = st_memberships s \<and> st_accessGrants s' = st_accessGrants s \<and>
     st_projects s' = st_projects s \<and> st_environments s' = st_environments s \<and> st_applications s' = st_applications s \<and>
     st_deployments s' = st_deployments s"

lemma same_core_refl [simp]: "same_core s s"
  by (simp add: same_core_def)

lemma same_core_trans: "same_core s t \<Longrightarrow> same_core t u \<Longrightarrow> same_core s u"
  by (simp add: same_core_def)

lemma bump_user_core: "same_core s (bump_user now u s)"
  by (auto simp: bump_user_def drop_sessions_def revoke_tokens_def same_core_def split: option.splits)

lemma bumps_core: "same_core s (bumpGrantsLocked now us s)"
  unfolding bumpGrantsLocked_def
  by (induction us arbitrary: s) (auto intro: same_core_trans bump_user_core)

lemma bump_user_keys: "keys (st_users (bump_user now u s)) = keys (st_users s)"
  by (auto simp: bump_user_def drop_sessions_def revoke_tokens_def map_of_in_keys insert_absorb split: option.splits)

lemma bumps_keys [simp]: "keys (st_users (bumpGrantsLocked now us s)) = keys (st_users s)"
  unfolding bumpGrantsLocked_def by (induction us arbitrary: s) (simp_all add: bump_user_keys)

lemma bump_user_issuer:
  "map_option usr_Issuer (map_of (st_users (bump_user now u s)) v) = map_option usr_Issuer (map_of (st_users s) v)"
  by (auto simp: bump_user_def drop_sessions_def revoke_tokens_def split: option.splits)

lemma bumps_issuer [simp]:
  "map_option usr_Issuer (map_of (st_users (bumpGrantsLocked now us s)) v) = map_option usr_Issuer (map_of (st_users s) v)"
  unfolding bumpGrantsLocked_def by (induction us arbitrary: s) (simp_all add: bump_user_issuer)

lemma bump_user_accounts: "st_serviceAccounts (bump_user now u s) = st_serviceAccounts s"
  by (auto simp: bump_user_def drop_sessions_def revoke_tokens_def split: option.splits)

lemma bumps_accounts [simp]: "st_serviceAccounts (bumpGrantsLocked now us s) = st_serviceAccounts s"
  unfolding bumpGrantsLocked_def by (induction us arbitrary: s) (simp_all add: bump_user_accounts)

lemma bumps_fields [simp]:
  "st_teams (bumpGrantsLocked now us s) = st_teams s" "st_memberships (bumpGrantsLocked now us s) = st_memberships s"
  "st_accessGrants (bumpGrantsLocked now us s) = st_accessGrants s" "st_projects (bumpGrantsLocked now us s) = st_projects s"
  "st_environments (bumpGrantsLocked now us s) = st_environments s" "st_applications (bumpGrantsLocked now us s) = st_applications s"
  "st_deployments (bumpGrantsLocked now us s) = st_deployments s"
  using bumps_core [of s now us] by (simp_all add: same_core_def)

lemma bump_subjects_fields [simp]:
  "st_teams (bumpGrantSubjectsLocked now g s) = st_teams s" "st_memberships (bumpGrantSubjectsLocked now g s) = st_memberships s"
  "st_accessGrants (bumpGrantSubjectsLocked now g s) = st_accessGrants s" "st_projects (bumpGrantSubjectsLocked now g s) = st_projects s"
  "st_environments (bumpGrantSubjectsLocked now g s) = st_environments s" "st_applications (bumpGrantSubjectsLocked now g s) = st_applications s"
  "st_deployments (bumpGrantSubjectsLocked now g s) = st_deployments s"
  "st_serviceAccounts (bumpGrantSubjectsLocked now g s) = st_serviceAccounts s"
  "keys (st_users (bumpGrantSubjectsLocked now g s)) = keys (st_users s)"
  "map_option usr_Issuer (map_of (st_users (bumpGrantSubjectsLocked now g s)) v) = map_option usr_Issuer (map_of (st_users s) v)"
  by (simp_all add: bumpGrantSubjectsLocked_def)

section \<open>The invariant\<close>

definition role_fits :: "access_grant \<Rightarrow> bool" where
  "role_fits g \<longleftrightarrow>
     ValidRole (gr_Role g) \<and> ValidExtraPermissions (gr_Permissions g) \<and>
     (gr_Role g = RolePlatformAdmin \<longleftrightarrow> gr_ScopeType g = ScopePlatform) \<and>
     (gr_Role g = RoleOrganizationAdmin \<longrightarrow> gr_ScopeType g = ScopeTeam) \<and>
     (gr_Role g = RoleProjectAdmin \<longrightarrow> gr_ScopeType g = ScopeProject)"

definition grant_ok :: "string set \<Rightarrow> access_grant \<Rightarrow> bool" where
  "grant_ok used g \<longleftrightarrow>
     role_fits g \<and> gr_SubjectUserID g \<in> used \<and> gr_SubjectTeamID g \<in> used \<and>
     (gr_SubjectUserID g = [] \<longleftrightarrow> gr_SubjectTeamID g \<noteq> []) \<and>
     (gr_ScopeType g = ScopePlatform \<longrightarrow> gr_SubjectTeamID g = [])"

definition owned :: "(string, team_member) gomap \<Rightarrow> bool" where
  "owned members \<longleftrightarrow> (\<exists>(u, m) \<in> set members. mem_Role m = ''owner'')"

definition teams_ok :: "string set \<Rightarrow> access_store \<Rightarrow> bool" where
  "teams_ok used s \<longleftrightarrow>
     wf_map (st_teams s) \<and> wf_map (st_memberships s) \<and> keys (st_memberships s) = keys (st_teams s) \<and>
     (\<forall>(team, members) \<in> set (st_memberships s). wf_map members \<and> keys members \<subseteq> used - {[]} \<and> owned members)"

definition resources_ok :: "access_store \<Rightarrow> bool" where
  "resources_ok s \<longleftrightarrow>
     wf_map (st_projects s) \<and> wf_map (st_environments s) \<and> wf_map (st_applications s) \<and> wf_map (st_deployments s) \<and>
     (\<forall>(k, p) \<in> set (st_projects s). prj_ID p = k \<and> (prj_TeamID p \<noteq> [] \<longrightarrow> prj_TeamID p \<in> keys (st_teams s))) \<and>
     (\<forall>(k, e) \<in> set (st_environments s). envt_ID e = k \<and> envt_ProjectID e \<in> keys (st_projects s)) \<and>
     inj_on (\<lambda>(k, e). envt_Namespace e) (set (st_environments s)) \<and>
     (\<forall>(k, a) \<in> set (st_applications s). app_ID a = k \<and> app_ProjectID a \<in> keys (st_projects s)) \<and>
     (\<forall>(k, d) \<in> set (st_deployments s). dep_ID d = k \<and>
        (\<exists>e a. map_of (st_environments s) (dep_EnvironmentID d) = Some e \<and>
               map_of (st_applications s) (dep_ApplicationID d) = Some a \<and> envt_ProjectID e = app_ProjectID a))"

definition ids_ok :: "string set \<Rightarrow> access_store \<Rightarrow> bool" where
  "ids_ok used s \<longleftrightarrow> [] \<in> used \<and>
     keys (st_users s) \<union> keys (st_teams s) \<union> keys (st_projects s) \<union> keys (st_environments s) \<union>
     keys (st_applications s) \<union> keys (st_deployments s) \<union> keys (st_serviceAccounts s) \<union> keys (st_accessGrants s) \<subseteq> used - {[]} \<and>
     (\<forall>(k, a) \<in> set (st_serviceAccounts s). sa_ID a = k)"

definition store_ok :: "string set \<Rightarrow> access_store \<Rightarrow> bool" where
  "store_ok used s \<longleftrightarrow>
     ids_ok used s \<and> teams_ok used s \<and> resources_ok s \<and> (\<forall>(k, g) \<in> set (st_accessGrants s). grant_ok used g)"

section \<open>Steps\<close>

text \<open>
  One rule per operation that changes the store, on behalf of \<open>actor\<close>.  Sign-in, the
  acceptance of an invitation and the token lookup have no actor yet; \<open>actor\<close> is arbitrary
  there.  The administrator a bootstrap creates is not a tombstone.
\<close>

inductive access_step :: "string \<Rightarrow> string set \<times> access_store \<Rightarrow> string set \<times> access_store \<Rightarrow> bool" for actor where
  bootstrap: "BootstrapAdmin tc newID u ph h e s = (r, s') \<Longrightarrow> newID \<notin> used \<Longrightarrow> usr_ID u \<notin> used \<Longrightarrow> newID \<noteq> usr_ID u \<Longrightarrow>
    usr_Issuer u \<noteq> ''kuberploy:deleted'' \<Longrightarrow> access_step actor (used, s) (insert newID (insert (usr_ID u) used), s')"
| login: "CreateLoginSession tc now u eh uh h e s = (r, s') \<Longrightarrow> access_step actor (used, s) (used, s')"
| logout: "RevokeSession h s = (r, s') \<Longrightarrow> access_step actor (used, s) (used, s')"
| invite: "CreateUserInvitation tc now newID actor email h e s = (r, s') \<Longrightarrow> newID \<notin> used \<Longrightarrow>
    access_step actor (used, s) (insert newID used, s')"
| accept: "AcceptUserInvitation tc now newID th dn ph sh psh e s = (r, s') \<Longrightarrow> newID \<notin> used \<Longrightarrow>
    access_step actor (used, s) (insert newID used, s')"
| delete_user: "DeleteUser tc now actor u ce key fp s = (r, s') \<Longrightarrow> access_step actor (used, s) (used, s')"
| create_team: "CreateTeam now newID actor key fp n sl s = (r, s') \<Longrightarrow> newID \<notin> used \<Longrightarrow>
    access_step actor (used, s) (insert newID used, s')"
| delete_team: "DeleteTeam now actor t cn key fp s = (r, s') \<Longrightarrow> access_step actor (used, s) (used, s')"
| add_member: "AddTeamMember now actor t key fp u ro s = (r, s') \<Longrightarrow> access_step actor (used, s) (used, s')"
| remove_member: "RemoveTeamMember now actor t u s = (r, s') \<Longrightarrow> access_step actor (used, s) (used, s')"
| create_installation: "CreateGitHubInstallation now newID actor key fp i s = (r, s') \<Longrightarrow> newID \<notin> used \<Longrightarrow>
    access_step actor (used, s) (insert newID used, s')"
| link_installation: "LinkVerifiedGitHubInstallation tc now newID actor key fp i s = (r, s') \<Longrightarrow> newID \<notin> used \<Longrightarrow>
    access_step actor (used, s) (insert newID used, s')"
| share_installation: "UpdateGitHubInstallationSharing now actor i key fp v t s = (r, s') \<Longrightarrow> access_step actor (used, s) (used, s')"
| create_grant: "CreateProjectAccessGrant now newID actor key fp i s = (r, s') \<Longrightarrow> newID \<notin> used \<Longrightarrow>
    access_step actor (used, s) (insert newID used, s')"
| delete_grant: "DeleteProjectAccessGrant now actor p g key fp s = (r, s') \<Longrightarrow> access_step actor (used, s) (used, s')"
| create_project: "CreateProject now newID actor key fp n sl t s = (r, s') \<Longrightarrow> newID \<notin> used \<Longrightarrow>
    access_step actor (used, s) (insert newID used, s')"
| delete_project: "DeleteProject actor p cn key fp s = (r, s') \<Longrightarrow> access_step actor (used, s) (used, s')"
| create_environment: "CreateEnvironment sha now newID actor key fp p n sl po s = (r, s') \<Longrightarrow> newID \<notin> used \<Longrightarrow>
    access_step actor (used, s) (insert newID used, s')"
| delete_environment: "DeleteEnvironment actor e cn key fp s = (r, s') \<Longrightarrow> access_step actor (used, s) (used, s')"
| create_application: "CreateApplication now newID dID oID actor key fp p e n sl k s = (r, s') \<Longrightarrow>
    newID \<notin> used \<Longrightarrow> dID \<notin> used \<Longrightarrow> oID \<notin> used \<Longrightarrow> distinct [newID, dID, oID] \<Longrightarrow>
    access_step actor (used, s) (insert newID (insert dID (insert oID used)), s')"
| delete_application: "DeleteApplication actor a cn key fp s = (r, s') \<Longrightarrow> access_step actor (used, s) (used, s')"
| create_account: "CreateServiceAccount tc now accountID grantID actor key fp p n ro s = (r, s') \<Longrightarrow>
    accountID \<notin> used \<Longrightarrow> grantID \<notin> used \<Longrightarrow> accountID \<noteq> grantID \<Longrightarrow>
    access_step actor (used, s) (insert accountID (insert grantID used), s')"
| create_token: "CreateServiceAccountToken now newID actor key fp i s = (r, s') \<Longrightarrow> newID \<notin> used \<Longrightarrow>
    access_step actor (used, s) (insert newID used, s')"
| revoke_token: "RevokeServiceAccountToken now actor a t key fp s = (r, s') \<Longrightarrow> access_step actor (used, s) (used, s')"
| disable_account: "DisableServiceAccount now actor a key fp s = (r, s') \<Longrightarrow> access_step actor (used, s) (used, s')"
| use_token: "ServiceAccountByToken h now s = (r, s') \<Longrightarrow> access_step actor (used, s) (used, s')"
| audit: "AuditRuntimeAccess actor d act s = (r, s') \<Longrightarrow> access_step actor (used, s) (used, s')"

section \<open>Effects of the operations\<close>

lemmas op_splits = if_splits option.splits sum.splits prod.splits

lemma Bootstrap_effect:
  assumes "BootstrapAdmin tc newID u ph h e s = (r, s')"
  shows "s' = s \<or> st_users s = [] \<and> same_core s (s'\<lparr>st_accessGrants := st_accessGrants s\<rparr>) \<and>
     st_serviceAccounts s' = st_serviceAccounts s \<and> st_users s' = [(usr_ID u, u)] \<and>
     (\<exists>g. st_accessGrants s' = AList.update newID g (st_accessGrants s) \<and> gr_SubjectUserID g = usr_ID u \<and> gr_SubjectTeamID g = [] \<and>
        gr_Role g = RolePlatformAdmin \<and> gr_ScopeType g = ScopePlatform \<and> gr_ScopeID g = ''platform'' \<and> gr_Permissions g = [])"
  using assms by (auto simp: BootstrapAdmin_def Let_def same_core_def split: op_splits)

lemma Login_effect:
  "CreateLoginSession tc now u eh uh h e s = (r, s') \<Longrightarrow> same_core s s' \<and> st_users s' = st_users s \<and> st_serviceAccounts s' = st_serviceAccounts s"
  by (auto simp: CreateLoginSession_def Let_def same_core_def split: op_splits)

lemma RevokeSession_effect: "RevokeSession h s = (r, s') \<Longrightarrow> same_core s s' \<and> st_users s' = st_users s \<and> st_serviceAccounts s' = st_serviceAccounts s"
  by (auto simp: RevokeSession_def same_core_def)

lemma Invite_effect:
  "CreateUserInvitation tc now newID actor email h e s = (r, s') \<Longrightarrow> same_core s s' \<and> st_users s' = st_users s \<and> st_serviceAccounts s' = st_serviceAccounts s"
  by (auto simp: CreateUserInvitation_def Let_def same_core_def split: op_splits)

lemma Accept_effect:
  assumes "AcceptUserInvitation tc now newID th dn ph sh psh e s = (r, s')"
  shows "s' = s \<or> same_core s s' \<and> st_serviceAccounts s' = st_serviceAccounts s \<and>
     (\<exists>x. map_of (st_invitations s) (hex_encode th) = Some x \<and> st_users s' = AList.update newID (invited_user now newID dn x) (st_users s))"
  using assms by (auto simp: AcceptUserInvitation_def Let_def same_core_def split: option.splits if_splits)

lemma DeleteUser_effect:
  assumes "DeleteUser tc now actor u ce key fp s = (r, s')"
  shows "s' = s \<or> (\<exists>x k. isAdminLocked s actor \<and> actor \<noteq> u \<and> map_of (st_users s) u = Some x \<and> \<not> only_owner s u \<and>
     map_of (st_serviceAccounts s) u = None \<and> s' = audited (remember k fp ''user'' u (erase_user tc now actor u x s)))"
  using assms by (auto simp: DeleteUser_def Let_def split: op_splits)

lemma team_owner_role [simp]: "mem_Role (team_owner now t a) = ''owner''"
  by (simp add: team_owner_def)

lemma joined_member_role [simp]: "mem_Role (joined_member now t u ro x) = ro"
  by (simp add: joined_member_def split: option.splits)

lemma CreateTeam_effect:
  assumes "CreateTeam now newID actor key fp n sl s = (r, s')"
  shows "s' = s \<or> (\<exists>k t. actor \<in> keys (st_users s) \<and>
     s' = audited (remember k fp ''team'' newID (s\<lparr>st_teams := AList.update newID t (st_teams s),
       st_memberships := AList.update newID [(actor, team_owner now newID actor)] (st_memberships s)\<rparr>)))"
  using assms
  by (cases "map_of (st_users s) actor") (auto simp: CreateTeam_def Let_def dest: map_of_in_keys split: op_splits)

lemma DeleteTeam_effect:
  assumes "DeleteTeam now actor t cn key fp s = (r, s')"
  shows "s' = s \<or> (\<exists>k us. (\<forall>(_, p) \<in> set (st_projects s). prj_TeamID p \<noteq> t) \<and>
     s' = bumpGrantsLocked now us (audited (remember k fp ''team'' t (erase_team t s))))"
  using assms by (auto simp: DeleteTeam_def Let_def list_ex_iff split: op_splits)

lemma AddTeamMember_effect:
  assumes "AddTeamMember now actor t key fp u ro s = (r, s')"
  shows "s' = s \<or> (\<exists>k s1. t \<in> keys (st_teams s) \<and> canManageTeamLocked s actor t \<and> u \<in> keys (st_users s) \<and>
     \<not> demotes_last_owner s t u ro \<and>
     s1 = audited (remember k fp ''team-member'' u (put_member t u (joined_member now t u ro (member_of s t u)) s)) \<and>
     (s' = s1 \<or> s' = bumpGrantsLocked now [u] s1))"
  using assms
  by (cases "map_of (st_users s) u"; cases "map_of (st_teams s) t")
    (auto simp: AddTeamMember_def Let_def dest: map_of_in_keys split: op_splits)

lemma RemoveTeamMember_effect:
  assumes "RemoveTeamMember now actor t u s = (r, s')"
  shows "s' = s \<or> (\<exists>m. member_of s t u = Some m \<and> \<not> (mem_Role m = ''owner'' \<and> ownerCountLocked s t = 1) \<and>
     s' = bumpGrantsLocked now [u] (audited
       (s\<lparr>st_memberships := AList.update t (AList.delete u (get_or [] (st_memberships s) t)) (st_memberships s)\<rparr>)))"
  using assms by (auto simp: RemoveTeamMember_def split: op_splits)

lemma CreateInstallation_effect:
  "same_core s (snd (CreateGitHubInstallation now newID actor key fp i s)) \<and>
   st_users (snd (CreateGitHubInstallation now newID actor key fp i s)) = st_users s \<and>
   st_serviceAccounts (snd (CreateGitHubInstallation now newID actor key fp i s)) = st_serviceAccounts s"
  by (simp add: CreateGitHubInstallation_def Let_def same_core_def split: option.split sum.split)

lemma LinkInstallation_effect:
  "same_core s (snd (LinkVerifiedGitHubInstallation tc now newID actor key fp i s)) \<and>
   st_users (snd (LinkVerifiedGitHubInstallation tc now newID actor key fp i s)) = st_users s \<and>
   st_serviceAccounts (snd (LinkVerifiedGitHubInstallation tc now newID actor key fp i s)) = st_serviceAccounts s"
  by (simp add: LinkVerifiedGitHubInstallation_def Let_def same_core_def split: option.split sum.split prod.split)

lemma ShareInstallation_cases:
  assumes "UpdateGitHubInstallationSharing now actor j key fp v t s = (r, s')"
  shows "s' = s \<or> (\<exists>k i. s' = remember k fp ''github-installation'' i s) \<or>
     (\<exists>k i us x. s' = bumpGrantsLocked now us (audited (remember k fp ''github-installation'' i (put_installation i x s))))"
proof (cases "map_of (st_installations s) j")
  case (Some x)
  show ?thesis
  proof (cases "check_replay s (ik actor (''github-installations.sharing:'' @ j) key) fp")
    case (Inr replay)
    show ?thesis
    proof (cases replay)
      case None
      with assms Some Inr show ?thesis
        unfolding UpdateGitHubInstallationSharing_def Let_def by (simp only: option.case sum.case prod.inject split: if_splits) blast+
    next
      case (Some old)
      with assms \<open>map_of _ j = _\<close> Inr show ?thesis
        by (cases "map_of (st_installations s) (idem_resourceID old)") (simp_all add: UpdateGitHubInstallationSharing_def)
    qed
  qed (use assms Some in \<open>simp add: UpdateGitHubInstallationSharing_def\<close>)
qed (use assms in \<open>simp add: UpdateGitHubInstallationSharing_def\<close>)

lemma CreateGrant_effect:
  assumes "CreateProjectAccessGrant now newID actor key fp i s = (r, s')"
  shows "s' = s \<or> (\<exists>project target k. map_of (st_projects s) (cag_ProjectID i) = Some project \<and> grant_request_ok i \<and>
     scopeTargetForProjectLocked s project (cag_ScopeType i) (cag_ScopeID i) = (target, True) \<and>
     CanManageGrant (bindingsLocked s actor) target (cag_Role i) \<and> subject_exists s i \<and>
     s' = bumpGrantSubjectsLocked now (new_grant now newID actor i) (audited (remember k fp ''access-grant'' newID
       (s\<lparr>st_accessGrants := AList.update newID (new_grant now newID actor i) (st_accessGrants s)\<rparr>))))"
  using assms by (auto simp: CreateProjectAccessGrant_def Let_def split: op_splits)

lemma DeleteGrant_effect:
  assumes "DeleteProjectAccessGrant now actor p g key fp s = (r, s')"
  shows "s' = s \<or> (\<exists>x k. gr_Source x = ''explicit'' \<and> map_of (st_accessGrants s) g = Some x \<and>
     s' = bumpGrantSubjectsLocked now x (audited (remember k fp ''access-grant'' g
       (s\<lparr>st_accessGrants := AList.delete g (st_accessGrants s)\<rparr>))))"
  using assms by (auto simp: DeleteProjectAccessGrant_def Let_def split: op_splits)

lemma CreateProject_effect:
  assumes "CreateProject now newID actor key fp n sl t s = (r, s')"
  shows "s' = s \<or> (\<exists>k. (t \<noteq> [] \<longrightarrow> t \<in> keys (st_teams s)) \<and>
     s' = audited (remember k fp ''project'' newID
       (s\<lparr>st_projects := AList.update newID (new_project now newID n sl t) (st_projects s)\<rparr>)))"
proof (cases "t \<noteq> [] \<and> map_of (st_teams s) t = None")
  case True
  then have "authorizeLocked s actor PermissionResourcesWrite (typed_target ''team'' t) = Inl ErrNotFound"
    by (simp add: authorizeLocked_def resolveTargetLocked_def resolve_resource_def typed_target_def no_target_def)
  with True assms show ?thesis by (auto simp: CreateProject_def Let_def split: option.splits sum.splits)
next
  case False
  then have "t \<noteq> [] \<longrightarrow> t \<in> keys (st_teams s)" by (auto dest: map_of_in_keys)
  with assms show ?thesis by (auto simp: CreateProject_def Let_def split: option.splits sum.splits if_splits)
qed

lemma DeleteProject_effect:
  assumes "DeleteProject actor p cn key fp s = (r, s')"
  shows "s' = s \<or> (\<exists>k. (\<forall>(_, e) \<in> set (st_environments s). envt_ProjectID e \<noteq> p) \<and>
     (\<forall>(_, a) \<in> set (st_applications s). app_ProjectID a \<noteq> p) \<and>
     s' = audited (remember k fp ''project'' p (erase_project p s)))"
  using assms by (auto simp: DeleteProject_def Let_def list_ex_iff split: op_splits)

lemma CreateEnvironment_effect:
  assumes "CreateEnvironment sha now newID actor key fp p n sl po s = (r, s')"
  shows "s' = s \<or> (\<exists>k ns pol. p \<in> keys (st_projects s) \<and>
     (\<forall>(_, e) \<in> set (st_environments s). envt_Namespace e \<noteq> ns) \<and>
     s' = audited (remember k fp ''environment'' newID
       (s\<lparr>st_environments := AList.update newID (new_environment now newID p n sl ns pol) (st_environments s)\<rparr>)))"
proof (cases "map_of (st_projects s) p")
  case None
  then show ?thesis using assms by (auto simp: CreateEnvironment_def Let_def split: option.splits sum.splits)
next
  case (Some x)
  define ns where "ns = DeriveEnvironmentDestination sha x sl"
  have "p \<in> keys (st_projects s)" using Some by (rule map_of_in_keys)
  moreover have "\<not> list_ex (\<lambda>(_, v). envt_Namespace v = ns \<or> envt_ProjectID v = p \<and> envt_Slug v = sl) (st_environments s) \<Longrightarrow>
      \<forall>(_, e) \<in> set (st_environments s). envt_Namespace e \<noteq> ns"
    by (auto simp: list_ex_iff)
  ultimately show ?thesis
    using assms Some
    by (auto simp: CreateEnvironment_def Let_def ns_def [symmetric] split: option.splits sum.splits if_splits)
qed

lemma DeleteEnvironment_effect:
  assumes "DeleteEnvironment actor e cn key fp s = (r, s')"
  shows "s' = s \<or> (\<exists>k. s' = audited (remember k fp ''environment'' e (erase_environment e s)))"
  using assms by (auto simp: DeleteEnvironment_def Let_def split: op_splits)

lemma DeleteApplication_effect:
  assumes "DeleteApplication actor a cn key fp s = (r, s')"
  shows "s' = s \<or> (\<exists>k. s' = audited (remember k fp ''application'' a (erase_application a s)))"
  using assms by (auto simp: DeleteApplication_def Let_def split: op_splits)

lemma CreateApplication_effect:
  assumes "CreateApplication now newID dID oID actor key fp p e n sl k s = (r, s')"
  shows "s' = s \<or> (\<exists>project ik v. map_of (st_projects s) p = Some project \<and>
     (e \<noteq> [] \<longrightarrow> (\<exists>x. map_of (st_environments s) e = Some x \<and> envt_ProjectID x = prj_ID project)) \<and>
     v = new_application now newID p n sl k \<and>
     s' = audited (remember ik fp ''application'' newID
       (if e \<noteq> [] then place_application now dID oID (prj_ID project) e v (s\<lparr>st_applications := AList.update newID v (st_applications s)\<rparr>)
        else s\<lparr>st_applications := AList.update newID v (st_applications s)\<rparr>)))"
  using assms
  by (cases "map_of (st_environments s) e")
    (auto simp: CreateApplication_def Let_def the_environment_def get_or_def split: option.splits sum.splits if_splits)

lemma CreateAccount_effect:
  assumes "CreateServiceAccount tc now accountID grantID actor key fp p n ro s = (r, s')"
  shows "s' = s \<or> (\<exists>project k. map_of (st_projects s) p = Some project \<and> automation_ValidRole ro \<and>
     CanManageGrant (bindingsLocked s actor) (project_target project) ro \<and>
     s' = audited (remember k fp ''service-account'' accountID
       (s\<lparr>st_users := AList.update accountID (account_user now accountID n) (st_users s),
          st_serviceAccounts := AList.update accountID (new_account now accountID actor project n ro) (st_serviceAccounts s),
          st_accessGrants := AList.update grantID (account_grant now accountID grantID actor project ro) (st_accessGrants s)\<rparr>)))"
  using assms by (auto simp: CreateServiceAccount_def Let_def split: option.splits sum.splits if_splits)

lemma CreateToken_effect:
  "CreateServiceAccountToken now newID actor key fp i s = (r, s') \<Longrightarrow>
     same_core s s' \<and> st_users s' = st_users s \<and> st_serviceAccounts s' = st_serviceAccounts s"
  by (auto simp: CreateServiceAccountToken_def Let_def same_core_def split: option.splits sum.splits if_splits)

lemma RevokeToken_effect:
  "RevokeServiceAccountToken now actor a t key fp s = (r, s') \<Longrightarrow>
     same_core s s' \<and> st_users s' = st_users s \<and> st_serviceAccounts s' = st_serviceAccounts s"
  by (auto simp: RevokeServiceAccountToken_def Let_def same_core_def split: option.splits sum.splits if_splits)

lemma UseToken_effect:
  "ServiceAccountByToken h now s = (r, s') \<Longrightarrow>
     same_core s s' \<and> st_users s' = st_users s \<and> st_serviceAccounts s' = st_serviceAccounts s"
  by (auto simp: ServiceAccountByToken_def Let_def same_core_def split: option.splits if_splits)

lemma Audit_effect:
  "AuditRuntimeAccess actor d act s = (r, s') \<Longrightarrow>
     same_core s s' \<and> st_users s' = st_users s \<and> st_serviceAccounts s' = st_serviceAccounts s"
  by (auto simp: AuditRuntimeAccess_def same_core_def split: sum.splits if_splits)

lemma manageable_account:
  "manageableServiceAccountLocked s actor i = Inr a \<Longrightarrow> map_of (st_serviceAccounts s) i = Some a"
  by (auto simp: manageableServiceAccountLocked_def Let_def split: option.splits if_splits)

lemma Disable_effect:
  assumes "DisableServiceAccount now actor i key fp s = (r, s')"
  shows "same_core s s' \<and> st_users s' = st_users s \<and> (st_serviceAccounts s' = st_serviceAccounts s \<or>
     (\<exists>a. map_of (st_serviceAccounts s) i = Some a \<and>
        st_serviceAccounts s' = AList.update (sa_ID a) (a\<lparr>sa_DisabledAt := Some now\<rparr>) (st_serviceAccounts s)))"
  using assms
  by (auto simp: DisableServiceAccount_def Let_def same_core_def revoke_tokens_def dest!: manageable_account
      split: option.splits sum.splits if_splits)

section \<open>Preservation\<close>

lemma set_update_wf: "wf_map m \<Longrightarrow> set (AList.update k v m) = insert (k, v) {x \<in> set m. fst x \<noteq> k}"
  by (auto simp: wf_map_mem_iff [OF wf_map_update] wf_map_mem_iff split: if_splits)

lemma set_update_sub: "x \<in> set (AList.update k v m) \<Longrightarrow> x = (k, v) \<or> x \<in> set m"
  by (induction m) (auto split: if_splits)

lemma set_delete: "set (AList.delete k m) = {x \<in> set m. fst x \<noteq> k}"
  by (auto simp: AList.delete_eq)

lemma wf_map_filter [simp]: "wf_map m \<Longrightarrow> wf_map (filter P m)"
  by (induction m) (auto simp: wf_map_def)

lemma keys_filter: "keys (filter P m) \<subseteq> keys m"
  by (auto simp: keys_def)

lemma owned_other:
  assumes "wf_map ms" and "owned ms"
    and "\<And>x. map_of ms u = Some x \<Longrightarrow> mem_Role x = ''owner'' \<Longrightarrow> length (filter (\<lambda>(_, m). mem_Role m = ''owner'') ms) \<noteq> 1"
  shows "\<exists>(v, m) \<in> set ms. mem_Role m = ''owner'' \<and> v \<noteq> u"
proof (rule ccontr)
  assume none: "\<not> ?thesis"
  let ?owners = "filter (\<lambda>(_, m). mem_Role m = ''owner'') ms"
  from assms(2) obtain v m where vm: "(v, m) \<in> set ms" "mem_Role m = ''owner''" by (auto simp: owned_def)
  with none have v: "v = u" by auto
  with vm assms(1) have "map_of ms u = Some m" by (simp add: wf_map_mem_iff)
  moreover have "set ?owners \<subseteq> {(u, m)}"
    using none assms(1) vm v by (auto simp: wf_map_mem_iff)
  then have "card (set ?owners) \<le> 1" using card_mono [of "{(u, m)}" "set ?owners"] by simp
  moreover have "distinct ?owners" using assms(1) by (simp add: wf_map_def distinct_map)
  then have "card (set ?owners) = length ?owners" by (rule distinct_card)
  ultimately have "length ?owners \<le> 1" by simp
  moreover have "?owners \<noteq> []" using vm by (auto simp: filter_empty_conv)
  ultimately have "length ?owners = 1" by (cases ?owners) auto
  with assms(3) \<open>map_of ms u = Some m\<close> vm(2) show False by blast
qed

lemma owned_delete:
  assumes "\<exists>(v, m) \<in> set ms. mem_Role m = ''owner'' \<and> v \<noteq> u"
  shows "owned (AList.delete u ms)"
  using assms by (force simp: owned_def set_delete)

lemma owned_update:
  assumes "wf_map ms" and "mem_Role x = ''owner'' \<or> (\<exists>(v, m) \<in> set ms. mem_Role m = ''owner'' \<and> v \<noteq> u)"
  shows "owned (AList.update u x ms)"
  using assms(2) unfolding owned_def set_update_wf [OF assms(1)] by force

lemma store_ok_core:
  assumes "store_ok used s" and "same_core s s'" and "st_serviceAccounts s' = st_serviceAccounts s"
    and "keys (st_users s') \<subseteq> used' - {[]}" and "used \<subseteq> used'"
  shows "store_ok used' s'"
proof -
  from assms(5) have mono: "grant_ok used g \<Longrightarrow> grant_ok used' g" for g by (auto simp: grant_ok_def)
  have "teams_ok used' s'"
    using assms(1,2,5) by (fastforce simp: store_ok_def teams_ok_def same_core_def)
  with assms mono show ?thesis
    by (auto simp: store_ok_def ids_ok_def resources_ok_def same_core_def)
qed

lemma teams_ok_memberships:
  assumes "teams_ok used s" and "st_teams s' = st_teams s" and "team \<in> keys (st_teams s)"
    and "st_memberships s' = AList.update team members (st_memberships s)"
    and "wf_map members" "keys members \<subseteq> used - {[]}" "owned members"
  shows "teams_ok used s'"
  using assms unfolding teams_ok_def by (auto simp: set_update_wf insert_absorb)

lemma team_members_ok:
  assumes "teams_ok used s" and "team \<in> keys (st_teams s)"
  obtains members where "map_of (st_memberships s) team = Some members" "get_or [] (st_memberships s) team = members"
    "wf_map members" "keys members \<subseteq> used - {[]}" "owned members"
proof -
  from assms have "team \<in> keys (st_memberships s)" by (simp add: teams_ok_def)
  then obtain members where m: "map_of (st_memberships s) team = Some members" by (rule in_keys_obtain)
  then have "(team, members) \<in> set (st_memberships s)" by (rule map_of_SomeD)
  with assms(1) m that [of members] show thesis by (auto simp: teams_ok_def get_or_def)
qed

lemma put_member_ok:
  assumes "teams_ok used s" and "team \<in> keys (st_teams s)" and "u \<in> used - {[]}"
    and "\<not> demotes_last_owner s team u (mem_Role x)"
  shows "teams_ok used (put_member team u x s)"
proof -
  from team_members_ok [OF assms(1,2)] obtain members
    where m: "get_or [] (st_memberships s) team = members" "wf_map members" "keys members \<subseteq> used - {[]}" "owned members" by metis
  have "owned (AList.update u x members)"
  proof (rule owned_update [OF m(2)])
    show "mem_Role x = ''owner'' \<or> (\<exists>(v, m) \<in> set members. mem_Role m = ''owner'' \<and> v \<noteq> u)"
      using owned_other [OF m(2,4), of u] assms(4)
      by (auto simp: demotes_last_owner_def member_of_def ownerCountLocked_def m(1) split: option.splits)
  qed
  with m assms show ?thesis
    by (intro teams_ok_memberships [OF assms(1) _ assms(2), where members = "AList.update u x members"])
      (auto simp: put_member_def)
qed

lemma remove_member_ok:
  assumes "teams_ok used s" and "team \<in> keys (st_teams s)" and "member_of s team u = Some x"
    and "\<not> (mem_Role x = ''owner'' \<and> ownerCountLocked s team = 1)"
  shows "teams_ok used (s\<lparr>st_memberships := AList.update team (AList.delete u (get_or [] (st_memberships s) team)) (st_memberships s)\<rparr>)"
proof -
  from team_members_ok [OF assms(1,2)] obtain members
    where m: "get_or [] (st_memberships s) team = members" "wf_map members" "keys members \<subseteq> used - {[]}" "owned members" by metis
  have "owned (AList.delete u members)"
    using owned_other [OF m(2,4), of u] assms(3,4)
    by (intro owned_delete) (auto simp: member_of_def ownerCountLocked_def m(1))
  with m assms show ?thesis
    by (intro teams_ok_memberships [OF assms(1) _ assms(2), where members = "AList.delete u members"]) auto
qed

lemma erase_user_ok:
  assumes "teams_ok used s" and "\<not> only_owner s u"
  shows "teams_ok used (erase_user tc now actor u x s)"
proof -
  have "owned (AList.delete u members)" if "(team, members) \<in> set (st_memberships s)" for team members
  proof -
    from that assms(1) have m: "wf_map members" "owned members" "map_of (st_memberships s) team = Some members"
      by (auto simp: teams_ok_def wf_map_mem_iff)
    from that assms(2) have "\<not> (case map_of members u of None \<Rightarrow> False
        | Some member \<Rightarrow> mem_Role member = ''owner'' \<and> ownerCountLocked s team = 1)"
      by (auto simp: only_owner_def list_ex_iff)
    then show ?thesis
      using owned_other [OF m(1,2), of u] m(3)
      by (intro owned_delete) (auto simp: ownerCountLocked_def get_or_def split: option.splits)
  qed
  moreover have "keys (map (\<lambda>(t, ms). (t, AList.delete u ms)) m) = keys m" "wf_map (map (\<lambda>(t, ms). (t, AList.delete u ms)) m) = wf_map m"
    for m :: "(string, (string, team_member) gomap) gomap"
    by (simp_all add: keys_def wf_map_def image_image case_prod_beta comp_def)
  ultimately show ?thesis
    using assms(1) by (fastforce simp: teams_ok_def erase_user_def drop_sessions_def)
qed

end
