(* ===== verification/Access_Invariant.thy ===== *)
theory Access_Invariant
  imports Access_Safety
begin

text \<open>
  Every operation keeps \<open>store_ok\<close>, so it holds of every store that runs of the operations
  reach from the empty one.
\<close>

section \<open>Pieces of the invariant\<close>

lemma grant_ok_mono: "grant_ok used g \<Longrightarrow> used \<subseteq> used' \<Longrightarrow> grant_ok used' g"
  by (auto simp: grant_ok_def)

lemma teams_ok_mono: "teams_ok used s \<Longrightarrow> used \<subseteq> used' \<Longrightarrow> teams_ok used' s"
  by (fastforce simp: teams_ok_def)

lemma teams_ok_same: "teams_ok used s \<Longrightarrow> st_teams s' = st_teams s \<Longrightarrow> st_memberships s' = st_memberships s \<Longrightarrow> teams_ok used s'"
  by (simp add: teams_ok_def)

lemma resources_ok_same:
  assumes "resources_ok s" and "keys (st_teams s) \<subseteq> keys (st_teams s')" and "st_projects s' = st_projects s"
    and "st_environments s' = st_environments s" "st_applications s' = st_applications s" "st_deployments s' = st_deployments s"
  shows "resources_ok s'"
proof -
  from assms(1) have "\<forall>(k, p) \<in> set (st_projects s). prj_ID p = k \<and> (prj_TeamID p \<noteq> [] \<longrightarrow> prj_TeamID p \<in> keys (st_teams s))"
    unfolding resources_ok_def by (elim conjE)
  with assms(2) have "\<forall>(k, p) \<in> set (st_projects s). prj_ID p = k \<and> (prj_TeamID p \<noteq> [] \<longrightarrow> prj_TeamID p \<in> keys (st_teams s'))"
    by fastforce
  with assms(1) show ?thesis
    unfolding resources_ok_def assms(3-6) by (elim conjE, intro conjI) assumption+
qed

lemma store_okI:
  assumes "[] \<in> used" "keys (st_users s) \<subseteq> used - {[]}" "keys (st_teams s) \<subseteq> used - {[]}" "keys (st_projects s) \<subseteq> used - {[]}"
    "keys (st_environments s) \<subseteq> used - {[]}" "keys (st_applications s) \<subseteq> used - {[]}" "keys (st_deployments s) \<subseteq> used - {[]}"
    "keys (st_serviceAccounts s) \<subseteq> used - {[]}" "keys (st_accessGrants s) \<subseteq> used - {[]}"
    "\<And>k a. (k, a) \<in> set (st_serviceAccounts s) \<Longrightarrow> sa_ID a = k"
    "teams_ok used s" "resources_ok s" "\<And>k g. (k, g) \<in> set (st_accessGrants s) \<Longrightarrow> grant_ok used g"
  shows "store_ok used s"
  using assms unfolding store_ok_def ids_ok_def by auto

lemma store_okD:
  assumes "store_ok used s"
  shows "[] \<in> used" "keys (st_users s) \<subseteq> used - {[]}" "keys (st_teams s) \<subseteq> used - {[]}" "keys (st_projects s) \<subseteq> used - {[]}"
    "keys (st_environments s) \<subseteq> used - {[]}" "keys (st_applications s) \<subseteq> used - {[]}" "keys (st_deployments s) \<subseteq> used - {[]}"
    "keys (st_serviceAccounts s) \<subseteq> used - {[]}" "keys (st_accessGrants s) \<subseteq> used - {[]}"
    "\<And>k a. (k, a) \<in> set (st_serviceAccounts s) \<Longrightarrow> sa_ID a = k"
    "teams_ok used s" "resources_ok s" "\<And>k g. (k, g) \<in> set (st_accessGrants s) \<Longrightarrow> grant_ok used g"
  using assms unfolding store_ok_def ids_ok_def by auto

text \<open>A change of users, accounts and grants leaves teams and resources alone.\<close>

lemma store_ok_grants:
  assumes ok: "store_ok used s" and sub: "used \<subseteq> used'"
    and "st_teams s' = st_teams s" "st_memberships s' = st_memberships s" "st_projects s' = st_projects s"
    and "st_environments s' = st_environments s" "st_applications s' = st_applications s" "st_deployments s' = st_deployments s"
    and users: "keys (st_users s') \<subseteq> used' - {[]}" and accounts: "keys (st_serviceAccounts s') \<subseteq> used' - {[]}"
    and ids: "\<And>k a. (k, a) \<in> set (st_serviceAccounts s') \<Longrightarrow> sa_ID a = k"
    and grants: "\<And>k g. (k, g) \<in> set (st_accessGrants s') \<Longrightarrow> (k, g) \<in> set (st_accessGrants s) \<or> k \<in> used' - {[]} \<and> grant_ok used' g"
  shows "store_ok used' s'"
proof -
  note old = store_okD [OF ok] and same = assms(3-8)
  have g: "k \<in> used' - {[]} \<and> grant_ok used' g" if "(k, g) \<in> set (st_accessGrants s')" for k g
  proof (cases "(k, g) \<in> set (st_accessGrants s)")
    case True
    then show ?thesis using old(9) mem_keys [OF True] sub grant_ok_mono [OF old(13) [OF True] sub] by blast
  qed (use grants [OF that] in blast)
  have sub': "used - {[]} \<subseteq> used' - {[]}" using sub by blast
  show ?thesis
  proof (rule store_okI)
    show "keys (st_accessGrants s') \<subseteq> used' - {[]}" using g by (force simp: keys_def)
    show "teams_ok used' s'" by (rule teams_ok_same [OF teams_ok_mono [OF old(11) sub] same(1,2)])
    show "resources_ok s'" by (rule resources_ok_same [OF old(12)]) (simp_all add: same)
    show "[] \<in> used'" using old(1) sub by blast
    show "keys (st_teams s') \<subseteq> used' - {[]}" using old(3) sub' unfolding same(1) by (rule subset_trans)
    show "keys (st_projects s') \<subseteq> used' - {[]}" using old(4) sub' unfolding same(3) by (rule subset_trans)
    show "keys (st_environments s') \<subseteq> used' - {[]}" using old(5) sub' unfolding same(4) by (rule subset_trans)
    show "keys (st_applications s') \<subseteq> used' - {[]}" using old(6) sub' unfolding same(5) by (rule subset_trans)
    show "keys (st_deployments s') \<subseteq> used' - {[]}" using old(7) sub' unfolding same(6) by (rule subset_trans)
  qed (use users accounts ids g in blast)+
qed

text \<open>An operation on teams or resources adds no account and no grant.\<close>

lemma store_ok_sub:
  assumes ok: "store_ok used s" and sub: "used \<subseteq> used'"
    and "set (st_serviceAccounts s') \<subseteq> set (st_serviceAccounts s)" "set (st_accessGrants s') \<subseteq> set (st_accessGrants s)"
    and "keys (st_users s') \<subseteq> keys (st_users s)"
    and "keys (st_teams s') \<union> keys (st_projects s') \<union> keys (st_environments s') \<union> keys (st_applications s') \<union> keys (st_deployments s')
      \<subseteq> used' - {[]}"
    and "teams_ok used' s'" "resources_ok s'"
  shows "store_ok used' s'"
proof -
  note old = store_okD [OF ok]
  have sub': "used - {[]} \<subseteq> used' - {[]}" using sub by blast
  show ?thesis
  proof (rule store_okI)
    show "[] \<in> used'" using old(1) sub by blast
    show "keys (st_users s') \<subseteq> used' - {[]}" using assms(5) old(2) sub' by blast
    show "keys (st_serviceAccounts s') \<subseteq> used' - {[]}"
      using image_mono [OF assms(3), of fst] old(8) sub' unfolding keys_def by blast
    show "keys (st_accessGrants s') \<subseteq> used' - {[]}"
      using image_mono [OF assms(4), of fst] old(9) sub' unfolding keys_def by blast
    show "sa_ID a = k" if "(k, a) \<in> set (st_serviceAccounts s')" for k a using that assms(3) old(10) by blast
    show "grant_ok used' g" if "(k, g) \<in> set (st_accessGrants s')" for k g
      using that assms(4) grant_ok_mono [OF old(13) sub] by blast
  qed (use assms(6-8) in blast)+
qed

section \<open>Identities and teams\<close>

lemma Bootstrap_ok:
  assumes "store_ok used s" and "BootstrapAdmin tc newID u ph h e s = (r, s')" and "newID \<notin> used" "usr_ID u \<notin> used"
  shows "store_ok (insert newID (insert (usr_ID u) used)) s'"
  using Bootstrap_effect [OF assms(2)]
proof (elim disjE conjE exE)
  assume "s' = s"
  then show ?thesis using assms(1) store_okD(2) [OF assms(1)] by (auto intro!: store_ok_core [of used s])
next
  note old = store_okD [OF assms(1)]
  fix g assume b: "same_core s (s'\<lparr>st_accessGrants := st_accessGrants s\<rparr>)" "st_serviceAccounts s' = st_serviceAccounts s"
    "st_users s' = [(usr_ID u, u)]" "st_accessGrants s' = AList.update newID g (st_accessGrants s)"
    and g: "gr_SubjectUserID g = usr_ID u" "gr_SubjectTeamID g = []" "gr_Role g = RolePlatformAdmin" "gr_ScopeType g = ScopePlatform"
      "gr_Permissions g = []"
  have new: "newID \<noteq> []" "usr_ID u \<noteq> []" using assms(3,4) old(1) by auto
  have "grant_ok (insert newID (insert (usr_ID u) used)) g"
    using g new old(1) by (simp add: grant_ok_def role_fits_def ValidExtraPermissions_iff)
  then show ?thesis
    using new b(2-4) old(8,10)
    by (intro store_ok_grants [OF assms(1)]) (use b(1) in \<open>auto simp: same_core_def keys_def [of "[_]"] dest!: set_update_sub\<close>)
qed

lemma Accept_ok:
  assumes "store_ok used s" and "AcceptUserInvitation tc now newID th dn ph sh psh e s = (r, s')" and "newID \<notin> used"
  shows "store_ok (insert newID used) s'"
proof -
  have "newID \<noteq> []" using assms(3) store_okD(1) [OF assms(1)] by auto
  then show ?thesis
    using Accept_effect [OF assms(2)] store_okD(2) [OF assms(1)]
    by (elim disjE conjE exE) (rule store_ok_core [OF assms(1)]; auto)+
qed

lemma DeleteUser_ok:
  assumes "store_ok used s" and "DeleteUser tc now actor u ce key fp s = (r, s')"
  shows "store_ok used s'"
  using DeleteUser_effect [OF assms(2)]
proof (elim disjE exE conjE)
  note old = store_okD [OF assms(1)]
  fix x k assume u: "\<not> only_owner s u" "map_of (st_users s) u = Some x"
    and s': "s' = audited (remember k fp ''user'' u (erase_user tc now actor u x s))"
  show ?thesis
  proof (rule store_ok_sub [OF assms(1) subset_refl])
    show "teams_ok used s'" by (rule teams_ok_same [OF erase_user_ok [OF old(11) u(1)]]) (simp_all add: s')
    show "resources_ok s'" by (rule resources_ok_same [OF old(12)]) (simp_all add: s' erase_user_def drop_sessions_def)
    show "keys (st_users s') \<subseteq> keys (st_users s)"
      using map_of_in_keys [OF u(2)] by (simp add: s' erase_user_def drop_sessions_def)
  qed (use old(3-7) in \<open>auto simp: s' erase_user_def drop_sessions_def\<close>)
qed (use assms in simp)

lemma CreateTeam_ok:
  assumes "store_ok used s" and "CreateTeam now newID actor key fp n sl s = (r, s')" and "newID \<notin> used"
  shows "store_ok (insert newID used) s'"
  using CreateTeam_effect [OF assms(2)]
proof (elim disjE exE conjE)
  assume "s' = s"
  then show ?thesis using assms(1) store_okD(2) [OF assms(1)] by (auto intro!: store_ok_core [of used s])
next
  note old = store_okD [OF assms(1)]
  fix k t assume actor: "actor \<in> keys (st_users s)"
    and s': "s' = audited (remember k fp ''team'' newID (s\<lparr>st_teams := AList.update newID t (st_teams s),
       st_memberships := AList.update newID [(actor, team_owner now newID actor)] (st_memberships s)\<rparr>))"
  have new: "newID \<noteq> []" using assms(3) old(1) by auto
  have member: "actor \<in> insert newID used - {[]}" using actor old(2) by blast
  show ?thesis
  proof (rule store_ok_sub [OF assms(1) subset_insertI])
    show "teams_ok (insert newID used) s'"
      using teams_ok_mono [OF old(11) subset_insertI [of used newID]] member
      by (auto simp: s' teams_ok_def set_update_wf owned_def keys_def [of "[_]"] wf_map_def [of "[_]"])
    show "resources_ok s'" by (rule resources_ok_same [OF old(12)]) (auto simp: s')
  qed (use old(3-7) new in \<open>auto simp: s'\<close>)
qed

lemma DeleteTeam_ok:
  assumes "store_ok used s" and "DeleteTeam now actor t cn key fp s = (r, s')"
  shows "store_ok used s'"
  using DeleteTeam_effect [OF assms(2)]
proof (elim disjE exE conjE)
  note old = store_okD [OF assms(1)]
  fix k us assume free: "\<forall>(_, p) \<in> set (st_projects s). prj_TeamID p \<noteq> t"
    and s': "s' = bumpGrantsLocked now us (audited (remember k fp ''team'' t (erase_team t s)))"
  show ?thesis
  proof (rule store_ok_sub [OF assms(1) subset_refl])
    show "teams_ok used s'" using old(11) by (auto simp: s' erase_team_def teams_ok_def set_delete)
    show "resources_ok s'"
      using old(12) free unfolding resources_ok_def s' erase_team_def by (simp, fastforce)
  qed (use old(3-7) in \<open>auto simp: s' erase_team_def\<close>)
qed (use assms in simp)

lemma store_ok_bump: "store_ok used s \<Longrightarrow> store_ok used (bumpGrantsLocked now us s)"
  by (rule store_ok_core [OF _ bumps_core]) (auto dest: store_okD(2))

lemma store_ok_bump_subjects: "store_ok used s \<Longrightarrow> store_ok used (bumpGrantSubjectsLocked now g s)"
  by (simp add: bumpGrantSubjectsLocked_def store_ok_bump)

lemma AddTeamMember_ok:
  assumes "store_ok used s" and "AddTeamMember now actor t key fp u ro s = (r, s')"
  shows "store_ok used s'"
  using AddTeamMember_effect [OF assms(2)]
proof (elim disjE exE conjE)
  note old = store_okD [OF assms(1)]
  fix k s1 assume t: "t \<in> keys (st_teams s)" "u \<in> keys (st_users s)" "\<not> demotes_last_owner s t u ro"
    and s1: "s1 = audited (remember k fp ''team-member'' u (put_member t u (joined_member now t u ro (member_of s t u)) s))"
  have "u \<in> used - {[]}" using t(2) old(2) by blast
  then have "teams_ok used (put_member t u (joined_member now t u ro (member_of s t u)) s)"
    using t by (intro put_member_ok [OF old(11)]) simp_all
  then have team: "teams_ok used s1" by (rule teams_ok_same) (simp_all add: s1)
  have res: "resources_ok s1" by (rule resources_ok_same [OF old(12)]) (simp_all add: s1 put_member_def)
  have ok1: "store_ok used s1"
    by (rule store_ok_sub [OF assms(1) subset_refl]) (use team res old(3-7) in \<open>auto simp: s1 put_member_def\<close>)
  then show "s' = s1 \<Longrightarrow> ?thesis" "s' = bumpGrantsLocked now [u] s1 \<Longrightarrow> ?thesis" by (simp_all add: store_ok_bump)
qed (use assms in simp)

lemma RemoveTeamMember_ok:
  assumes "store_ok used s" and "RemoveTeamMember now actor t u s = (r, s')"
  shows "store_ok used s'"
proof (cases "map_of (st_teams s) t")
  case None
  then show ?thesis using assms by (simp add: RemoveTeamMember_def)
next
  case (Some x)
  note old = store_okD [OF assms(1)] and t = map_of_in_keys [OF Some]
  show ?thesis using RemoveTeamMember_effect [OF assms(2)]
  proof (elim disjE exE conjE)
    fix m assume m: "member_of s t u = Some m" "\<not> (mem_Role m = ''owner'' \<and> ownerCountLocked s t = 1)"
      and s': "s' = bumpGrantsLocked now [u] (audited
       (s\<lparr>st_memberships := AList.update t (AList.delete u (get_or [] (st_memberships s) t)) (st_memberships s)\<rparr>))"
    show ?thesis
    proof (rule store_ok_sub [OF assms(1) subset_refl])
      show "teams_ok used s'" by (rule teams_ok_same [OF remove_member_ok [OF old(11) t m]]) (simp_all add: s')
      show "resources_ok s'" by (rule resources_ok_same [OF old(12)]) (simp_all add: s')
    qed (use old(3-7) in \<open>auto simp: s'\<close>)
  qed (use assms in simp)
qed

lemma store_ok_remember: "store_ok used s \<Longrightarrow> store_ok used (remember k fp t r s)"
  by (rule store_ok_core) (auto simp: same_core_def dest: store_okD(2))

lemma store_ok_audited: "store_ok used s \<Longrightarrow> store_ok used (audited s)"
  by (rule store_ok_core) (auto simp: same_core_def dest: store_okD(2))

lemma store_ok_installation: "store_ok used s \<Longrightarrow> store_ok used (put_installation i x s)"
  by (rule store_ok_core) (auto simp: same_core_def dest: store_okD(2))

lemma store_ok_more: "store_ok used s \<Longrightarrow> store_ok (insert i used) s"
  by (rule store_ok_core) (auto dest: store_okD(2))

lemma ShareInstallation_ok:
  assumes "store_ok used s" and "UpdateGitHubInstallationSharing now actor j key fp v t s = (r, s')"
  shows "store_ok used s'"
  using ShareInstallation_cases [OF assms(2)] assms(1)
  by (auto intro: store_ok_bump store_ok_audited store_ok_remember store_ok_installation)

section \<open>Grants and service accounts\<close>

lemma new_grant_ok:
  assumes "store_ok used s" and "grant_request_ok i" and "subject_exists s i"
  shows "grant_ok used (new_grant now newID actor i)"
proof -
  note old = store_okD [OF assms(1)]
  have "cag_SubjectUserID i \<noteq> [] \<Longrightarrow> cag_SubjectUserID i \<in> used" "cag_SubjectUserID i = [] \<Longrightarrow> cag_SubjectTeamID i \<in> used"
    using assms(3) old(2,3) by (auto simp: subject_exists_def map_of_None_keys split: if_splits)
  then show ?thesis
    using assms(2) old(1) by (auto simp: grant_ok_def new_grant_def role_fits_def grant_request_ok_def)
qed

lemma CreateGrant_ok:
  assumes "store_ok used s" and "CreateProjectAccessGrant now newID actor key fp i s = (r, s')" and "newID \<notin> used"
  shows "store_ok (insert newID used) s'"
  using CreateGrant_effect [OF assms(2)]
proof (elim disjE exE conjE)
  note old = store_okD [OF assms(1)]
  let ?g = "new_grant now newID actor i"
  fix project target k assume i: "grant_request_ok i" "subject_exists s i"
    and s': "s' = bumpGrantSubjectsLocked now ?g (audited (remember k fp ''access-grant'' newID
       (s\<lparr>st_accessGrants := AList.update newID ?g (st_accessGrants s)\<rparr>)))"
  have new: "newID \<noteq> []" using assms(3) old(1) by auto
  have g: "grant_ok (insert newID used) ?g" by (rule grant_ok_mono [OF new_grant_ok [OF assms(1) i] subset_insertI])
  have "store_ok (insert newID used) (s\<lparr>st_accessGrants := AList.update newID ?g (st_accessGrants s)\<rparr>)"
    by (rule store_ok_grants [OF assms(1) subset_insertI]) (use old(2,8,10) g new in \<open>auto dest!: set_update_sub\<close>)
  then show ?thesis unfolding s' by (intro store_ok_bump_subjects store_ok_audited store_ok_remember)
qed (use assms store_ok_more in simp)

lemma DeleteGrant_ok:
  assumes "store_ok used s" and "DeleteProjectAccessGrant now actor p g key fp s = (r, s')"
  shows "store_ok used s'"
  using DeleteGrant_effect [OF assms(2)]
proof (elim disjE exE conjE)
  note old = store_okD [OF assms(1)]
  fix x k assume s': "s' = bumpGrantSubjectsLocked now x (audited (remember k fp ''access-grant'' g
       (s\<lparr>st_accessGrants := AList.delete g (st_accessGrants s)\<rparr>)))"
  have "store_ok used (s\<lparr>st_accessGrants := AList.delete g (st_accessGrants s)\<rparr>)"
    by (rule store_ok_grants [OF assms(1) subset_refl]) (use old(2,8,10) in \<open>auto simp: set_delete\<close>)
  then show ?thesis unfolding s' by (intro store_ok_bump_subjects store_ok_audited store_ok_remember)
qed (use assms in simp)

lemma account_grant_ok:
  assumes "accountID \<in> used" and "accountID \<noteq> []" and "[] \<in> used" and "automation_ValidRole ro"
  shows "grant_ok used (account_grant now accountID grantID actor project ro)"
  using assms by (auto simp: grant_ok_def account_grant_def role_fits_def automation_ValidRole_def ValidExtraPermissions_iff)

lemma CreateAccount_ok:
  assumes "store_ok used s" and "CreateServiceAccount tc now accountID grantID actor key fp p n ro s = (r, s')"
    and "accountID \<notin> used" "grantID \<notin> used"
  shows "store_ok (insert accountID (insert grantID used)) s'"
  using CreateAccount_effect [OF assms(2)]
proof (elim disjE exE conjE)
  note old = store_okD [OF assms(1)]
  fix project k
  let ?s = "s\<lparr>st_users := AList.update accountID (account_user now accountID n) (st_users s),
          st_serviceAccounts := AList.update accountID (new_account now accountID actor project n ro) (st_serviceAccounts s),
          st_accessGrants := AList.update grantID (account_grant now accountID grantID actor project ro) (st_accessGrants s)\<rparr>"
  assume ro: "automation_ValidRole ro"
    and s': "s' = audited (remember k fp ''service-account'' accountID ?s)"
  have new: "accountID \<noteq> []" "grantID \<noteq> []" using assms(3,4) old(1) by auto
  have g: "grant_ok (insert accountID (insert grantID used)) (account_grant now accountID grantID actor project ro)"
    by (rule account_grant_ok) (use new old(1) ro in auto)
  have "store_ok (insert accountID (insert grantID used)) ?s"
    by (rule store_ok_grants [OF assms(1)]) (use old(2,8,10) g new in \<open>auto simp: new_account_def dest!: set_update_sub\<close>)
  then show ?thesis unfolding s' by (intro store_ok_audited store_ok_remember)
qed (use assms store_ok_more in simp)

lemma Disable_ok:
  assumes "store_ok used s" and "DisableServiceAccount now actor i key fp s = (r, s')"
  shows "store_ok used s'"
proof -
  note old = store_okD [OF assms(1)]
  from Disable_effect [OF assms(2)] have e: "same_core s s'" "st_users s' = st_users s" by simp_all
  have "sa_ID a \<in> used - {[]}" if "map_of (st_serviceAccounts s) i = Some a" for a
    using old(10) [OF map_of_SomeD [OF that]] map_of_in_keys [OF that] old(8) by auto
  with Disable_effect [OF assms(2)] show ?thesis
    by (intro store_ok_grants [OF assms(1) subset_refl])
      (use e old(2,8,10) in \<open>auto simp: same_core_def dest!: set_update_sub\<close>)
qed

section \<open>Projects, environments, applications\<close>

lemma ball_pairs: "(\<forall>(k, v) \<in> set m. P k v) \<longleftrightarrow> (\<forall>k v. (k, v) \<in> set m \<longrightarrow> P k v)"
  by auto

lemma resources_okD:
  assumes "resources_ok s"
  shows "wf_map (st_projects s)" "wf_map (st_environments s)" "wf_map (st_applications s)" "wf_map (st_deployments s)"
    "\<And>k p. (k, p) \<in> set (st_projects s) \<Longrightarrow> prj_ID p = k"
    "\<And>k p. (k, p) \<in> set (st_projects s) \<Longrightarrow> prj_TeamID p \<noteq> [] \<Longrightarrow> prj_TeamID p \<in> keys (st_teams s)"
    "\<And>k e. (k, e) \<in> set (st_environments s) \<Longrightarrow> envt_ID e = k"
    "\<And>k e. (k, e) \<in> set (st_environments s) \<Longrightarrow> envt_ProjectID e \<in> keys (st_projects s)"
    "inj_on (\<lambda>(k, e). envt_Namespace e) (set (st_environments s))"
    "\<And>k a. (k, a) \<in> set (st_applications s) \<Longrightarrow> app_ID a = k"
    "\<And>k a. (k, a) \<in> set (st_applications s) \<Longrightarrow> app_ProjectID a \<in> keys (st_projects s)"
    "\<And>k d. (k, d) \<in> set (st_deployments s) \<Longrightarrow> dep_ID d = k"
    "\<And>k d. (k, d) \<in> set (st_deployments s) \<Longrightarrow> \<exists>e a. map_of (st_environments s) (dep_EnvironmentID d) = Some e \<and>
       map_of (st_applications s) (dep_ApplicationID d) = Some a \<and> envt_ProjectID e = app_ProjectID a"
  using assms unfolding resources_ok_def ball_pairs by iprover+

lemma resources_okI:
  assumes "wf_map (st_projects s)" "wf_map (st_environments s)" "wf_map (st_applications s)" "wf_map (st_deployments s)"
    "\<And>k p. (k, p) \<in> set (st_projects s) \<Longrightarrow> prj_ID p = k"
    "\<And>k p. (k, p) \<in> set (st_projects s) \<Longrightarrow> prj_TeamID p \<noteq> [] \<Longrightarrow> prj_TeamID p \<in> keys (st_teams s)"
    "\<And>k e. (k, e) \<in> set (st_environments s) \<Longrightarrow> envt_ID e = k"
    "\<And>k e. (k, e) \<in> set (st_environments s) \<Longrightarrow> envt_ProjectID e \<in> keys (st_projects s)"
    "inj_on (\<lambda>(k, e). envt_Namespace e) (set (st_environments s))"
    "\<And>k a. (k, a) \<in> set (st_applications s) \<Longrightarrow> app_ID a = k"
    "\<And>k a. (k, a) \<in> set (st_applications s) \<Longrightarrow> app_ProjectID a \<in> keys (st_projects s)"
    "\<And>k d. (k, d) \<in> set (st_deployments s) \<Longrightarrow> dep_ID d = k"
    "\<And>k d. (k, d) \<in> set (st_deployments s) \<Longrightarrow> \<exists>e a. map_of (st_environments s) (dep_EnvironmentID d) = Some e \<and>
       map_of (st_applications s) (dep_ApplicationID d) = Some a \<and> envt_ProjectID e = app_ProjectID a"
  shows "resources_ok s"
  unfolding resources_ok_def ball_pairs by (intro conjI allI impI; (rule assms, assumption+ | rule assms))

lemma CreateProject_ok:
  assumes "store_ok used s" and "CreateProject now newID actor key fp n sl t s = (r, s')" and "newID \<notin> used"
  shows "store_ok (insert newID used) s'"
  using CreateProject_effect [OF assms(2)]
proof (elim disjE exE conjE)
  note old = store_okD [OF assms(1)] and res = resources_okD [OF old(12)]
  let ?p = "new_project now newID n sl t"
  fix k assume t: "t \<noteq> [] \<longrightarrow> t \<in> keys (st_teams s)"
    and s': "s' = audited (remember k fp ''project'' newID (s\<lparr>st_projects := AList.update newID ?p (st_projects s)\<rparr>))"
  have new: "newID \<noteq> []" using assms(3) old(1) by auto
  have p: "prj_ID ?p = newID" "prj_TeamID ?p = t" by (simp_all add: new_project_def)
  have "resources_ok (s\<lparr>st_projects := AList.update newID ?p (st_projects s)\<rparr>)" (is "resources_ok ?s")
  proof (rule resources_okI)
    show "prj_ID q = i" if "(i, q) \<in> set (st_projects ?s)" for i q using that p(1) res(5) by (auto dest!: set_update_sub)
    show "prj_TeamID q \<in> keys (st_teams ?s)" if "(i, q) \<in> set (st_projects ?s)" "prj_TeamID q \<noteq> []" for i q
      using that t p(2) res(6) by (auto dest!: set_update_sub)
  qed (use res in simp_all)
  moreover have "teams_ok (insert newID used) ?s"
    by (rule teams_ok_same [OF teams_ok_mono [OF old(11) subset_insertI]]) simp_all
  ultimately have "store_ok (insert newID used) ?s"
    by (intro store_ok_sub [OF assms(1) subset_insertI]) (use old(3-7) new in auto)
  then show ?thesis unfolding s' by (intro store_ok_audited store_ok_remember)
qed (use assms store_ok_more in simp)

lemma DeleteProject_ok:
  assumes "store_ok used s" and "DeleteProject actor p cn key fp s = (r, s')"
  shows "store_ok used s'"
  using DeleteProject_effect [OF assms(2)]
proof (elim disjE exE conjE)
  note old = store_okD [OF assms(1)] and res = resources_okD [OF old(12)]
  fix k assume free: "\<forall>(_, e) \<in> set (st_environments s). envt_ProjectID e \<noteq> p" "\<forall>(_, a) \<in> set (st_applications s). app_ProjectID a \<noteq> p"
    and s': "s' = audited (remember k fp ''project'' p (erase_project p s))"
  let ?s = "erase_project p s"
  have same: "st_environments ?s = st_environments s" "st_applications ?s = st_applications s" "st_deployments ?s = st_deployments s"
    "st_teams ?s = st_teams s" "st_memberships ?s = st_memberships s" "st_projects ?s = AList.delete p (st_projects s)"
    by (simp_all add: erase_project_def Let_def)
  have "resources_ok ?s"
  proof (rule resources_okI, unfold same)
    show "envt_ProjectID e \<in> keys (AList.delete p (st_projects s))" if "(i, e) \<in> set (st_environments s)" for i e
      using that free(1) res(8) by auto
    show "app_ProjectID a \<in> keys (AList.delete p (st_projects s))" if "(i, a) \<in> set (st_applications s)" for i a
      using that free(2) res(11) by auto
  qed (use res in \<open>auto simp: set_delete\<close>)
  moreover have "teams_ok used ?s" by (rule teams_ok_same [OF old(11) same(4,5)])
  moreover have "keys (st_users ?s) \<subseteq> keys (st_users s)"
    by (simp add: erase_project_def Let_def keys_filter)
  ultimately have "store_ok used ?s"
    by (intro store_ok_sub [OF assms(1) subset_refl])
      (use old(3-7) in \<open>auto simp: same\<close>, auto simp: erase_project_def Let_def)
  then show ?thesis unfolding s' by (intro store_ok_audited store_ok_remember)
qed (use assms in simp)

lemma CreateEnvironment_ok:
  assumes "store_ok used s" and "CreateEnvironment sha now newID actor key fp p n sl po s = (r, s')" and "newID \<notin> used"
  shows "store_ok (insert newID used) s'"
  using CreateEnvironment_effect [OF assms(2)]
proof (elim disjE exE conjE)
  note old = store_okD [OF assms(1)] and res = resources_okD [OF old(12)]
  fix k ns pol
  let ?e = "new_environment now newID p n sl ns pol"
  let ?s = "s\<lparr>st_environments := AList.update newID ?e (st_environments s)\<rparr>"
  assume p: "p \<in> keys (st_projects s)" and free: "\<forall>(_, e) \<in> set (st_environments s). envt_Namespace e \<noteq> ns"
    and s': "s' = audited (remember k fp ''environment'' newID ?s)"
  have new: "newID \<noteq> []" using assms(3) old(1) by auto
  have fresh: "newID \<notin> keys (st_environments s)" using assms(3) old(5) by auto
  have e: "envt_ID ?e = newID" "envt_ProjectID ?e = p" "envt_Namespace ?e = ns" by (simp_all add: new_environment_def)
  have "resources_ok ?s"
  proof (rule resources_okI)
    show "envt_ID x = i" if "(i, x) \<in> set (st_environments ?s)" for i x using that e(1) res(7) by (auto dest!: set_update_sub)
    show "envt_ProjectID x \<in> keys (st_projects ?s)" if "(i, x) \<in> set (st_environments ?s)" for i x
      using that e(2) p res(8) by (auto dest!: set_update_sub)
    show "inj_on (\<lambda>(k, e). envt_Namespace e) (set (st_environments ?s))"
      using free e(3) inj_on_subset [OF res(9), of "{x \<in> set (st_environments s). fst x \<noteq> newID}"]
      by (auto simp: set_update_wf [OF res(2)] image_iff)
    show "\<exists>e a. map_of (st_environments ?s) (dep_EnvironmentID d) = Some e \<and>
       map_of (st_applications ?s) (dep_ApplicationID d) = Some a \<and> envt_ProjectID e = app_ProjectID a"
      if "(i, d) \<in> set (st_deployments ?s)" for i d
      using that res(13) [of i d] fresh by (auto dest: map_of_in_keys)
  qed (use res in simp_all)
  moreover have "teams_ok (insert newID used) ?s"
    by (rule teams_ok_same [OF teams_ok_mono [OF old(11) subset_insertI]]) simp_all
  ultimately have "store_ok (insert newID used) ?s"
    by (intro store_ok_sub [OF assms(1) subset_insertI]) (use old(3-7) new in auto)
  then show ?thesis unfolding s' by (intro store_ok_audited store_ok_remember)
qed (use assms store_ok_more in simp)

lemma DeleteEnvironment_ok:
  assumes "store_ok used s" and "DeleteEnvironment actor e cn key fp s = (r, s')"
  shows "store_ok used s'"
  using DeleteEnvironment_effect [OF assms(2)]
proof (elim disjE exE conjE)
  note old = store_okD [OF assms(1)] and res = resources_okD [OF old(12)]
  fix k let ?s = "erase_environment e s"
  assume s': "s' = audited (remember k fp ''environment'' e ?s)"
  have same: "st_projects ?s = st_projects s" "st_applications ?s = st_applications s" "st_teams ?s = st_teams s"
    "st_memberships ?s = st_memberships s" "st_environments ?s = AList.delete e (st_environments s)"
    "st_deployments ?s = filter (\<lambda>(_, deployment). dep_EnvironmentID deployment \<noteq> e) (st_deployments s)"
    "st_users ?s = st_users s" "st_serviceAccounts ?s = st_serviceAccounts s" "set (st_accessGrants ?s) \<subseteq> set (st_accessGrants s)"
    by (auto simp: erase_environment_def)
  have "resources_ok ?s"
  proof (rule resources_okI, unfold same(1-6))
    show "inj_on (\<lambda>(k, e). envt_Namespace e) (set (AList.delete e (st_environments s)))"
      by (rule inj_on_subset [OF res(9)]) (auto simp: set_delete)
    show "\<exists>x a. map_of (AList.delete e (st_environments s)) (dep_EnvironmentID d) = Some x \<and>
       map_of (st_applications s) (dep_ApplicationID d) = Some a \<and> envt_ProjectID x = app_ProjectID a"
      if "(i, d) \<in> set (filter (\<lambda>(_, deployment). dep_EnvironmentID deployment \<noteq> e) (st_deployments s))" for i d
      using that res(13) [of i d] by auto
  qed (use res(1-8,10-12) in \<open>auto simp: set_delete\<close>)
  moreover have "teams_ok used ?s" by (rule teams_ok_same [OF old(11) same(3,4)])
  moreover have "keys (st_deployments ?s) \<subseteq> used - {[]}"
    unfolding same(6) by (rule subset_trans [OF keys_filter old(7)])
  ultimately have "store_ok used ?s"
    by (intro store_ok_sub [OF assms(1) subset_refl]) (use same(9) old(3-6) in \<open>auto simp: same(1-5,7,8)\<close>)
  then show ?thesis unfolding s' by (intro store_ok_audited store_ok_remember)
qed (use assms in simp)

lemma place_application_fields [simp]:
  "st_users (place_application now d o' p e v s) = st_users s" "st_teams (place_application now d o' p e v s) = st_teams s"
  "st_memberships (place_application now d o' p e v s) = st_memberships s" "st_projects (place_application now d o' p e v s) = st_projects s"
  "st_environments (place_application now d o' p e v s) = st_environments s"
  "st_applications (place_application now d o' p e v s) = st_applications s"
  "st_accessGrants (place_application now d o' p e v s) = st_accessGrants s"
  "st_serviceAccounts (place_application now d o' p e v s) = st_serviceAccounts s"
  by (simp_all add: place_application_def Let_def)

lemma place_application_deployments:
  "st_deployments (place_application now d o' p e v s) = st_deployments s \<or>
   st_deployments (place_application now d o' p e v s) = AList.update d (source_draft now d o' e (app_ID v)) (st_deployments s)"
  by (simp add: place_application_def Let_def)

lemma new_application_ids [simp]: "app_ID (new_application now i p n sl k) = i" "app_ProjectID (new_application now i p n sl k) = p"
  by (simp_all add: new_application_def)

lemma source_draft_ids [simp]:
  "dep_ID (source_draft now d o' e a) = d" "dep_EnvironmentID (source_draft now d o' e a) = e" "dep_ApplicationID (source_draft now d o' e a) = a"
  by (simp_all add: source_draft_def)

lemma application_placed_ok:
  assumes ok: "store_ok used s" and fresh: "newID \<notin> used" "dID \<notin> used" and p: "map_of (st_projects s) p = Some project"
    and v: "app_ID v = newID" "app_ProjectID v = p"
    and same: "st_users s' = st_users s" "st_teams s' = st_teams s" "st_memberships s' = st_memberships s" "st_projects s' = st_projects s"
      "st_environments s' = st_environments s" "st_accessGrants s' = st_accessGrants s" "st_serviceAccounts s' = st_serviceAccounts s"
      "st_applications s' = AList.update newID v (st_applications s)"
    and dep: "st_deployments s' = st_deployments s \<or> st_deployments s' = AList.update dID (source_draft now dID oID e newID) (st_deployments s) \<and>
        (\<exists>x. map_of (st_environments s) e = Some x \<and> envt_ProjectID x = p)"
  shows "store_ok (insert newID (insert dID used)) s'"
proof -
  note old = store_okD [OF ok] and res = resources_okD [OF old(12)]
  have new: "newID \<noteq> []" "dID \<noteq> []" using fresh old(1) by auto
  have nokey: "newID \<notin> keys (st_applications s)" using fresh old(6) by auto
  have "resources_ok s'"
  proof (rule resources_okI, unfold same)
    show "app_ID x = i" if "(i, x) \<in> set (AList.update newID v (st_applications s))" for i x
      using that v(1) res(10) by (auto dest!: set_update_sub)
    show "app_ProjectID x \<in> keys (st_projects s)" if "(i, x) \<in> set (AList.update newID v (st_applications s))" for i x
      using that v(2) map_of_in_keys [OF p] res(11) by (auto dest!: set_update_sub)
    show "wf_map (st_deployments s')" using dep res(4) by auto
    show "dep_ID d = i" if "(i, d) \<in> set (st_deployments s')" for i d
      using that dep res(12) [of i d] by (auto dest!: set_update_sub)
    show "\<exists>x a. map_of (st_environments s) (dep_EnvironmentID d) = Some x \<and>
       map_of (AList.update newID v (st_applications s)) (dep_ApplicationID d) = Some a \<and> envt_ProjectID x = app_ProjectID a"
      if "(i, d) \<in> set (st_deployments s')" for i d
    proof (cases "(i, d) \<in> set (st_deployments s)")
      case True
      then show ?thesis using res(13) [of i d] nokey by (auto dest: map_of_in_keys)
    next
      case False
      with that dep have "d = source_draft now dID oID e newID" "\<exists>x. map_of (st_environments s) e = Some x \<and> envt_ProjectID x = p"
        by (auto dest!: set_update_sub)
      then show ?thesis using v(2) by auto
    qed
  qed (use res(1-3,5-9) in \<open>simp_all\<close>)
  moreover have "teams_ok (insert newID (insert dID used)) s'"
    by (rule teams_ok_same [OF teams_ok_mono [OF old(11)]]) (auto simp: same)
  moreover have "keys (st_deployments s') \<subseteq> insert newID (insert dID used) - {[]}" using dep old(7) new by auto
  ultimately show ?thesis
    by (intro store_ok_sub [OF ok]) (use old(3-6) new in \<open>auto simp: same\<close>)
qed

lemma CreateApplication_ok:
  assumes "store_ok used s" and "CreateApplication now newID dID oID actor key fp p e n sl k s = (r, s')"
    and "newID \<notin> used" "dID \<notin> used"
  shows "store_ok (insert newID (insert dID (insert oID used))) s'"
  using CreateApplication_effect [OF assms(2)]
proof (elim disjE exE conjE)
  assume "s' = s" then show ?thesis using store_ok_more assms(1) by simp
next
  note old = store_okD [OF assms(1)] and res = resources_okD [OF old(12)]
  fix project :: project and ik v
  let ?s = "s\<lparr>st_applications := AList.update newID v (st_applications s)\<rparr>"
  let ?t = "if e \<noteq> [] then place_application now dID oID (prj_ID project) e v ?s else ?s"
  assume p: "map_of (st_projects s) p = Some project"
    and e: "e \<noteq> [] \<longrightarrow> (\<exists>x. map_of (st_environments s) e = Some x \<and> envt_ProjectID x = prj_ID project)"
    and v: "v = new_application now newID p n sl k" and s': "s' = audited (remember ik fp ''application'' newID ?t)"
  have ids: "app_ID v = newID" "app_ProjectID v = p" by (simp_all add: v)
  have pid: "prj_ID project = p" using res(5) [OF map_of_SomeD [OF p]] .
  have "store_ok (insert newID (insert dID used)) ?t"
    using place_application_deployments [of now dID oID "prj_ID project" e v ?s] e
    by (intro application_placed_ok [OF assms(1,3,4) p ids, where now = now and oID = oID and e = e]) (auto simp: ids(1) pid)
  then have "store_ok (insert oID (insert newID (insert dID used))) ?t" by (rule store_ok_more)
  then have "store_ok (insert newID (insert dID (insert oID used))) ?t" by (simp add: insert_commute)
  then show ?thesis unfolding s' by (intro store_ok_audited store_ok_remember)
qed

lemma DeleteApplication_ok:
  assumes "store_ok used s" and "DeleteApplication actor a cn key fp s = (r, s')"
  shows "store_ok used s'"
  using DeleteApplication_effect [OF assms(2)]
proof (elim disjE exE conjE)
  note old = store_okD [OF assms(1)] and res = resources_okD [OF old(12)]
  fix k let ?s = "erase_application a s"
  assume s': "s' = audited (remember k fp ''application'' a ?s)"
  have same: "st_projects ?s = st_projects s" "st_environments ?s = st_environments s" "st_teams ?s = st_teams s"
    "st_memberships ?s = st_memberships s" "st_applications ?s = AList.delete a (st_applications s)"
    "st_deployments ?s = filter (\<lambda>(_, deployment). dep_ApplicationID deployment \<noteq> a) (st_deployments s)"
    "st_users ?s = st_users s" "st_serviceAccounts ?s = st_serviceAccounts s" "set (st_accessGrants ?s) \<subseteq> set (st_accessGrants s)"
    by (auto simp: erase_application_def Let_def)
  have "resources_ok ?s"
  proof (rule resources_okI, unfold same(1-6))
    show "\<exists>x y. map_of (st_environments s) (dep_EnvironmentID d) = Some x \<and>
       map_of (AList.delete a (st_applications s)) (dep_ApplicationID d) = Some y \<and> envt_ProjectID x = app_ProjectID y"
      if "(i, d) \<in> set (filter (\<lambda>(_, deployment). dep_ApplicationID deployment \<noteq> a) (st_deployments s))" for i d
      using that res(13) [of i d] by auto
  qed (use res(1-12) in \<open>auto simp: set_delete\<close>)
  moreover have "teams_ok used ?s" by (rule teams_ok_same [OF old(11) same(3,4)])
  moreover have "keys (st_deployments ?s) \<subseteq> used - {[]}"
    unfolding same(6) by (rule subset_trans [OF keys_filter old(7)])
  ultimately have "store_ok used ?s"
    by (intro store_ok_sub [OF assms(1) subset_refl]) (use same(9) old(3-6) in \<open>auto simp: same(1-5,7,8)\<close>)
  then show ?thesis unfolding s' by (intro store_ok_audited store_ok_remember)
qed (use assms in simp)

section \<open>Reachable stores\<close>

lemma unchanged_ok:
  assumes "store_ok used s" and "same_core s s' \<and> st_users s' = st_users s \<and> st_serviceAccounts s' = st_serviceAccounts s"
    and "used \<subseteq> used'"
  shows "store_ok used' s'"
  using assms store_okD(2) [OF assms(1)] by (intro store_ok_core [OF assms(1)]) auto

lemmas quiet_effects = Login_effect RevokeSession_effect Invite_effect CreateToken_effect RevokeToken_effect UseToken_effect Audit_effect

lemma CreateInstallation_ok:
  assumes "store_ok used s" and "CreateGitHubInstallation now newID actor key fp i s = (r, s')"
  shows "store_ok (insert newID used) s'"
  using unchanged_ok [OF assms(1) CreateInstallation_effect [of s now newID actor key fp i]] assms(2) by auto

lemma LinkInstallation_ok:
  assumes "store_ok used s" and "LinkVerifiedGitHubInstallation tc now newID actor key fp i s = (r, s')"
  shows "store_ok (insert newID used) s'"
  using unchanged_ok [OF assms(1) LinkInstallation_effect [of s tc now newID actor key fp i]] assms(2) by auto

lemma access_step_ok:
  "access_step actor x y \<Longrightarrow> store_ok (fst x) (snd x) \<Longrightarrow> store_ok (fst y) (snd y)"
  by (induction rule: access_step.induct; unfold fst_conv snd_conv;
    (erule unchanged_ok, erule quiet_effects, blast
    | erule Bootstrap_ok, assumption+
    | erule Accept_ok, assumption+
    | erule DeleteUser_ok, assumption+
    | erule CreateTeam_ok, assumption+
    | erule DeleteTeam_ok, assumption+
    | erule AddTeamMember_ok, assumption+
    | erule RemoveTeamMember_ok, assumption+
    | erule ShareInstallation_ok, assumption+
    | erule CreateGrant_ok, assumption+
    | erule DeleteGrant_ok, assumption+
    | erule CreateProject_ok, assumption+
    | erule DeleteProject_ok, assumption+
    | erule CreateEnvironment_ok, assumption+
    | erule DeleteEnvironment_ok, assumption+
    | erule CreateApplication_ok, assumption+
    | erule DeleteApplication_ok, assumption+
    | erule CreateAccount_ok, assumption+
    | erule Disable_ok, assumption+
    | erule CreateInstallation_ok, assumption+
    | erule LinkInstallation_ok, assumption+
    ))

definition access_move :: "string set \<times> access_store \<Rightarrow> string set \<times> access_store \<Rightarrow> bool" where
  "access_move x y \<longleftrightarrow> (\<exists>actor. access_step actor x y)"

definition access_start :: "string set \<times> access_store" where
  "access_start = ({[]}, new_store)"

lemma new_store_ok: "store_ok {[]} new_store"
  by (rule store_okI) (simp_all add: new_store_def teams_ok_def resources_ok_def)

interpretation access_store: invariant_system access_move access_start "\<lambda>x. store_ok (fst x) (snd x)"
  by unfold_locales (auto simp: access_start_def access_move_def new_store_ok dest: access_step_ok)

lemma reachable_ok: "reachable access_move access_start (used, s) \<Longrightarrow> store_ok used s"
  using access_store.reachable_inv by force

text \<open>
  C6.  References between the resources of a reachable store never dangle: every project
  that names a team, every environment and application of a project, and both ends of every
  deployment exist, a deployment stays within one project, and no two environments share a
  namespace.
\<close>

theorem reachable_integrity:
  assumes "reachable access_move access_start (used, s)"
  shows "(\<forall>p \<in> snd ` set (st_projects s). prj_TeamID p = [] \<or> map_of (st_teams s) (prj_TeamID p) \<noteq> None) \<and>
    (\<forall>e \<in> snd ` set (st_environments s). map_of (st_projects s) (envt_ProjectID e) \<noteq> None) \<and>
    (\<forall>a \<in> snd ` set (st_applications s). map_of (st_projects s) (app_ProjectID a) \<noteq> None) \<and>
    (\<forall>d \<in> snd ` set (st_deployments s). \<exists>e a. map_of (st_environments s) (dep_EnvironmentID d) = Some e \<and>
       map_of (st_applications s) (dep_ApplicationID d) = Some a \<and> envt_ProjectID e = app_ProjectID a) \<and>
    distinct (map (envt_Namespace \<circ> snd) (st_environments s))"
proof -
  note res = resources_okD [OF store_okD(12) [OF reachable_ok [OF assms]]]
  have "distinct (map (envt_Namespace \<circ> snd) (st_environments s))"
    using res(2,9) by (simp add: distinct_map wf_map_def comp_def case_prod_unfold)
  moreover have "prj_TeamID p = [] \<or> map_of (st_teams s) (prj_TeamID p) \<noteq> None" if "p \<in> snd ` set (st_projects s)" for p
    using that res(6) unfolding map_of_None_keys by force
  moreover have "map_of (st_projects s) (envt_ProjectID e) \<noteq> None" if "e \<in> snd ` set (st_environments s)" for e
    using that res(8) by (auto simp: map_of_None_keys simp del: not_None_eq)
  moreover have "map_of (st_projects s) (app_ProjectID a) \<noteq> None" if "a \<in> snd ` set (st_applications s)" for a
    using that res(11) by (auto simp: map_of_None_keys simp del: not_None_eq)
  moreover have "\<exists>e a. map_of (st_environments s) (dep_EnvironmentID d) = Some e \<and>
       map_of (st_applications s) (dep_ApplicationID d) = Some a \<and> envt_ProjectID e = app_ProjectID a"
    if "d \<in> snd ` set (st_deployments s)" for d
    using that res(13) by auto
  ultimately show ?thesis by (intro conjI ballI) assumption+
qed

text \<open>
  C8.  A team is never left without an owner: whatever sequence of operations runs, every
  team of the store has a member with the role \<open>owner\<close>.
\<close>

theorem teams_keep_owner:
  assumes "reachable access_move access_start (used, s)" and "map_of (st_teams s) team \<noteq> None"
  shows "\<exists>u m. member_of s team u = Some m \<and> mem_Role m = ''owner'' \<and> ownerCountLocked s team \<ge> 1"
proof -
  note teams = store_okD(11) [OF reachable_ok [OF assms(1)]]
  from assms(2) have "team \<in> keys (st_teams s)" by (simp add: map_of_None_keys)
  from team_members_ok [OF teams this] obtain ms where ms: "get_or [] (st_memberships s) team = ms" "wf_map ms" "owned ms" by metis
  then obtain u m where m: "(u, m) \<in> set ms" "mem_Role m = ''owner''" by (auto simp: owned_def)
  then have "filter (\<lambda>(_, x). mem_Role x = ''owner'') ms \<noteq> []" by (auto simp: filter_empty_conv)
  then have "ownerCountLocked s team \<ge> 1" by (simp add: ownerCountLocked_def ms(1) Suc_le_eq)
  with m ms show ?thesis by (auto simp: member_of_def wf_map_mem_iff)
qed

end
