(* ===== verification/Access_Escalation.thy ===== *)
theory Access_Escalation
  imports Access_Invariant
begin

text \<open>
  No privilege escalation: a step of the access store gives nobody a permission on an
  existing resource beyond what the acting user already commands.  The scopes of the grants
  nest (application and environment in project, project in team), and a manager's binding
  covers the whole scope it manages.
\<close>

section \<open>Resolved targets\<close>

definition coherent :: "access_store \<Rightarrow> access_target \<Rightarrow> bool" where
  "coherent s t \<longleftrightarrow>
     (at_TeamID t \<noteq> [] \<longrightarrow> at_TeamID t \<in> keys (st_teams s)) \<and>
     (at_ProjectID t \<noteq> [] \<longrightarrow> (\<exists>p. map_of (st_projects s) (at_ProjectID t) = Some p \<and> at_TeamID t = prj_TeamID p)) \<and>
     (at_EnvironmentID t \<noteq> [] \<or> at_Namespace t \<noteq> [] \<longrightarrow> (\<exists>e. map_of (st_environments s) (at_EnvironmentID t) = Some e \<and>
        at_Namespace t = envt_Namespace e \<and> at_ProjectID t = envt_ProjectID e)) \<and>
     (at_ApplicationID t \<noteq> [] \<longrightarrow> (\<exists>a. map_of (st_applications s) (at_ApplicationID t) = Some a \<and> at_ProjectID t = app_ProjectID a))"

lemma no_target_fields [simp]:
  "at_Type no_target = []" "at_ID no_target = []" "at_TeamID no_target = []" "at_ProjectID no_target = []"
  "at_EnvironmentID no_target = []" "at_Namespace no_target = []" "at_ApplicationID no_target = []"
  by (simp_all add: no_target_def)

lemma coherent_empty: "coherent s no_target"
  by (simp add: coherent_def)

lemma the_project_some:
  assumes "store_ok used s" and "prj_ID (the_project s i) \<noteq> []"
  shows "map_of (st_projects s) i = Some (the_project s i)" "prj_ID (the_project s i) = i"
proof -
  show m: "map_of (st_projects s) i = Some (the_project s i)"
    using assms(2) by (auto simp: the_project_def get_or_def no_project_def split: option.splits)
  show "prj_ID (the_project s i) = i"
    using resources_okD(5) [OF store_okD(12) [OF assms(1)] map_of_SomeD [OF m]] .
qed

lemma project_coherent:
  assumes "store_ok used s" and "map_of (st_projects s) i = Some p"
  shows "prj_ID p = i" "prj_TeamID p \<noteq> [] \<Longrightarrow> prj_TeamID p \<in> keys (st_teams s)" "i \<noteq> []"
  using resources_okD(5,6) [OF store_okD(12) [OF assms(1)] map_of_SomeD [OF assms(2)]] store_okD(4) [OF assms(1)]
    map_of_in_keys [OF assms(2)] by auto

lemma environment_coherent:
  assumes "store_ok used s" and "map_of (st_environments s) i = Some e"
  shows "envt_ID e = i" "\<exists>p. map_of (st_projects s) (envt_ProjectID e) = Some p"
  using resources_okD(7,8) [OF store_okD(12) [OF assms(1)] map_of_SomeD [OF assms(2)]] by (auto elim: in_keys_obtain)

lemma application_coherent:
  assumes "store_ok used s" and "map_of (st_applications s) i = Some a"
  shows "app_ID a = i" "\<exists>p. map_of (st_projects s) (app_ProjectID a) = Some p"
  using resources_okD(10,11) [OF store_okD(12) [OF assms(1)] map_of_SomeD [OF assms(2)]] by (auto elim: in_keys_obtain)

lemma environment_target_coherent:
  assumes "store_ok used s" and "map_of (st_environments s) i = Some e" and "p = the_project s (envt_ProjectID e)"
    and "a = [] \<or> (\<exists>x. map_of (st_applications s) a = Some x \<and> app_ProjectID x = envt_ProjectID e)"
  shows "coherent s ((environment_target typ j p e)\<lparr>at_ApplicationID := a\<rparr>)"
proof -
  from environment_coherent [OF assms(1,2)] obtain q where e: "envt_ID e = i" and q: "map_of (st_projects s) (envt_ProjectID e) = Some q" by blast
  then have "p = q" by (simp add: assms(3) the_project_def get_or_def)
  with project_coherent [OF assms(1) q] q e assms(2,4) show ?thesis
    by (auto simp: coherent_def environment_target_def)
qed

lemma environment_target_app: "environment_target typ j p e = (environment_target typ j p e)\<lparr>at_ApplicationID := []\<rparr>"
  by (simp add: environment_target_def)

lemma resolve_resource_coherent:
  assumes ok: "store_ok used s" and r: "resolve_resource s q = (t, True)"
  shows "coherent s t"
proof -
  note res = resources_okD [OF store_okD(12) [OF ok]]
  consider "at_Type q = ''platform''" | "at_Type q = ''team''" | "at_Type q = ''project''" | "at_Type q = ''environment''"
    | "at_Type q = ''namespace''" | "at_Type q = ''application''" | "at_Type q = ''secret-binding''" | "at_Type q = ''deployment''"
    using r by (auto simp: resolve_resource_def Let_def split: if_splits)
  then show ?thesis
  proof cases
    case 1
    then show ?thesis using r by (auto simp: resolve_resource_def Let_def platform_target_def coherent_def)
  next
    case 2
    then show ?thesis using r
      by (auto simp: resolve_resource_def Let_def coherent_def typed_target_def map_of_None_keys simp del: not_None_eq)
  next
    case 3
    with r obtain p where p: "map_of (st_projects s) (at_ID q) = Some p" "t = project_target p"
      by (auto simp: resolve_resource_def Let_def the_project_def get_or_def)
    with project_coherent [OF ok p(1)] show ?thesis by (auto simp: coherent_def project_target_def)
  next
    case 4
    with r obtain e where e: "map_of (st_environments s) (at_ID q) = Some e"
        "t = environment_target ''environment'' (envt_ID e) (the_project s (envt_ProjectID e)) e"
      by (auto simp: resolve_resource_def the_environment_def get_or_def Let_def)
    then show ?thesis using environment_target_coherent [OF ok e(1) refl, of "[]"] by (metis environment_target_app)
  next
    case 5
    with r obtain k e where f: "find (\<lambda>(_, environment). envt_Namespace environment = at_ID q) (st_environments s) = Some (k, e)"
        and t: "t = environment_target ''namespace'' (envt_Namespace e) (the_project s (envt_ProjectID e)) e"
      by (auto simp: resolve_resource_def Let_def split: option.splits)
    from filter_eq_find_Some [OF f] have "map_of (st_environments s) k = Some e" using res(2) by (auto simp: wf_map_mem_iff)
    then show ?thesis using environment_target_coherent [OF ok _ refl, of k e "[]"] t by (metis environment_target_app)
  next
    case 6
    with r obtain a where a: "map_of (st_applications s) (at_ID q) = Some a"
      and t: "at_TeamID t = prj_TeamID (the_project s (app_ProjectID a))" "at_ProjectID t = prj_ID (the_project s (app_ProjectID a))"
        "at_EnvironmentID t = []" "at_Namespace t = []" "at_ApplicationID t = app_ID a"
      by (auto simp: resolve_resource_def the_application_def get_or_def Let_def)
    from application_coherent [OF ok a] obtain p where id: "app_ID a = at_ID q" and p: "map_of (st_projects s) (app_ProjectID a) = Some p" by blast
    then have "the_project s (app_ProjectID a) = p" by (simp add: the_project_def get_or_def)
    with project_coherent [OF ok p] t p id a show ?thesis by (auto simp: coherent_def)
  next
    case 7
    with r obtain a e where a: "map_of (st_applications s) (at_ApplicationID q) = Some a" and e: "map_of (st_environments s) (at_EnvironmentID q) = Some e"
      and p: "prj_ID (the_project s (app_ProjectID a)) \<noteq> []" "envt_ProjectID e = prj_ID (the_project s (app_ProjectID a))"
      and t: "t = (environment_target ''secret-binding'' (at_ID q) (the_project s (app_ProjectID a)) e)\<lparr>at_ApplicationID := app_ID a\<rparr>"
      by (auto simp: resolve_resource_def resolve_secret_binding_def the_application_def the_environment_def get_or_def Let_def)
    have same: "envt_ProjectID e = app_ProjectID a" using the_project_some(2) [OF ok p(1)] p(2) by simp
    show ?thesis unfolding t
      by (rule environment_target_coherent [OF ok e]) (use same a application_coherent(1) [OF ok a] in auto)
  next
    case 8
    with r obtain d where d: "map_of (st_deployments s) (at_ID q) = Some d"
      and t: "t = (environment_target ''deployment'' (dep_ID d) (the_project s (envt_ProjectID (the_environment s (dep_EnvironmentID d))))
         (the_environment s (dep_EnvironmentID d)))\<lparr>at_ApplicationID := dep_ApplicationID d\<rparr>"
      by (auto simp: resolve_resource_def resolve_deployment_def Let_def split: option.splits)
    from res(13) [OF map_of_SomeD [OF d]] obtain e a where ea: "map_of (st_environments s) (dep_EnvironmentID d) = Some e"
      "map_of (st_applications s) (dep_ApplicationID d) = Some a" "envt_ProjectID e = app_ProjectID a" by blast
    then have "the_environment s (dep_EnvironmentID d) = e" by (simp add: the_environment_def get_or_def)
    with t ea show ?thesis using environment_target_coherent [OF ok ea(1) refl, of "dep_ApplicationID d"] by auto
  qed
qed

lemma resolve_coherent:
  assumes "store_ok used s" and "resolveTargetLocked s q = (t, True)"
  shows "coherent s t"
  using assms resolve_resource_coherent [OF assms(1)]
  by (auto simp: resolveTargetLocked_def split: if_splits option.splits)

section \<open>Managers\<close>

lemma manager_shape:
  assumes ok: "store_ok used s" and b: "b \<in> set (bindingsLocked s actor)" and m: "bindingHas b PermissionGrantsManage"
  shows "bnd_Role b = RoleProjectAdmin \<and> bnd_ScopeType b = ScopeProject \<or> bnd_Role b = RoleOrganizationAdmin \<and> bnd_ScopeType b = ScopeTeam \<or>
     bnd_Role b = RolePlatformAdmin \<and> bnd_ScopeType b = ScopePlatform"
proof -
  from b consider (grant) k g where "(k, g) \<in> set (st_accessGrants s)" "b = grant_binding g" | (member) team x where "b = member_binding team x"
    unfolding in_bindings by blast
  then show ?thesis
  proof cases
    case grant
    with store_okD(13) [OF ok] have "role_fits g" by (auto simp: grant_ok_def)
    with m grant(2) show ?thesis
      using manager_roles [of "gr_Role g"]
      by (auto simp: bindingHas_def grant_binding_def role_fits_def ValidExtraPermissions_iff simp del: rolePermissions.simps)
  next
    case member
    with m show ?thesis using manager_roles [of "bnd_Role b"]
      by (auto simp: bindingHas_def member_binding_def simp del: rolePermissions.simps split: if_splits)
  qed
qed

lemma scope_target_fields:
  assumes ok: "store_ok used s" and p: "map_of (st_projects s) i = Some project"
    and scope: "scopeTargetForProjectLocked s project scope sid = (target, True)"
    and t: "coherent s t" and sid: "sid \<noteq> []" "sid = scope_id_of scope t"
  shows "at_TeamID target = at_TeamID t \<and> (at_ProjectID target = at_ProjectID t \<or> at_ProjectID target = [])"
proof -
  note res = resources_okD [OF store_okD(12) [OF ok]] and pid = project_coherent [OF ok p]
  have coh: "\<exists>q. map_of (st_projects s) (at_ProjectID t) = Some q \<and> at_TeamID t = prj_TeamID q" if "at_ProjectID t = prj_ID project"
    using that t pid(1,3) by (auto simp: coherent_def)
  show ?thesis
  proof (cases scope)
    case ScopeTeam
    with scope sid show ?thesis
      by (auto simp: scopeTargetForProjectLocked_def resolveTargetLocked_def resolve_resource_def Let_def typed_target_def split: if_splits)
  next
    case ScopeProject
    with scope sid have "target = project_target (the_project s (prj_ID project))" "at_ProjectID t = prj_ID project"
      by (auto simp: scopeTargetForProjectLocked_def resolveTargetLocked_def resolve_resource_def Let_def typed_target_def split: if_splits)
    with coh p pid(1) show ?thesis by (auto simp: project_target_def the_project_def get_or_def)
  next
    case ScopeEnvironment
    with sid t obtain e where e: "map_of (st_environments s) sid = Some e" "at_ProjectID t = envt_ProjectID e"
      by (auto simp: coherent_def)
    with scope ScopeEnvironment have "target = environment_target ''environment'' (envt_ID e) (the_project s (envt_ProjectID e)) e"
        "at_ProjectID target = prj_ID project"
      by (auto simp: scopeTargetForProjectLocked_def resolveTargetLocked_def resolve_resource_def Let_def typed_target_def the_environment_def get_or_def)
    with e the_project_some [OF ok, of "envt_ProjectID e"] pid(1,3) coh p show ?thesis
      by (auto simp: environment_target_def)
  next
    case ScopeNamespace
    with sid t obtain e where e: "map_of (st_environments s) (at_EnvironmentID t) = Some e" "at_ProjectID t = envt_ProjectID e"
        "envt_Namespace e = sid"
      by (auto simp: coherent_def)
    from scope ScopeNamespace obtain k x where f: "find (\<lambda>(_, environment). envt_Namespace environment = sid) (st_environments s) = Some (k, x)"
        "target = environment_target ''namespace'' (envt_Namespace x) (the_project s (envt_ProjectID x)) x" "at_ProjectID target = prj_ID project"
      using pid(1,3)
      by (auto simp: scopeTargetForProjectLocked_def resolveTargetLocked_def resolve_resource_def Let_def typed_target_def split: option.splits)
    from filter_eq_find_Some [OF f(1)] have "(k, x) \<in> set (st_environments s)" "envt_Namespace x = sid" by auto
    with res(9) e map_of_SomeD [OF e(1)] have "x = e" by (auto simp: inj_on_def)
    with e f(2,3) the_project_some [OF ok, of "envt_ProjectID e"] pid(1,3) coh p show ?thesis
      by (auto simp: environment_target_def)
  next
    case ScopeApplication
    with sid t obtain a where a: "map_of (st_applications s) sid = Some a" "at_ProjectID t = app_ProjectID a"
      by (auto simp: coherent_def)
    with scope ScopeApplication have "at_TeamID target = prj_TeamID (the_project s (app_ProjectID a))"
        "at_ProjectID target = prj_ID (the_project s (app_ProjectID a))" "at_ProjectID target = prj_ID project"
      by (auto simp: scopeTargetForProjectLocked_def resolveTargetLocked_def resolve_resource_def Let_def typed_target_def the_application_def get_or_def)
    with a the_project_some [OF ok, of "app_ProjectID a"] pid(1,3) coh p show ?thesis by auto
  qed (use sid in simp_all)
qed

text \<open>A manager of a scope has the permissions of what it hands out everywhere in that scope.\<close>

lemma managed_grant:
  assumes ok: "store_ok used s" and m: "CanManageGrant (bindingsLocked s actor) target role" and role: "ValidRole role"
    and extra: "ValidExtraPermissions extra"
    and t: "at_TeamID target = at_TeamID t" "at_ProjectID target = at_ProjectID t \<or> at_ProjectID target = []"
    and p: "p \<in> set (rolePermissions role) \<or> p \<in> set extra"
  shows "HasPermission (bindingsLocked s actor) t p"
proof -
  from m obtain b where b: "b \<in> set (bindingsLocked s actor)" "BindingMatches b target" "bindingHas b PermissionGrantsManage"
    "RoleRank role \<le> RoleRank (bnd_Role b)" unfolding CanManageGrant_iff by blast
  have "BindingMatches b t"
    using manager_shape [OF ok b(1,3)] b(2) t by (auto simp: BindingMatches_def)
  moreover have "PermissionLogsRead \<in> set (rolePermissions (bnd_Role b))"
    using manager_shape [OF ok b(1,3)] by auto
  then have "bindingHas b p"
    using p extra rank_permissions [OF b(4) role] by (auto simp: bindingHas_def ValidExtraPermissions_iff simp del: rolePermissions.simps)
  ultimately show ?thesis using b(1) unfolding HasPermission_iff by blast
qed

section \<open>Bindings after a step\<close>

lemma bindings_mono:
  assumes "wf_map (st_memberships s)" "wf_map (st_memberships s')" and "set (st_accessGrants s') \<subseteq> set (st_accessGrants s)"
    and "\<And>team m. member_of s' team u = Some m \<Longrightarrow> member_of s team u = Some m"
  shows "set (bindingsLocked s' u) \<subseteq> set (bindingsLocked s u)"
proof
  fix b assume "b \<in> set (bindingsLocked s' u)"
  then consider (grant) k g where "(k, g) \<in> set (st_accessGrants s')" "grant_applies s' u g" "b = grant_binding g"
    | (member) team m where "member_of s' team u = Some m" "b = member_binding team m"
    unfolding in_bindings_wf [OF assms(2)] by blast
  then show "b \<in> set (bindingsLocked s u)"
  proof cases
    case grant
    then have "grant_applies s u g" using assms(4) by (auto simp: grant_applies_def)
    with grant assms(3) show ?thesis unfolding in_bindings_wf [OF assms(1)] by blast
  next
    case member
    with assms(4) show ?thesis unfolding in_bindings_wf [OF assms(1)] by blast
  qed
qed

lemma memberships_wf: "store_ok used s \<Longrightarrow> wf_map (st_memberships s)"
  using store_okD(11) by (auto simp: teams_ok_def)

lemma DeleteUser_bindings:
  assumes "DeleteUser tc now actor v ce key fp s = (r, s')" and "store_ok used s" "store_ok used' s'"
  shows "set (bindingsLocked s' u) \<subseteq> set (bindingsLocked s u)"
  using DeleteUser_effect [OF assms(1)]
proof (elim disjE exE conjE)
  fix x k assume s': "s' = audited (remember k fp ''user'' v (erase_user tc now actor v x s))"
  have mem: "st_memberships s' = map (\<lambda>(teamID, members). (teamID, AList.delete v members)) (st_memberships s)"
    by (simp add: s' erase_user_def drop_sessions_def)
  have "map_of (st_memberships s') team = map_option (AList.delete v) (map_of (st_memberships s) team)" for team
    unfolding mem by (simp add: map_of_map)
  then show ?thesis
    by (intro bindings_mono memberships_wf [OF assms(2)] memberships_wf [OF assms(3)])
      (auto simp: member_of_def get_or_def s' erase_user_def drop_sessions_def split: option.splits if_splits)
qed simp

lemma DeleteTeam_bindings:
  assumes "DeleteTeam now actor t cn key fp s = (r, s')" and "store_ok used s" "store_ok used' s'"
  shows "set (bindingsLocked s' u) \<subseteq> set (bindingsLocked s u)"
  using DeleteTeam_effect [OF assms(1)]
  by (elim disjE exE conjE; intro bindings_mono memberships_wf [OF assms(2)] memberships_wf [OF assms(3)])
    (auto simp: member_of_def get_or_def erase_team_def split: option.splits if_splits)

lemma RemoveTeamMember_bindings:
  assumes "RemoveTeamMember now actor t v s = (r, s')" and "store_ok used s" "store_ok used' s'"
  shows "set (bindingsLocked s' u) \<subseteq> set (bindingsLocked s u)"
  using RemoveTeamMember_effect [OF assms(1)]
  by (elim disjE exE conjE; intro bindings_mono memberships_wf [OF assms(2)] memberships_wf [OF assms(3)])
    (auto simp: member_of_def get_or_def split: option.splits if_splits)

lemma erasure_bindings:
  assumes "set (st_accessGrants s') \<subseteq> set (st_accessGrants s)" and "st_memberships s' = st_memberships s" and "store_ok used s"
  shows "set (bindingsLocked s' u) \<subseteq> set (bindingsLocked s u)"
  using assms memberships_wf [OF assms(3)] by (intro bindings_mono) (simp_all add: member_of_def)

lemma core_bindings: "same_core s s' \<Longrightarrow> bindingsLocked s' u = bindingsLocked s u"
  by (rule bindings_same) (simp_all add: same_core_def)

section \<open>No escalation\<close>

text \<open>
  What a user commands: the own bindings, and the grants of the teams the user manages,
  since a manager decides who is a member of the team.
\<close>

definition authority :: "access_store \<Rightarrow> string \<Rightarrow> access_binding list" where
  "authority s actor =
     bindingsLocked s actor @ map (\<lambda>(_, g). grant_binding g) (filter (\<lambda>(_, g).
       gr_SubjectTeamID g \<noteq> [] \<and> canManageTeamLocked s actor (gr_SubjectTeamID g)) (st_accessGrants s))"

lemma in_authority:
  "b \<in> set (authority s actor) \<longleftrightarrow> b \<in> set (bindingsLocked s actor) \<or>
     (\<exists>k g. (k, g) \<in> set (st_accessGrants s) \<and> gr_SubjectTeamID g \<noteq> [] \<and> canManageTeamLocked s actor (gr_SubjectTeamID g) \<and> b = grant_binding g)"
  by (auto simp: authority_def)

lemma HasPermission_mono: "set bs \<subseteq> set bs' \<Longrightarrow> HasPermission bs t p \<Longrightarrow> HasPermission bs' t p"
  unfolding HasPermission_iff by blast

text \<open>One obligation per step: every new binding that matches an old target is commanded by the actor.\<close>

definition bounded :: "access_store \<Rightarrow> string \<Rightarrow> access_store \<Rightarrow> bool" where
  "bounded s actor s' \<longleftrightarrow> (\<forall>u t p. coherent s t \<longrightarrow> HasPermission (bindingsLocked s' u) t p \<longrightarrow>
     HasPermission (bindingsLocked s u) t p \<or> HasPermission (authority s actor) t p)"

lemma bounded_sub: "(\<And>u. set (bindingsLocked s' u) \<subseteq> set (bindingsLocked s u)) \<Longrightarrow> bounded s actor s'"
  unfolding bounded_def using HasPermission_mono by blast

lemma boundedI:
  assumes "\<And>u b. b \<in> set (bindingsLocked s' u) \<Longrightarrow> b \<in> set (bindingsLocked s u) \<or>
      (\<forall>t p. coherent s t \<longrightarrow> BindingMatches b t \<longrightarrow> bindingHas b p \<longrightarrow> HasPermission (authority s actor) t p)"
  shows "bounded s actor s'"
  unfolding bounded_def using assms by (meson HasPermission_iff)

lemma authority_own: "HasPermission (bindingsLocked s actor) t p \<Longrightarrow> HasPermission (authority s actor) t p"
  by (rule HasPermission_mono) (auto simp: authority_def)

lemma CreateTeam_bounded:
  assumes "CreateTeam now newID actor key fp n sl s = (r, s')" and ok: "store_ok used s" "store_ok used' s'" and fresh: "newID \<notin> used"
  shows "bounded s actor s'"
  using CreateTeam_effect [OF assms(1)]
proof (elim disjE exE conjE)
  fix k t assume s': "s' = audited (remember k fp ''team'' newID (s\<lparr>st_teams := AList.update newID t (st_teams s),
       st_memberships := AList.update newID [(actor, team_owner now newID actor)] (st_memberships s)\<rparr>))"
  have other: "member_of s' team u = member_of s team u" if "team \<noteq> newID" for team u
    using that by (simp add: member_of_def s')
  show ?thesis
  proof (rule boundedI)
    fix u b assume "b \<in> set (bindingsLocked s' u)"
    then consider (grant) i g where "(i, g) \<in> set (st_accessGrants s)" "grant_applies s' u g" "b = grant_binding g"
      | (member) team m where "member_of s' team u = Some m" "b = member_binding team m"
      unfolding in_bindings_wf [OF memberships_wf [OF ok(2)]] by (auto simp: s')
    then show "b \<in> set (bindingsLocked s u) \<or>
      (\<forall>t p. coherent s t \<longrightarrow> BindingMatches b t \<longrightarrow> bindingHas b p \<longrightarrow> HasPermission (authority s actor) t p)"
    proof cases
      case grant
      with store_okD(13) [OF ok(1)] fresh have "gr_SubjectTeamID g \<noteq> newID" by (auto simp: grant_ok_def)
      with grant other have "grant_applies s u g" by (auto simp: grant_applies_def)
      with grant show ?thesis unfolding in_bindings_wf [OF memberships_wf [OF ok(1)]] by blast
    next
      case (member team m)
      show ?thesis
      proof (cases "team = newID")
        case True
        then have "\<not> BindingMatches b t" if "coherent s t" for t
          using that member fresh store_okD(3) [OF ok(1)] by (auto simp: BindingMatches_def member_binding_def coherent_def)
        then show ?thesis by blast
      next
        case False
        with member other show ?thesis
          unfolding in_bindings_wf [OF memberships_wf [OF ok(1)]] by auto
      qed
    qed
  qed
qed (simp add: bounded_sub)

lemma team_manager:
  assumes ok: "store_ok used s" and m: "canManageTeamLocked s actor team"
  shows "CanManageGrant (bindingsLocked s actor) (team_target team) RoleOrganizationAdmin"
proof -
  from m obtain b where b: "b \<in> set (bindingsLocked s actor)" "BindingMatches b (team_target team)" "bindingHas b PermissionGrantsManage"
    unfolding canManageTeamLocked_def HasPermission_iff by blast
  then have "RoleRank RoleOrganizationAdmin \<le> RoleRank (bnd_Role b)"
    using manager_shape [OF ok b(1,3)] by (auto simp: BindingMatches_def team_target_def typed_target_def)
  with b show ?thesis unfolding CanManageGrant_iff by blast
qed

lemma CanManageGrant_lower:
  "CanManageGrant bs t role \<Longrightarrow> RoleRank role' \<le> RoleRank role \<Longrightarrow> CanManageGrant bs t role'"
  unfolding CanManageGrant_iff by force

lemma member_commanded:
  assumes ok: "store_ok used s" and m: "canManageTeamLocked s actor team"
    and b: "BindingMatches (member_binding team x) t" "bindingHas (member_binding team x) p"
  shows "HasPermission (authority s actor) t p"
proof (rule authority_own [OF managed_grant [OF ok CanManageGrant_lower [OF team_manager [OF ok m]]]])
  let ?role = "bnd_Role (member_binding team x)"
  show "RoleRank ?role \<le> RoleRank RoleOrganizationAdmin" "ValidRole ?role" "ValidExtraPermissions []"
    by (simp_all add: member_binding_def ValidExtraPermissions_iff)
  show "p \<in> set (rolePermissions ?role) \<or> p \<in> set []" using b(2) by (simp add: bindingHas_def member_binding_def)
  show "at_TeamID (team_target team) = at_TeamID t" using b(1) by (auto simp: BindingMatches_def member_binding_def team_target_def)
qed (simp add: team_target_def typed_target_def)

lemma AddTeamMember_bounded:
  assumes "AddTeamMember now actor t key fp v ro s = (r, s')" and ok: "store_ok used s" "store_ok used' s'"
  shows "bounded s actor s'"
proof (cases "s' = s")
  case False
  with AddTeamMember_effect [OF assms(1)] obtain k s1 where m: "canManageTeamLocked s actor t"
    and s1: "s1 = audited (remember k fp ''team-member'' v (put_member t v (joined_member now t v ro (member_of s t v)) s))"
    and s': "s' = s1 \<or> s' = bumpGrantsLocked now [v] s1" by blast
  have same: "st_accessGrants s' = st_accessGrants s"
    "member_of s' team u = (if team = t \<and> u = v then Some (joined_member now t v ro (member_of s t v)) else member_of s team u)" for team u
    using s' by (auto simp: s1 put_member_def member_of_def)
  show ?thesis
  proof (rule boundedI)
    fix u b assume "b \<in> set (bindingsLocked s' u)"
    then consider (grant) i g where "(i, g) \<in> set (st_accessGrants s)" "grant_applies s' u g" "b = grant_binding g"
      | (member) team x where "member_of s' team u = Some x" "b = member_binding team x"
      unfolding in_bindings_wf [OF memberships_wf [OF ok(2)]] same(1) by blast
    then show "b \<in> set (bindingsLocked s u) \<or>
      (\<forall>t p. coherent s t \<longrightarrow> BindingMatches b t \<longrightarrow> bindingHas b p \<longrightarrow> HasPermission (authority s actor) t p)"
    proof cases
      case grant
      show ?thesis
      proof (cases "grant_applies s u g")
        case True
        with grant show ?thesis unfolding in_bindings_wf [OF memberships_wf [OF ok(1)]] by blast
      next
        case False
        with grant(2) same(2) have "gr_SubjectTeamID g = t" "gr_SubjectTeamID g \<noteq> []" by (auto simp: grant_applies_def split: if_splits)
        with grant m have "b \<in> set (authority s actor)" unfolding in_authority by blast
        then show ?thesis unfolding HasPermission_iff by blast
      qed
    next
      case member
      show ?thesis
      proof (cases "team = t \<and> u = v")
        case True
        with member member_commanded [OF ok(1) m] show ?thesis by blast
      next
        case False
        with member same(2) [of team u] show ?thesis
          unfolding in_bindings_wf [OF memberships_wf [OF ok(1)]] by auto
      qed
    qed
  qed
qed (simp add: bounded_sub)

lemma new_binding_bounded:
  assumes ok: "store_ok used s" and "st_memberships s' = st_memberships s" and "st_accessGrants s' = AList.update i g (st_accessGrants s)"
    and "\<And>t p. coherent s t \<Longrightarrow> BindingMatches (grant_binding g) t \<Longrightarrow> bindingHas (grant_binding g) p \<Longrightarrow>
      HasPermission (bindingsLocked s actor) t p"
  shows "bounded s actor s'"
proof (rule boundedI)
  fix u b assume "b \<in> set (bindingsLocked s' u)"
  moreover have "grant_applies s' u x = grant_applies s u x" for x
    by (simp add: grant_applies_def member_of_def assms(2))
  ultimately have "b \<in> set (bindingsLocked s u) \<or> b = grant_binding g"
    unfolding in_bindings assms(2,3) by (blast dest: set_update_sub)
  then show "b \<in> set (bindingsLocked s u) \<or>
      (\<forall>t p. coherent s t \<longrightarrow> BindingMatches b t \<longrightarrow> bindingHas b p \<longrightarrow> HasPermission (authority s actor) t p)"
    using assms(4) authority_own by blast
qed

lemma CreateGrant_bounded:
  assumes "CreateProjectAccessGrant now newID actor key fp i s = (r, s')" and ok: "store_ok used s"
  shows "bounded s actor s'"
  using CreateGrant_effect [OF assms(1)]
proof (elim disjE exE conjE)
  let ?g = "new_grant now newID actor i"
  fix project target k assume p: "map_of (st_projects s) (cag_ProjectID i) = Some project" "grant_request_ok i"
    "scopeTargetForProjectLocked s project (cag_ScopeType i) (cag_ScopeID i) = (target, True)"
    "CanManageGrant (bindingsLocked s actor) target (cag_Role i)"
    and s': "s' = bumpGrantSubjectsLocked now ?g (audited (remember k fp ''access-grant'' newID
       (s\<lparr>st_accessGrants := AList.update newID ?g (st_accessGrants s)\<rparr>)))"
  show ?thesis
  proof (rule new_binding_bounded [OF ok, of _ newID ?g])
    fix t p' assume t: "coherent s t" "BindingMatches (grant_binding ?g) t" "bindingHas (grant_binding ?g) p'"
    have sid: "cag_ScopeID i \<noteq> []" "cag_ScopeID i = scope_id_of (cag_ScopeType i) t"
      using t(2) p(2) by (auto simp: BindingMatches_def grant_binding_def new_grant_def grant_request_ok_def split: if_splits)
    from scope_target_fields [OF ok p(1,3) t(1) sid]
    show "HasPermission (bindingsLocked s actor) t p'"
      by (intro managed_grant [OF ok p(4), where extra = "cag_Permissions i"])
        (use p(2) t(3) in \<open>auto simp: grant_request_ok_def bindingHas_def grant_binding_def new_grant_def\<close>)
  qed (simp_all add: s')
qed (simp add: bounded_sub)

lemma CreateAccount_bounded:
  assumes "CreateServiceAccount tc now accountID grantID actor key fp p n ro s = (r, s')" and ok: "store_ok used s"
  shows "bounded s actor s'"
  using CreateAccount_effect [OF assms(1)]
proof (elim disjE exE conjE)
  fix project :: project and k
  let ?g = "account_grant now accountID grantID actor project ro"
  assume p: "map_of (st_projects s) p = Some project" "automation_ValidRole ro" "CanManageGrant (bindingsLocked s actor) (project_target project) ro"
    and s': "s' = audited (remember k fp ''service-account'' accountID
       (s\<lparr>st_users := AList.update accountID (account_user now accountID n) (st_users s),
          st_serviceAccounts := AList.update accountID (new_account now accountID actor project n ro) (st_serviceAccounts s),
          st_accessGrants := AList.update grantID ?g (st_accessGrants s)\<rparr>))"
  show ?thesis
  proof (rule new_binding_bounded [OF ok, of _ grantID ?g])
    fix t p' assume t: "coherent s t" "BindingMatches (grant_binding ?g) t" "bindingHas (grant_binding ?g) p'"
    have "at_ProjectID t = prj_ID project" "prj_ID project \<noteq> []"
      using t(2) by (auto simp: BindingMatches_def grant_binding_def account_grant_def)
    then have "at_TeamID (project_target project) = at_TeamID t" "at_ProjectID (project_target project) = at_ProjectID t"
      using t(1) p(1) project_coherent(1) [OF ok p(1)] by (auto simp: coherent_def project_target_def)
    then show "HasPermission (bindingsLocked s actor) t p'"
      by (intro managed_grant [OF ok p(3), where extra = "[]"])
        (use p(2) t(3) in \<open>auto simp: automation_ValidRole_def bindingHas_def grant_binding_def account_grant_def ValidExtraPermissions_iff\<close>)
  qed (simp_all add: s')
qed (simp add: bounded_sub)

lemma core_bounded: "same_core s s' \<Longrightarrow> bounded s actor s'"
  by (rule bounded_sub, rule eq_refl, rule arg_cong [OF core_bindings])

lemma quiet_bounded:
  "same_core s s' \<and> st_users s' = st_users s \<and> st_serviceAccounts s' = st_serviceAccounts s \<Longrightarrow> bounded s actor s'"
  by (simp add: core_bounded)

lemma grants_bounded:
  assumes "store_ok used s" and "set (st_accessGrants s') \<subseteq> set (st_accessGrants s)" and "st_memberships s' = st_memberships s"
  shows "bounded s actor s'"
  by (rule bounded_sub [OF erasure_bindings [OF assms(2,3,1)]])

lemma access_step_bounded:
  assumes "access_step actor (used, s) (used', s')" and ok: "store_ok used s" "store_ok used' s'" and "st_users s \<noteq> []"
  shows "bounded s actor s'"
  using assms(1)
proof (cases rule: access_step.cases)
  case bootstrap
  then show ?thesis using Bootstrap_effect [OF bootstrap(2)] assms(4) by (auto intro: bounded_sub)
next
  case login
  show ?thesis by (rule quiet_bounded [OF Login_effect [OF login(2)]])
next
  case logout
  show ?thesis by (rule quiet_bounded [OF RevokeSession_effect [OF logout(2)]])
next
  case invite
  show ?thesis by (rule quiet_bounded [OF Invite_effect [OF invite(2)]])
next
  case accept
  then show ?thesis using Accept_effect [OF accept(2)] by (auto intro: core_bounded)
next
  case delete_user
  show ?thesis by (rule bounded_sub [OF DeleteUser_bindings [OF delete_user(2) ok]])
next
  case create_team
  show ?thesis by (rule CreateTeam_bounded [OF create_team(2) ok create_team(3)])
next
  case delete_team
  show ?thesis by (rule bounded_sub [OF DeleteTeam_bindings [OF delete_team(2) ok]])
next
  case add_member
  show ?thesis by (rule AddTeamMember_bounded [OF add_member(2) ok])
next
  case remove_member
  show ?thesis by (rule bounded_sub [OF RemoveTeamMember_bindings [OF remove_member(2) ok]])
next
  case (create_installation now newID key fp i r)
  then show ?thesis using CreateInstallation_effect [of s now newID actor key fp i] by (auto intro: quiet_bounded)
next
  case (link_installation tc now newID key fp i r)
  then show ?thesis using LinkInstallation_effect [of s tc now newID actor key fp i] by (auto intro: quiet_bounded)
next
  case share_installation
  then show ?thesis using ShareInstallation_cases [OF share_installation(2)] by (auto intro!: grants_bounded [OF ok(1)])
next
  case create_grant
  show ?thesis by (rule CreateGrant_bounded [OF create_grant(2) ok(1)])
next
  case delete_grant
  then show ?thesis using DeleteGrant_effect [OF delete_grant(2)] by (auto intro!: grants_bounded [OF ok(1)] simp: set_delete)
next
  case create_project
  then show ?thesis using CreateProject_effect [OF create_project(2)] by (auto intro!: grants_bounded [OF ok(1)])
next
  case delete_project
  then show ?thesis using DeleteProject_effect [OF delete_project(2)]
    by (auto intro!: grants_bounded [OF ok(1)] simp: erase_project_def Let_def)
next
  case create_environment
  then show ?thesis using CreateEnvironment_effect [OF create_environment(2)] by (auto intro!: grants_bounded [OF ok(1)])
next
  case delete_environment
  then show ?thesis using DeleteEnvironment_effect [OF delete_environment(2)]
    by (auto intro!: grants_bounded [OF ok(1)] simp: erase_environment_def)
next
  case create_application
  then show ?thesis using CreateApplication_effect [OF create_application(2)] by (auto intro!: grants_bounded [OF ok(1)] split: if_splits)
next
  case delete_application
  then show ?thesis using DeleteApplication_effect [OF delete_application(2)]
    by (auto intro!: grants_bounded [OF ok(1)] simp: erase_application_def Let_def)
next
  case create_account
  show ?thesis by (rule CreateAccount_bounded [OF create_account(2) ok(1)])
next
  case create_token
  show ?thesis by (rule quiet_bounded [OF CreateToken_effect [OF create_token(2)]])
next
  case revoke_token
  show ?thesis by (rule quiet_bounded [OF RevokeToken_effect [OF revoke_token(2)]])
next
  case disable_account
  then show ?thesis using Disable_effect [OF disable_account(2)] by (auto intro: core_bounded)
next
  case use_token
  show ?thesis by (rule quiet_bounded [OF UseToken_effect [OF use_token(2)]])
next
  case audit
  show ?thesis by (rule quiet_bounded [OF Audit_effect [OF audit(2)]])
qed

text \<open>
  C3.  No step escalates privileges.  Once the installation is bootstrapped, whatever
  operation a user carries out, any permission on an existing resource that anybody holds
  afterwards was either held by that person before, or is commanded by the acting user:
  through an own binding, or through a grant of a team the acting user manages.
\<close>

theorem no_escalation:
  assumes "reachable access_move access_start (used, s)" and "st_users s \<noteq> []"
    and "access_step actor (used, s) (used', s')" and "resolveTargetLocked s q = (t, True)"
    and "HasPermission (bindingsLocked s' u) t p"
  shows "HasPermission (bindingsLocked s u) t p \<or> HasPermission (authority s actor) t p"
proof -
  note ok = reachable_ok [OF assms(1)]
  have ok': "store_ok used' s'" using access_step_ok [OF assms(3)] ok by simp
  have "bounded s actor s'" by (rule access_step_bounded [OF assms(3) ok ok' assms(2)])
  with assms(5) resolve_coherent [OF ok assms(4)] show ?thesis unfolding bounded_def by blast
qed

end
