(* ===== verification/Access_Demo.thy ===== *)
theory Access_Demo
  imports Access_Escalation "HOL-Library.Code_Target_Nat"
begin

text \<open>
  A small installation, built by the operations themselves: an administrator invites two
  users, one of them founds a team with a project, an environment and an application, and
  shares the project.  The properties of the access store are applied to it.
\<close>

definition demo_case :: text_case where
  "demo_case = \<lparr>tc_ToLower = map ascii_lower, tc_EqualFold = (\<lambda>a b. map ascii_lower a = map ascii_lower b)\<rparr>"

definition demo_admin :: user where
  "demo_admin = \<lparr>usr_ID = ''u0'', usr_Email = ''a@x'', usr_DisplayName = ''A'', usr_Role = ''platform-admin'', usr_Issuer = ''local'',
     usr_Subject = ''u0'', usr_GrantRevision = 1, usr_CreatedAt = 1\<rparr>"

definition demo_hash :: "char \<Rightarrow> string" where "demo_hash c = replicate 32 c"

definition demo1 :: access_store where
  "demo1 = snd (BootstrapAdmin demo_case ''g0'' demo_admin ''pw'' (demo_hash CHR ''a'') 100 new_store)"

definition demo2 :: access_store where
  "demo2 = snd (CreateUserInvitation demo_case 2 ''i1'' ''u0'' ''b@x'' (demo_hash CHR ''b'') 50 demo1)"

definition demo3 :: access_store where
  "demo3 = snd (AcceptUserInvitation demo_case 3 ''u1'' (demo_hash CHR ''b'') ''B'' ''pw'' (demo_hash CHR ''c'') [] 100 demo2)"

definition demo4 :: access_store where
  "demo4 = snd (CreateUserInvitation demo_case 4 ''i2'' ''u0'' ''c@x'' (demo_hash CHR ''d'') 50 demo3)"

definition demo5 :: access_store where
  "demo5 = snd (AcceptUserInvitation demo_case 5 ''u2'' (demo_hash CHR ''d'') ''C'' ''pw'' (demo_hash CHR ''e'') [] 100 demo4)"

definition demo6 :: access_store where
  "demo6 = snd (CreateTeam 6 ''t1'' ''u1'' ''k'' ''f'' ''Team'' ''team'' demo5)"

definition demo7 :: access_store where
  "demo7 = snd (CreateProject 7 ''p1'' ''u1'' ''k'' ''f'' ''Shop'' ''shop'' ''t1'' demo6)"

definition demo8 :: access_store where
  "demo8 = snd (CreateEnvironment (\<lambda>x. x) 8 ''e1'' ''u1'' ''k'' ''f'' ''p1'' ''Prod'' ''prod'' [] demo7)"

definition demo9 :: access_store where
  "demo9 = snd (CreateApplication 9 ''a1'' ''d1'' ''o1'' ''u1'' ''k'' ''f'' ''p1'' ''e1'' ''Web'' ''web'' ''github'' demo8)"

definition demo_share :: create_access_grant where
  "demo_share = \<lparr>cag_ProjectID = ''p1'', cag_SubjectUserID = ''u2'', cag_SubjectTeamID = [], cag_Role = RoleViewer,
     cag_ScopeType = ScopeProject, cag_ScopeID = ''p1'', cag_Permissions = []\<rparr>"

definition demo10 :: access_store where
  "demo10 = snd (CreateProjectAccessGrant 10 ''g1'' ''u1'' ''k'' ''f'' demo_share demo9)"

section \<open>The run\<close>

lemma move_by: "reachable access_move access_start x \<Longrightarrow> access_step actor x y \<Longrightarrow> reachable access_move access_start y"
  by (rule reachable.move) (auto simp: access_move_def)

lemma demo5_reachable: "reachable access_move access_start ({''u2'', ''i2'', ''u1'', ''i1'', ''g0'', ''u0'', []}, demo5)"
proof -
  have "access_step ''u0'' ({[]}, new_store) (insert ''g0'' (insert (usr_ID demo_admin) {[]}), demo1)"
    unfolding demo1_def by (rule access_step.bootstrap [OF surjective_pairing]) (simp_all add: demo_admin_def)
  then have "reachable access_move access_start ({''g0'', ''u0'', []}, demo1)"
    by (intro move_by [OF reachable.start, of "''u0''"]) (simp add: access_start_def demo_admin_def)
  then have "reachable access_move access_start ({''i1'', ''g0'', ''u0'', []}, demo2)"
    unfolding demo2_def by (rule move_by) (rule access_step.invite [OF surjective_pairing], simp)
  then have "reachable access_move access_start ({''u1'', ''i1'', ''g0'', ''u0'', []}, demo3)"
    unfolding demo3_def by (rule move_by) (rule access_step.accept [OF surjective_pairing], simp)
  then have "reachable access_move access_start ({''i2'', ''u1'', ''i1'', ''g0'', ''u0'', []}, demo4)"
    unfolding demo4_def by (rule move_by) (rule access_step.invite [OF surjective_pairing], simp)
  then show ?thesis
    unfolding demo5_def by (rule move_by) (rule access_step.accept [OF surjective_pairing], simp)
qed

definition demo_used :: "string set" where
  "demo_used = {''a1'', ''d1'', ''o1'', ''e1'', ''p1'', ''t1'', ''u2'', ''i2'', ''u1'', ''i1'', ''g0'', ''u0'', []}"

lemma demo9_reachable: "reachable access_move access_start (demo_used, demo9)"
proof -
  have "reachable access_move access_start ({''t1'', ''u2'', ''i2'', ''u1'', ''i1'', ''g0'', ''u0'', []}, demo6)"
    unfolding demo6_def by (rule move_by [OF demo5_reachable]) (rule access_step.create_team [OF surjective_pairing], simp)
  then have "reachable access_move access_start ({''p1'', ''t1'', ''u2'', ''i2'', ''u1'', ''i1'', ''g0'', ''u0'', []}, demo7)"
    unfolding demo7_def by (rule move_by) (rule access_step.create_project [OF surjective_pairing], simp)
  then have "reachable access_move access_start ({''e1'', ''p1'', ''t1'', ''u2'', ''i2'', ''u1'', ''i1'', ''g0'', ''u0'', []}, demo8)"
    unfolding demo8_def by (rule move_by) (rule access_step.create_environment [OF surjective_pairing], simp)
  then show ?thesis
    unfolding demo9_def demo_used_def
    by (rule move_by) (rule access_step.create_application [OF surjective_pairing], simp_all)
qed

lemma demo10_step: "access_step ''u1'' (demo_used, demo9) (insert ''g1'' demo_used, demo10)"
  unfolding demo10_def by (rule access_step.create_grant [OF surjective_pairing]) (simp add: demo_used_def)

section \<open>The properties on it\<close>

theorem reachable_integrity_witness:
  "\<exists>e a. map_of (st_environments demo9) ''e1'' = Some e \<and> map_of (st_applications demo9) ''a1'' = Some a \<and> envt_ProjectID e = app_ProjectID a"
proof -
  have "\<exists>d \<in> snd ` set (st_deployments demo9). dep_EnvironmentID d = ''e1'' \<and> dep_ApplicationID d = ''a1''" by code_simp
  then show ?thesis using reachable_integrity [OF demo9_reachable] by metis
qed

theorem teams_keep_owner_witness:
  "map_of (st_teams demo9) ''t1'' \<noteq> None \<and> ownerCountLocked demo9 ''t1'' \<ge> 1"
proof -
  have "map_of (st_teams demo9) ''t1'' \<noteq> None" by code_simp
  with teams_keep_owner [OF demo9_reachable this] show ?thesis by blast
qed

theorem no_escalation_witness:
  "\<not> HasPermission (bindingsLocked demo9 ''u2'') (fst (resolveTargetLocked demo9 (typed_target ''deployment'' ''d1''))) PermissionResourcesRead \<and>
   HasPermission (authority demo9 ''u1'') (fst (resolveTargetLocked demo9 (typed_target ''deployment'' ''d1''))) PermissionResourcesRead"
proof -
  let ?q = "typed_target ''deployment'' ''d1''"
  have "st_users demo9 \<noteq> []" by code_simp
  moreover have "snd (resolveTargetLocked demo9 ?q)" by code_simp
  then have "resolveTargetLocked demo9 ?q = (fst (resolveTargetLocked demo9 ?q), True)" by (metis prod.collapse)
  moreover have "HasPermission (bindingsLocked demo10 ''u2'') (fst (resolveTargetLocked demo9 ?q)) PermissionResourcesRead" by code_simp
  moreover have "\<not> HasPermission (bindingsLocked demo9 ''u2'') (fst (resolveTargetLocked demo9 ?q)) PermissionResourcesRead" by code_simp
  ultimately show ?thesis using no_escalation [OF demo9_reachable _ demo10_step] by blast
qed

end
