(* ===== verification/Access_Answers.thy ===== *)
theory Access_Answers
  imports Access_Escalation
begin

text \<open>
  What the access store answers: the errors of the authorization against the reads, the
  lists against the single reads, what a revocation ends, and the replay of a request.
\<close>

section \<open>Errors\<close>

lemma typed_target_fields [simp]:
  "at_Type (typed_target typ i) = typ" "at_ID (typed_target typ i) = i"
  by (simp_all add: typed_target_def)

lemma resolve_typed:
  assumes "typ \<in> {''environment'', ''application'', ''deployment''}" and "resolveTargetLocked s (typed_target typ i) = (t, True)"
  shows "at_Type t = typ"
  using assms by (auto simp: resolveTargetLocked_def resolve_resource_def resolve_deployment_def environment_target_def Let_def split: option.splits)

lemma authorize_read:
  assumes "typ \<in> {''environment'', ''application'', ''deployment''}" and "Authorize actor p (typed_target typ i) s = Inl e"
  shows "(e = ErrForbidden \<longleftrightarrow> readable s actor typ i) \<and> (e = ErrNotFound \<longleftrightarrow> \<not> readable s actor typ i)"
proof -
  obtain t ok where t: "resolveTargetLocked s (typed_target typ i) = (t, ok)" by fastforce
  show ?thesis
  proof (cases ok)
    case True
    with t resolve_typed [OF assms(1)] have "at_Type t = typ" by simp
    with True t assms show ?thesis
      by (auto simp: Authorize_def authorizeLocked_def readable_def Let_def split: if_splits)
  qed (use t assms in \<open>auto simp: Authorize_def authorizeLocked_def readable_def\<close>)
qed

lemma readable_exists:
  "readable s actor ''environment'' i \<Longrightarrow> map_of (st_environments s) i \<noteq> None"
  "readable s actor ''application'' i \<Longrightarrow> map_of (st_applications s) i \<noteq> None"
  "readable s actor ''deployment'' i \<Longrightarrow> map_of (st_deployments s) i \<noteq> None"
  by (auto simp: readable_def resolveTargetLocked_def resolve_resource_def resolve_deployment_def Let_def split: option.splits)

lemma authorize_project:
  assumes "store_ok used s" and "Authorize actor p (typed_target ''project'' i) s = Inl e"
  shows "(e = ErrForbidden \<longleftrightarrow> (\<exists>x. GetProjectForActor actor i s = Inr x)) \<and> (e = ErrNotFound \<longleftrightarrow> GetProjectForActor actor i s = Inl ErrNotFound)"
proof (cases "map_of (st_projects s) i")
  case None
  then show ?thesis using assms(2)
    by (auto simp: Authorize_def authorizeLocked_def GetProjectForActor_def resolveTargetLocked_def resolve_resource_def Let_def)
next
  case (Some x)
  note x = project_coherent [OF assms(1) Some]
  have t: "resolveTargetLocked s (typed_target ''project'' i) = (project_target x, True)"
    using Some by (simp add: resolveTargetLocked_def resolve_resource_def Let_def the_project_def get_or_def)
  have "the_project s (at_ProjectID (project_target x)) = x"
    using Some x by (simp add: project_target_def the_project_def get_or_def)
  moreover have "canAccessProjectLocked s actor x" if "HasPermission (bindingsLocked s actor) (project_target x) PermissionResourcesRead"
    using that x by (simp add: canAccessProjectLocked_def Let_def)
  ultimately show ?thesis
    using assms(2) t Some
    by (auto simp: Authorize_def authorizeLocked_def GetProjectForActor_def Let_def project_target_def [THEN arg_cong [where f = at_Type]]
        split: if_splits)
qed

text \<open>
  C13.  The error of a denied authorization discloses nothing: \<open>forbidden\<close> is answered exactly
  for the resources the actor may read, and a resource the actor may not read is answered
  like one that does not exist.
\<close>

theorem errors_hide_existence:
  assumes "reachable access_move access_start (used, s)"
  shows "(Authorize actor p (typed_target ''project'' i) s = Inl e \<longrightarrow>
      (if GetProjectForActor actor i s = Inl ErrNotFound then e = ErrNotFound else e = ErrForbidden)) \<and>
    (Authorize actor p (typed_target ''environment'' i) s = Inl e \<longrightarrow>
      (if GetEnvironmentForActor actor i s = Inl ErrNotFound then e = ErrNotFound else e = ErrForbidden)) \<and>
    (Authorize actor p (typed_target ''application'' i) s = Inl e \<longrightarrow>
      (if GetApplicationForActor actor i s = Inl ErrNotFound then e = ErrNotFound else e = ErrForbidden)) \<and>
    (Authorize actor p (typed_target ''deployment'' i) s = Inl e \<longrightarrow>
      (if GetDeploymentForActor actor i s = Inl ErrNotFound then e = ErrNotFound else e = ErrForbidden))"
proof (intro conjI impI)
  note ok = reachable_ok [OF assms]
  { assume "Authorize actor p (typed_target ''project'' i) s = Inl e"
    from authorize_project [OF ok this]
    show "if GetProjectForActor actor i s = Inl ErrNotFound then e = ErrNotFound else e = ErrForbidden"
      by (auto simp: GetProjectForActor_def split: option.splits if_splits) }
  { assume "Authorize actor p (typed_target ''environment'' i) s = Inl e"
    from authorize_read [OF _ this] readable_exists(1) [of s actor i]
    show "if GetEnvironmentForActor actor i s = Inl ErrNotFound then e = ErrNotFound else e = ErrForbidden"
      by (auto simp: GetEnvironmentForActor_def split: option.splits if_splits) }
  { assume "Authorize actor p (typed_target ''application'' i) s = Inl e"
    from authorize_read [OF _ this] readable_exists(2) [of s actor i]
    show "if GetApplicationForActor actor i s = Inl ErrNotFound then e = ErrNotFound else e = ErrForbidden"
      by (auto simp: GetApplicationForActor_def split: option.splits if_splits) }
  assume d: "Authorize actor p (typed_target ''deployment'' i) s = Inl e"
  have "canAccessDeploymentLocked s actor x = readable s actor ''deployment'' i" if "map_of (st_deployments s) i = Some x" for x
    using resources_okD(12) [OF store_okD(12) [OF ok] map_of_SomeD [OF that]] by (simp add: canAccessDeploymentLocked_def)
  with authorize_read [OF _ d] readable_exists(3) [of s actor i]
  show "if GetDeploymentForActor actor i s = Inl ErrNotFound then e = ErrNotFound else e = ErrForbidden"
    by (auto simp: GetDeploymentForActor_def split: option.splits if_splits)
qed

section \<open>Lists and single reads\<close>

lemma snd_mem_iff:
  assumes "wf_map m" and "\<And>k v. (k, v) \<in> set m \<Longrightarrow> f v = k"
  shows "x \<in> snd ` set m \<longleftrightarrow> map_of m (f x) = Some x"
proof
  assume "x \<in> snd ` set m"
  then obtain k where "(k, x) \<in> set m" by auto
  with assms show "map_of m (f x) = Some x" by (auto simp: wf_map_mem_iff)
qed (force dest: map_of_SomeD)

text \<open>
  C34.  A list shows exactly the resources the single read returns: projects, environments,
  applications and deployments.
\<close>

theorem list_get_agree:
  assumes "reachable access_move access_start (used, s)"
  shows "(p \<in> set (ListProjectsForActor actor s) \<longleftrightarrow> GetProjectForActor actor (prj_ID p) s = Inr p) \<and>
    (e \<in> set (ListEnvironmentsForActor actor s) \<longleftrightarrow> GetEnvironmentForActor actor (envt_ID e) s = Inr e) \<and>
    (a \<in> set (ListApplicationsForActor actor s) \<longleftrightarrow> GetApplicationForActor actor (app_ID a) s = Inr a) \<and>
    (d \<in> set (ListDeploymentsForActor actor s) \<longleftrightarrow> GetDeploymentForActor actor (dep_ID d) s = Inr d)"
proof -
  note res = resources_okD [OF store_okD(12) [OF reachable_ok [OF assms]]]
  show ?thesis
    using snd_mem_iff [where f = prj_ID, OF res(1,5), of p] snd_mem_iff [where f = envt_ID, OF res(2,7), of e] snd_mem_iff [where f = app_ID, OF res(3,10), of a] snd_mem_iff [where f = dep_ID, OF res(4,12), of d]
    by (auto simp: ListProjectsForActor_def GetProjectForActor_def ListEnvironmentsForActor_def GetEnvironmentForActor_def
        ListApplicationsForActor_def GetApplicationForActor_def ListDeploymentsForActor_def GetDeploymentForActor_def
        split: option.splits if_splits)
qed

section \<open>Revocation\<close>

text \<open>No session of the user is left, and every token of it is revoked.\<close>

definition locked_out :: "string \<Rightarrow> access_store \<Rightarrow> bool" where
  "locked_out u s \<longleftrightarrow> (\<forall>(_, session) \<in> set (st_sessions s). ses_userID session \<noteq> u) \<and>
     (\<forall>(_, token) \<in> set (st_serviceAccountTokens s). tok_ServiceAccountID token = u \<longrightarrow> tok_RevokedAt token \<noteq> None)"

lemma bump_user_locks:
  assumes "map_of (st_users s) u = Some x" and "usr_Role x \<noteq> ''platform-admin''"
  shows "locked_out u (bump_user now u s)"
  using assms by (auto simp: locked_out_def bump_user_def drop_sessions_def revoke_tokens_def)

lemma locked_out_session:
  assumes "locked_out u s" and "UserBySession hash now s = Inr y"
  shows "\<exists>v. v \<noteq> u \<and> map_of (st_users s) v = Some y"
  using assms by (auto simp: locked_out_def UserBySession_def split: option.splits if_splits dest!: map_of_SomeD [of "st_sessions s"])

lemma locked_out_token:
  assumes "locked_out u s" and "ServiceAccountByToken hash now s = (Inr pr, s')" and "store_ok used s"
  shows "ap_ServiceAccountID pr \<noteq> u"
proof -
  from assms(2) obtain i token account where t: "map_of (st_serviceAccountTokens s) i = Some token" "tok_RevokedAt token = None"
    and a: "map_of (st_serviceAccounts s) (tok_ServiceAccountID token) = Some account" "ap_ServiceAccountID pr = sa_ID account"
    by (auto simp: ServiceAccountByToken_def Let_def split: option.splits if_splits)
  from store_okD(10) [OF assms(3) map_of_SomeD [OF a(1)]] have "ap_ServiceAccountID pr = tok_ServiceAccountID token"
    by (simp add: a(2))
  with assms(1) t map_of_SomeD [OF t(1)] show ?thesis by (auto simp: locked_out_def)
qed

lemma revoked_locked_out:
  assumes "map_of (st_users s) u = Some x" "usr_Role x \<noteq> ''platform-admin''"
    and "RemoveTeamMember now actor team u s = (Inr (), s') \<and> member_of s team u \<noteq> None \<or>
      DeleteProjectAccessGrant now actor p g key fp s = (Inr False, s') \<and>
        (\<exists>grant. map_of (st_accessGrants s) g = Some grant \<and> gr_SubjectUserID grant = u \<and> u \<noteq> [])"
  shows "locked_out u s'"
  using assms(3)
proof (elim disjE conjE exE)
  assume "RemoveTeamMember now actor team u s = (Inr (), s')" "member_of s team u \<noteq> None"
  then have "s' = bump_user now u (audited
       (s\<lparr>st_memberships := AList.update team (AList.delete u (get_or [] (st_memberships s) team)) (st_memberships s)\<rparr>))"
    by (auto simp: RemoveTeamMember_def bumpGrantsLocked_def split: option.splits if_splits)
  then show ?thesis using assms(1,2) bump_user_locks by (simp add: bump_user_locks)
next
  fix grant assume d: "DeleteProjectAccessGrant now actor p g key fp s = (Inr False, s')"
    and grant: "map_of (st_accessGrants s) g = Some grant" "gr_SubjectUserID grant = u" "u \<noteq> []"
  then obtain s1 where "s' = bumpGrantSubjectsLocked now grant s1" "st_users s1 = st_users s"
    by (auto simp: DeleteProjectAccessGrant_def Let_def split: option.splits sum.splits prod.splits if_splits)
  with grant have "s' = bump_user now u s1" "map_of (st_users s1) u = Some x"
    using assms(1) by (simp_all add: bumpGrantSubjectsLocked_def bumpGrantsLocked_def)
  then show ?thesis using assms(2) bump_user_locks by blast
qed


section \<open>Replay\<close>

lemma CreateTeam_answer:
  assumes "CreateTeam now newID actor key fp n sl s = (Inr (Some team, replayed), s')"
  shows "map_of (st_users s') actor \<noteq> None \<and> (\<exists>old. map_of (st_idempotency s') (ik actor ''teams.create'' key) = Some old \<and>
     idem_fingerprint old = fp \<and> map_of (st_teams s') (idem_resourceID old) = Some team)"
  using assms
  by (auto simp: CreateTeam_def check_replay_def remember_def audited_def Let_def split: option.splits if_splits)

text \<open>
  C36.  A creation can be retried: the same request with the same key answers with the team
  that was created and changes nothing, and another request with that key is refused.
\<close>

theorem create_team_retry:
  assumes "CreateTeam now newID actor key fp n sl s = (Inr (Some team, replayed), s')"
  shows "CreateTeam now' newID' actor key fp n sl s' = (Inr (Some team, True), s') \<and>
    (fp' \<noteq> fp \<longrightarrow> CreateTeam now' newID' actor key fp' n' sl' s' = (Inl ErrIdempotencyConflict, s'))"
  using CreateTeam_answer [OF assms] by (auto simp: CreateTeam_def check_replay_def Let_def)

end
