(* ===== verification/Access_Lifecycle.thy ===== *)
theory Access_Lifecycle
  imports Access_Escalation
begin

text \<open>
  The administrator over whole runs of the access store: once the installation is
  bootstrapped it always has exactly one platform administrator.
\<close>

section \<open>The administrator\<close>

definition platform_grant :: "access_grant \<Rightarrow> bool" where
  "platform_grant g \<longleftrightarrow> gr_ScopeType g = ScopePlatform"

definition administered :: "string \<Rightarrow> access_store \<Rightarrow> bool" where
  "administered a s \<longleftrightarrow>
     (\<exists>x. map_of (st_users s) a = Some x \<and> usr_Issuer x \<noteq> ''kuberploy:deleted'') \<and> a \<notin> keys (st_serviceAccounts s) \<and> wf_map (st_accessGrants s) \<and>
     (\<exists>k g. (k, g) \<in> set (st_accessGrants s) \<and> platform_grant g) \<and>
     (\<forall>(k, g) \<in> set (st_accessGrants s). platform_grant g \<longrightarrow>
        gr_SubjectUserID g = a \<and> gr_ScopeID g = ''platform'' \<and> gr_Source g = ''bootstrap'')"

definition admin_ok :: "access_store \<Rightarrow> bool" where
  "admin_ok s \<longleftrightarrow> s = new_store \<or> (\<exists>a. administered a s)"

lemma platform_binding:
  assumes ok: "store_ok used s" and b: "b \<in> set (bindingsLocked s u)" and "BindingMatches b platform_target"
  shows "\<exists>k g. (k, g) \<in> set (st_accessGrants s) \<and> platform_grant g \<and> gr_SubjectUserID g = u"
proof -
  from assms(3) have scope: "bnd_ScopeType b = ScopePlatform"
    by (cases "bnd_ScopeType b") (auto simp: BindingMatches_def platform_target_def no_target_def)
  from b consider (grant) k g where "(k, g) \<in> set (st_accessGrants s)" "grant_applies s u g" "b = grant_binding g"
    | (member) team x where "b = member_binding team x"
    unfolding in_bindings by blast
  then show ?thesis
  proof cases
    case grant
    then have "platform_grant g" using scope by (simp add: platform_grant_def grant_binding_def)
    moreover from this store_okD(13) [OF ok grant(1)] have "gr_SubjectTeamID g = []" by (auto simp: grant_ok_def platform_grant_def)
    ultimately show ?thesis using grant by (auto simp: grant_applies_def)
  qed (use scope in \<open>simp add: member_binding_def\<close>)
qed

lemma administered_iff:
  assumes ok: "store_ok used s" and a: "administered a s"
  shows "isAdminLocked s u \<longleftrightarrow> u = a"
proof
  assume "isAdminLocked s u"
  then obtain b where "b \<in> set (bindingsLocked s u)" "BindingMatches b platform_target"
    by (auto simp: isAdminLocked_def HasPermission_iff split: option.splits if_splits)
  from platform_binding [OF ok this] a show "u = a" by (auto simp: administered_def)
next
  assume u: "u = a"
  from a obtain x k g where x: "map_of (st_users s) a = Some x" "usr_Issuer x \<noteq> ''kuberploy:deleted''"
    and g: "(k, g) \<in> set (st_accessGrants s)" "platform_grant g" by (auto simp: administered_def)
  from a g have sub: "gr_SubjectUserID g = a" "gr_ScopeID g = ''platform''" by (auto simp: administered_def)
  from store_okD(13) [OF ok g(1)] g(2) have role: "gr_Role g = RolePlatformAdmin" by (auto simp: grant_ok_def role_fits_def platform_grant_def)
  have "grant_binding g \<in> set (bindingsLocked s a)" using g sub by (auto simp: in_bindings grant_applies_def)
  moreover have "BindingMatches (grant_binding g) platform_target" "bindingHas (grant_binding g) PermissionPlatformAdmin"
    using g(2) sub role by (simp_all add: BindingMatches_def bindingHas_def grant_binding_def platform_grant_def)
  ultimately have "HasPermission (bindingsLocked s a) platform_target PermissionPlatformAdmin" unfolding HasPermission_iff by blast
  with x u show "isAdminLocked s u" by (simp add: isAdminLocked_def)
qed

text \<open>On the empty store every operation but the bootstrap does nothing.\<close>

lemma new_store_fields [simp]:
  "st_users new_store = []" "st_invitations new_store = []" "st_teams new_store = []" "st_memberships new_store = []"
  "st_installations new_store = []" "st_accessGrants new_store = []" "st_serviceAccounts new_store = []"
  "st_serviceAccountTokens new_store = []" "st_serviceAccountTokenHashes new_store = []" "st_passwordCredentials new_store = []"
  "st_sessions new_store = []" "st_projects new_store = []" "st_environments new_store = []" "st_applications new_store = []"
  "st_deployments new_store = []" "st_idempotency new_store = []"
  by (simp_all add: new_store_def)

lemma new_store_unauthorized: "authorizeLocked new_store actor p t = Inl ErrNotFound \<or> authorizeLocked new_store actor p t = Inl ErrForbidden"
proof -
  have "bindingsLocked new_store actor = []" by (simp add: bindingsLocked_def)
  then show ?thesis by (auto simp: authorizeLocked_def Let_def split: prod.splits)
qed

lemma new_store_step:
  assumes "access_step actor (used, new_store) (used', s')"
  shows "s' = new_store \<or> (\<exists>tc newID u ph h e r. BootstrapAdmin tc newID u ph h e new_store = (r, s') \<and> usr_Issuer u \<noteq> ''kuberploy:deleted'')"
  using assms
proof (cases rule: access_step.cases)
  case (create_project now newID key fp n sl t r)
  then show ?thesis
    using new_store_unauthorized [of actor PermissionResourcesWrite "if t \<noteq> [] then typed_target ''team'' t else platform_target"]
    by (auto simp: CreateProject_def check_replay_def Let_def)
next
  case (audit d act r)
  then show ?thesis using new_store_unauthorized [of actor PermissionLogsRead "typed_target ''deployment'' d"]
    by (auto simp: AuditRuntimeAccess_def split: if_splits)
next
  case (logout h r)
  then show ?thesis by (simp add: RevokeSession_def new_store_def)
qed (blast | simp add: CreateLoginSession_def CreateUserInvitation_def AcceptUserInvitation_def DeleteUser_def CreateTeam_def
    DeleteTeam_def AddTeamMember_def RemoveTeamMember_def CreateGitHubInstallation_def LinkVerifiedGitHubInstallation_def
    UpdateGitHubInstallationSharing_def CreateProjectAccessGrant_def DeleteProjectAccessGrant_def DeleteProject_def
    CreateEnvironment_def DeleteEnvironment_def CreateApplication_def DeleteApplication_def CreateServiceAccount_def
    CreateServiceAccountToken_def RevokeServiceAccountToken_def DisableServiceAccount_def ServiceAccountByToken_def
    manageableServiceAccountLocked_def isAdminLocked_def check_replay_def Let_def split: if_splits)+

lemma bootstrap_administered:
  assumes "BootstrapAdmin tc newID u ph h e new_store = (r, s')" and "usr_Issuer u \<noteq> ''kuberploy:deleted''"
  shows "admin_ok s'"
  using assms by (auto simp: BootstrapAdmin_def admin_ok_def administered_def platform_grant_def put_session_def wf_map_def Let_def split: if_splits)

lemma administered_frame:
  assumes "administered a s" and "map_option usr_Issuer (map_of (st_users s') a) = map_option usr_Issuer (map_of (st_users s) a)"
    and "a \<notin> keys (st_serviceAccounts s) \<Longrightarrow> a \<notin> keys (st_serviceAccounts s')"
    and "wf_map (st_accessGrants s) \<Longrightarrow> wf_map (st_accessGrants s')"
    and "\<And>k g. platform_grant g \<Longrightarrow> (k, g) \<in> set (st_accessGrants s') \<longleftrightarrow> (k, g) \<in> set (st_accessGrants s)"
  shows "administered a s'"
proof -
  from assms(1) obtain x k g where x: "map_of (st_users s) a = Some x" "usr_Issuer x \<noteq> ''kuberploy:deleted''"
    and g: "(k, g) \<in> set (st_accessGrants s)" "platform_grant g" "a \<notin> keys (st_serviceAccounts s)" by (auto simp: administered_def)
  from assms(2) x obtain y where "map_of (st_users s') a = Some y" "usr_Issuer y \<noteq> ''kuberploy:deleted''" by auto
  moreover have "\<exists>k g. (k, g) \<in> set (st_accessGrants s') \<and> platform_grant g" using g assms(5) by blast
  moreover have "gr_SubjectUserID h = a \<and> gr_ScopeID h = ''platform'' \<and> gr_Source h = ''bootstrap''"
    if "(i, h) \<in> set (st_accessGrants s')" "platform_grant h" for i h
    using that assms(1,5) by (auto simp: administered_def)
  ultimately show ?thesis using assms(1,3,4) g(3) by (auto simp: administered_def)
qed

lemma administered_core:
  assumes "administered a s" and "same_core s s'" and "st_users s' = st_users s" and "keys (st_serviceAccounts s') = keys (st_serviceAccounts s)"
  shows "administered a s'"
  using assms(2-4) by (intro administered_frame [OF assms(1)]) (auto simp: same_core_def)

lemma update_mem_other: "(k, v) \<in> set (AList.update i w m) \<and> v \<noteq> w \<Longrightarrow> (k, v) \<in> set m"
  by (auto dest!: set_update_sub)

lemma update_keeps: "(k, v) \<in> set m \<Longrightarrow> k \<noteq> i \<Longrightarrow> (k, v) \<in> set (AList.update i w m)"
  by (induction m) auto

lemma fresh_grant_platform:
  assumes "\<not> platform_grant w" and "i \<notin> keys m" and "platform_grant g"
  shows "(k, g) \<in> set (AList.update i w m) \<longleftrightarrow> (k, g) \<in> set m"
  using assms update_keeps [of k g m i w] by (auto dest!: set_update_sub dest: mem_keys)

lemma administered_delete_user:
  assumes ok: "store_ok used s" and a: "administered a s" and "DeleteUser tc now actor u ce key fp s = (r, s')"
  shows "administered a s'"
  using DeleteUser_effect [OF assms(3)]
proof (elim disjE exE conjE)
  fix x k assume u: "isAdminLocked s actor" "actor \<noteq> u"
    and s': "s' = audited (remember k fp ''user'' u (erase_user tc now actor u x s))"
  from administered_iff [OF ok a] u have "u \<noteq> a" by auto
  with a show ?thesis
    by (intro administered_frame [OF a]) (auto simp: s' erase_user_def drop_sessions_def administered_def)
qed (use a in simp)

lemma administered_delete_team:
  assumes ok: "store_ok used s" and a: "administered a s" and "DeleteTeam now actor t cn key fp s = (r, s')"
  shows "administered a s'"
proof (cases "map_of (st_teams s) t")
  case None
  then show ?thesis using assms by (auto simp: DeleteTeam_def Let_def split: sum.splits option.splits)
next
  case (Some x)
  with store_okD(3) [OF ok] map_of_in_keys [OF Some] have t: "t \<noteq> []" by auto
  have "gr_SubjectTeamID g \<noteq> t" if "(i, g) \<in> set (st_accessGrants s)" "platform_grant g" for i g
    using store_okD(13) [OF ok that(1)] that(2) t by (auto simp: grant_ok_def platform_grant_def)
  then show ?thesis using DeleteTeam_effect [OF assms(3)] a
    by (auto intro!: administered_frame [OF a] simp: erase_team_def platform_grant_def)
qed

lemma map_of_filter_keys: "k \<notin> X \<Longrightarrow> map_of (filter (\<lambda>(i, _). i \<notin> X) m) k = map_of m k"
  by (induction m) auto

lemma administered_delete_project:
  assumes a: "administered a s" and "DeleteProject actor p cn key fp s = (r, s')"
  shows "administered a s'"
  using DeleteProject_effect [OF assms(2)]
proof (elim disjE exE conjE)
  fix k assume s': "s' = audited (remember k fp ''project'' p (erase_project p s))"
  let ?gone = "fst ` {x \<in> set (st_serviceAccounts s). sa_ProjectID (snd x) = p}"
  have "a \<notin> ?gone" using a by (auto simp: administered_def dest: mem_keys)
  then have "map_of (filter (\<lambda>(userID, _). userID \<notin> ?gone) m) a = map_of m a" for m :: "(string, user) gomap"
    by (rule map_of_filter_keys)
  moreover have "st_users s' = filter (\<lambda>(userID, _). userID \<notin> ?gone) (st_users s)"
    by (auto simp: s' erase_project_def Let_def intro!: filter_cong)
  ultimately show ?thesis
    by (intro administered_frame [OF a]) (auto simp: s' erase_project_def Let_def platform_grant_def dest: subsetD [OF keys_filter])
qed (use a in simp)

lemma administered_create_account:
  assumes ok: "store_ok used s" and a: "administered a s"
    and "CreateServiceAccount tc now accountID grantID actor key fp p n ro s = (r, s')" "accountID \<notin> used" "grantID \<notin> used"
  shows "administered a s'"
  using CreateAccount_effect [OF assms(3)]
proof (elim disjE exE conjE)
  fix project :: project and k
  assume s': "s' = audited (remember k fp ''service-account'' accountID
       (s\<lparr>st_users := AList.update accountID (account_user now accountID n) (st_users s),
          st_serviceAccounts := AList.update accountID (new_account now accountID actor project n ro) (st_serviceAccounts s),
          st_accessGrants := AList.update grantID (account_grant now accountID grantID actor project ro) (st_accessGrants s)\<rparr>))"
  have "a \<in> keys (st_users s)" using a by (auto simp: administered_def dest: map_of_in_keys)
  with store_okD(2,9) [OF ok] assms(4,5) have "a \<noteq> accountID" "grantID \<notin> keys (st_accessGrants s)" by auto
  moreover have "\<not> platform_grant (account_grant now accountID grantID actor project ro)"
    by (simp add: platform_grant_def account_grant_def)
  ultimately show ?thesis
    by (intro administered_frame [OF a]) (simp_all add: s' fresh_grant_platform)
qed (use a in simp)

lemma administered_create_grant:
  assumes ok: "store_ok used s" and a: "administered a s" and "CreateProjectAccessGrant now newID actor key fp i s = (r, s')" "newID \<notin> used"
  shows "administered a s'"
  using CreateGrant_effect [OF assms(3)]
proof (elim disjE exE conjE)
  let ?g = "new_grant now newID actor i"
  fix project target k assume i: "grant_request_ok i"
    and s': "s' = bumpGrantSubjectsLocked now ?g (audited (remember k fp ''access-grant'' newID
       (s\<lparr>st_accessGrants := AList.update newID ?g (st_accessGrants s)\<rparr>)))"
  have "\<not> platform_grant ?g" using i by (auto simp: platform_grant_def new_grant_def grant_request_ok_def)
  moreover have "newID \<notin> keys (st_accessGrants s)" using store_okD(9) [OF ok] assms(4) by auto
  ultimately show ?thesis by (intro administered_frame [OF a]) (simp_all add: s' fresh_grant_platform)
qed (use a in simp)

lemma administered_delete_grant:
  assumes ok: "store_ok used s" and a: "administered a s" and "DeleteProjectAccessGrant now actor p i key fp s = (r, s')"
  shows "administered a s'"
  using DeleteGrant_effect [OF assms(3)]
proof (elim disjE exE conjE)
  fix x k assume x: "gr_Source x = ''explicit''" "map_of (st_accessGrants s) i = Some x"
    and s': "s' = bumpGrantSubjectsLocked now x (audited (remember k fp ''access-grant'' i (s\<lparr>st_accessGrants := AList.delete i (st_accessGrants s)\<rparr>)))"
  have "(j, g) \<in> set (AList.delete i (st_accessGrants s)) \<longleftrightarrow> (j, g) \<in> set (st_accessGrants s)" if "platform_grant g" for j g
    using a that x by (auto simp: set_delete administered_def wf_map_mem_iff)
  then show ?thesis by (intro administered_frame [OF a]) (simp_all add: s')
qed (use a in simp)

lemma administered_step:
  assumes "access_step actor (used, s) (used', s')" and ok: "store_ok used s" and a: "administered a s"
  shows "administered a s'"
  using assms(1)
proof (cases rule: access_step.cases)
  case bootstrap
  then show ?thesis using Bootstrap_effect [OF bootstrap(2)] a by (auto simp: administered_def)
next
  case login
  show ?thesis using Login_effect [OF login(2)] by (auto intro: administered_core [OF a])
next
  case logout
  show ?thesis using RevokeSession_effect [OF logout(2)] by (auto intro: administered_core [OF a])
next
  case invite
  show ?thesis using Invite_effect [OF invite(2)] by (auto intro: administered_core [OF a])
next
  case (accept tc now newID th dn ph sh psh e r)
  from a have "a \<in> keys (st_users s)" by (auto simp: administered_def dest: map_of_in_keys)
  with store_okD(2) [OF ok] accept(3) have "a \<noteq> newID" by auto
  then show ?thesis using Accept_effect [OF accept(2)] a
    by (auto intro!: administered_frame [OF a] simp: same_core_def)
next
  case delete_user
  show ?thesis by (rule administered_delete_user [OF ok a delete_user(2)])
next
  case create_team
  show ?thesis using CreateTeam_effect [OF create_team(2)] a by (auto intro!: administered_frame [OF a])
next
  case delete_team
  show ?thesis by (rule administered_delete_team [OF ok a delete_team(2)])
next
  case add_member
  show ?thesis using AddTeamMember_effect [OF add_member(2)] a by (auto intro!: administered_frame [OF a] simp: put_member_def)
next
  case remove_member
  show ?thesis using RemoveTeamMember_effect [OF remove_member(2)] a by (auto intro!: administered_frame [OF a])
next
  case (create_installation now newID key fp i r)
  then show ?thesis using CreateInstallation_effect [of s now newID actor key fp i] by (auto intro: administered_core [OF a])
next
  case (link_installation tc now newID key fp i r)
  then show ?thesis using LinkInstallation_effect [of s tc now newID actor key fp i] by (auto intro: administered_core [OF a])
next
  case share_installation
  show ?thesis using ShareInstallation_cases [OF share_installation(2)] a by (auto intro!: administered_frame [OF a])
next
  case create_grant
  show ?thesis by (rule administered_create_grant [OF ok a create_grant(2,3)])
next
  case delete_grant
  show ?thesis by (rule administered_delete_grant [OF ok a delete_grant(2)])
next
  case create_project
  show ?thesis using CreateProject_effect [OF create_project(2)] a by (auto intro!: administered_frame [OF a])
next
  case delete_project
  show ?thesis by (rule administered_delete_project [OF a delete_project(2)])
next
  case create_environment
  show ?thesis using CreateEnvironment_effect [OF create_environment(2)] a by (auto intro!: administered_frame [OF a])
next
  case delete_environment
  show ?thesis using DeleteEnvironment_effect [OF delete_environment(2)] a
    by (auto intro!: administered_frame [OF a] simp: erase_environment_def platform_grant_def)
next
  case create_application
  have "st_users s' = st_users s" "st_serviceAccounts s' = st_serviceAccounts s" "st_accessGrants s' = st_accessGrants s"
    using CreateApplication_effect [OF create_application(2)] by (elim disjE exE conjE; simp split: if_splits)+
  then show ?thesis by (auto intro!: administered_frame [OF a])
next
  case delete_application
  show ?thesis using DeleteApplication_effect [OF delete_application(2)] a
    by (auto intro!: administered_frame [OF a] simp: erase_application_def Let_def platform_grant_def)
next
  case create_account
  show ?thesis by (rule administered_create_account [OF ok a create_account(2-4)])
next
  case create_token
  show ?thesis using CreateToken_effect [OF create_token(2)] by (auto intro: administered_core [OF a])
next
  case revoke_token
  show ?thesis using RevokeToken_effect [OF revoke_token(2)] by (auto intro: administered_core [OF a])
next
  case (disable_account now i key fp r)
  have "keys (st_serviceAccounts s') = keys (st_serviceAccounts s)"
    using Disable_effect [OF disable_account(2)] store_okD(10) [OF ok]
    by (auto dest!: map_of_SomeD dest: mem_keys)
  then show ?thesis using Disable_effect [OF disable_account(2)] by (auto intro: administered_core [OF a])
next
  case use_token
  show ?thesis using UseToken_effect [OF use_token(2)] by (auto intro: administered_core [OF a])
next
  case audit
  show ?thesis using Audit_effect [OF audit(2)] by (auto intro: administered_core [OF a])
qed

lemma admin_ok_step:
  assumes "access_step actor x y" and "store_ok (fst x) (snd x) \<and> admin_ok (snd x)"
  shows "store_ok (fst y) (snd y) \<and> admin_ok (snd y)"
proof -
  obtain used s used' s' where xy: "x = (used, s)" "y = (used', s')" by (metis surj_pair)
  have "admin_ok s'"
  proof (cases "s = new_store")
    case True
    with new_store_step assms(1) xy bootstrap_administered show ?thesis by (metis admin_ok_def)
  next
    case False
    with assms xy administered_step show ?thesis by (fastforce simp: admin_ok_def)
  qed
  with access_step_ok [OF assms(1)] assms(2) xy show ?thesis by simp
qed

interpretation administration: invariant_system access_move access_start "\<lambda>x. store_ok (fst x) (snd x) \<and> admin_ok (snd x)"
  by unfold_locales (auto simp: access_start_def access_move_def new_store_ok admin_ok_def [of new_store] dest: admin_ok_step)

text \<open>
  C15.  From the bootstrap on the installation has exactly one platform administrator: no
  sequence of operations creates a second one, and none locks the installation by removing
  the last one.
\<close>

theorem one_administrator:
  assumes "reachable access_move access_start (used, s)" and "st_users s \<noteq> []"
  shows "\<exists>!a. isAdminLocked s a"
proof -
  from administration.reachable_inv [OF assms(1)] have ok: "store_ok used s" and "admin_ok s" by simp_all
  with assms(2) obtain a where "administered a s" by (auto simp: admin_ok_def)
  from administered_iff [OF ok this] show ?thesis by auto
qed

end
