(* ===== verification/Access_Tokens.thy ===== *)
theory Access_Tokens
  imports Access_Invariant
begin

text \<open>
  The life of a service-account token over the runs of the access store: its lifetime is
  bounded, and once revoked it never authenticates again.  Apart from its last use and its
  revocation a token never changes.
\<close>

section \<open>Evolution of the token table\<close>

definition token_follows :: "service_account_token \<Rightarrow> service_account_token \<Rightarrow> bool" where
  "token_follows t t' \<longleftrightarrow>
     tok_ID t' = tok_ID t \<and> tok_ServiceAccountID t' = tok_ServiceAccountID t \<and> tok_Scopes t' = tok_Scopes t \<and>
     tok_ExpiresAt t' = tok_ExpiresAt t \<and> tok_CreatedAt t' = tok_CreatedAt t \<and>
     (tok_RevokedAt t \<noteq> None \<longrightarrow> tok_RevokedAt t' = tok_RevokedAt t)"

definition tokens_follow :: "string set \<Rightarrow> access_store \<Rightarrow> access_store \<Rightarrow> bool" where
  "tokens_follow used s s' \<longleftrightarrow>
     (\<forall>i \<in> used. \<forall>t'. map_of (st_serviceAccountTokens s') i = Some t' \<longrightarrow>
        (\<exists>t. map_of (st_serviceAccountTokens s) i = Some t \<and> token_follows t t'))"

definition token_ok :: "string set \<Rightarrow> string \<Rightarrow> service_account_token \<Rightarrow> bool" where
  "token_ok used i t \<longleftrightarrow> i \<in> used \<and> tok_ID t = i \<and>
     tok_CreatedAt t + 5 * minute < tok_ExpiresAt t \<and> tok_ExpiresAt t \<le> tok_CreatedAt t + MaxTokenTTL"

definition tokens_ok :: "string set \<Rightarrow> access_store \<Rightarrow> bool" where
  "tokens_ok used s \<longleftrightarrow> (\<forall>i t. map_of (st_serviceAccountTokens s) i = Some t \<longrightarrow> token_ok used i t)"

lemma token_follows_refl: "token_follows t t"
  by (simp add: token_follows_def)

lemma token_follows_trans: "token_follows t u \<Longrightarrow> token_follows u v \<Longrightarrow> token_follows t v"
  by (auto simp: token_follows_def)

lemma tokens_follow_same: "st_serviceAccountTokens s' = st_serviceAccountTokens s \<Longrightarrow> tokens_follow used s s'"
  by (auto simp: tokens_follow_def token_follows_refl)

lemma tokens_follow_trans: "tokens_follow used s t \<Longrightarrow> used \<subseteq> used' \<Longrightarrow> tokens_follow used' t u \<Longrightarrow> tokens_follow used s u"
  unfolding tokens_follow_def by (meson subsetD token_follows_trans)

text \<open>A table whose entries all come from the old one, or are new and well-formed.\<close>

lemma tokens_okI:
  assumes "tokens_ok used s" and "used \<subseteq> used'"
    and "\<And>i t'. map_of (st_serviceAccountTokens s') i = Some t' \<Longrightarrow>
      token_ok used' i t' \<or> (\<exists>t. map_of (st_serviceAccountTokens s) i = Some t \<and> token_follows t t')"
  shows "tokens_ok used' s'"
proof -
  have "token_ok used' i t'" if "token_ok used i t" "token_follows t t'" for i t t'
    using that assms(2) by (auto simp: token_ok_def token_follows_def)
  with assms(1,3) show ?thesis unfolding tokens_ok_def by blast
qed

lemma revoke_tokens_follow: "tokens_follow used s (revoke_tokens now a s)"
proof -
  have "map_of (st_serviceAccountTokens (revoke_tokens now a s)) i = map_option (\<lambda>t. if tok_ServiceAccountID t = a \<and> tok_RevokedAt t = None
       then t\<lparr>tok_RevokedAt := Some now\<rparr> else t) (map_of (st_serviceAccountTokens s) i)" for i
    by (simp add: revoke_tokens_def map_of_map)
  then show ?thesis by (auto simp: tokens_follow_def token_follows_def)
qed

lemma bump_user_tokens:
  "st_serviceAccountTokens (bump_user now u s) = st_serviceAccountTokens s \<or>
   st_serviceAccountTokens (bump_user now u s) = st_serviceAccountTokens (revoke_tokens now u s)"
  by (auto simp: bump_user_def drop_sessions_def revoke_tokens_def split: option.splits)

lemma bump_user_follow: "tokens_follow used s (bump_user now u s)"
  using bump_user_tokens [of now u s]
proof
  assume same: "st_serviceAccountTokens (bump_user now u s) = st_serviceAccountTokens (revoke_tokens now u s)"
  show ?thesis using revoke_tokens_follow [of used s now u] unfolding tokens_follow_def same .
qed (rule tokens_follow_same)

lemma bumps_follow: "tokens_follow used s (bumpGrantsLocked now us s)"
  unfolding bumpGrantsLocked_def
  by (induction us arbitrary: s) (auto intro: tokens_follow_same tokens_follow_trans [OF bump_user_follow subset_refl])

lemma bump_subjects_follow: "tokens_follow used s (bumpGrantSubjectsLocked now g s)"
  by (simp add: bumpGrantSubjectsLocked_def bumps_follow)

section \<open>Every step\<close>

lemma follow_after:
  assumes "st_serviceAccountTokens s1 = st_serviceAccountTokens s" and "tokens_follow used s1 s'"
  shows "tokens_follow used s s'"
  using assms by (simp add: tokens_follow_def)

lemma quiet_tokens:
  "CreateLoginSession tc now u eh uh h e s = (r, s') \<Longrightarrow> st_serviceAccountTokens s' = st_serviceAccountTokens s"
  "RevokeSession h s = (r1, s') \<Longrightarrow> st_serviceAccountTokens s' = st_serviceAccountTokens s"
  "CreateUserInvitation tc now newID actor email h e s = (r2, s') \<Longrightarrow> st_serviceAccountTokens s' = st_serviceAccountTokens s"
  "AcceptUserInvitation tc now newID th dn ph sh psh e s = (r3, s') \<Longrightarrow> st_serviceAccountTokens s' = st_serviceAccountTokens s"
  "BootstrapAdmin tc newID admin ph h e s = (r4, s') \<Longrightarrow> st_serviceAccountTokens s' = st_serviceAccountTokens s"
  "AuditRuntimeAccess actor d act s = (r5, s') \<Longrightarrow> st_serviceAccountTokens s' = st_serviceAccountTokens s"
  by (auto simp: CreateLoginSession_def RevokeSession_def CreateUserInvitation_def AcceptUserInvitation_def BootstrapAdmin_def
      AuditRuntimeAccess_def Let_def split: option.splits sum.splits if_splits)

lemma installation_tokens:
  "st_serviceAccountTokens (snd (CreateGitHubInstallation now newID actor key fp i s)) = st_serviceAccountTokens s"
  "st_serviceAccountTokens (snd (LinkVerifiedGitHubInstallation tc now newID actor key fp i s)) = st_serviceAccountTokens s"
  by (simp_all add: CreateGitHubInstallation_def LinkVerifiedGitHubInstallation_def Let_def split: option.split sum.split prod.split)

lemma place_application_tokens [simp]:
  "st_serviceAccountTokens (place_application now d o' p e v s) = st_serviceAccountTokens s"
  by (simp add: place_application_def Let_def)

lemma resource_tokens:
  "CreateProject now newID actor key fp n sl t s = (r, s') \<Longrightarrow> st_serviceAccountTokens s' = st_serviceAccountTokens s"
  "CreateEnvironment sha now newID actor key fp p n sl po s = (r1, s') \<Longrightarrow> st_serviceAccountTokens s' = st_serviceAccountTokens s"
  "DeleteEnvironment actor e cn key fp s = (r2, s') \<Longrightarrow> st_serviceAccountTokens s' = st_serviceAccountTokens s"
  "DeleteApplication actor a cn key fp s = (r3, s') \<Longrightarrow> st_serviceAccountTokens s' = st_serviceAccountTokens s"
  "CreateServiceAccount tc now accountID grantID actor key fp p n ro s = (r4, s') \<Longrightarrow> st_serviceAccountTokens s' = st_serviceAccountTokens s"
  "CreateTeam now newID actor key fp n sl s = (r5, s') \<Longrightarrow> st_serviceAccountTokens s' = st_serviceAccountTokens s"
  "DeleteUser tc now actor u ce key fp s = (r6, s') \<Longrightarrow> st_serviceAccountTokens s' = st_serviceAccountTokens s"
  by (auto dest!: CreateProject_effect CreateEnvironment_effect DeleteEnvironment_effect DeleteApplication_effect CreateAccount_effect
      CreateTeam_effect DeleteUser_effect simp: erase_environment_def erase_application_def erase_user_def drop_sessions_def Let_def)

lemma CreateApplication_tokens:
  "CreateApplication now newID dID oID actor key fp p e n sl k s = (r, s') \<Longrightarrow> st_serviceAccountTokens s' = st_serviceAccountTokens s"
  by (drule CreateApplication_effect, elim disjE exE conjE) (simp_all split: if_splits)

lemma bumping_follow:
  "DeleteTeam now actor t cn key fp s = (r, s') \<Longrightarrow> tokens_follow used s s'"
  "AddTeamMember now actor t key fp u ro s = (r1, s') \<Longrightarrow> tokens_follow used s s'"
  "RemoveTeamMember now actor t u s = (r2, s') \<Longrightarrow> tokens_follow used s s'"
  "UpdateGitHubInstallationSharing now actor j key fp v t s = (r3, s') \<Longrightarrow> tokens_follow used s s'"
  "CreateProjectAccessGrant now newID actor key fp i s = (r4, s') \<Longrightarrow> tokens_follow used s s'"
  "DeleteProjectAccessGrant now actor p g key fp s = (r5, s') \<Longrightarrow> tokens_follow used s s'"
  by (auto dest!: DeleteTeam_effect AddTeamMember_effect RemoveTeamMember_effect ShareInstallation_cases CreateGrant_effect DeleteGrant_effect
      intro: follow_after [OF _ bumps_follow] follow_after [OF _ bump_subjects_follow] tokens_follow_same simp: erase_team_def put_member_def)

lemma CreateToken_tokens:
  assumes "CreateServiceAccountToken now newID actor key fp i s = (r, s')"
  shows "st_serviceAccountTokens s' = st_serviceAccountTokens s \<or>
    (\<exists>t. st_serviceAccountTokens s' = AList.update newID t (st_serviceAccountTokens s) \<and> tok_ID t = newID \<and>
       ValidExpiry (tok_CreatedAt t) (tok_ExpiresAt t))"
  using assms by (auto simp: CreateServiceAccountToken_def Let_def split: option.splits sum.splits if_splits)

definition revised :: "access_store \<Rightarrow> access_store \<Rightarrow> bool" where
  "revised s s' \<longleftrightarrow> (\<exists>i t t'. map_of (st_serviceAccountTokens s) i = Some t \<and> token_follows t t' \<and>
     st_serviceAccountTokens s' = AList.update (tok_ID t) t' (st_serviceAccountTokens s))"

lemma RevokeToken_tokens:
  assumes "RevokeServiceAccountToken now actor a i key fp s = (r, s')"
  shows "st_serviceAccountTokens s' = st_serviceAccountTokens s \<or> revised s s'"
proof -
  from assms have "st_serviceAccountTokens s' = st_serviceAccountTokens s \<or>
    (\<exists>t. map_of (st_serviceAccountTokens s) i = Some t \<and> tok_RevokedAt t = None \<and>
       st_serviceAccountTokens s' = AList.update (tok_ID t) (t\<lparr>tok_RevokedAt := Some now\<rparr>) (st_serviceAccountTokens s))"
    by (auto simp: RevokeServiceAccountToken_def Let_def split: option.splits sum.splits if_splits)
  then show ?thesis
  proof (elim disjE exE conjE)
    fix t assume t: "map_of (st_serviceAccountTokens s) i = Some t" "tok_RevokedAt t = None"
      "st_serviceAccountTokens s' = AList.update (tok_ID t) (t\<lparr>tok_RevokedAt := Some now\<rparr>) (st_serviceAccountTokens s)"
    then have "token_follows t (t\<lparr>tok_RevokedAt := Some now\<rparr>)" by (simp add: token_follows_def)
    with t show ?thesis unfolding revised_def by blast
  qed simp
qed

lemma UseToken_tokens:
  assumes "ServiceAccountByToken h now s = (r, s')"
  shows "st_serviceAccountTokens s' = st_serviceAccountTokens s \<or> revised s s'"
proof -
  from assms have "st_serviceAccountTokens s' = st_serviceAccountTokens s \<or>
    (\<exists>i t. map_of (st_serviceAccountTokens s) i = Some t \<and>
       st_serviceAccountTokens s' = AList.update (tok_ID t) (t\<lparr>tok_LastUsedAt := Some now\<rparr>) (st_serviceAccountTokens s))"
    unfolding ServiceAccountByToken_def Let_def
    by (simp split: option.splits if_splits prod.splits; elim conjE; (simp; fail | hypsubst, simp, blast)?)
  then show ?thesis
  proof (elim disjE exE conjE)
    fix i t assume t: "map_of (st_serviceAccountTokens s) i = Some t"
      "st_serviceAccountTokens s' = AList.update (tok_ID t) (t\<lparr>tok_LastUsedAt := Some now\<rparr>) (st_serviceAccountTokens s)"
    then have "token_follows t (t\<lparr>tok_LastUsedAt := Some now\<rparr>)" by (simp add: token_follows_def)
    with t show ?thesis unfolding revised_def by blast
  qed simp
qed

lemma Disable_tokens:
  assumes "DisableServiceAccount now actor i key fp s = (r, s')"
  shows "tokens_follow used s s'"
proof -
  from assms have "st_serviceAccountTokens s' = st_serviceAccountTokens s \<or>
      (\<exists>a. st_serviceAccountTokens s' = st_serviceAccountTokens (revoke_tokens now a s))"
    by (auto simp: DisableServiceAccount_def revoke_tokens_def Let_def split: option.splits sum.splits if_splits)
  then show ?thesis
  proof (elim disjE exE)
    fix a assume same: "st_serviceAccountTokens s' = st_serviceAccountTokens (revoke_tokens now a s)"
    show ?thesis using revoke_tokens_follow [of used s now a] unfolding tokens_follow_def same .
  qed (rule tokens_follow_same)
qed

lemma map_of_filter_key: "map_of (filter (\<lambda>(k, _). P k) (m :: ('a \<times> 'b) list)) i = Some t \<Longrightarrow> map_of m i = Some t"
proof (induction m)
  case (Cons e m)
  obtain k v where e: "e = (k, v)" by (cases e)
  have "map_of (filter (\<lambda>(k, _). P k) m) i = None" if "\<not> P i" for m :: "(_ \<times> 'b) list"
    using that by (induction m) auto
  with Cons show ?case by (cases "k = i"; cases "P k") (auto simp: e)
qed simp

lemma DeleteProject_tokens:
  assumes "DeleteProject actor p cn key fp s = (r, s')"
  shows "tokens_follow used s s'"
  using DeleteProject_effect [OF assms]
  by (auto simp: tokens_follow_def token_follows_refl erase_project_def Let_def dest!: map_of_filter_key)

lemma tokens_revised:
  assumes ok: "tokens_ok used s" and "revised s s'"
  shows "tokens_follow UNIV s s'"
proof -
  from assms(2) obtain i t t' where t: "map_of (st_serviceAccountTokens s) i = Some t" "token_follows t t'"
    "st_serviceAccountTokens s' = AList.update (tok_ID t) t' (st_serviceAccountTokens s)"
    unfolding revised_def by blast
  with ok have "tok_ID t = i" by (auto simp: tokens_ok_def token_ok_def)
  with t show ?thesis by (auto simp: tokens_follow_def token_follows_refl update_conv' split: if_splits)
qed

definition issues :: "string set \<Rightarrow> string set \<Rightarrow> access_store \<Rightarrow> access_store \<Rightarrow> bool" where
  "issues used used' s s' \<longleftrightarrow> (\<exists>i t. i \<notin> used \<and> i \<in> used' \<and> tok_ID t = i \<and> ValidExpiry (tok_CreatedAt t) (tok_ExpiresAt t) \<and>
     st_serviceAccountTokens s' = AList.update i t (st_serviceAccountTokens s))"

lemma access_step_follow:
  assumes "access_step actor (used, s) (used', s')" and ok: "tokens_ok used s"
  shows "tokens_follow UNIV s s' \<or> issues used used' s s'"
  using assms(1)
proof (cases rule: access_step.cases)
  case (create_installation now newID key fp i r)
  then show ?thesis using installation_tokens(1) [of now newID actor key fp i s] by (auto intro: tokens_follow_same)
next
  case (link_installation tc now newID key fp i r)
  then show ?thesis using installation_tokens(2) [of tc now newID actor key fp i s] by (auto intro: tokens_follow_same)
next
  case (create_token now newID key fp i r)
  then show ?thesis using CreateToken_tokens [OF create_token(2)]
    by (auto simp: issues_def intro: tokens_follow_same)
next
  case (revoke_token now a i key fp r)
  from RevokeToken_tokens [OF revoke_token(2)] show ?thesis
    by (blast intro: tokens_follow_same tokens_revised [OF ok])
next
  case (use_token h now r)
  from UseToken_tokens [OF use_token(2)] show ?thesis
    by (blast intro: tokens_follow_same tokens_revised [OF ok])
qed (blast intro: tokens_follow_same quiet_tokens resource_tokens CreateApplication_tokens bumping_follow Disable_tokens DeleteProject_tokens)+

lemma access_step_issued: "access_step actor x y \<Longrightarrow> fst x \<subseteq> fst y"
  by (induction rule: access_step.induct) auto

lemma access_step_tokens:
  assumes "access_step actor (used, s) (used', s')" and ok: "tokens_ok used s"
  shows "tokens_follow used s s'" and "tokens_ok used' s'"
proof -
  have sub: "used \<subseteq> used'" using access_step_issued [OF assms(1)] by simp
  from access_step_follow [OF assms] have "tokens_follow used s s' \<and> tokens_ok used' s'"
  proof
    assume follow: "tokens_follow UNIV s s'"
    have "tokens_ok used' s'" by (rule tokens_okI [OF ok sub]) (use follow in \<open>simp add: tokens_follow_def\<close>)
    with follow show ?thesis by (simp add: tokens_follow_def)
  next
    assume new: "issues used used' s s'"
    then have "tokens_follow used s s'" by (auto simp: issues_def tokens_follow_def token_follows_refl update_conv' split: if_splits)
    moreover have "tokens_ok used' s'"
      by (rule tokens_okI [OF ok sub])
        (use new in \<open>auto simp: issues_def token_ok_def ValidExpiry_def token_follows_refl update_conv' split: if_splits\<close>)
    ultimately show ?thesis by simp
  qed
  then show "tokens_follow used s s'" and "tokens_ok used' s'" by simp_all
qed

section \<open>Runs\<close>

interpretation token_history: history_system access_move access_start
    "\<lambda>x. tokens_ok (fst x) (snd x)"
    "\<lambda>x y. fst x \<subseteq> fst y \<and> tokens_follow (fst x) (snd x) (snd y)"
  by unfold_locales
    (auto simp: access_start_def access_move_def new_store_def tokens_ok_def [of "{[]}"] tokens_follow_same dest: access_step_issued
      intro: access_step_tokens tokens_follow_trans)

lemma live_token:
  assumes "ServiceAccountByToken h now s = (Inr pr, s')" and "tokens_ok used s"
  shows "\<exists>t. map_of (st_serviceAccountTokens s) (ap_TokenID pr) = Some t \<and> tok_RevokedAt t = None \<and> now < tok_ExpiresAt t \<and>
    tok_Scopes t = ap_Scopes pr"
  using assms
  by (auto simp: ServiceAccountByToken_def tokens_ok_def token_ok_def Let_def split: option.splits if_splits)

text \<open>
  C7.  A revoked token never authenticates again.  In whatever state a run of the store finds a
  token revoked, no later call of \<^term>\<open>ServiceAccountByToken\<close> (with any hash, at any time, after
  any further operations of any caller) returns a session under that token's id: ids are
  never issued twice and no operation clears a revocation.
\<close>

theorem revoked_token_dead:
  assumes start: "reachable access_move access_start (used, s)"
    and later: "reachable access_move (used, s) (used', s')"
    and revoked: "map_of (st_serviceAccountTokens s) i = Some t" "tok_RevokedAt t \<noteq> None"
    and "ServiceAccountByToken h now s' = (Inr pr, s'')"
  shows "ap_TokenID pr \<noteq> i"
proof
  assume pr: "ap_TokenID pr = i"
  have ok: "tokens_ok used s" "tokens_ok used' s'"
    using token_history.reachable_inv [OF start] token_history.reachable_from_inv [OF later]
      token_history.reachable_inv [OF start] by simp_all
  obtain t' where t': "map_of (st_serviceAccountTokens s') i = Some t'" "tok_RevokedAt t' = None"
    using live_token [OF assms(5) ok(2)] pr by blast
  have "i \<in> used" using ok(1) revoked(1) by (simp add: tokens_ok_def token_ok_def)
  moreover have "tokens_follow used s s'" using token_history.reachable_rel [OF start later] by simp
  ultimately have "token_follows t t'" using t'(1) revoked(1) by (auto simp: tokens_follow_def)
  with revoked(2) t'(2) show False by (simp add: token_follows_def)
qed

text \<open>
  C35.  Every token in the store of any run expires more than five minutes and at most ninety
  days after its creation, and authenticates at no time past its expiry: a session it opens at
  time \<open>now\<close> satisfies \<open>now < tok_CreatedAt t + 90\<close> days and carries exactly the token's scopes.
\<close>

theorem token_lifetime_bounded:
  assumes start: "reachable access_move access_start (used, s)"
    and "ServiceAccountByToken h now s = (Inr pr, s')"
  shows "\<exists>t. map_of (st_serviceAccountTokens s) (ap_TokenID pr) = Some t \<and> ap_Scopes pr = tok_Scopes t \<and>
    tok_RevokedAt t = None \<and> now < tok_ExpiresAt t \<and>
    tok_CreatedAt t + 5 * minute < tok_ExpiresAt t \<and> tok_ExpiresAt t \<le> tok_CreatedAt t + MaxTokenTTL"
proof -
  have ok: "tokens_ok used s" using token_history.reachable_inv [OF start] by simp
  from live_token [OF assms(2) ok] ok show ?thesis by (fastforce simp: tokens_ok_def token_ok_def)
qed

end
