(* ===== verification/Access_Demo_Answers.thy ===== *)
theory Access_Demo_Answers
  imports Access_Demo Access_Answers Access_Lifecycle Access_Tokens
begin

text \<open>
  The small installation of \<^verbatim>\<open>Access_Demo\<close> continued: a share is revoked, and a service account
  gets two tokens of which one is revoked.  The properties on answers, revocation, replay,
  administration and tokens are applied to it.
\<close>

definition demo_login :: access_store where
  "demo_login = snd (CreateLoginSession demo_case 10 ''u2'' ''pw'' [] (demo_hash CHR ''h'') 100 demo10)"

definition demo_revoked :: access_store where
  "demo_revoked = snd (DeleteProjectAccessGrant 11 ''u1'' ''p1'' ''g1'' ''k'' ''f'' demo_login)"

definition demo11 :: access_store where
  "demo11 = snd (CreateServiceAccount demo_case 11 ''s1'' ''g2'' ''u1'' ''k'' ''f'' ''p1'' ''CI'' RoleDeveloper demo9)"

definition demo_token :: "char \<Rightarrow> create_service_account_token" where
  "demo_token c = \<lparr>cst_ServiceAccountID = ''s1'', cst_Name = ''ci'', cst_Prefix = ''kp_sa_abcdefgh'', cst_TokenHash = demo_hash c,
     cst_Scopes = [AutomationScopeAppRead], cst_ExpiresAt = 24 * hour\<rparr>"

definition demo12 :: access_store where
  "demo12 = snd (CreateServiceAccountToken 12 ''k1'' ''u1'' ''k1'' ''f'' (demo_token CHR ''k'') demo11)"

definition demo13 :: access_store where
  "demo13 = snd (CreateServiceAccountToken 13 ''k2'' ''u1'' ''k2'' ''f'' (demo_token CHR ''l'') demo12)"

definition demo14 :: access_store where
  "demo14 = snd (RevokeServiceAccountToken 14 ''u1'' ''s1'' ''k1'' ''r'' ''f'' demo13)"

section \<open>The run\<close>

lemma demo10_reachable: "reachable access_move access_start (insert ''g1'' demo_used, demo10)"
  by (rule move_by [OF demo9_reachable demo10_step])

lemma demo_login_reachable: "reachable access_move access_start (insert ''g1'' demo_used, demo_login)"
  unfolding demo_login_def by (rule move_by [OF demo10_reachable, of "''u2''"]) (rule access_step.login [OF surjective_pairing])

definition demo_used_tokens :: "string set" where
  "demo_used_tokens = insert ''k2'' (insert ''k1'' (insert ''s1'' (insert ''g2'' demo_used)))"

lemma demo14_reachable: "reachable access_move access_start (demo_used_tokens, demo14)"
proof -
  have "reachable access_move access_start (insert ''s1'' (insert ''g2'' demo_used), demo11)"
    unfolding demo11_def
    by (rule move_by [OF demo9_reachable]) (rule access_step.create_account [OF surjective_pairing], simp_all add: demo_used_def)
  then have "reachable access_move access_start (insert ''k1'' (insert ''s1'' (insert ''g2'' demo_used)), demo12)"
    unfolding demo12_def by (rule move_by) (rule access_step.create_token [OF surjective_pairing], simp add: demo_used_def)
  then have "reachable access_move access_start (demo_used_tokens, demo13)"
    unfolding demo13_def demo_used_tokens_def
    by (rule move_by) (rule access_step.create_token [OF surjective_pairing], simp add: demo_used_def)
  then show ?thesis
    unfolding demo14_def by (rule move_by) (rule access_step.revoke_token [OF surjective_pairing])
qed

section \<open>The properties on it\<close>

theorem errors_hide_existence_witness:
  "Authorize ''u2'' PermissionConfigWrite (typed_target ''project'' ''p1'') demo10 = Inl ErrForbidden \<and>
   GetProjectForActor ''u2'' ''p1'' demo10 \<noteq> Inl ErrNotFound \<and>
   Authorize ''u2'' PermissionConfigWrite (typed_target ''project'' ''p1'') demo9 = Inl ErrNotFound \<and>
   GetProjectForActor ''u2'' ''p1'' demo9 = Inl ErrNotFound"
proof -
  have "\<exists>e. Authorize ''u2'' PermissionConfigWrite (typed_target ''project'' ''p1'') demo10 = Inl e"
    "\<exists>e. Authorize ''u2'' PermissionConfigWrite (typed_target ''project'' ''p1'') demo9 = Inl e"
    "GetProjectForActor ''u2'' ''p1'' demo10 \<noteq> Inl ErrNotFound"
    "GetProjectForActor ''u2'' ''p1'' demo9 = Inl ErrNotFound"
    subgoal by (rule exI [of _ ErrForbidden]) code_simp
    subgoal by (rule exI [of _ ErrNotFound]) code_simp
    by code_simp+
  then show ?thesis using errors_hide_existence [OF demo10_reachable] errors_hide_existence [OF demo9_reachable] by metis
qed

theorem list_get_agree_witness:
  "\<exists>d. GetDeploymentForActor ''u2'' ''d1'' demo10 = Inr d \<and> d \<in> set (ListDeploymentsForActor ''u2'' demo10)"
proof -
  have "\<exists>d. GetDeploymentForActor ''u2'' ''d1'' demo10 = Inr d \<and> dep_ID d = ''d1''"
    by (rule exI [of _ "projr (GetDeploymentForActor ''u2'' ''d1'' demo10)"]) code_simp
  then show ?thesis using list_get_agree [OF demo10_reachable] by metis
qed


theorem create_team_retry_witness:
  "\<exists>team. CreateTeam 60 ''t9'' ''u1'' ''k'' ''f'' ''Team'' ''team'' demo6 = (Inr (Some team, True), demo6) \<and>
     CreateTeam 60 ''t9'' ''u1'' ''k'' ''g'' ''Other'' ''other'' demo6 = (Inl ErrIdempotencyConflict, demo6)"
proof -
  have "fst (CreateTeam 6 ''t1'' ''u1'' ''k'' ''f'' ''Team'' ''team'' demo5) = Inr (Some (the (map_of (st_teams demo6) ''t1'')), False)"
    by code_simp
  then have team: "CreateTeam 6 ''t1'' ''u1'' ''k'' ''f'' ''Team'' ''team'' demo5 = (Inr (Some (the (map_of (st_teams demo6) ''t1'')), False), demo6)"
    unfolding demo6_def by (simp only: prod_eq_iff fst_conv snd_conv)
  show ?thesis
    by (rule exI, rule conjI, rule create_team_retry [OF team, THEN conjunct1], rule create_team_retry [OF team, THEN conjunct2, rule_format]) simp
qed

theorem one_administrator_witness: "isAdminLocked demo14 ''u0'' \<and> \<not> isAdminLocked demo14 ''u1''"
proof -
  have "st_users demo14 \<noteq> []" "isAdminLocked demo14 ''u0''" "''u1'' \<noteq> ''u0''" by code_simp+
  with one_administrator [OF demo14_reachable] show ?thesis by blast
qed

theorem revoked_token_dead_witness:
  "\<exists>pr. fst (ServiceAccountByToken (demo_hash CHR ''l'') 20 demo14) = Inr pr \<and> ap_TokenID pr \<noteq> ''k1''"
proof -
  have "\<exists>t. map_of (st_serviceAccountTokens demo14) ''k1'' = Some t \<and> tok_RevokedAt t \<noteq> None"
    by (rule exI [of _ "the (map_of (st_serviceAccountTokens demo14) ''k1'')"]) code_simp
  moreover have "\<exists>pr. fst (ServiceAccountByToken (demo_hash CHR ''l'') 20 demo14) = Inr pr"
    by (rule exI [of _ "projr (fst (ServiceAccountByToken (demo_hash CHR ''l'') 20 demo14))"]) code_simp
  ultimately show ?thesis
    using revoked_token_dead [OF demo14_reachable reachable.start] by (metis prod.collapse)
qed

theorem token_lifetime_bounded_witness:
  "\<exists>t. map_of (st_serviceAccountTokens demo14) ''k2'' = Some t \<and> tok_ExpiresAt t \<le> tok_CreatedAt t + MaxTokenTTL"
proof -
  have "\<exists>pr. fst (ServiceAccountByToken (demo_hash CHR ''l'') 20 demo14) = Inr pr \<and> ap_TokenID pr = ''k2''"
    by (rule exI [of _ "projr (fst (ServiceAccountByToken (demo_hash CHR ''l'') 20 demo14))"]) code_simp
  then show ?thesis using token_lifetime_bounded [OF demo14_reachable] by (metis prod.collapse)
qed

end
