(* ===== verification/Access_Stale.thy ===== *)
theory Access_Stale
  imports Access_Demo
begin

text \<open>
  A consequence of how environments are deleted.  \<open>DeleteEnvironment\<close> removes the grants scoped to
  the environment but not those scoped to its namespace, and the derived namespace name
  \<open>kp-<project>-<environment>\<close> can come up again, even for another project.
\<close>

definition stale1 :: access_store where
  "stale1 = snd (CreateProject 7 ''p1'' ''u1'' ''k'' ''f'' ''AB'' ''a-b'' ''t1'' demo6)"

definition stale2 :: access_store where
  "stale2 = snd (CreateEnvironment (\<lambda>x. x) 8 ''e1'' ''u1'' ''k'' ''f'' ''p1'' ''C'' ''c'' [] stale1)"

definition stale_share :: create_access_grant where
  "stale_share = \<lparr>cag_ProjectID = ''p1'', cag_SubjectUserID = ''u2'', cag_SubjectTeamID = [], cag_Role = RoleViewer,
     cag_ScopeType = ScopeNamespace, cag_ScopeID = ''kp-a-b-c'', cag_Permissions = []\<rparr>"

definition stale3 :: access_store where
  "stale3 = snd (CreateProjectAccessGrant 9 ''g1'' ''u1'' ''k'' ''f'' stale_share stale2)"

definition stale4 :: access_store where
  "stale4 = snd (DeleteEnvironment ''u1'' ''e1'' ''C'' ''k'' ''f'' stale3)"

definition stale5 :: access_store where
  "stale5 = snd (CreateProject 11 ''p2'' ''u0'' ''k2'' ''f'' ''A'' ''a'' [] stale4)"

definition stale6 :: access_store where
  "stale6 = snd (CreateEnvironment (\<lambda>x. x) 12 ''e2'' ''u0'' ''k2'' ''f'' ''p2'' ''BC'' ''b-c'' [] stale5)"

text \<open>
  The user \<open>u2\<close>, invited to a namespace of the project \<open>a-b\<close>, reads an environment of the
  project \<open>a\<close>, to which nobody gave the user access.
\<close>

lemma namespace_grant_outlives_environment:
  "map_of (st_environments stale4) ''e1'' = None \<and> map_of (st_environments stale5) ''e2'' = None \<and>
   GetEnvironmentForActor ''u2'' ''e2'' stale6 \<noteq> Inl ErrNotFound \<and> GetProjectForActor ''u2'' ''p2'' stale5 = Inl ErrNotFound"
  by code_simp

end
