(* ===== verification/Rate_Limit.thy ===== *)
theory Rate_Limit
  imports Transition Go_Text "HOL-Library.Multiset"
begin

text \<open>
  The fixed-window rate limiters (\<open>internal/ratelimit/ratelimit.go\<close>): the in-process
  \<^verbatim>\<open>MemoryLimiter\<close> with its bounded table, and the \<^verbatim>\<open>ValkeyLimiter\<close> that runs one script on the
  server.  SHA-256 is the argument \<open>sha\<close>; the order in which Go ranges over the bucket table is
  the argument \<open>visit\<close>, some permutation of the table; the reply of the server to the script is
  the argument \<open>reply\<close>.  A nil limiter is \<^term>\<open>None\<close>.
\<close>

section \<open>Requests and decisions\<close>

record rate_request =
  rq_Bucket :: string
  rq_Subject :: string
  rq_Limit :: int
  rq_Window :: duration
  rq_Cost :: int

record decision =
  dc_Allowed :: bool
  dc_Remaining :: int
  dc_RetryAfter :: duration
  dc_ResetAt :: time

datatype limit_error =
  LimiterNotConfigured | RequestInvalid | ScriptFailed | ResponseInvalid | CounterInvalid | TTLInvalid

definition minimumWindow :: duration where "minimumWindow = second"
definition maximumWindow :: duration where "maximumWindow = 24 * hour"
definition maximumLimit :: int where "maximumLimit = 1000000"
definition maximumCost :: int where "maximumCost = 10000"
definition defaultBuckets :: int where "defaultBuckets = 100000"

lemmas limit_consts = minimumWindow_def maximumWindow_def maximumLimit_def maximumCost_def defaultBuckets_def

text \<open>\<open>^[a-z][a-z0-9-]{0,47}$\<close>\<close>

fun bucketPattern :: "string \<Rightarrow> bool" where
  "bucketPattern [] = False"
| "bucketPattern (c # cs) \<longleftrightarrow> is_lower c \<and> length cs \<le> 47 \<and> list_all (\<lambda>c. is_lower c \<or> is_digit c \<or> c = CHR ''-'') cs"

definition validateRequest :: "rate_request \<Rightarrow> limit_error + rate_request" where
  "validateRequest request0 =
     (let request = request0\<lparr>rq_Subject := trim_space (rq_Subject request0)\<rparr> in
      if \<not> bucketPattern (rq_Bucket request) \<or> rq_Subject request = [] \<or> length (rq_Subject request) > 512 \<or>
         list_ex (\<lambda>c. c \<in> {CHR 0x00, CHR 0x0D, CHR 0x0A}) (rq_Subject request) \<or>
         rq_Limit request < 1 \<or> rq_Limit request > maximumLimit \<or>
         rq_Window request < minimumWindow \<or> rq_Window request > maximumWindow \<or> rq_Window request mod millisecond \<noteq> 0 \<or>
         rq_Cost request < 1 \<or> rq_Cost request > maximumCost
      then Inl RequestInvalid
      else Inr request)"

definition limit_key :: "(string \<Rightarrow> string) \<Rightarrow> rate_request \<Rightarrow> string" where
  "limit_key sha request =
     (let digest = sha (rq_Bucket request @ [CHR 0x00] @ rq_Subject request) in
      ''kp:v1:limit:'' @ rq_Bucket request @ '':'' @ hex_encode (take 16 digest))"

section \<open>The in-process limiter\<close>

record localBucket =
  lb_used :: int
  lb_resetAt :: time
  lb_lastTouch :: time

record memory_limiter =
  ml_buckets :: "(string, localBucket) gomap"
  ml_maxBuckets :: int

definition NewMemoryLimiter :: "int \<Rightarrow> memory_limiter" where
  "NewMemoryLimiter maxBuckets =
     \<lparr>ml_buckets = [], ml_maxBuckets = (if maxBuckets \<le> 0 \<or> maxBuckets > 1000000 then defaultBuckets else maxBuckets)\<rparr>"

fun evict_scan :: "time \<Rightarrow> string \<Rightarrow> time \<Rightarrow> (string \<times> localBucket) list \<Rightarrow> string option" where
  "evict_scan now oldestKey oldest [] = (if oldestKey \<noteq> [] then Some oldestKey else None)"
| "evict_scan now oldestKey oldest ((key, bucket) # rest) =
     (if \<not> lb_resetAt bucket > now then Some key
      else if oldestKey = [] \<or> lb_lastTouch bucket < oldest then evict_scan now key (lb_lastTouch bucket) rest
      else evict_scan now oldestKey oldest rest)"

definition evictExpiredOrOldest ::
  "time \<Rightarrow> (string \<times> localBucket) list \<Rightarrow> (string, localBucket) gomap \<Rightarrow> (string, localBucket) gomap" where
  "evictExpiredOrOldest now visit buckets =
     (case evict_scan now [] 0 visit of None \<Rightarrow> buckets | Some key \<Rightarrow> AList.delete key buckets)"

text \<open>\<open>Time.Sub\<close> saturates at the limits of a duration.\<close>

definition time_sub :: "time \<Rightarrow> time \<Rightarrow> duration" where
  "time_sub t u = max (- (2 ^ 63)) (min (2 ^ 63 - 1) (t - u))"

definition charge :: "time \<Rightarrow> rate_request \<Rightarrow> localBucket option \<Rightarrow> localBucket" where
  "charge now request entry =
     (let current = (case entry of
          None \<Rightarrow> \<lparr>lb_used = 0, lb_resetAt = now + rq_Window request, lb_lastTouch = 0\<rparr>
        | Some bucket \<Rightarrow>
            if \<not> lb_resetAt bucket > now then \<lparr>lb_used = 0, lb_resetAt = now + rq_Window request, lb_lastTouch = 0\<rparr>
            else bucket) in
      current\<lparr>lb_used := i64 (lb_used current + rq_Cost request), lb_lastTouch := now\<rparr>)"

definition decide :: "time \<Rightarrow> rate_request \<Rightarrow> localBucket \<Rightarrow> decision" where
  "decide now request current =
     (let remaining = i64 (rq_Limit request - lb_used current) in
      \<lparr>dc_Allowed = lb_used current \<le> rq_Limit request,
       dc_Remaining = (if remaining < 0 then 0 else remaining),
       dc_RetryAfter = time_sub (lb_resetAt current) now,
       dc_ResetAt = lb_resetAt current\<rparr>)"

definition MemoryLimiter_Allow ::
  "(string \<Rightarrow> string) \<Rightarrow> (string \<times> localBucket) list \<Rightarrow> time \<Rightarrow> rate_request \<Rightarrow> memory_limiter option \<Rightarrow>
     (limit_error + decision) \<times> memory_limiter option" where
  "MemoryLimiter_Allow sha visit now request0 limiter =
     (case limiter of
        None \<Rightarrow> (Inl LimiterNotConfigured, None)
      | Some l \<Rightarrow>
          (case validateRequest request0 of
             Inl e \<Rightarrow> (Inl e, limiter)
           | Inr request \<Rightarrow>
               let bucketKey = limit_key sha request;
                   entry = map_of (ml_buckets l) bucketKey;
                   buckets = (if entry = None \<and> int (length (ml_buckets l)) \<ge> ml_maxBuckets l
                     then evictExpiredOrOldest now visit (ml_buckets l) else ml_buckets l);
                   current = charge now request entry in
               (Inr (decide now request current), Some (l\<lparr>ml_buckets := AList.update bucketKey current buckets\<rparr>))))"

section \<open>The distributed limiter\<close>

text \<open>
  The commands of the server that the script calls, and the script.  A reply of the server is
  a list of values, \<^term>\<open>None\<close> for one that is no integer.
\<close>

record 's valkey_commands =
  vk_INCRBY :: "string \<Rightarrow> int \<Rightarrow> 's \<Rightarrow> int \<times> 's"
  vk_PTTL :: "string \<Rightarrow> 's \<Rightarrow> int"
  vk_PEXPIRE :: "string \<Rightarrow> int \<Rightarrow> 's \<Rightarrow> 's"

definition fixedWindowScript :: "'s valkey_commands \<Rightarrow> string \<Rightarrow> int \<Rightarrow> int \<Rightarrow> 's \<Rightarrow> (int \<times> int) \<times> 's" where
  "fixedWindowScript vk key cost millis s =
     (let (current, s1) = vk_INCRBY vk key cost s; ttl = vk_PTTL vk key s1 in
      if current = cost \<or> ttl < 0 then ((current, millis), vk_PEXPIRE vk key millis s1)
      else ((current, ttl), s1))"

definition window_millis :: "duration \<Rightarrow> int" where
  "window_millis window = window div millisecond"

definition ValkeyLimiter_Allow ::
  "bool \<Rightarrow> (string \<Rightarrow> string) \<Rightarrow> time \<Rightarrow> (string \<Rightarrow> int \<Rightarrow> int \<Rightarrow> (int option list) option) \<Rightarrow> rate_request \<Rightarrow> limit_error + decision" where
  "ValkeyLimiter_Allow configured sha now reply request0 =
     (if \<not> configured then Inl LimiterNotConfigured
      else bindE (validateRequest request0) (\<lambda>request.
        case reply (limit_key sha request) (rq_Cost request) (window_millis (rq_Window request)) of
          None \<Rightarrow> Inl ScriptFailed
        | Some [used, ttlMillis] \<Rightarrow>
            (case used of
               None \<Rightarrow> Inl CounterInvalid
             | Some used \<Rightarrow>
                 if used < rq_Cost request then Inl CounterInvalid
                 else
                   case ttlMillis of
                     None \<Rightarrow> Inl TTLInvalid
                   | Some ttl \<Rightarrow>
                       if ttl < 1 \<or> ttl > window_millis (rq_Window request) then Inl TTLInvalid
                       else
                         let remaining = i64 (rq_Limit request - used); retry = i64 (ttl * millisecond) in
                         Inr \<lparr>dc_Allowed = used \<le> rq_Limit request, dc_Remaining = (if remaining < 0 then 0 else remaining),
                              dc_RetryAfter = retry, dc_ResetAt = now + retry\<rparr>)
        | Some _ \<Rightarrow> Inl ResponseInvalid))"

section \<open>Lemmas\<close>

lemma validateRequest_Inr:
  assumes "validateRequest request0 = Inr request"
  shows "request = request0\<lparr>rq_Subject := trim_space (rq_Subject request0)\<rparr>"
    and "1 \<le> rq_Limit request" "rq_Limit request \<le> maximumLimit" "1 \<le> rq_Cost request" "rq_Cost request \<le> maximumCost"
    and "minimumWindow \<le> rq_Window request" "rq_Window request \<le> maximumWindow" "rq_Window request mod millisecond = 0"
  using assms by (auto simp: validateRequest_def Let_def split: if_splits)

lemma limit_key_nonempty [simp]: "limit_key sha request \<noteq> []" "[] \<noteq> limit_key sha request"
  by (simp_all add: limit_key_def Let_def)

text \<open>
  What the scan picks: the first expired bucket it meets, else the one touched longest ago.
\<close>

definition oldest_of :: "(string \<times> localBucket) list \<Rightarrow> string \<Rightarrow> time \<Rightarrow> bool" where
  "oldest_of visit k t \<longleftrightarrow> (\<exists>b. (k, b) \<in> set visit \<and> lb_lastTouch b = t) \<and> (\<forall>(_, c) \<in> set visit. t \<le> lb_lastTouch c)"

lemma evict_scan_live:
  assumes "\<forall>(i, b) \<in> set visit. i \<noteq> [] \<and> now < lb_resetAt b" and "k \<noteq> []" and "oldest_of seen k t"
    and "evict_scan now k t visit = Some victim"
  shows "\<exists>u. oldest_of (seen @ visit) victim u"
  using assms
proof (induction visit arbitrary: k t seen)
  case (Cons e visit)
  obtain i b where e: "e = (i, b)" by (cases e)
  have old: "oldest_of (seen @ [e]) (if lb_lastTouch b < t then i else k) (min (lb_lastTouch b) t)"
    using Cons.prems(3) by (fastforce simp: oldest_of_def e)
  have scan: "evict_scan now (if lb_lastTouch b < t then i else k) (min (lb_lastTouch b) t) visit = Some victim"
    using Cons.prems by (simp add: e min_def split: if_splits)
  have "(if lb_lastTouch b < t then i else k) \<noteq> []" using Cons.prems by (simp add: e)
  with Cons.IH [OF _ _ old scan] Cons.prems(1) show ?case by simp
qed auto

lemma evict_scan_expired:
  assumes "\<exists>(i, b) \<in> set visit. lb_resetAt b \<le> now"
  shows "\<exists>victim b. evict_scan now k t visit = Some victim \<and> (victim, b) \<in> set visit \<and> lb_resetAt b \<le> now"
  using assms
proof (induction now k t visit rule: evict_scan.induct)
  case (2 now k t i b rest)
  show ?case
  proof (cases "now < lb_resetAt b")
    case True
    with 2(3) have "\<exists>(i, b) \<in> set rest. lb_resetAt b \<le> now" by auto
    with True 2(1,2) show ?thesis by fastforce
  qed auto
qed auto

lemma evict_scan_oldest:
  assumes "\<forall>(i, b) \<in> set visit. i \<noteq> [] \<and> now < lb_resetAt b" and "visit \<noteq> []"
  shows "\<exists>victim u. evict_scan now [] 0 visit = Some victim \<and> oldest_of visit victim u"
proof -
  obtain i b rest where visit: "visit = (i, b) # rest" using assms(2) by (cases visit) auto
  with assms(1) have i: "i \<noteq> []" "now < lb_resetAt b" and rest: "\<forall>(i, b) \<in> set rest. i \<noteq> [] \<and> now < lb_resetAt b" by auto
  have "\<exists>victim. evict_scan now k t rest = Some victim" if "k \<noteq> []" for k t
    using that rest by (induction now k t rest rule: evict_scan.induct) auto
  with i(1) obtain victim where scan: "evict_scan now i (lb_lastTouch b) rest = Some victim" by blast
  have "oldest_of [(i, b)] i (lb_lastTouch b)" by (simp add: oldest_of_def)
  from evict_scan_live [OF rest i(1) this scan] scan i show ?thesis by (simp add: visit)
qed

lemma evict_map:
  assumes "wf_map m" and "[] \<notin> keys m" and "mset visit = mset m" and "m \<noteq> []"
  shows "\<exists>victim c. evictExpiredOrOldest now visit m = AList.delete victim m \<and> map_of m victim = Some c \<and>
    (lb_resetAt c \<le> now \<or> (\<forall>b \<in> snd ` set m. now < lb_resetAt b \<and> lb_lastTouch c \<le> lb_lastTouch b))"
proof -
  have visit: "set visit = set m" "visit \<noteq> []" using assms(3,4) by (auto dest: mset_eq_setD)
  show ?thesis
  proof (cases "\<exists>(i, b) \<in> set visit. lb_resetAt b \<le> now")
    case True
    from evict_scan_expired [OF this, of "[]" 0] assms(1) show ?thesis
      by (auto simp: evictExpiredOrOldest_def wf_map_mem_iff visit(1))
  next
    case False
    have "\<forall>(i, b) \<in> set visit. i \<noteq> [] \<and> now < lb_resetAt b"
      using False assms(2) by (auto simp: visit(1) not_le dest: mem_keys)
    from evict_scan_oldest [OF this visit(2)] obtain victim u where
      scan: "evict_scan now [] 0 visit = Some victim" and old: "oldest_of visit victim u" by blast
    from old obtain c where c: "map_of m victim = Some c" "lb_lastTouch c = u"
      using assms(1) by (auto simp: oldest_of_def visit(1) wf_map_mem_iff)
    moreover have "\<forall>b \<in> snd ` set m. now < lb_resetAt b \<and> u \<le> lb_lastTouch b"
      using False old by (fastforce simp: oldest_of_def visit(1))
    ultimately show ?thesis using scan by (auto simp: evictExpiredOrOldest_def)
  qed
qed

section \<open>The table stays bounded\<close>

definition limiter_inv :: "memory_limiter \<Rightarrow> bool" where
  "limiter_inv l \<longleftrightarrow> wf_map (ml_buckets l) \<and> [] \<notin> keys (ml_buckets l) \<and> int (length (ml_buckets l)) \<le> ml_maxBuckets l \<and>
     1 \<le> ml_maxBuckets l \<and> ml_maxBuckets l \<le> 1000000"

definition limiter_call :: "(string \<Rightarrow> string) \<Rightarrow> memory_limiter \<Rightarrow> memory_limiter \<Rightarrow> bool" where
  "limiter_call sha l l' \<longleftrightarrow> (\<exists>visit now request answer. mset visit = mset (ml_buckets l) \<and>
     MemoryLimiter_Allow sha visit now request (Some l) = (answer, Some l'))"

lemma NewMemoryLimiter_inv: "limiter_inv (NewMemoryLimiter n)"
  by (auto simp: limiter_inv_def NewMemoryLimiter_def defaultBuckets_def)

text \<open>The table after a call, with the bucket charged and at most one other gone.\<close>

lemma Allow_Inr:
  assumes "MemoryLimiter_Allow sha visit now request0 (Some l) = (Inr d, Some l')"
  obtains request current where "validateRequest request0 = Inr request"
    and "current = charge now request (map_of (ml_buckets l) (limit_key sha request))" and "d = decide now request current"
    and "l' = l\<lparr>ml_buckets := AList.update (limit_key sha request) current
      (if map_of (ml_buckets l) (limit_key sha request) = None \<and> ml_maxBuckets l \<le> int (length (ml_buckets l))
       then evictExpiredOrOldest now visit (ml_buckets l) else ml_buckets l)\<rparr>"
  using assms by (auto simp: MemoryLimiter_Allow_def Let_def split: sum.splits)

lemma Allow_Inl: "MemoryLimiter_Allow sha visit now request0 (Some l) = (Inl e, l') \<Longrightarrow> l' = Some l"
  by (auto simp: MemoryLimiter_Allow_def Let_def split: sum.splits)

lemma length_update_absent: "wf_map m \<Longrightarrow> k \<notin> keys m \<Longrightarrow> length (AList.update k v m) = Suc (length m)"
  by (simp add: length_wf_map)

lemma length_update_present: "wf_map m \<Longrightarrow> k \<in> keys m \<Longrightarrow> length (AList.update k v m) = length m"
  by (simp add: length_wf_map insert_absorb)

lemma length_delete_present: "wf_map m \<Longrightarrow> k \<in> keys m \<Longrightarrow> Suc (length (AList.delete k m)) = length m"
  by (simp add: length_wf_map card_Suc_Diff1 del: card_Diff_insert card_Diff_singleton)

lemma limiter_call_inv:
  assumes inv: "limiter_inv l" and "limiter_call sha l l'"
  shows "limiter_inv l'"
proof -
  from assms(2) obtain visit now request0 answer where visit: "mset visit = mset (ml_buckets l)"
    and call: "MemoryLimiter_Allow sha visit now request0 (Some l) = (answer, Some l')" by (auto simp: limiter_call_def)
  show ?thesis
  proof (cases answer)
    case (Inl e)
    with call inv show ?thesis by (auto dest: Allow_Inl)
  next
    case (Inr d)
    obtain request current where l': "l' = l\<lparr>ml_buckets := AList.update (limit_key sha request) current
      (if map_of (ml_buckets l) (limit_key sha request) = None \<and> ml_maxBuckets l \<le> int (length (ml_buckets l))
       then evictExpiredOrOldest now visit (ml_buckets l) else ml_buckets l)\<rparr>"
      using call unfolding Inr by (rule Allow_Inr) blast
    let ?k = "limit_key sha request"
    note wf = inv [unfolded limiter_inv_def]
    show ?thesis
    proof (cases "map_of (ml_buckets l) ?k = None \<and> ml_maxBuckets l \<le> int (length (ml_buckets l))")
      case True
      with wf have "ml_buckets l \<noteq> []" by auto
      with evict_map [OF _ _ visit this, of now] wf obtain victim c where
        victim: "evictExpiredOrOldest now visit (ml_buckets l) = AList.delete victim (ml_buckets l)"
        and "map_of (ml_buckets l) victim = Some c" by blast
      then have member: "victim \<in> keys (ml_buckets l)" by (simp add: map_of_in_keys)
      have "?k \<notin> keys (AList.delete victim (ml_buckets l))" using True by (simp add: map_of_None_keys)
      then have "length (AList.update ?k current (AList.delete victim (ml_buckets l))) = length (ml_buckets l)"
        using wf member length_delete_present by (fastforce simp: length_update_absent)
      with True wf victim show ?thesis by (auto simp: l' limiter_inv_def)
    next
      case False
      then have "?k \<in> keys (ml_buckets l) \<or> length (ml_buckets l) < nat (ml_maxBuckets l)"
        by (auto simp: map_of_None_keys)
      with False wf have "int (length (AList.update ?k current (ml_buckets l))) \<le> ml_maxBuckets l"
        by (cases "?k \<in> keys (ml_buckets l)") (auto simp: length_update_present length_update_absent)
      moreover have "l' = l\<lparr>ml_buckets := AList.update ?k current (ml_buckets l)\<rparr>" unfolding l' if_not_P [OF False] ..
      ultimately show ?thesis using wf by (simp add: limiter_inv_def)
    qed
  qed
qed

interpretation bounded_table: invariant_system "limiter_call sha" "NewMemoryLimiter n" limiter_inv for sha n
  by unfold_locales (auto intro: NewMemoryLimiter_inv limiter_call_inv)


section \<open>Refinement of a fixed-window counter\<close>

text \<open>
  The specification keeps, for every key, the cost charged in the open window and the end of
  that window, and nothing else: no capacity and no use times.
\<close>

definition spec_allow ::
  "time \<Rightarrow> string \<Rightarrow> rate_request \<Rightarrow> (string \<rightharpoonup> int \<times> time) \<Rightarrow> decision \<times> (string \<rightharpoonup> int \<times> time)" where
  "spec_allow now k request windows =
     (let (used, resetAt) = (case windows k of None \<Rightarrow> (0, now + rq_Window request) | Some w \<Rightarrow> w);
          used' = used + rq_Cost request in
      (\<lparr>dc_Allowed = used' \<le> rq_Limit request, dc_Remaining = max 0 (rq_Limit request - used'),
        dc_RetryAfter = time_sub resetAt now, dc_ResetAt = resetAt\<rparr>, windows(k \<mapsto> (used', resetAt))))"

definition open_windows :: "time \<Rightarrow> memory_limiter \<Rightarrow> string \<rightharpoonup> int \<times> time" where
  "open_windows now l k =
     (case map_of (ml_buckets l) k of
        None \<Rightarrow> None
      | Some b \<Rightarrow> if lb_resetAt b \<le> now then None else Some (lb_used b, lb_resetAt b))"

definition window_used :: "time \<Rightarrow> memory_limiter \<Rightarrow> string \<Rightarrow> int" where
  "window_used now l k = (case open_windows now l k of None \<Rightarrow> 0 | Some (used, _) \<Rightarrow> used)"

lemma charge_window:
  assumes "0 \<le> window_used now l k" and "window_used now l k + rq_Cost r < 2 ^ 63" and "1 \<le> rq_Cost r"
  defines "b \<equiv> charge now r (map_of (ml_buckets l) k)"
  shows "lb_used b = window_used now l k + rq_Cost r"
    and "lb_resetAt b = (case open_windows now l k of None \<Rightarrow> now + rq_Window r | Some (_, resetAt) \<Rightarrow> resetAt)"
  using assms by (auto simp: charge_def window_used_def open_windows_def Let_def i64_of_nat_small split: option.splits if_splits)

text \<open>
  C20.  The in-process limiter implements the fixed-window counter.  On a reachable limiter that
  has room for the request (the key is known, the table is not full, or some bucket has
  expired) every answered call returns the decision of the specification and changes the open
  windows as the specification does; the counter is assumed not to leave 64 bits.
\<close>

theorem allow_refines:
  assumes "reachable (limiter_call sha) (NewMemoryLimiter n) l" and visit: "mset visit = mset (ml_buckets l)"
    and r: "validateRequest request = Inr r"
    and call: "MemoryLimiter_Allow sha visit now request (Some l) = (Inr d, Some l')"
    and room: "limit_key sha r \<in> keys (ml_buckets l) \<or> int (length (ml_buckets l)) < ml_maxBuckets l \<or>
      list_ex (\<lambda>(_, b). lb_resetAt b \<le> now) (ml_buckets l)"
    and small: "0 \<le> window_used now l (limit_key sha r)" "window_used now l (limit_key sha r) + rq_Cost r < 2 ^ 63"
  shows "(d, open_windows now l') = spec_allow now (limit_key sha r) r (open_windows now l)"
proof -
  let ?k = "limit_key sha r" and ?m = "ml_buckets l"
  define b where "b = charge now r (map_of ?m ?k)"
  note vr = validateRequest_Inr [OF r]
  note b = charge_window [OF small vr(4), folded b_def]
  have inv: "limiter_inv l" using bounded_table.reachable_inv [OF assms(1)] .
  have d: "d = decide now r b" and l': "l' = l\<lparr>ml_buckets := AList.update ?k b
      (if map_of ?m ?k = None \<and> ml_maxBuckets l \<le> int (length ?m) then evictExpiredOrOldest now visit ?m else ?m)\<rparr>"
    using call r by (auto simp: MemoryLimiter_Allow_def b_def Let_def)
  have live: "now < lb_resetAt b"
    using vr(6) by (auto simp: b(2) open_windows_def limit_consts duration_defs split: option.splits if_splits)
  have "open_windows now l' = (open_windows now l)(?k \<mapsto> (lb_used b, lb_resetAt b))"
  proof (cases "map_of ?m ?k = None \<and> ml_maxBuckets l \<le> int (length ?m)")
    case True
    with room have expired: "\<exists>c \<in> snd ` set ?m. lb_resetAt c \<le> now" by (force simp: map_of_None_keys list_ex_iff)
    then have "?m \<noteq> []" by auto
    from evict_map [OF _ _ visit this, of now] inv expired obtain victim c where
      "evictExpiredOrOldest now visit ?m = AList.delete victim ?m" "map_of ?m victim = Some c" "lb_resetAt c \<le> now"
      by (auto simp: limiter_inv_def not_less [symmetric])
    with True live show ?thesis by (auto simp: l' open_windows_def fun_eq_iff)
  next
    case False
    with live show ?thesis by (auto simp: l' open_windows_def fun_eq_iff)
  qed
  moreover have "i64 (rq_Limit r - lb_used b) = rq_Limit r - lb_used b"
    using small vr(2-4) by (intro i64_id) (auto simp: b(1) in_i64_def maximumLimit_def)
  ultimately show ?thesis
    by (auto simp: d spec_allow_def decide_def Let_def b window_used_def max_def split: option.splits)
qed

section \<open>What a run admits\<close>

type_synonym limit_call = "(string \<times> localBucket) list \<times> time \<times> rate_request"
type_synonym limit_log = "(rate_request \<times> (limit_error + decision)) list"

definition run_call :: "(string \<Rightarrow> string) \<Rightarrow> memory_limiter \<times> limit_log \<Rightarrow> limit_call \<Rightarrow> memory_limiter \<times> limit_log" where
  "run_call sha st call =
     (case (st, call) of ((l, log), (visit, now, request)) \<Rightarrow>
        let (answer, l') = MemoryLimiter_Allow sha visit now request (Some l) in (the l', log @ [(request, answer)]))"

definition limiter_run :: "(string \<Rightarrow> string) \<Rightarrow> memory_limiter \<Rightarrow> limit_call list \<Rightarrow> memory_limiter \<times> limit_log" where
  "limiter_run sha l calls = foldl (run_call sha) (l, []) calls"

definition call_key :: "(string \<Rightarrow> string) \<Rightarrow> rate_request \<Rightarrow> string option" where
  "call_key sha request = (case validateRequest request of Inl _ \<Rightarrow> None | Inr r \<Rightarrow> Some (limit_key sha r))"

definition call_keys :: "(string \<Rightarrow> string) \<Rightarrow> limit_call list \<Rightarrow> string list" where
  "call_keys sha calls = List.map_filter (\<lambda>(_, _, request). call_key sha request) calls"

text \<open>The cost admitted for a key in the window that ends at \<open>R\<close>.\<close>

definition admitted :: "(string \<Rightarrow> string) \<Rightarrow> string \<Rightarrow> time \<Rightarrow> limit_log \<Rightarrow> int" where
  "admitted sha k R log = sum_list (map (\<lambda>(request, answer).
     case answer of
       Inl _ \<Rightarrow> 0
     | Inr d \<Rightarrow> if call_key sha request = Some k \<and> dc_Allowed d \<and> dc_ResetAt d = R then rq_Cost request else 0) log)"

lemma admitted_Nil [simp]: "admitted sha k R [] = 0"
  by (simp add: admitted_def)

lemma admitted_snoc: "admitted sha k R (log @ [(request, answer)]) = admitted sha k R log +
    (case answer of Inl _ \<Rightarrow> 0 | Inr d \<Rightarrow> if call_key sha request = Some k \<and> dc_Allowed d \<and> dc_ResetAt d = R then rq_Cost request else 0)"
  by (simp add: admitted_def)

definition run_ok :: "(string \<Rightarrow> string) \<Rightarrow> string \<Rightarrow> int \<Rightarrow> string set \<Rightarrow> int \<Rightarrow> memory_limiter \<times> limit_log \<Rightarrow> bool" where
  "run_ok sha k L ks N st \<longleftrightarrow> (case st of (l, log) \<Rightarrow>
     wf_map (ml_buckets l) \<and> keys (ml_buckets l) \<subseteq> ks \<and>
     (\<forall>i b. map_of (ml_buckets l) i = Some b \<longrightarrow> 0 \<le> lb_used b \<and> lb_used b \<le> N * maximumCost) \<and>
     (\<forall>R. admitted sha k R log \<le> L) \<and>
     (case map_of (ml_buckets l) k of
        None \<Rightarrow> \<forall>R. admitted sha k R log = 0
      | Some b \<Rightarrow> admitted sha k (lb_resetAt b) log \<le> lb_used b \<and> (\<forall>R > lb_resetAt b. admitted sha k R log = 0)))"

text \<open>A charge either adds to the open window or opens one that ends later than every window before.\<close>

lemma charge_cases:
  assumes "validateRequest request = Inr r"
    and "\<And>b. entry = Some b \<Longrightarrow> 0 \<le> lb_used b \<and> lb_used b + rq_Cost r < 2 ^ 63"
  shows "(\<exists>b. entry = Some b \<and> lb_resetAt (charge now r entry) = lb_resetAt b \<and> lb_used (charge now r entry) = lb_used b + rq_Cost r) \<or>
    (\<forall>b. entry = Some b \<longrightarrow> lb_resetAt b < lb_resetAt (charge now r entry)) \<and> lb_used (charge now r entry) = rq_Cost r"
proof -
  have small: "i64 (rq_Cost r) = rq_Cost r"
    using validateRequest_Inr(4,5) [OF assms(1)] by (intro i64_of_nat_small) (auto simp: maximumCost_def)
  have window: "0 < rq_Window r" using validateRequest_Inr(6) [OF assms(1)] by (simp add: limit_consts duration_defs)
  show ?thesis
  proof (cases entry)
    case (Some b)
    then have "i64 (lb_used b + rq_Cost r) = lb_used b + rq_Cost r"
      using assms(2) validateRequest_Inr(4) [OF assms(1)] by (intro i64_of_nat_small) auto
    with Some small window show ?thesis by (auto simp: charge_def Let_def)
  qed (simp add: charge_def small)
qed

lemma room_without_eviction:
  assumes "wf_map m" "keys m \<subseteq> ks" "finite ks" "k \<in> ks" "k \<notin> keys m"
  shows "length m < card ks"
  using assms psubset_card_mono [of ks "keys m"] by (auto simp: length_wf_map)

lemma run_call_ok:
  assumes ok: "run_ok sha k L ks N (l, log)"
    and key: "\<And>i. call_key sha request = Some i \<Longrightarrow> i \<in> ks" and fin: "finite ks" and card: "int (card ks) \<le> ml_maxBuckets l"
    and small: "(N + 1) * maximumCost < 2 ^ 63" and limit: "call_key sha request = Some k \<Longrightarrow> rq_Limit request \<le> L"
    and N: "0 \<le> N"
  shows "run_ok sha k L ks (N + 1) (run_call sha (l, log) (visit, now, request)) \<and>
    ml_maxBuckets (fst (run_call sha (l, log) (visit, now, request))) = ml_maxBuckets l"
proof (cases "validateRequest request")
  case (Inl e)
  have grow: "x \<le> N * maximumCost \<Longrightarrow> x \<le> (N + 1) * maximumCost" for x by (simp add: maximumCost_def)
  from Inl have "run_call sha (l, log) (visit, now, request) = (l, log @ [(request, Inl e)])"
    by (simp add: run_call_def MemoryLimiter_Allow_def)
  with ok show ?thesis by (auto simp: run_ok_def admitted_snoc intro: grow split: option.splits)
next
  case (Inr r)
  let ?i = "limit_key sha r" and ?m = "ml_buckets l"
  note vr = validateRequest_Inr [OF Inr]
  have i: "call_key sha request = Some ?i" by (simp add: call_key_def Inr)
  define b where "b = charge now r (map_of ?m ?i)"
  have wf: "wf_map ?m" "keys ?m \<subseteq> ks" using ok by (auto simp: run_ok_def)
  have "\<not> (map_of ?m ?i = None \<and> ml_maxBuckets l \<le> int (length ?m))"
    using room_without_eviction [OF wf fin key [OF i]] card by (auto simp: map_of_None_keys)
  then have call: "run_call sha (l, log) (visit, now, request) =
      (l\<lparr>ml_buckets := AList.update ?i b ?m\<rparr>, log @ [(request, Inr (decide now r b))])"
    by (auto simp: run_call_def MemoryLimiter_Allow_def Inr b_def Let_def)
  have used: "0 \<le> lb_used c \<and> lb_used c \<le> N * maximumCost" if "map_of ?m j = Some c" for j c
    using ok that by (auto simp: run_ok_def)
  have b: "(\<exists>c. map_of ?m ?i = Some c \<and> lb_resetAt b = lb_resetAt c \<and> lb_used b = lb_used c + rq_Cost r) \<or>
      (\<forall>c. map_of ?m ?i = Some c \<longrightarrow> lb_resetAt c < lb_resetAt b) \<and> lb_used b = rq_Cost r"
    unfolding b_def
  proof (rule charge_cases [OF Inr])
    fix c assume "map_of ?m ?i = Some c"
    from used [OF this] vr(5) small show "0 \<le> lb_used c \<and> lb_used c + rq_Cost r < 2 ^ 63" by (simp add: maximumCost_def)
  qed
  then have cost: "0 \<le> lb_used b \<and> lb_used b \<le> (N + 1) * maximumCost"
    using used [of ?i] vr(4,5) N by (auto simp: maximumCost_def)
  have d: "dc_Allowed (decide now r b) \<longleftrightarrow> lb_used b \<le> rq_Limit request" "dc_ResetAt (decide now r b) = lb_resetAt b"
    "rq_Cost request = rq_Cost r"
    using vr(1) by (simp_all add: decide_def Let_def)
  have "lb_used c \<le> (N + 1) * maximumCost" if "map_of ?m j = Some c" for j c
    using used [OF that] by (simp add: maximumCost_def)
  with used cost have bounds: "\<forall>j c. map_of (AList.update ?i b ?m) j = Some c \<longrightarrow> 0 \<le> lb_used c \<and> lb_used c \<le> (N + 1) * maximumCost"
    by auto
  have rest: "wf_map (AList.update ?i b ?m)" "keys (AList.update ?i b ?m) \<subseteq> ks" using wf key [OF i] by auto
  show ?thesis
  proof (cases "?i = k")
    case False
    with ok bounds rest show ?thesis by (auto simp: call run_ok_def admitted_snoc i split: option.splits)
  next
    case True
    have before: "admitted sha k (lb_resetAt b) log + rq_Cost r \<le> lb_used b \<and> (\<forall>R > lb_resetAt b. admitted sha k R log = 0)"
      using ok b True by (auto simp: run_ok_def split: option.splits)
    then have "(\<forall>R. admitted sha k R (log @ [(request, Inr (decide now r b))]) \<le> L) \<and>
        admitted sha k (lb_resetAt b) (log @ [(request, Inr (decide now r b))]) \<le> lb_used b \<and>
        (\<forall>R > lb_resetAt b. admitted sha k R (log @ [(request, Inr (decide now r b))]) = 0)"
      using ok limit i True vr(4) by (auto simp: run_ok_def admitted_snoc d)
    with bounds rest show ?thesis by (simp add: call run_ok_def True)
  qed
qed

lemma limiter_run_ok:
  assumes "set (call_keys sha calls) \<subseteq> ks" "finite ks" "int (card ks) \<le> ml_maxBuckets (NewMemoryLimiter n)"
    and "int (length calls) * maximumCost < 2 ^ 63" "0 \<le> L"
    and "list_all (\<lambda>(_, _, request). call_key sha request = Some k \<longrightarrow> rq_Limit request \<le> L) calls"
  shows "run_ok sha k L ks (int (length calls)) (limiter_run sha (NewMemoryLimiter n) calls) \<and>
    ml_maxBuckets (fst (limiter_run sha (NewMemoryLimiter n) calls)) = ml_maxBuckets (NewMemoryLimiter n)"
  using assms
proof (induction calls rule: rev_induct)
  case Nil
  then show ?case by (simp add: limiter_run_def run_ok_def NewMemoryLimiter_def)
next
  case (snoc c calls)
  obtain visit now request where c: "c = (visit, now, request)" by (cases c)
  obtain l log where st: "limiter_run sha (NewMemoryLimiter n) calls = (l, log)" by (cases "limiter_run sha (NewMemoryLimiter n) calls")
  have run: "limiter_run sha (NewMemoryLimiter n) (calls @ [c]) = run_call sha (l, log) (visit, now, request)"
    using st by (simp add: limiter_run_def c)
  have ks: "set (call_keys sha calls) \<subseteq> ks" "\<And>i. call_key sha request = Some i \<Longrightarrow> i \<in> ks"
    using snoc.prems(1) by (auto simp: call_keys_def map_filter_def c)
  have small: "(int (length calls) + 1) * maximumCost < 2 ^ 63" "int (length calls) * maximumCost < 2 ^ 63"
    using snoc.prems(4) by (auto simp: maximumCost_def)
  have lim: "list_all (\<lambda>(_, _, request). call_key sha request = Some k \<longrightarrow> rq_Limit request \<le> L) calls"
    "call_key sha request = Some k \<Longrightarrow> rq_Limit request \<le> L" using snoc.prems(6) by (auto simp: c)
  from snoc.IH [OF ks(1) snoc.prems(2,3) small(2) snoc.prems(5) lim(1)]
  have ok: "run_ok sha k L ks (int (length calls)) (l, log)" "ml_maxBuckets l = ml_maxBuckets (NewMemoryLimiter n)" by (simp_all add: st)
  have card: "int (card ks) \<le> ml_maxBuckets l" using snoc.prems(3) ok(2) by simp
  from run_call_ok [OF ok(1) ks(2) snoc.prems(2) card small(1) lim(2)] ok(2) show ?case
    by (simp add: run add.commute)
qed

text \<open>
  C21.  In every window the admitted cost stays within the limit.  For a run of calls on a fresh
  limiter whose capacity covers the distinct keys of the run, the costs of the admitted
  calls for one key whose decisions name the same end of window add up to no more than the
  limit they were made with, whatever the times of the calls.
\<close>

theorem admitted_within_limit:
  assumes "limiter_run sha (NewMemoryLimiter n) calls = (l, log)"
    and "int (card (set (call_keys sha calls))) \<le> ml_maxBuckets (NewMemoryLimiter n)"
    and "int (length calls) * maximumCost < 2 ^ 63" and "0 \<le> L"
    and "list_all (\<lambda>(_, _, request). call_key sha request = Some k \<longrightarrow> rq_Limit request \<le> L) calls"
  shows "admitted sha k R log \<le> L"
  using limiter_run_ok [OF subset_refl _ assms(2-5)] assms(1) by (auto simp: run_ok_def)

end
