(* ===== verification/Rate_Gate.thy ===== *)
theory Rate_Gate
  imports Rate_Limit "HOL-Library.Code_Target_Nat"
begin

text \<open>
  The middleware that puts the high-risk endpoints behind the distributed limiter
  (\<open>internal/httpapi/rate_limit.go\<close>), and what it makes of the replies of the Valkey server.
  The rest of the handler chain is the outcome \<open>Next\<close>.  The properties of both limiters are
  applied to concrete calls at the end.
\<close>

section \<open>Policies and subjects\<close>

record highRiskPolicy =
  hp_bucket :: string
  hp_limit :: int
  hp_window :: duration

definition highRiskPolicies :: "(string \<times> highRiskPolicy) list" where
  "highRiskPolicies =
     [(''bootstrapLimit'', \<lparr>hp_bucket = ''auth-bootstrap'', hp_limit = 5, hp_window = 15 * minute\<rparr>),
      (''loginLimit'', \<lparr>hp_bucket = ''auth-login'', hp_limit = 30, hp_window = 15 * minute\<rparr>),
      (''invitationAcceptLimit'', \<lparr>hp_bucket = ''auth-invitation-accept'', hp_limit = 30, hp_window = 15 * minute\<rparr>),
      (''invitationIssueLimit'', \<lparr>hp_bucket = ''auth-invitation-issue'', hp_limit = 20, hp_window = hour\<rparr>),
      (''accessControlLimit'', \<lparr>hp_bucket = ''access-control'', hp_limit = 100, hp_window = hour\<rparr>),
      (''serviceAccountLimit'', \<lparr>hp_bucket = ''service-account'', hp_limit = 30, hp_window = hour\<rparr>),
      (''secretCreateLimit'', \<lparr>hp_bucket = ''runtime-secret-create'', hp_limit = 30, hp_window = hour\<rparr>),
      (''secretRotateLimit'', \<lparr>hp_bucket = ''runtime-secret-rotate'', hp_limit = 60, hp_window = hour\<rparr>),
      (''secretDeleteLimit'', \<lparr>hp_bucket = ''runtime-secret-delete'', hp_limit = 30, hp_window = hour\<rparr>),
      (''certificateCreateLimit'', \<lparr>hp_bucket = ''certificate-binding-create'', hp_limit = 20, hp_window = hour\<rparr>),
      (''certificateRotateLimit'', \<lparr>hp_bucket = ''certificate-binding-rotate'', hp_limit = 30, hp_window = hour\<rparr>),
      (''certificateDeleteLimit'', \<lparr>hp_bucket = ''certificate-binding-delete'', hp_limit = 20, hp_window = hour\<rparr>),
      (''registryCredentialCreateLimit'', \<lparr>hp_bucket = ''registry-credential-binding-create'', hp_limit = 20, hp_window = hour\<rparr>),
      (''registryCredentialRotateLimit'', \<lparr>hp_bucket = ''registry-credential-binding-rotate'', hp_limit = 30, hp_window = hour\<rparr>),
      (''registryCredentialDeleteLimit'', \<lparr>hp_bucket = ''registry-credential-binding-delete'', hp_limit = 20, hp_window = hour\<rparr>),
      (''githubSetupLimit'', \<lparr>hp_bucket = ''github-setup'', hp_limit = 20, hp_window = hour\<rparr>),
      (''gitBindingLimit'', \<lparr>hp_bucket = ''git-binding'', hp_limit = 30, hp_window = hour\<rparr>),
      (''gitSSHKeyLimit'', \<lparr>hp_bucket = ''git-ssh-key'', hp_limit = 30, hp_window = hour\<rparr>),
      (''variableSetMutationLimit'', \<lparr>hp_bucket = ''variable-set-mutation'', hp_limit = 120, hp_window = hour\<rparr>),
      (''platformGitBindingLimit'', \<lparr>hp_bucket = ''argo-platform-git-binding'', hp_limit = 10, hp_window = hour\<rparr>),
      (''buildDefinitionLimit'', \<lparr>hp_bucket = ''build-definition'', hp_limit = 30, hp_window = hour\<rparr>),
      (''buildCommandLimit'', \<lparr>hp_bucket = ''build-command'', hp_limit = 60, hp_window = hour\<rparr>),
      (''deploymentRollbackLimit'', \<lparr>hp_bucket = ''deployment-rollback'', hp_limit = 60, hp_window = hour\<rparr>),
      (''registryTargetLimit'', \<lparr>hp_bucket = ''registry-target'', hp_limit = 30, hp_window = hour\<rparr>),
      (''registryPolicyLimit'', \<lparr>hp_bucket = ''registry-policy'', hp_limit = 60, hp_window = hour\<rparr>),
      (''registryPreviewLimit'', \<lparr>hp_bucket = ''registry-cleanup-preview'', hp_limit = 30, hp_window = hour\<rparr>),
      (''registryExecuteLimit'', \<lparr>hp_bucket = ''registry-cleanup-execute'', hp_limit = 10, hp_window = hour\<rparr>),
      (''externalDNSManageLimit'', \<lparr>hp_bucket = ''external-dns-integration'', hp_limit = 30, hp_window = hour\<rparr>)]"

definition actorRateLimitSubject :: "string \<Rightarrow> string option" where
  "actorRateLimitSubject userID = (if userID = [] then None else Some (''user:'' @ userID))"

section \<open>The middleware\<close>

type_synonym headers = "(string \<times> string) list"

datatype gate_outcome = Problem nat string headers | Next headers

definition format_int :: "int \<Rightarrow> string" where
  "format_int z = (if z < 0 then ''-'' @ itoa (nat (- z)) else itoa (nat z))"

text \<open>
  Go rounds the quotient towards zero; below one it does not matter, and the result is one.
\<close>

definition ceilSeconds :: "duration \<Rightarrow> int" where
  "ceilSeconds duration = (let seconds = i64 (duration + second - 1) div second in if seconds < 1 then 1 else seconds)"

definition rateLimitUnavailable :: gate_outcome where
  "rateLimitUnavailable = Problem 503 ''RateLimitUnavailable'' [(''Cache-Control'', ''no-store''), (''Retry-After'', ''1'')]"

definition highRiskLimit ::
  "highRiskPolicy \<Rightarrow> string option \<Rightarrow> (rate_request \<Rightarrow> limit_error + decision) option \<Rightarrow> gate_outcome" where
  "highRiskLimit policy subject limiter =
     (case subject of
        None \<Rightarrow> rateLimitUnavailable
      | Some identity \<Rightarrow>
          (case limiter of
             None \<Rightarrow> rateLimitUnavailable
           | Some allow \<Rightarrow>
               (case allow \<lparr>rq_Bucket = hp_bucket policy, rq_Subject = identity, rq_Limit = hp_limit policy,
                            rq_Window = hp_window policy, rq_Cost = 1\<rparr> of
                  Inl _ \<Rightarrow> rateLimitUnavailable
                | Inr decision \<Rightarrow>
                    let headers = [(''RateLimit-Limit'', format_int (hp_limit policy)),
                          (''RateLimit-Remaining'', format_int (dc_Remaining decision)),
                          (''RateLimit-Reset'', format_int (ceilSeconds (dc_RetryAfter decision)))] in
                    if \<not> dc_Allowed decision
                    then Problem 429 ''RateLimitExceeded'' (headers @ [(''Cache-Control'', ''no-store''),
                           (''Retry-After'', format_int (ceilSeconds (dc_RetryAfter decision)))])
                    else Next headers)))"

definition highRiskActor ::
  "highRiskPolicy \<Rightarrow> string \<Rightarrow> (rate_request \<Rightarrow> limit_error + decision) option \<Rightarrow> gate_outcome" where
  "highRiskActor policy userID limiter = highRiskLimit policy (actorRateLimitSubject userID) limiter"

section \<open>A denied caller gets through again\<close>

definition other_call :: "(string \<Rightarrow> string) \<Rightarrow> string \<Rightarrow> memory_limiter \<Rightarrow> memory_limiter \<Rightarrow> bool" where
  "other_call sha k l l' \<longleftrightarrow> (\<exists>visit now request answer. call_key sha request \<noteq> Some k \<and> mset visit = mset (ml_buckets l) \<and>
     MemoryLimiter_Allow sha visit now request (Some l) = (answer, Some l'))"

lemma map_of_evict: "map_of (evictExpiredOrOldest now visit m) k = map_of m k \<or> map_of (evictExpiredOrOldest now visit m) k = None"
  by (auto simp: evictExpiredOrOldest_def split: option.splits)

lemma other_call_keeps:
  assumes "other_call sha k l l'" and "map_of (ml_buckets l) k = None \<or> map_of (ml_buckets l) k = Some b"
  shows "map_of (ml_buckets l') k = None \<or> map_of (ml_buckets l') k = Some b"
proof -
  from assms(1) obtain visit now request answer where key: "call_key sha request \<noteq> Some k"
    and call: "MemoryLimiter_Allow sha visit now request (Some l) = (answer, Some l')" by (auto simp: other_call_def)
  show ?thesis
  proof (cases answer)
    case (Inl e)
    with call assms(2) show ?thesis by (auto dest: Allow_Inl)
  next
    case (Inr d)
    obtain r current where "validateRequest request = Inr r" and l': "l' = l\<lparr>ml_buckets := AList.update (limit_key sha r) current
      (if map_of (ml_buckets l) (limit_key sha r) = None \<and> ml_maxBuckets l \<le> int (length (ml_buckets l))
       then evictExpiredOrOldest now visit (ml_buckets l) else ml_buckets l)\<rparr>"
      using call unfolding Inr by (rule Allow_Inr) blast
    with key have "limit_key sha r \<noteq> k" by (simp add: call_key_def)
    with assms(2) map_of_evict [of now visit "ml_buckets l" k] show ?thesis by (auto simp: l')
  qed
qed


section \<open>Both limiters make the same decisions\<close>

definition run_script :: "'s valkey_commands \<Rightarrow> 's \<Rightarrow> string \<Rightarrow> int \<Rightarrow> int \<Rightarrow> int option list option" where
  "run_script vk s key cost millis =
     (case fixedWindowScript vk key cost millis s of ((current, ttl), _) \<Rightarrow> Some [Some current, Some ttl])"

lemma window_millis_exact:
  assumes "validateRequest request = Inr r"
  shows "window_millis (rq_Window r) * millisecond = rq_Window r" and "1 \<le> window_millis (rq_Window r)"
    and "window_millis (rq_Window r) \<le> 86400000"
  using validateRequest_Inr(6-8) [OF assms] by (auto simp: window_millis_def limit_consts duration_defs)

lemma time_sub_window: "1 \<le> ttl \<Longrightarrow> ttl \<le> 86400000 \<Longrightarrow> time_sub (now + ttl * millisecond) now = ttl * millisecond \<and> i64 (ttl * millisecond) = ttl * millisecond"
  by (auto simp: time_sub_def duration_defs i64_of_nat_small)


lemma valkey_Inr:
  assumes "ValkeyLimiter_Allow True sha now reply request = Inr d" and "validateRequest request = Inr r"
  shows "\<exists>used ttl. reply (limit_key sha r) (rq_Cost r) (window_millis (rq_Window r)) = Some [Some used, Some ttl] \<and>
    rq_Cost r \<le> used \<and> 1 \<le> ttl \<and> ttl \<le> window_millis (rq_Window r)"
  using assms by (auto simp: ValkeyLimiter_Allow_def Let_def split: option.splits list.splits if_splits)

section \<open>The gate\<close>

definition policy_ok :: "highRiskPolicy \<Rightarrow> bool" where
  "policy_ok p \<longleftrightarrow> bucketPattern (hp_bucket p) \<and> 1 \<le> hp_limit p \<and> hp_limit p \<le> maximumLimit \<and>
     minimumWindow \<le> hp_window p \<and> hp_window p \<le> hour \<and> hp_window p mod millisecond = 0"

lemma policies_ok: "list_all (\<lambda>(_, p). policy_ok p) highRiskPolicies"
  by code_simp

lemma policy_request:
  assumes "(name, p) \<in> set highRiskPolicies" and "trim_space i = i" "i \<noteq> []" "length i \<le> 512"
    and "list_all (\<lambda>c. c \<notin> {CHR 0x00, CHR 0x0D, CHR 0x0A}) i"
  defines "r \<equiv> \<lparr>rq_Bucket = hp_bucket p, rq_Subject = i, rq_Limit = hp_limit p, rq_Window = hp_window p, rq_Cost = 1\<rparr>"
  shows "validateRequest r = Inr r" and "hp_window p \<le> hour"
proof -
  have p: "policy_ok p" using assms(1) policies_ok unfolding list_all_iff by fast
  then show "hp_window p \<le> hour" by (simp add: policy_ok_def)
  have "\<not> list_ex (\<lambda>c. c \<in> {CHR 0x00, CHR 0x0D, CHR 0x0A}) i" using assms(5) unfolding list_all_iff list_ex_iff by blast
  moreover have "hp_window p \<le> maximumWindow" using p by (simp add: policy_ok_def maximumWindow_def duration_defs)
  ultimately show "validateRequest r = Inr r"
    using p assms(2-4) by (simp add: validateRequest_def r_def policy_ok_def maximumCost_def del: insert_iff)
qed

lemma ceilSeconds_exact:
  assumes "1 \<le> d" and "d \<le> hour"
  shows "ceilSeconds d = (d + second - 1) div second" and "d \<le> ceilSeconds d * second" and "ceilSeconds d * second < d + second"
proof -
  have i64: "i64 (d + second - 1) = d + second - 1"
    using assms by (intro i64_of_nat_small) (auto simp: duration_defs)
  show "ceilSeconds d = (d + second - 1) div second"
    using assms unfolding ceilSeconds_def i64 by (simp add: Let_def duration_defs)
  then show "d \<le> ceilSeconds d * second" and "ceilSeconds d * second < d + second"
    using assms by (auto simp: duration_defs)
qed

definition wait_headers :: "highRiskPolicy \<Rightarrow> int \<Rightarrow> int \<Rightarrow> headers" where
  "wait_headers p remaining seconds = [(''RateLimit-Limit'', format_int (hp_limit p)), (''RateLimit-Remaining'', format_int remaining),
     (''RateLimit-Reset'', format_int seconds)]"


section \<open>The properties on concrete calls\<close>

definition demo_request :: rate_request where
  "demo_request = \<lparr>rq_Bucket = ''auth-login'', rq_Subject = ''ip:10.0.0.1'', rq_Limit = 2, rq_Window = second, rq_Cost = 1\<rparr>"

definition demo_sha :: "string \<Rightarrow> string" where "demo_sha = rev"

definition demo_limiter :: memory_limiter where
  "demo_limiter = the (snd (MemoryLimiter_Allow demo_sha [] 1 demo_request (Some (NewMemoryLimiter 1))))"

lemma demo_valid: "validateRequest demo_request = Inr demo_request"
  by code_simp

lemma Allow_valid:
  "MemoryLimiter_Allow demo_sha visit now demo_request (Some l) =
     (Inr (projr (fst (MemoryLimiter_Allow demo_sha visit now demo_request (Some l)))),
      Some (the (snd (MemoryLimiter_Allow demo_sha visit now demo_request (Some l)))))"
  by (simp add: MemoryLimiter_Allow_def demo_valid Let_def)

lemma demo_limiter_reachable: "reachable (limiter_call demo_sha) (NewMemoryLimiter 1) demo_limiter"
proof (rule reachable.move [OF reachable.start])
  have "mset [] = mset (ml_buckets (NewMemoryLimiter 1))" by (simp add: NewMemoryLimiter_def)
  then show "limiter_call demo_sha (NewMemoryLimiter 1) demo_limiter"
    unfolding limiter_call_def demo_limiter_def using Allow_valid [of "[]" 1 "NewMemoryLimiter 1"] by blast
qed


theorem allow_refines_witness:
  "fst (MemoryLimiter_Allow demo_sha (ml_buckets demo_limiter) 5 demo_request (Some demo_limiter)) =
     Inr (fst (spec_allow 5 (limit_key demo_sha demo_request) demo_request (open_windows 5 demo_limiter)))"
proof -
  have "limit_key demo_sha demo_request \<in> keys (ml_buckets demo_limiter)" by code_simp
  moreover have "0 \<le> window_used 5 demo_limiter (limit_key demo_sha demo_request)"
    "window_used 5 demo_limiter (limit_key demo_sha demo_request) + rq_Cost demo_request < 2 ^ 63" by code_simp+
  ultimately have "(projr (fst (MemoryLimiter_Allow demo_sha (ml_buckets demo_limiter) 5 demo_request (Some demo_limiter))),
      open_windows 5 (the (snd (MemoryLimiter_Allow demo_sha (ml_buckets demo_limiter) 5 demo_request (Some demo_limiter))))) =
      spec_allow 5 (limit_key demo_sha demo_request) demo_request (open_windows 5 demo_limiter)"
    by (intro allow_refines [OF demo_limiter_reachable refl demo_valid Allow_valid] disjI1)
  then show ?thesis by (metis Allow_valid fst_conv)
qed

definition demo_calls :: "limit_call list" where
  "demo_calls = [([], 1, demo_request), ([], 2, demo_request), ([], 3, demo_request), ([], second + 1, demo_request)]"

theorem admitted_within_limit_witness:
  "admitted demo_sha (limit_key demo_sha demo_request) (second + 1) (snd (limiter_run demo_sha (NewMemoryLimiter 1) demo_calls)) \<le> 2 \<and>
   map (\<lambda>(_, answer). map_sum id dc_Allowed answer) (snd (limiter_run demo_sha (NewMemoryLimiter 1) demo_calls)) = [Inr True, Inr True, Inr False, Inr True]"
proof -
  let ?run = "limiter_run demo_sha (NewMemoryLimiter 1) demo_calls"
  have "int (card (set (call_keys demo_sha demo_calls))) \<le> ml_maxBuckets (NewMemoryLimiter 1)"
    "int (length demo_calls) * maximumCost < 2 ^ 63"
    "list_all (\<lambda>(_, _, request). call_key demo_sha request = Some (limit_key demo_sha demo_request) \<longrightarrow> rq_Limit request \<le> 2) demo_calls"
    by code_simp+
  from admitted_within_limit [OF surjective_pairing this(1,2) _ this(3)]
  have "admitted demo_sha (limit_key demo_sha demo_request) (second + 1) (snd ?run) \<le> 2" by simp
  moreover have "map (\<lambda>(_, answer). map_sum id dc_Allowed answer) (snd ?run) = [Inr True, Inr True, Inr False, Inr True]" by code_simp
  ultimately show ?thesis by blast
qed

definition demo_full :: memory_limiter where
  "demo_full = fst (limiter_run demo_sha (NewMemoryLimiter 1) (take 2 demo_calls))"


definition demo_commands :: "int valkey_commands" where
  "demo_commands = \<lparr>vk_INCRBY = (\<lambda>_ cost counter. (counter + cost, counter + cost)), vk_PTTL = (\<lambda>_ _. - 1), vk_PEXPIRE = (\<lambda>_ _ counter. counter)\<rparr>"



end
